(* ===== verification/Deep_Copy.thy ===== *)
theory Deep_Copy
  imports Main
begin

text \<open>
  The generated copies of the API objects
  (\<^verbatim>\<open>api/v1alpha1/zz_generated.deepcopy.go\<close>).  What these functions are for is
  that the copy shares no memory with the object it was made from, so values are
  modelled with an explicit heap here: a struct lies inline, while a pointer, a
  slice and a map are the address of a cell.

  A \<^verbatim>\<open>DeepCopyInto\<close> is a list of statements of the six forms the file
  has, in its order, run by one interpreter; the field lists of the types are
  those of the \<^verbatim>\<open>*_types.go\<close> files.  The copies of the types of the
  Kubernetes packages (\<^verbatim>\<open>ObjectMeta\<close>, \<^verbatim>\<open>ListMeta\<close>, \<^verbatim>\<open>Condition\<close>,
  \<^verbatim>\<open>LabelSelectorRequirement\<close>, \<^verbatim>\<open>ResourceRequirements\<close>) and all types of these
  packages are parameters.
\<close>

section \<open>Values, cells and the heap\<close>

datatype gval =
    Atom string
  | Struct "(string \<times> gval) list"
  | Ref "nat option"

datatype cell =
    Obj gval
  | Arr "gval list"
  | Tab "(string \<times> gval) list"

type_synonym heap = "cell list"

type_synonym copier = "gval \<Rightarrow> heap \<Rightarrow> gval \<times> heap"

fun getField :: "gval \<Rightarrow> string \<Rightarrow> gval" where
  "getField (Struct fs) f = (case map_of fs f of Some v \<Rightarrow> v | None \<Rightarrow> Ref None)"
| "getField v f = Ref None"

definition putField :: "string \<Rightarrow> gval \<Rightarrow> (string \<times> gval) list \<Rightarrow> (string \<times> gval) list" where
  "putField f x = map (\<lambda>(g, w). (g, if g = f then x else w))"

fun setField :: "string \<Rightarrow> gval \<Rightarrow> gval \<Rightarrow> gval" where
  "setField f x (Struct fs) = Struct (putField f x fs)"
| "setField f x v = v"

section \<open>The statements of the generated functions\<close>

text \<open>
  Every block is guarded by a test of the source for nil, allocates with
  \<^verbatim>\<open>make\<close> or \<^verbatim>\<open>new\<close>, and fills the new cell.
\<close>

text \<open>\<^verbatim>\<open>make([]T, len)\<close> and \<^verbatim>\<open>copy\<close>.\<close>

definition sliceCopy :: copier where
  "sliceCopy v h = (case v of
     Ref (Some a) \<Rightarrow> (case h ! a of Arr xs \<Rightarrow> (Ref (Some (length h)), h @ [Arr xs]) | _ \<Rightarrow> (v, h))
   | _ \<Rightarrow> (v, h))"

fun copyAll :: "copier \<Rightarrow> gval list \<Rightarrow> heap \<Rightarrow> gval list \<times> heap" where
  "copyAll c [] h = ([], h)"
| "copyAll c (x # xs) h =
     (case c x h of (y, h1) \<Rightarrow> (case copyAll c xs h1 of (ys, h2) \<Rightarrow> (y # ys, h2)))"

text \<open>\<^verbatim>\<open>make([]T, len)\<close> and a loop that copies each element into its place.\<close>

definition sliceEach :: "copier \<Rightarrow> copier" where
  "sliceEach c v h = (case v of
     Ref (Some a) \<Rightarrow> (case h ! a of
         Arr xs \<Rightarrow> (case copyAll c xs (h @ [Arr (map (\<lambda>_. Struct []) xs)]) of
             (ys, h1) \<Rightarrow> (Ref (Some (length h)), h1[length h := Arr ys]))
       | _ \<Rightarrow> (v, h))
   | _ \<Rightarrow> (v, h))"

text \<open>\<^verbatim>\<open>new(T)\<close> and \<^verbatim>\<open>**out = **in\<close>.\<close>

definition ptrCopy :: copier where
  "ptrCopy v h = (case v of
     Ref (Some a) \<Rightarrow> (case h ! a of Obj x \<Rightarrow> (Ref (Some (length h)), h @ [Obj x]) | _ \<Rightarrow> (v, h))
   | _ \<Rightarrow> (v, h))"

text \<open>\<^verbatim>\<open>new(T)\<close> and \<^verbatim>\<open>(*in).DeepCopyInto(*out)\<close>.\<close>

definition ptrNew :: "copier \<Rightarrow> copier" where
  "ptrNew c v h = (case v of
     Ref (Some a) \<Rightarrow> (case h ! a of
         Obj x \<Rightarrow> (case c x (h @ [Obj (Struct [])]) of
             (y, h1) \<Rightarrow> (Ref (Some (length h)), h1[length h := Obj y]))
       | _ \<Rightarrow> (v, h))
   | _ \<Rightarrow> (v, h))"

text \<open>\<^verbatim>\<open>make(map[string]string, len)\<close> and the loop over the entries.\<close>

definition mapCopy :: copier where
  "mapCopy v h = (case v of
     Ref (Some a) \<Rightarrow> (case h ! a of Tab kvs \<Rightarrow> (Ref (Some (length h)), h @ [Tab kvs]) | _ \<Rightarrow> (v, h))
   | _ \<Rightarrow> (v, h))"

datatype deep =
    Ext string
  | Deep "stmt list"
and stmt =
    CopySlice string
  | EachSlice string deep
  | CopyPtr string
  | NewPtr string deep
  | CopyMap string
  | Inner string deep
  | Assign string

fun stmtField :: "stmt \<Rightarrow> string" where
  "stmtField (CopySlice f) = f"
| "stmtField (EachSlice f d) = f"
| "stmtField (CopyPtr f) = f"
| "stmtField (NewPtr f d) = f"
| "stmtField (CopyMap f) = f"
| "stmtField (Inner f d) = f"
| "stmtField (Assign f) = f"

text \<open>Each statement reads its field of \<^verbatim>\<open>in\<close> and writes it in \<^verbatim>\<open>out\<close>.\<close>

fun runStmts :: "(string \<times> copier) list \<Rightarrow> gval \<Rightarrow> gval \<Rightarrow> heap \<Rightarrow> gval \<times> heap" where
  "runStmts [] v out h = (out, h)"
| "runStmts ((f, c) # ss) v out h =
     (case c (getField v f) h of (x, h1) \<Rightarrow> runStmts ss v (setField f x out) h1)"

primrec DeepCopyInto :: "(string \<Rightarrow> copier) \<Rightarrow> deep \<Rightarrow> copier"
  and runStmt :: "(string \<Rightarrow> copier) \<Rightarrow> stmt \<Rightarrow> copier" where
  "DeepCopyInto env (Ext n) = env n"
| "DeepCopyInto env (Deep ss) =
     (\<lambda>v h. runStmts (zip (map stmtField ss) (map (runStmt env) ss)) v v h)"
| "runStmt env (CopySlice f) = sliceCopy"
| "runStmt env (EachSlice f d) = sliceEach (DeepCopyInto env d)"
| "runStmt env (CopyPtr f) = ptrCopy"
| "runStmt env (NewPtr f d) = ptrNew (DeepCopyInto env d)"
| "runStmt env (CopyMap f) = mapCopy"
| "runStmt env (Inner f d) = DeepCopyInto env d"
| "runStmt env (Assign f) = (\<lambda>v h. (v, h))"

text \<open>
  \<^verbatim>\<open>DeepCopy\<close>: nil for nil, otherwise a new object filled by \<^verbatim>\<open>DeepCopyInto\<close>.
\<close>

definition DeepCopy :: "(string \<Rightarrow> copier) \<Rightarrow> deep \<Rightarrow> copier" where
  "DeepCopy env d = ptrNew (DeepCopyInto env d)"

text \<open>
  \<^verbatim>\<open>DeepCopyObject\<close> returns an interface, where nil is \<open>None\<close>: the test of the
  copied pointer keeps a nil pointer from becoming an interface that is not nil.
\<close>

definition DeepCopyObject :: "copier \<Rightarrow> gval \<Rightarrow> heap \<Rightarrow> gval option \<times> heap" where
  "DeepCopyObject copy v h = (case copy v h of (c, h1) \<Rightarrow> (if c \<noteq> Ref None then Some c else None, h1))"

section \<open>Types and what a value denotes\<close>

datatype ty =
    TyAtom
  | TyStruct "(string \<times> ty) list"
  | TySlice ty
  | TyPtr ty
  | TyMap
  | TyExt string

datatype tree =
    TAtom string
  | TStruct "(string \<times> tree) list"
  | TNil
  | TPtr tree
  | TArr "tree list"
  | TTab "(string \<times> string) list"

text \<open>
  \<open>sees X b h T v t\<close>: in heap \<open>h\<close> the value \<open>v\<close> of type
  \<open>T\<close> has the content \<open>t\<close>, and every cell reached from it has an
  address of at least \<open>b\<close>.  \<open>X\<close> gives the types of the Kubernetes
  packages.
\<close>

inductive sees :: "(string \<Rightarrow> ty) \<Rightarrow> nat \<Rightarrow> heap \<Rightarrow> ty \<Rightarrow> gval \<Rightarrow> tree \<Rightarrow> bool"
  for X :: "string \<Rightarrow> ty" and b :: nat and h :: heap where
  sees_atom: "sees X b h TyAtom (Atom s) (TAtom s)"
| sees_struct: "\<lbrakk>map fst vs = map fst fs; map fst ts = map fst fs; distinct (map fst fs);
     \<And>f T v t. \<lbrakk>map_of fs f = Some T; map_of vs f = Some v; map_of ts f = Some t\<rbrakk> \<Longrightarrow> sees X b h T v t\<rbrakk>
   \<Longrightarrow> sees X b h (TyStruct fs) (Struct vs) (TStruct ts)"
| sees_nil_slice: "sees X b h (TySlice T) (Ref None) TNil"
| sees_slice: "\<lbrakk>b \<le> a; a < length h; h ! a = Arr vs; length ts = length vs;
     \<And>i. i < length vs \<Longrightarrow> sees X b h T (vs ! i) (ts ! i)\<rbrakk>
   \<Longrightarrow> sees X b h (TySlice T) (Ref (Some a)) (TArr ts)"
| sees_nil_ptr: "sees X b h (TyPtr T) (Ref None) TNil"
| sees_ptr: "\<lbrakk>b \<le> a; a < length h; h ! a = Obj v; sees X b h T v t\<rbrakk>
   \<Longrightarrow> sees X b h (TyPtr T) (Ref (Some a)) (TPtr t)"
| sees_nil_map: "sees X b h TyMap (Ref None) TNil"
| sees_map: "\<lbrakk>b \<le> a; a < length h; h ! a = Tab (map (map_prod id Atom) kvs)\<rbrakk>
   \<Longrightarrow> sees X b h TyMap (Ref (Some a)) (TTab kvs)"
| sees_ext: "sees X b h (X n) v t \<Longrightarrow> sees X b h (TyExt n) v t"

inductive_cases sees_structE: "sees X b h (TyStruct fs) v t"
inductive_cases sees_sliceE: "sees X b h (TySlice T) v t"
inductive_cases sees_ptrE: "sees X b h (TyPtr T) v t"
inductive_cases sees_mapE: "sees X b h TyMap v t"
inductive_cases sees_extE: "sees X b h (TyExt n) v t"

text \<open>
  The structs of the Kubernetes packages that the generated code copies by assignment.
  That they hold no pointer, slice or map is what it relies on.
\<close>

definition plainStructs :: "string list" where
  "plainStructs = [''TypeMeta'', ''LocalObjectReference'', ''SecretReference'']"

text \<open>The types without pointers, slices or maps, which assignment copies.\<close>

fun flat :: "ty \<Rightarrow> bool" where
  "flat TyAtom = True"
| "flat (TyStruct fs) = list_all (\<lambda>(f, T). flat T) fs"
| "flat (TyExt n) = (n \<in> set plainStructs)"
| "flat T = False"

definition plain :: "(string \<Rightarrow> ty) \<Rightarrow> bool" where
  "plain X = list_all (\<lambda>n. flat (X n)) plainStructs"

text \<open>A list of statements copies a type when it treats every field that is not flat.\<close>

primrec covers :: "deep \<Rightarrow> ty \<Rightarrow> bool" and coversField :: "stmt \<Rightarrow> ty \<Rightarrow> bool" where
  "covers (Ext n) = (\<lambda>T. T = TyExt n)"
| "covers (Deep ss) = (\<lambda>T. case T of
     TyStruct fs \<Rightarrow>
       list_all (\<lambda>(f, p). case map_of fs f of Some S \<Rightarrow> p S | None \<Rightarrow> False)
         (zip (map stmtField ss) (map coversField ss)) \<and>
       list_all (\<lambda>(f, S). flat S \<or> f \<in> set (map stmtField ss)) fs
   | _ \<Rightarrow> False)"
| "coversField (CopySlice f) = (\<lambda>T. case T of TySlice S \<Rightarrow> flat S | _ \<Rightarrow> False)"
| "coversField (EachSlice f d) = (\<lambda>T. case T of TySlice S \<Rightarrow> covers d S | _ \<Rightarrow> False)"
| "coversField (CopyPtr f) = (\<lambda>T. case T of TyPtr S \<Rightarrow> flat S | _ \<Rightarrow> False)"
| "coversField (NewPtr f d) = (\<lambda>T. case T of TyPtr S \<Rightarrow> covers d S | _ \<Rightarrow> False)"
| "coversField (CopyMap f) = (\<lambda>T. T = TyMap)"
| "coversField (Inner f d) = covers d"
| "coversField (Assign f) = flat"

section \<open>The API types and their copies\<close>

definition CustomRouteSpec_type :: ty where
  "CustomRouteSpec_type = TyStruct [(''InboundNode'', TyAtom), (''OutboundNode'', TyAtom), (''OutboundKind'', TyAtom)]"

definition CustomRouteSpec_DeepCopyInto :: deep where
  "CustomRouteSpec_DeepCopyInto = Deep []"

definition CustomRouteSpec_DeepCopy :: "(string \<Rightarrow> copier) \<Rightarrow> copier" where
  "CustomRouteSpec_DeepCopy env = DeepCopy env CustomRouteSpec_DeepCopyInto"

definition CustomRouteStatus_type :: ty where
  "CustomRouteStatus_type = TyStruct [(''ResolvedInboundNode'', TyAtom), (''ResolvedOutboundNode'', TyAtom), (''Conditions'',
    TySlice (TyExt ''Condition'')), (''ObservedGeneration'', TyAtom)]"

definition CustomRouteStatus_DeepCopyInto :: deep where
  "CustomRouteStatus_DeepCopyInto = Deep [EachSlice ''Conditions'' (Ext ''Condition'')]"

definition CustomRouteStatus_DeepCopy :: "(string \<Rightarrow> copier) \<Rightarrow> copier" where
  "CustomRouteStatus_DeepCopy env = DeepCopy env CustomRouteStatus_DeepCopyInto"

definition CustomRoute_type :: ty where
  "CustomRoute_type = TyStruct [(''TypeMeta'', TyExt ''TypeMeta''), (''ObjectMeta'', TyExt ''ObjectMeta''), (''Spec'',
    CustomRouteSpec_type), (''Status'', CustomRouteStatus_type)]"

definition CustomRoute_DeepCopyInto :: deep where
  "CustomRoute_DeepCopyInto = Deep [Assign ''TypeMeta'', Inner ''ObjectMeta'' (Ext ''ObjectMeta''), Assign ''Spec'',
    Inner ''Status'' CustomRouteStatus_DeepCopyInto]"

definition CustomRoute_DeepCopy :: "(string \<Rightarrow> copier) \<Rightarrow> copier" where
  "CustomRoute_DeepCopy env = DeepCopy env CustomRoute_DeepCopyInto"

definition CustomRouteList_type :: ty where
  "CustomRouteList_type = TyStruct [(''TypeMeta'', TyExt ''TypeMeta''), (''ListMeta'', TyExt ''ListMeta''), (''Items'',
    TySlice CustomRoute_type)]"

definition CustomRouteList_DeepCopyInto :: deep where
  "CustomRouteList_DeepCopyInto = Deep [Assign ''TypeMeta'', Inner ''ListMeta'' (Ext ''ListMeta''),
    EachSlice ''Items'' CustomRoute_DeepCopyInto]"

definition CustomRouteList_DeepCopy :: "(string \<Rightarrow> copier) \<Rightarrow> copier" where
  "CustomRouteList_DeepCopy env = DeepCopy env CustomRouteList_DeepCopyInto"

definition EgressPolicySelector_type :: ty where
  "EgressPolicySelector_type = TyStruct [(''MatchLabels'', TyMap), (''MatchExpressions'',
    TySlice (TyExt ''LabelSelectorRequirement'')), (''MatchNames'', TySlice TyAtom)]"

definition EgressPolicySelector_DeepCopyInto :: deep where
  "EgressPolicySelector_DeepCopyInto = Deep [CopyMap ''MatchLabels'', EachSlice ''MatchExpressions'' (Ext ''LabelSelectorRequirement''),
    CopySlice ''MatchNames'']"

definition EgressPolicySelector_DeepCopy :: "(string \<Rightarrow> copier) \<Rightarrow> copier" where
  "EgressPolicySelector_DeepCopy env = DeepCopy env EgressPolicySelector_DeepCopyInto"

definition EgressPolicyMatch_type :: ty where
  "EgressPolicyMatch_type = TyStruct [(''Domain'', TySlice TyAtom), (''DomainSuffix'', TySlice TyAtom), (''DomainRegex'',
    TySlice TyAtom), (''IPCIDR'', TySlice TyAtom), (''RuleSet'', TySlice TyAtom)]"

definition EgressPolicyMatch_DeepCopyInto :: deep where
  "EgressPolicyMatch_DeepCopyInto = Deep [CopySlice ''Domain'', CopySlice ''DomainSuffix'', CopySlice ''DomainRegex'', CopySlice ''IPCIDR'',
    CopySlice ''RuleSet'']"

definition EgressPolicyMatch_DeepCopy :: "(string \<Rightarrow> copier) \<Rightarrow> copier" where
  "EgressPolicyMatch_DeepCopy env = DeepCopy env EgressPolicyMatch_DeepCopyInto"

definition EgressPolicySpec_type :: ty where
  "EgressPolicySpec_type = TyStruct [(''IngressSelector'', EgressPolicySelector_type), (''EgressSelector'',
    EgressPolicySelector_type), (''Match'', EgressPolicyMatch_type), (''Action'', TyAtom), (''Priority'',
    TyAtom), (''FallbackAction'', TyAtom)]"

definition EgressPolicySpec_DeepCopyInto :: deep where
  "EgressPolicySpec_DeepCopyInto = Deep [Inner ''IngressSelector'' EgressPolicySelector_DeepCopyInto,
    Inner ''EgressSelector'' EgressPolicySelector_DeepCopyInto,
    Inner ''Match'' EgressPolicyMatch_DeepCopyInto]"

definition EgressPolicySpec_DeepCopy :: "(string \<Rightarrow> copier) \<Rightarrow> copier" where
  "EgressPolicySpec_DeepCopy env = DeepCopy env EgressPolicySpec_DeepCopyInto"

definition EgressPolicyStatus_type :: ty where
  "EgressPolicyStatus_type = TyStruct [(''ResolvedIngresses'', TySlice TyAtom), (''ResolvedEgress'', TyAtom), (''Conditions'',
    TySlice (TyExt ''Condition'')), (''ObservedGeneration'', TyAtom)]"

definition EgressPolicyStatus_DeepCopyInto :: deep where
  "EgressPolicyStatus_DeepCopyInto = Deep [CopySlice ''ResolvedIngresses'', EachSlice ''Conditions'' (Ext ''Condition'')]"

definition EgressPolicyStatus_DeepCopy :: "(string \<Rightarrow> copier) \<Rightarrow> copier" where
  "EgressPolicyStatus_DeepCopy env = DeepCopy env EgressPolicyStatus_DeepCopyInto"

definition EgressPolicy_type :: ty where
  "EgressPolicy_type = TyStruct [(''TypeMeta'', TyExt ''TypeMeta''), (''ObjectMeta'', TyExt ''ObjectMeta''), (''Spec'',
    EgressPolicySpec_type), (''Status'', EgressPolicyStatus_type)]"

definition EgressPolicy_DeepCopyInto :: deep where
  "EgressPolicy_DeepCopyInto = Deep [Assign ''TypeMeta'', Inner ''ObjectMeta'' (Ext ''ObjectMeta''),
    Inner ''Spec'' EgressPolicySpec_DeepCopyInto, Inner ''Status'' EgressPolicyStatus_DeepCopyInto]"

definition EgressPolicy_DeepCopy :: "(string \<Rightarrow> copier) \<Rightarrow> copier" where
  "EgressPolicy_DeepCopy env = DeepCopy env EgressPolicy_DeepCopyInto"

definition EgressPolicy_DeepCopyObject :: "(string \<Rightarrow> copier) \<Rightarrow> gval \<Rightarrow> heap \<Rightarrow> gval option \<times> heap" where
  "EgressPolicy_DeepCopyObject env = DeepCopyObject (EgressPolicy_DeepCopy env)"

definition EgressPolicyList_type :: ty where
  "EgressPolicyList_type = TyStruct [(''TypeMeta'', TyExt ''TypeMeta''), (''ListMeta'', TyExt ''ListMeta''), (''Items'',
    TySlice EgressPolicy_type)]"

definition EgressPolicyList_DeepCopyInto :: deep where
  "EgressPolicyList_DeepCopyInto = Deep [Assign ''TypeMeta'', Inner ''ListMeta'' (Ext ''ListMeta''),
    EachSlice ''Items'' EgressPolicy_DeepCopyInto]"

definition EgressPolicyList_DeepCopy :: "(string \<Rightarrow> copier) \<Rightarrow> copier" where
  "EgressPolicyList_DeepCopy env = DeepCopy env EgressPolicyList_DeepCopyInto"

definition EgressPolicyList_DeepCopyObject :: "(string \<Rightarrow> copier) \<Rightarrow> gval \<Rightarrow> heap \<Rightarrow> gval option \<times> heap" where
  "EgressPolicyList_DeepCopyObject env = DeepCopyObject (EgressPolicyList_DeepCopy env)"

definition ExternalOutboundTLS_type :: ty where
  "ExternalOutboundTLS_type = TyStruct [(''ServerName'', TyAtom), (''Insecure'', TyAtom)]"

definition ExternalOutboundTLS_DeepCopyInto :: deep where
  "ExternalOutboundTLS_DeepCopyInto = Deep []"

definition ExternalOutboundTLS_DeepCopy :: "(string \<Rightarrow> copier) \<Rightarrow> copier" where
  "ExternalOutboundTLS_DeepCopy env = DeepCopy env ExternalOutboundTLS_DeepCopyInto"

definition Hysteria2Options_type :: ty where
  "Hysteria2Options_type = TyStruct [(''UpMbps'', TyAtom), (''DownMbps'', TyAtom), (''Obfs'', TyAtom)]"

definition Hysteria2Options_DeepCopyInto :: deep where
  "Hysteria2Options_DeepCopyInto = Deep []"

definition Hysteria2Options_DeepCopy :: "(string \<Rightarrow> copier) \<Rightarrow> copier" where
  "Hysteria2Options_DeepCopy env = DeepCopy env Hysteria2Options_DeepCopyInto"

definition ExternalOutboundSpec_type :: ty where
  "ExternalOutboundSpec_type = TyStruct [(''Protocol'', TyAtom), (''Server'', TyAtom), (''Port'', TyAtom),
    (''CredentialsSecretRef'', TyPtr (TyExt ''LocalObjectReference'')), (''TLS'',
    TyPtr ExternalOutboundTLS_type), (''Hysteria2'', TyPtr Hysteria2Options_type), (''Region'', TyAtom),
    (''ClientGroups'', TySlice TyAtom), (''AllowedInbounds'', TySlice TyAtom)]"

definition ExternalOutboundSpec_DeepCopyInto :: deep where
  "ExternalOutboundSpec_DeepCopyInto = Deep [CopyPtr ''CredentialsSecretRef'', CopyPtr ''TLS'', CopyPtr ''Hysteria2'', CopySlice ''ClientGroups'',
    CopySlice ''AllowedInbounds'']"

definition ExternalOutboundSpec_DeepCopy :: "(string \<Rightarrow> copier) \<Rightarrow> copier" where
  "ExternalOutboundSpec_DeepCopy env = DeepCopy env ExternalOutboundSpec_DeepCopyInto"

definition ExternalOutboundStatus_type :: ty where
  "ExternalOutboundStatus_type = TyStruct [(''Conditions'', TySlice (TyExt ''Condition'')), (''ObservedGeneration'', TyAtom)]"

definition ExternalOutboundStatus_DeepCopyInto :: deep where
  "ExternalOutboundStatus_DeepCopyInto = Deep [EachSlice ''Conditions'' (Ext ''Condition'')]"

definition ExternalOutboundStatus_DeepCopy :: "(string \<Rightarrow> copier) \<Rightarrow> copier" where
  "ExternalOutboundStatus_DeepCopy env = DeepCopy env ExternalOutboundStatus_DeepCopyInto"

definition ExternalOutbound_type :: ty where
  "ExternalOutbound_type = TyStruct [(''TypeMeta'', TyExt ''TypeMeta''), (''ObjectMeta'', TyExt ''ObjectMeta''), (''Spec'',
    ExternalOutboundSpec_type), (''Status'', ExternalOutboundStatus_type)]"

definition ExternalOutbound_DeepCopyInto :: deep where
  "ExternalOutbound_DeepCopyInto = Deep [Assign ''TypeMeta'', Inner ''ObjectMeta'' (Ext ''ObjectMeta''),
    Inner ''Spec'' ExternalOutboundSpec_DeepCopyInto,
    Inner ''Status'' ExternalOutboundStatus_DeepCopyInto]"

definition ExternalOutbound_DeepCopy :: "(string \<Rightarrow> copier) \<Rightarrow> copier" where
  "ExternalOutbound_DeepCopy env = DeepCopy env ExternalOutbound_DeepCopyInto"

definition ExternalOutbound_DeepCopyObject :: "(string \<Rightarrow> copier) \<Rightarrow> gval \<Rightarrow> heap \<Rightarrow> gval option \<times> heap" where
  "ExternalOutbound_DeepCopyObject env = DeepCopyObject (ExternalOutbound_DeepCopy env)"

definition ExternalOutboundList_type :: ty where
  "ExternalOutboundList_type = TyStruct [(''TypeMeta'', TyExt ''TypeMeta''), (''ListMeta'', TyExt ''ListMeta''), (''Items'',
    TySlice ExternalOutbound_type)]"

definition ExternalOutboundList_DeepCopyInto :: deep where
  "ExternalOutboundList_DeepCopyInto = Deep [Assign ''TypeMeta'', Inner ''ListMeta'' (Ext ''ListMeta''),
    EachSlice ''Items'' ExternalOutbound_DeepCopyInto]"

definition ExternalOutboundList_DeepCopy :: "(string \<Rightarrow> copier) \<Rightarrow> copier" where
  "ExternalOutboundList_DeepCopy env = DeepCopy env ExternalOutboundList_DeepCopyInto"

definition ExternalOutboundList_DeepCopyObject :: "(string \<Rightarrow> copier) \<Rightarrow> gval \<Rightarrow> heap \<Rightarrow> gval option \<times> heap" where
  "ExternalOutboundList_DeepCopyObject env = DeepCopyObject (ExternalOutboundList_DeepCopy env)"

definition ProtocolConfig_type :: ty where
  "ProtocolConfig_type = TyStruct [(''Protocol'', TyAtom), (''Port'', TyAtom)]"

definition ProtocolConfig_DeepCopyInto :: deep where
  "ProtocolConfig_DeepCopyInto = Deep []"

definition ProtocolConfig_DeepCopy :: "(string \<Rightarrow> copier) \<Rightarrow> copier" where
  "ProtocolConfig_DeepCopy env = DeepCopy env ProtocolConfig_DeepCopyInto"

definition SingBoxNodeSpec_type :: ty where
  "SingBoxNodeSpec_type = TyStruct [(''NodeRef'', TyAtom), (''Address'', TyAtom), (''Region'', TyAtom), (''ClientGroups'',
    TySlice TyAtom), (''Roles'', TySlice TyAtom), (''SupportedProtocols'', TySlice ProtocolConfig_type),
    (''InboundProtocol'', TyAtom), (''RelayPort'', TyAtom), (''AllowedInbounds'', TySlice TyAtom),
    (''AllowedOutbounds'', TySlice TyAtom), (''Tag'', TyAtom), (''TLSSecretName'', TyAtom),
    (''Resources'', TyPtr (TyExt ''ResourceRequirements''))]"

definition SingBoxNodeSpec_DeepCopyInto :: deep where
  "SingBoxNodeSpec_DeepCopyInto = Deep [CopySlice ''ClientGroups'', CopySlice ''Roles'', CopySlice ''SupportedProtocols'',
    CopySlice ''AllowedInbounds'', CopySlice ''AllowedOutbounds'',
    NewPtr ''Resources'' (Ext ''ResourceRequirements'')]"

definition SingBoxNodeSpec_DeepCopy :: "(string \<Rightarrow> copier) \<Rightarrow> copier" where
  "SingBoxNodeSpec_DeepCopy env = DeepCopy env SingBoxNodeSpec_DeepCopyInto"

definition SingBoxNodeStatus_type :: ty where
  "SingBoxNodeStatus_type = TyStruct [(''Phase'', TyAtom), (''ConfigHash'', TyAtom), (''EntryEndpoints'', TySlice TyAtom),
    (''TLSServerName'', TyAtom), (''Conditions'', TySlice (TyExt ''Condition'')),
    (''ObservedGeneration'', TyAtom)]"

definition SingBoxNodeStatus_DeepCopyInto :: deep where
  "SingBoxNodeStatus_DeepCopyInto = Deep [CopySlice ''EntryEndpoints'', EachSlice ''Conditions'' (Ext ''Condition'')]"

definition SingBoxNodeStatus_DeepCopy :: "(string \<Rightarrow> copier) \<Rightarrow> copier" where
  "SingBoxNodeStatus_DeepCopy env = DeepCopy env SingBoxNodeStatus_DeepCopyInto"

definition SingBoxNode_type :: ty where
  "SingBoxNode_type = TyStruct [(''TypeMeta'', TyExt ''TypeMeta''), (''ObjectMeta'', TyExt ''ObjectMeta''), (''Spec'',
    SingBoxNodeSpec_type), (''Status'', SingBoxNodeStatus_type)]"

definition SingBoxNode_DeepCopyInto :: deep where
  "SingBoxNode_DeepCopyInto = Deep [Assign ''TypeMeta'', Inner ''ObjectMeta'' (Ext ''ObjectMeta''),
    Inner ''Spec'' SingBoxNodeSpec_DeepCopyInto, Inner ''Status'' SingBoxNodeStatus_DeepCopyInto]"

definition SingBoxNode_DeepCopy :: "(string \<Rightarrow> copier) \<Rightarrow> copier" where
  "SingBoxNode_DeepCopy env = DeepCopy env SingBoxNode_DeepCopyInto"

definition SingBoxNode_DeepCopyObject :: "(string \<Rightarrow> copier) \<Rightarrow> gval \<Rightarrow> heap \<Rightarrow> gval option \<times> heap" where
  "SingBoxNode_DeepCopyObject env = DeepCopyObject (SingBoxNode_DeepCopy env)"

definition SingBoxNodeList_type :: ty where
  "SingBoxNodeList_type = TyStruct [(''TypeMeta'', TyExt ''TypeMeta''), (''ListMeta'', TyExt ''ListMeta''), (''Items'',
    TySlice SingBoxNode_type)]"

definition SingBoxNodeList_DeepCopyInto :: deep where
  "SingBoxNodeList_DeepCopyInto = Deep [Assign ''TypeMeta'', Inner ''ListMeta'' (Ext ''ListMeta''),
    EachSlice ''Items'' SingBoxNode_DeepCopyInto]"

definition SingBoxNodeList_DeepCopy :: "(string \<Rightarrow> copier) \<Rightarrow> copier" where
  "SingBoxNodeList_DeepCopy env = DeepCopy env SingBoxNodeList_DeepCopyInto"

definition SingBoxNodeList_DeepCopyObject :: "(string \<Rightarrow> copier) \<Rightarrow> gval \<Rightarrow> heap \<Rightarrow> gval option \<times> heap" where
  "SingBoxNodeList_DeepCopyObject env = DeepCopyObject (SingBoxNodeList_DeepCopy env)"

definition UserSpec_type :: ty where
  "UserSpec_type = TyStruct [(''AuthSecret'', TyExt ''SecretReference''), (''UserGroupRef'', TyAtom)]"

definition UserSpec_DeepCopyInto :: deep where
  "UserSpec_DeepCopyInto = Deep [Assign ''AuthSecret'']"

definition UserSpec_DeepCopy :: "(string \<Rightarrow> copier) \<Rightarrow> copier" where
  "UserSpec_DeepCopy env = DeepCopy env UserSpec_DeepCopyInto"

definition UserStatus_type :: ty where
  "UserStatus_type = TyStruct [(''ActiveNodeCount'', TyAtom), (''ActiveNodes'', TySlice TyAtom), (''Conditions'',
    TySlice (TyExt ''Condition'')), (''ObservedGeneration'', TyAtom)]"

definition UserStatus_DeepCopyInto :: deep where
  "UserStatus_DeepCopyInto = Deep [CopySlice ''ActiveNodes'', EachSlice ''Conditions'' (Ext ''Condition'')]"

definition UserStatus_DeepCopy :: "(string \<Rightarrow> copier) \<Rightarrow> copier" where
  "UserStatus_DeepCopy env = DeepCopy env UserStatus_DeepCopyInto"

definition User_type :: ty where
  "User_type = TyStruct [(''TypeMeta'', TyExt ''TypeMeta''), (''ObjectMeta'', TyExt ''ObjectMeta''), (''Spec'',
    UserSpec_type), (''Status'', UserStatus_type)]"

definition User_DeepCopyInto :: deep where
  "User_DeepCopyInto = Deep [Assign ''TypeMeta'', Inner ''ObjectMeta'' (Ext ''ObjectMeta''), Assign ''Spec'',
    Inner ''Status'' UserStatus_DeepCopyInto]"

definition User_DeepCopy :: "(string \<Rightarrow> copier) \<Rightarrow> copier" where
  "User_DeepCopy env = DeepCopy env User_DeepCopyInto"

definition User_DeepCopyObject :: "(string \<Rightarrow> copier) \<Rightarrow> gval \<Rightarrow> heap \<Rightarrow> gval option \<times> heap" where
  "User_DeepCopyObject env = DeepCopyObject (User_DeepCopy env)"

definition UserList_type :: ty where
  "UserList_type = TyStruct [(''TypeMeta'', TyExt ''TypeMeta''), (''ListMeta'', TyExt ''ListMeta''), (''Items'',
    TySlice User_type)]"

definition UserList_DeepCopyInto :: deep where
  "UserList_DeepCopyInto = Deep [Assign ''TypeMeta'', Inner ''ListMeta'' (Ext ''ListMeta''), EachSlice ''Items'' User_DeepCopyInto]"

definition UserList_DeepCopy :: "(string \<Rightarrow> copier) \<Rightarrow> copier" where
  "UserList_DeepCopy env = DeepCopy env UserList_DeepCopyInto"

definition UserList_DeepCopyObject :: "(string \<Rightarrow> copier) \<Rightarrow> gval \<Rightarrow> heap \<Rightarrow> gval option \<times> heap" where
  "UserList_DeepCopyObject env = DeepCopyObject (UserList_DeepCopy env)"

definition UserGroupSpec_type :: ty where
  "UserGroupSpec_type = TyStruct [(''AllowedNodes'', TySlice TyAtom), (''DeniedNodes'', TySlice TyAtom)]"

definition UserGroupSpec_DeepCopyInto :: deep where
  "UserGroupSpec_DeepCopyInto = Deep [CopySlice ''AllowedNodes'', CopySlice ''DeniedNodes'']"

definition UserGroupSpec_DeepCopy :: "(string \<Rightarrow> copier) \<Rightarrow> copier" where
  "UserGroupSpec_DeepCopy env = DeepCopy env UserGroupSpec_DeepCopyInto"

definition UserGroupStatus_type :: ty where
  "UserGroupStatus_type = TyStruct [(''ObservedGeneration'', TyAtom), (''Conditions'', TySlice (TyExt ''Condition''))]"

definition UserGroupStatus_DeepCopyInto :: deep where
  "UserGroupStatus_DeepCopyInto = Deep [EachSlice ''Conditions'' (Ext ''Condition'')]"

definition UserGroupStatus_DeepCopy :: "(string \<Rightarrow> copier) \<Rightarrow> copier" where
  "UserGroupStatus_DeepCopy env = DeepCopy env UserGroupStatus_DeepCopyInto"

definition UserGroup_type :: ty where
  "UserGroup_type = TyStruct [(''TypeMeta'', TyExt ''TypeMeta''), (''ObjectMeta'', TyExt ''ObjectMeta''), (''Spec'',
    UserGroupSpec_type), (''Status'', UserGroupStatus_type)]"

definition UserGroup_DeepCopyInto :: deep where
  "UserGroup_DeepCopyInto = Deep [Assign ''TypeMeta'', Inner ''ObjectMeta'' (Ext ''ObjectMeta''),
    Inner ''Spec'' UserGroupSpec_DeepCopyInto, Inner ''Status'' UserGroupStatus_DeepCopyInto]"

definition UserGroup_DeepCopy :: "(string \<Rightarrow> copier) \<Rightarrow> copier" where
  "UserGroup_DeepCopy env = DeepCopy env UserGroup_DeepCopyInto"

definition UserGroup_DeepCopyObject :: "(string \<Rightarrow> copier) \<Rightarrow> gval \<Rightarrow> heap \<Rightarrow> gval option \<times> heap" where
  "UserGroup_DeepCopyObject env = DeepCopyObject (UserGroup_DeepCopy env)"

definition UserGroupList_type :: ty where
  "UserGroupList_type = TyStruct [(''TypeMeta'', TyExt ''TypeMeta''), (''ListMeta'', TyExt ''ListMeta''), (''Items'',
    TySlice UserGroup_type)]"

definition UserGroupList_DeepCopyInto :: deep where
  "UserGroupList_DeepCopyInto = Deep [Assign ''TypeMeta'', Inner ''ListMeta'' (Ext ''ListMeta''),
    EachSlice ''Items'' UserGroup_DeepCopyInto]"

definition UserGroupList_DeepCopy :: "(string \<Rightarrow> copier) \<Rightarrow> copier" where
  "UserGroupList_DeepCopy env = DeepCopy env UserGroupList_DeepCopyInto"

definition UserGroupList_DeepCopyObject :: "(string \<Rightarrow> copier) \<Rightarrow> gval \<Rightarrow> heap \<Rightarrow> gval option \<times> heap" where
  "UserGroupList_DeepCopyObject env = DeepCopyObject (UserGroupList_DeepCopy env)"

text \<open>Every API type with its copy function.\<close>

definition apiCopies :: "(ty \<times> deep) list" where
  "apiCopies = [
    (CustomRouteSpec_type, CustomRouteSpec_DeepCopyInto),
    (CustomRouteStatus_type, CustomRouteStatus_DeepCopyInto),
    (CustomRoute_type, CustomRoute_DeepCopyInto),
    (CustomRouteList_type, CustomRouteList_DeepCopyInto),
    (EgressPolicySelector_type, EgressPolicySelector_DeepCopyInto),
    (EgressPolicyMatch_type, EgressPolicyMatch_DeepCopyInto),
    (EgressPolicySpec_type, EgressPolicySpec_DeepCopyInto),
    (EgressPolicyStatus_type, EgressPolicyStatus_DeepCopyInto),
    (EgressPolicy_type, EgressPolicy_DeepCopyInto),
    (EgressPolicyList_type, EgressPolicyList_DeepCopyInto),
    (ExternalOutboundTLS_type, ExternalOutboundTLS_DeepCopyInto),
    (Hysteria2Options_type, Hysteria2Options_DeepCopyInto),
    (ExternalOutboundSpec_type, ExternalOutboundSpec_DeepCopyInto),
    (ExternalOutboundStatus_type, ExternalOutboundStatus_DeepCopyInto),
    (ExternalOutbound_type, ExternalOutbound_DeepCopyInto),
    (ExternalOutboundList_type, ExternalOutboundList_DeepCopyInto),
    (ProtocolConfig_type, ProtocolConfig_DeepCopyInto),
    (SingBoxNodeSpec_type, SingBoxNodeSpec_DeepCopyInto),
    (SingBoxNodeStatus_type, SingBoxNodeStatus_DeepCopyInto),
    (SingBoxNode_type, SingBoxNode_DeepCopyInto),
    (SingBoxNodeList_type, SingBoxNodeList_DeepCopyInto),
    (UserSpec_type, UserSpec_DeepCopyInto),
    (UserStatus_type, UserStatus_DeepCopyInto),
    (User_type, User_DeepCopyInto),
    (UserList_type, UserList_DeepCopyInto),
    (UserGroupSpec_type, UserGroupSpec_DeepCopyInto),
    (UserGroupStatus_type, UserGroupStatus_DeepCopyInto),
    (UserGroup_type, UserGroup_DeepCopyInto),
    (UserGroupList_type, UserGroupList_DeepCopyInto)]"

definition deepCopies :: "(string \<Rightarrow> copier) \<Rightarrow> (ty \<times> copier) list" where
  "deepCopies env = [
    (CustomRouteSpec_type, CustomRouteSpec_DeepCopy env),
    (CustomRouteStatus_type, CustomRouteStatus_DeepCopy env),
    (CustomRoute_type, CustomRoute_DeepCopy env),
    (CustomRouteList_type, CustomRouteList_DeepCopy env),
    (EgressPolicySelector_type, EgressPolicySelector_DeepCopy env),
    (EgressPolicyMatch_type, EgressPolicyMatch_DeepCopy env),
    (EgressPolicySpec_type, EgressPolicySpec_DeepCopy env),
    (EgressPolicyStatus_type, EgressPolicyStatus_DeepCopy env),
    (EgressPolicy_type, EgressPolicy_DeepCopy env),
    (EgressPolicyList_type, EgressPolicyList_DeepCopy env),
    (ExternalOutboundTLS_type, ExternalOutboundTLS_DeepCopy env),
    (Hysteria2Options_type, Hysteria2Options_DeepCopy env),
    (ExternalOutboundSpec_type, ExternalOutboundSpec_DeepCopy env),
    (ExternalOutboundStatus_type, ExternalOutboundStatus_DeepCopy env),
    (ExternalOutbound_type, ExternalOutbound_DeepCopy env),
    (ExternalOutboundList_type, ExternalOutboundList_DeepCopy env),
    (ProtocolConfig_type, ProtocolConfig_DeepCopy env),
    (SingBoxNodeSpec_type, SingBoxNodeSpec_DeepCopy env),
    (SingBoxNodeStatus_type, SingBoxNodeStatus_DeepCopy env),
    (SingBoxNode_type, SingBoxNode_DeepCopy env),
    (SingBoxNodeList_type, SingBoxNodeList_DeepCopy env),
    (UserSpec_type, UserSpec_DeepCopy env),
    (UserStatus_type, UserStatus_DeepCopy env),
    (User_type, User_DeepCopy env),
    (UserList_type, UserList_DeepCopy env),
    (UserGroupSpec_type, UserGroupSpec_DeepCopy env),
    (UserGroupStatus_type, UserGroupStatus_DeepCopy env),
    (UserGroup_type, UserGroup_DeepCopy env),
    (UserGroupList_type, UserGroupList_DeepCopy env)]"

lemmas api_types =
  CustomRouteSpec_type_def
  CustomRouteStatus_type_def
  CustomRoute_type_def
  CustomRouteList_type_def
  EgressPolicySelector_type_def
  EgressPolicyMatch_type_def
  EgressPolicySpec_type_def
  EgressPolicyStatus_type_def
  EgressPolicy_type_def
  EgressPolicyList_type_def
  ExternalOutboundTLS_type_def
  Hysteria2Options_type_def
  ExternalOutboundSpec_type_def
  ExternalOutboundStatus_type_def
  ExternalOutbound_type_def
  ExternalOutboundList_type_def
  ProtocolConfig_type_def
  SingBoxNodeSpec_type_def
  SingBoxNodeStatus_type_def
  SingBoxNode_type_def
  SingBoxNodeList_type_def
  UserSpec_type_def
  UserStatus_type_def
  User_type_def
  UserList_type_def
  UserGroupSpec_type_def
  UserGroupStatus_type_def
  UserGroup_type_def
  UserGroupList_type_def

lemmas api_copies =
  CustomRouteSpec_DeepCopyInto_def
  CustomRouteStatus_DeepCopyInto_def
  CustomRoute_DeepCopyInto_def
  CustomRouteList_DeepCopyInto_def
  EgressPolicySelector_DeepCopyInto_def
  EgressPolicyMatch_DeepCopyInto_def
  EgressPolicySpec_DeepCopyInto_def
  EgressPolicyStatus_DeepCopyInto_def
  EgressPolicy_DeepCopyInto_def
  EgressPolicyList_DeepCopyInto_def
  ExternalOutboundTLS_DeepCopyInto_def
  Hysteria2Options_DeepCopyInto_def
  ExternalOutboundSpec_DeepCopyInto_def
  ExternalOutboundStatus_DeepCopyInto_def
  ExternalOutbound_DeepCopyInto_def
  ExternalOutboundList_DeepCopyInto_def
  ProtocolConfig_DeepCopyInto_def
  SingBoxNodeSpec_DeepCopyInto_def
  SingBoxNodeStatus_DeepCopyInto_def
  SingBoxNode_DeepCopyInto_def
  SingBoxNodeList_DeepCopyInto_def
  UserSpec_DeepCopyInto_def
  UserStatus_DeepCopyInto_def
  User_DeepCopyInto_def
  UserList_DeepCopyInto_def
  UserGroupSpec_DeepCopyInto_def
  UserGroupStatus_DeepCopyInto_def
  UserGroup_DeepCopyInto_def
  UserGroupList_DeepCopyInto_def

lemmas api_DeepCopy =
  CustomRouteSpec_DeepCopy_def
  CustomRouteStatus_DeepCopy_def
  CustomRoute_DeepCopy_def
  CustomRouteList_DeepCopy_def
  EgressPolicySelector_DeepCopy_def
  EgressPolicyMatch_DeepCopy_def
  EgressPolicySpec_DeepCopy_def
  EgressPolicyStatus_DeepCopy_def
  EgressPolicy_DeepCopy_def
  EgressPolicyList_DeepCopy_def
  ExternalOutboundTLS_DeepCopy_def
  Hysteria2Options_DeepCopy_def
  ExternalOutboundSpec_DeepCopy_def
  ExternalOutboundStatus_DeepCopy_def
  ExternalOutbound_DeepCopy_def
  ExternalOutboundList_DeepCopy_def
  ProtocolConfig_DeepCopy_def
  SingBoxNodeSpec_DeepCopy_def
  SingBoxNodeStatus_DeepCopy_def
  SingBoxNode_DeepCopy_def
  SingBoxNodeList_DeepCopy_def
  UserSpec_DeepCopy_def
  UserStatus_DeepCopy_def
  User_DeepCopy_def
  UserList_DeepCopy_def
  UserGroupSpec_DeepCopy_def
  UserGroupStatus_DeepCopy_def
  UserGroup_DeepCopy_def
  UserGroupList_DeepCopy_def

section \<open>Copies denote the same and share nothing\<close>

lemma sees_frame:
  assumes "sees X b h T v t" and "b' \<le> b"
    and "\<And>a. b \<le> a \<Longrightarrow> a < length h \<Longrightarrow> a < length h' \<and> h' ! a = h ! a"
  shows "sees X b' h' T v t"
  using assms(1)
proof (induction rule: sees.induct)
  case (sees_slice a vs ts T)
  then show ?case using assms(2) assms(3) [of a] by (intro sees.sees_slice [where vs = vs]) auto
next
  case (sees_ptr a v T t)
  then show ?case using assms(2) assms(3) [of a] by (intro sees.sees_ptr [where v = v]) auto
next
  case (sees_map a kvs)
  then show ?case using assms(2) assms(3) [of a] by (intro sees.sees_map) auto
qed (auto intro: sees.intros)

lemma sees_extend: "sees X b h T v t \<Longrightarrow> sees X b (h @ k) T v t"
  by (erule sees_frame) (auto simp: nth_append)

lemma sees_bound: "sees X b h T v t \<Longrightarrow> b' \<le> b \<Longrightarrow> sees X b' h T v t"
  by (erule sees_frame) auto

lemma plainD: "plain X \<Longrightarrow> flat (TyExt n) \<Longrightarrow> flat (X n)"
  by (simp add: plain_def list_all_iff)

lemma sees_flat: "sees X b h T v t \<Longrightarrow> flat T \<Longrightarrow> plain X \<Longrightarrow> sees X b' h' T v t"
proof (induction rule: sees.induct)
  case (sees_struct vs fs ts)
  show ?case
  proof (rule sees.sees_struct [OF sees_struct(1-3)])
    fix f T v t
    assume a: "map_of fs f = Some T" "map_of vs f = Some v" "map_of ts f = Some t"
    have "flat T" using map_of_SomeD [OF a(1)] sees_struct.prems by (auto simp: list_all_iff)
    then show "sees X b' h' T v t" using sees_struct.IH sees_struct.prems(2) a by blast
  qed
next
  case (sees_ext n v t)
  then show ?case using plainD by (blast intro: sees.sees_ext)
qed (auto intro: sees.intros)

text \<open>
  What a copy function promises: it only adds cells, and the result has the same
  content and lies in the added cells.
\<close>

definition copier_ok :: "(string \<Rightarrow> ty) \<Rightarrow> ty \<Rightarrow> copier \<Rightarrow> bool" where
  "copier_ok X T c \<longleftrightarrow> (\<forall>h v t. sees X 0 h T v t \<longrightarrow>
     (\<exists>k v'. c v h = (v', h @ k) \<and> sees X (length h) (h @ k) T v' t))"

lemma copier_okI:
  "(\<And>h v t. sees X 0 h T v t \<Longrightarrow>
     \<exists>k v'. c v h = (v', h @ k) \<and> sees X (length h) (h @ k) T v' t) \<Longrightarrow> copier_ok X T c"
  unfolding copier_ok_def by blast

lemma copier_okD:
  assumes "copier_ok X T c" "sees X 0 h T v t"
  obtains k v' where "c v h = (v', h @ k)" "sees X (length h) (h @ k) T v' t"
  using assms unfolding copier_ok_def by blast

lemma ok_assign: "plain X \<Longrightarrow> flat T \<Longrightarrow> copier_ok X T (\<lambda>v h. (v, h))"
  by (rule copier_okI) (auto intro: sees_flat)

lemma ok_sliceCopy:
  assumes "plain X" "flat T"
  shows "copier_ok X (TySlice T) sliceCopy"
proof (rule copier_okI)
  fix h v t
  assume "sees X 0 h (TySlice T) v t"
  then show "\<exists>k v'. sliceCopy v h = (v', h @ k) \<and> sees X (length h) (h @ k) (TySlice T) v' t"
  proof (rule sees_sliceE)
    assume "v = Ref None" "t = TNil"
    then show ?thesis by (simp add: sliceCopy_def sees_nil_slice)
  next
    fix a vs ts
    assume a: "v = Ref (Some a)" "t = TArr ts" "a < length h" "h ! a = Arr vs" "length ts = length vs"
      and s: "\<And>i. i < length vs \<Longrightarrow> sees X 0 h T (vs ! i) (ts ! i)"
    have "sees X (length h) (h @ [Arr vs]) (TySlice T) (Ref (Some (length h))) (TArr ts)"
      by (rule sees_slice [where vs = vs]) (auto simp: a(5) intro: sees_flat [OF s assms(2,1)])
    then show ?thesis using a by (simp add: sliceCopy_def)
  qed
qed

lemma ok_ptrCopy:
  assumes "plain X" "flat T"
  shows "copier_ok X (TyPtr T) ptrCopy"
proof (rule copier_okI)
  fix h v t
  assume "sees X 0 h (TyPtr T) v t"
  then show "\<exists>k v'. ptrCopy v h = (v', h @ k) \<and> sees X (length h) (h @ k) (TyPtr T) v' t"
  proof (rule sees_ptrE)
    assume "v = Ref None" "t = TNil"
    then show ?thesis by (simp add: ptrCopy_def sees_nil_ptr)
  next
    fix a x u
    assume a: "v = Ref (Some a)" "t = TPtr u" "h ! a = Obj x" and s: "sees X 0 h T x u"
    have "sees X (length h) (h @ [Obj x]) (TyPtr T) (Ref (Some (length h))) (TPtr u)"
      by (rule sees_ptr [where v = x]) (auto intro: sees_flat [OF s assms(2,1)])
    then show ?thesis using a by (simp add: ptrCopy_def)
  qed
qed

lemma ok_mapCopy: "copier_ok X TyMap mapCopy"
proof (rule copier_okI)
  fix h v t
  assume "sees X 0 h TyMap v t"
  then show "\<exists>k v'. mapCopy v h = (v', h @ k) \<and> sees X (length h) (h @ k) TyMap v' t"
  proof (rule sees_mapE)
    assume "v = Ref None" "t = TNil"
    then show ?thesis by (simp add: mapCopy_def sees_nil_map)
  next
    fix a kvs
    assume a: "v = Ref (Some a)" "t = TTab kvs" "h ! a = Tab (map (map_prod id Atom) kvs)"
    then show ?thesis by (simp add: mapCopy_def) (auto intro: sees_map)
  qed
qed

lemma ok_ext: "copier_ok X (X n) c \<Longrightarrow> copier_ok X (TyExt n) c"
  by (rule copier_okI) (metis copier_okD sees_ext sees_extE)

lemma ok_ptrNew:
  assumes "copier_ok X T c"
  shows "copier_ok X (TyPtr T) (ptrNew c)"
proof (rule copier_okI)
  fix h v t
  assume "sees X 0 h (TyPtr T) v t"
  then show "\<exists>k v'. ptrNew c v h = (v', h @ k) \<and> sees X (length h) (h @ k) (TyPtr T) v' t"
  proof (rule sees_ptrE)
    assume "v = Ref None" "t = TNil"
    then show ?thesis by (simp add: ptrNew_def sees_nil_ptr)
  next
    fix a x u
    assume a: "v = Ref (Some a)" "t = TPtr u" "h ! a = Obj x" and s: "sees X 0 h T x u"
    let ?h = "h @ [Obj (Struct [])]"
    obtain k y where k: "c x ?h = (y, ?h @ k)" "sees X (length ?h) (?h @ k) T y u"
      using assms sees_extend [OF s] by (rule copier_okD)
    have up: "(?h @ k)[length h := Obj y] = h @ Obj y # k" by simp
    have "sees X (length h) (h @ Obj y # k) T y u"
      by (rule sees_frame [OF k(2)]) (auto simp: nth_append nth_Cons split: nat.splits)
    then have "sees X (length h) (h @ Obj y # k) (TyPtr T) (Ref (Some (length h))) (TPtr u)"
      by (intro sees_ptr [where v = y]) auto
    then show ?thesis using a k(1) by (simp add: ptrNew_def)
  qed
qed

lemma copyAll_ok:
  assumes "copier_ok X T c"
  shows "\<lbrakk>length ts = length xs; \<And>i. i < length xs \<Longrightarrow> sees X 0 h T (xs ! i) (ts ! i)\<rbrakk> \<Longrightarrow>
    \<exists>k ys. copyAll c xs h = (ys, h @ k) \<and> length ys = length xs \<and>
      (\<forall>i < length xs. sees X (length h) (h @ k) T (ys ! i) (ts ! i))"
proof (induction xs arbitrary: ts h)
  case (Cons x xs)
  obtain u us where ts: "ts = u # us" using Cons.prems(1) by (cases ts) auto
  obtain k y where y: "c x h = (y, h @ k)" "sees X (length h) (h @ k) T y u"
    using assms Cons.prems(2) [of 0] ts by (auto elim: copier_okD)
  have "\<And>i. i < length xs \<Longrightarrow> sees X 0 (h @ k) T (xs ! i) (us ! i)"
    using Cons.prems(2) [of "Suc _"] ts by (auto intro: sees_extend)
  then obtain k' ys where ys: "copyAll c xs (h @ k) = (ys, (h @ k) @ k')" "length ys = length xs"
      "\<forall>i < length xs. sees X (length (h @ k)) ((h @ k) @ k') T (ys ! i) (us ! i)"
    using Cons.IH [of us "h @ k"] Cons.prems(1) ts by auto
  have "sees X (length h) (h @ k @ k') T y u" using sees_extend [OF y(2), of k'] by simp
  moreover have "sees X (length h) (h @ k @ k') T (ys ! i) (us ! i)" if "i < length xs" for i
    using ys(3) that sees_bound [of X "length (h @ k)" "(h @ k) @ k'" T "ys ! i" "us ! i" "length h"] by simp
  ultimately show ?case using y(1) ys(1,2) ts
    by (intro exI [of _ "k @ k'"] exI [of _ "y # ys"]) (auto simp: nth_Cons split: nat.splits)
qed simp

lemma ok_sliceEach:
  assumes "copier_ok X T c"
  shows "copier_ok X (TySlice T) (sliceEach c)"
proof (rule copier_okI)
  fix h v t
  assume "sees X 0 h (TySlice T) v t"
  then show "\<exists>k v'. sliceEach c v h = (v', h @ k) \<and> sees X (length h) (h @ k) (TySlice T) v' t"
  proof (rule sees_sliceE)
    assume "v = Ref None" "t = TNil"
    then show ?thesis by (simp add: sliceEach_def sees_nil_slice)
  next
    fix a xs ts
    assume a: "v = Ref (Some a)" "t = TArr ts" "h ! a = Arr xs" and l: "length ts = length xs"
      and s: "\<And>i. i < length xs \<Longrightarrow> sees X 0 h T (xs ! i) (ts ! i)"
    let ?h = "h @ [Arr (map (\<lambda>_. Struct []) xs)]"
    obtain k ys where k: "copyAll c xs ?h = (ys, ?h @ k)" "length ys = length xs"
        "\<forall>i < length xs. sees X (length ?h) (?h @ k) T (ys ! i) (ts ! i)"
      using copyAll_ok [OF assms l, of ?h] sees_extend [OF s] by blast
    have "sees X (length h) (h @ Arr ys # k) T (ys ! i) (ts ! i)" if "i < length ys" for i
      by (rule sees_frame [of X "length ?h" "?h @ k"])
        (use k(2,3) that in \<open>auto simp: nth_append nth_Cons split: nat.splits\<close>)
    then have "sees X (length h) (h @ Arr ys # k) (TySlice T) (Ref (Some (length h))) (TArr ts)"
      using k(2) l by (intro sees_slice [where vs = ys]) auto
    then show ?thesis using a k(1) by (simp add: sliceEach_def)
  qed
qed

lemma putField_keys [simp]: "map fst (putField f x vs) = map fst vs"
  by (simp add: putField_def case_prod_beta comp_def)

lemma map_of_putField:
  "map_of (putField f x vs) g = (if g = f then map_option (\<lambda>_. x) (map_of vs g) else map_of vs g)"
  by (induction vs) (auto simp: putField_def)

lemma map_of_same_keys: "map fst xs = map fst ys \<Longrightarrow> map_of xs f = Some x \<Longrightarrow> \<exists>y. map_of ys f = Some y"
  by (metis domI domD dom_map_of_conv_image_fst list.set_map)

text \<open>
  The fields of \<open>out\<close> while the statements run: those in \<open>D\<close> are copied,
  the others still those of \<open>in\<close>.
\<close>

definition mixed :: "(string \<Rightarrow> ty) \<Rightarrow> nat \<Rightarrow> heap \<Rightarrow> string set \<Rightarrow> (string \<times> ty) list \<Rightarrow>
    (string \<times> gval) list \<Rightarrow> (string \<times> tree) list \<Rightarrow> bool" where
  "mixed X b h D fs os ts \<longleftrightarrow> map fst os = map fst fs \<and>
     (\<forall>f T x t. map_of fs f = Some T \<longrightarrow> map_of os f = Some x \<longrightarrow> map_of ts f = Some t \<longrightarrow>
        sees X (if f \<in> D then b else 0) h T x t)"

lemma mixed_step:
  assumes "mixed X b h D fs os ts" "b \<le> length h"
    and "map_of fs f = Some T" "map_of ts f = Some t" "sees X (length h) (h @ k) T y t"
  shows "mixed X b (h @ k) (insert f D) fs (putField f y os) ts"
proof -
  have "sees X b (h @ k) T y t" by (rule sees_bound [OF assms(5,2)])
  moreover have "sees X (if g \<in> D then b else 0) (h @ k) S x u"
    if "map_of fs g = Some S" "map_of os g = Some x" "map_of ts g = Some u" for g S x u
    using assms(1) that unfolding mixed_def by (blast intro: sees_extend)
  ultimately show ?thesis using assms(1,3,4) unfolding mixed_def
    by (simp add: map_of_putField)
qed

lemma runStmts_ok:
  assumes v: "map fst vs = map fst fs" "map fst ts = map fst fs"
    "\<And>f T v t. \<lbrakk>map_of fs f = Some T; map_of vs f = Some v; map_of ts f = Some t\<rbrakk> \<Longrightarrow> sees X 0 h0 T v t"
  shows "\<lbrakk>\<forall>(f, c) \<in> set ss. \<exists>T. map_of fs f = Some T \<and> copier_ok X T c;
      mixed X (length h0) (h0 @ k) D fs os ts\<rbrakk> \<Longrightarrow>
    \<exists>k' os'. runStmts ss (Struct vs) (Struct os) (h0 @ k) = (Struct os', h0 @ k') \<and>
      mixed X (length h0) (h0 @ k') (D \<union> fst ` set ss) fs os' ts"
proof (induction ss arbitrary: os k D)
  case (Cons s ss)
  obtain f c where s: "s = (f, c)" by (cases s)
  obtain T where T: "map_of fs f = Some T" "copier_ok X T c" using Cons.prems(1) s by auto
  obtain x t where xt: "map_of vs f = Some x" "map_of ts f = Some t"
    using map_of_same_keys [OF v(1) [symmetric] T(1)] map_of_same_keys [OF v(2) [symmetric] T(1)] by blast
  obtain k1 y where y: "c x (h0 @ k) = (y, (h0 @ k) @ k1)" "sees X (length (h0 @ k)) ((h0 @ k) @ k1) T y t"
    using T(2) sees_extend [OF v(3) [OF T(1) xt]] by (rule copier_okD)
  have "mixed X (length h0) (h0 @ (k @ k1)) (insert f D) fs (putField f y os) ts"
    using mixed_step [OF Cons.prems(2) _ T(1) xt(2) y(2)] by simp
  then obtain k' os' where "runStmts ss (Struct vs) (Struct (putField f y os)) (h0 @ (k @ k1)) = (Struct os', h0 @ k')"
      "mixed X (length h0) (h0 @ k') (insert f D \<union> fst ` set ss) fs os' ts"
    using Cons.IH Cons.prems(1) by (metis (no_types, lifting) list.set_intros(2))
  then show ?case using s xt(1) y(1) by auto
qed auto

lemma mixed_complete:
  assumes "mixed X b h D fs os ts" "\<forall>(f, T) \<in> set fs. flat T \<or> f \<in> D"
    and "map fst ts = map fst fs" "distinct (map fst fs)" "plain X"
  shows "sees X b h (TyStruct fs) (Struct os) (TStruct ts)"
proof (rule sees_struct)
  fix f T x u
  assume a: "map_of fs f = Some T" "map_of os f = Some x" "map_of ts f = Some u"
  have s: "sees X (if f \<in> D then b else 0) h T x u" using assms(1) a unfolding mixed_def by simp
  show "sees X b h T x u"
  proof (cases "f \<in> D")
    case True
    then show ?thesis using s by simp
  next
    case False
    then have "flat T" using assms(2) map_of_SomeD [OF a(1)] by auto
    then show ?thesis using assms(5) by (rule sees_flat [OF s])
  qed
next
  show "map fst os = map fst fs" using assms(1) by (simp add: mixed_def)
qed (rule assms(3,4))+

lemma DeepCopyInto_struct:
  assumes ss: "\<forall>(f, c) \<in> set ss. \<exists>T. map_of fs f = Some T \<and> copier_ok X T c"
    and fl: "\<forall>(f, T) \<in> set fs. flat T \<or> f \<in> fst ` set ss"
    and pl: "plain X"
  shows "copier_ok X (TyStruct fs) (\<lambda>v h. runStmts ss v v h)"
proof (rule copier_okI)
  fix h v t
  assume "sees X 0 h (TyStruct fs) v t"
  then show "\<exists>k v'. runStmts ss v v h = (v', h @ k) \<and> sees X (length h) (h @ k) (TyStruct fs) v' t"
  proof (rule sees_structE)
    fix vs ts
    assume v: "v = Struct vs" "t = TStruct ts" and k: "map fst vs = map fst fs"
        "map fst ts = map fst fs" "distinct (map fst fs)"
      and s': "\<And>f T v t. \<lbrakk>(f, T) \<in> set fs; (f, v) \<in> set vs; (f, t) \<in> set ts\<rbrakk> \<Longrightarrow> sees X 0 h T v t"
    have s: "sees X 0 h T x u" if "map_of fs f = Some T" "map_of vs f = Some x" "map_of ts f = Some u" for f T x u
      using that by (intro s' [of f]) (erule map_of_SomeD)+
    have m0: "mixed X (length h) (h @ []) {} fs vs ts" using k(1) s by (simp add: mixed_def)
    have "\<exists>k' os. runStmts ss (Struct vs) (Struct vs) (h @ []) = (Struct os, h @ k') \<and>
        mixed X (length h) (h @ k') ({} \<union> fst ` set ss) fs os ts"
      by (rule runStmts_ok [OF k(1,2) _ ss m0]) (rule s)
    then obtain k' os where r: "runStmts ss (Struct vs) (Struct vs) (h @ []) = (Struct os, h @ k')"
        and m: "mixed X (length h) (h @ k') ({} \<union> fst ` set ss) fs os ts"
      by (elim exE conjE)
    have "sees X (length h) (h @ k') (TyStruct fs) (Struct os) (TStruct ts)"
      by (rule mixed_complete [OF m _ k(2,3) pl]) (use fl in simp)
    then show ?thesis using r v by (intro exI [of _ k'] exI [of _ "Struct os"]) simp
  qed
qed

lemma DeepCopyInto_ok:
  assumes env: "\<And>n. copier_ok X (X n) (env n)" and pl: "plain X"
  shows "covers d T \<Longrightarrow> copier_ok X T (DeepCopyInto env d)"
    and "coversField s T \<Longrightarrow> copier_ok X T (runStmt env s)"
proof (induction d and s arbitrary: T and T rule: deep.induct stmt.induct)
  case (Ext n)
  then show ?case using env by (auto intro: ok_ext)
next
  case (Deep ss)
  obtain fs where T: "T = TyStruct fs" using Deep.prems by (auto split: ty.splits)
  let ?ss = "zip (map stmtField ss) (map (runStmt env) ss)"
  have zip: "zip (map stmtField ss) (map g ss) = map (\<lambda>s. (stmtField s, g s)) ss" for g :: "stmt \<Rightarrow> 'b"
    by (induction ss) auto
  have "copier_ok X (TyStruct fs) (\<lambda>v h. runStmts ?ss v v h)"
  proof (rule DeepCopyInto_struct)
    show "\<forall>(f, c) \<in> set ?ss. \<exists>S. map_of fs f = Some S \<and> copier_ok X S c"
      using Deep T by (auto simp: zip list_all_iff split: option.splits)
    show "\<forall>(f, S) \<in> set fs. flat S \<or> f \<in> fst ` set ?ss"
      using Deep.prems T by (force simp: zip list_all_iff)
  qed (rule pl)
  then show ?case by (simp add: T)
qed (auto split: ty.splits intro: pl ok_sliceCopy ok_sliceEach ok_ptrCopy ok_ptrNew ok_mapCopy ok_assign)

text \<open>The statements of every generated function treat every field that is not flat.\<close>

lemma apiCopies_cover: "list_all (\<lambda>(T, d). covers d T) apiCopies"
  by (simp add: apiCopies_def api_types api_copies plainStructs_def)

lemma deepCopies_eq: "deepCopies env = map (\<lambda>(T, d). (T, DeepCopy env d)) apiCopies"
  by (simp add: deepCopies_def apiCopies_def api_DeepCopy)

lemma deepCopies_ok:
  assumes "(T, c) \<in> set (deepCopies env)" "\<And>n. copier_ok X (X n) (env n)" "plain X"
  shows "copier_ok X (TyPtr T) c"
  using assms apiCopies_cover
  by (auto simp: deepCopies_eq DeepCopy_def list_all_iff intro!: ok_ptrNew DeepCopyInto_ok)

text \<open>C9. The generated copies are deep: for every API type and every object of it,
  \<^verbatim>\<open>DeepCopy\<close> returns an object with the same content, without touching
  a cell that existed before; whatever is later written to the cells it allocated, the
  original keeps its content, and whatever is later written to the cells that existed
  before, the copy keeps its own.  The copy functions of the Kubernetes packages are
  assumed to be deep in the same sense, and the structs of these packages that are copied
  by assignment to hold no reference.\<close>

theorem deep_copies_independent:
  assumes "(T, c) \<in> set (deepCopies env)"
    and "\<And>n. copier_ok X (X n) (env n)" and "plain X"
    and "sees X 0 h (TyPtr T) p t"
    and "c p h = (q, h')"
  shows "sees X 0 h' (TyPtr T) q t \<and> take (length h) h' = h \<and>
    (\<forall>h2. length h2 = length h' \<longrightarrow> take (length h) h2 = take (length h) h' \<longrightarrow>
       sees X 0 h2 (TyPtr T) p t) \<and>
    (\<forall>h2. length h2 = length h' \<longrightarrow> drop (length h) h2 = drop (length h) h' \<longrightarrow>
       sees X 0 h2 (TyPtr T) q t)"
proof -
  obtain k where k: "h' = h @ k" "sees X (length h) h' (TyPtr T) q t"
    using copier_okD [OF deepCopies_ok [OF assms(1-3)] assms(4)] assms(5) by auto
  have "sees X 0 h2 (TyPtr T) p t" if "length h2 = length h'" "take (length h) h2 = h" for h2
    by (rule sees_frame [OF assms(4)]) (use that k(1) nth_take in \<open>auto, metis nth_take\<close>)
  moreover have "sees X 0 h2 (TyPtr T) q t"
    if l: "length h2 = length h'" and d: "drop (length h) h2 = drop (length h) h'" for h2
  proof (rule sees_frame [OF k(2)])
    fix a
    assume a: "length h \<le> a" "a < length h'"
    have "drop (length h) h2 ! (a - length h) = drop (length h) h' ! (a - length h)" by (simp only: d)
    then show "a < length h2 \<and> h2 ! a = h' ! a" using a l by simp
  qed simp
  ultimately show ?thesis using k sees_bound [OF k(2)] by simp
qed

text \<open>A nil object is copied to a nil interface, and only that.\<close>

lemma DeepCopyObject_nil:
  assumes "(T, c) \<in> set (deepCopies env)" "sees X 0 h (TyPtr T) p t"
  shows "fst (DeepCopyObject c p h) = None \<longleftrightarrow> p = Ref None"
  using assms(2)
  by (rule sees_ptrE)
    (use assms(1) in \<open>auto simp: deepCopies_eq DeepCopyObject_def DeepCopy_def ptrNew_def split: prod.splits\<close>)

text \<open>
  A user group with a label and one allowed node is copied into three new cells, with a
  metadata type that has a map of labels and its copy.
\<close>

definition demoTypes :: "string \<Rightarrow> ty" where
  "demoTypes n = (if n = ''ObjectMeta'' then TyStruct [(''Labels'', TyMap)] else TyAtom)"

definition demoCopiers :: "string \<Rightarrow> copier" where
  "demoCopiers n = (if n = ''ObjectMeta'' then (\<lambda>v h. runStmts [(''Labels'', mapCopy)] v v h) else (\<lambda>v h. (v, h)))"

definition demoGroup :: "nat \<Rightarrow> nat \<Rightarrow> gval" where
  "demoGroup labels nodes = Struct [(''TypeMeta'', Atom ''v1alpha1''),
     (''ObjectMeta'', Struct [(''Labels'', Ref (Some labels))]),
     (''Spec'', Struct [(''AllowedNodes'', Ref (Some nodes)), (''DeniedNodes'', Ref None)]),
     (''Status'', Struct [(''ObservedGeneration'', Atom ''1''), (''Conditions'', Ref None)])]"

definition demoGroupTree :: tree where
  "demoGroupTree = TPtr (TStruct [(''TypeMeta'', TAtom ''v1alpha1''),
     (''ObjectMeta'', TStruct [(''Labels'', TTab [(''team'', ''a'')])]),
     (''Spec'', TStruct [(''AllowedNodes'', TArr [TAtom ''tokyo'']), (''DeniedNodes'', TNil)]),
     (''Status'', TStruct [(''ObservedGeneration'', TAtom ''1''), (''Conditions'', TNil)])])"

definition demoGroupHeap :: heap where
  "demoGroupHeap = [Arr [Atom ''tokyo''], Tab [(''team'', Atom ''a'')], Obj (demoGroup 1 0)]"

definition demoGroupCopy :: heap where
  "demoGroupCopy = demoGroupHeap @ [Obj (demoGroup 4 5), Tab [(''team'', Atom ''a'')], Arr [Atom ''tokyo'']]"

lemma demo_plain: "plain demoTypes"
  by (simp add: plain_def plainStructs_def demoTypes_def)

lemma demo_copiers: "copier_ok demoTypes (demoTypes n) (demoCopiers n)"
proof (cases "n = ''ObjectMeta''")
  case True
  have "copier_ok demoTypes (TyStruct [(''Labels'', TyMap)]) (\<lambda>v h. runStmts [(''Labels'', mapCopy)] v v h)"
    by (rule DeepCopyInto_struct) (simp_all add: ok_mapCopy demo_plain)
  then show ?thesis using True by (simp add: demoCopiers_def demoTypes_def del: runStmts.simps)
next
  case False
  then show ?thesis by (simp add: demoCopiers_def demoTypes_def ok_assign demo_plain)
qed

lemmas demo_group = demoGroup_def demoGroupTree_def demoGroupHeap_def demoGroupCopy_def

lemma demo_labels_seen: "sees X 0 demoGroupHeap TyMap (Ref (Some (Suc 0))) (TTab [(''team'', ''a'')])"
  by (rule sees_map) (simp_all add: demoGroupHeap_def)

lemma demo_nodes_seen: "sees X 0 demoGroupHeap (TySlice TyAtom) (Ref (Some 0)) (TArr [TAtom ''tokyo''])"
  by (rule sees_slice [where vs = "[Atom ''tokyo'']"]) (simp_all add: demoGroupHeap_def sees_atom)

lemma demo_group_seen: "sees demoTypes 0 demoGroupHeap (TyPtr UserGroup_type) (Ref (Some 2)) demoGroupTree"
proof -
  have "sees demoTypes 0 demoGroupHeap UserGroup_type (demoGroup 1 0) (case demoGroupTree of TPtr t \<Rightarrow> t)"
    unfolding demoGroup_def demoGroupTree_def UserGroup_type_def UserGroupSpec_type_def UserGroupStatus_type_def
    by (auto intro!: sees_struct sees_atom sees_nil_slice sees_ext demo_labels_seen demo_nodes_seen
        simp: demoTypes_def split: if_splits)
  then show ?thesis unfolding demoGroupTree_def
    by (intro sees_ptr [where v = "demoGroup 1 0"]) (simp_all add: demoGroupHeap_def)
qed

lemma demo_group_copied:
  "UserGroup_DeepCopy demoCopiers (Ref (Some 2)) demoGroupHeap = (Ref (Some 3), demoGroupCopy)"
  by (simp add: UserGroup_DeepCopy_def UserGroup_DeepCopyInto_def UserGroupSpec_DeepCopyInto_def
      UserGroupStatus_DeepCopyInto_def DeepCopy_def ptrNew_def sliceCopy_def sliceEach_def mapCopy_def
      putField_def demoCopiers_def demo_group)

theorem deep_copies_independent_witness:
  "sees demoTypes 0 (demoGroupCopy[5 := Arr [Atom ''osaka'']]) (TyPtr UserGroup_type) (Ref (Some 2)) demoGroupTree"
proof -
  have "(UserGroup_type, UserGroup_DeepCopy demoCopiers) \<in> set (deepCopies demoCopiers)"
    by (simp add: deepCopies_def)
  from deep_copies_independent [OF this demo_copiers demo_plain demo_group_seen demo_group_copied]
  show ?thesis by (simp add: demoGroupCopy_def demoGroupHeap_def)
qed

end
