(* ===== verification/Prelude.thy ===== *)
theory Prelude
  imports Main "HOL-Library.AList" "HOL-Library.Char_ord" "HOL-Library.List_Lexorder"
    "HOL-Library.Multiset"
begin

text \<open>
  Shared vocabulary of the development.

  A Go \<^emph>\<open>string\<close> is a sequence of bytes: \<open>string\<close> (a \<open>char list\<close>, one \<open>char\<close> per byte), ordered
  byte-wise as Go orders strings (\<open>List_Lexorder\<close> over \<open>Char_ord\<close>).

  A Go \<^emph>\<open>map\<close> is an association list whose list order stands for one iteration order of the map
  (Go leaves it unspecified). Reading a missing key yields the zero value of the element type
  (\<open>go_get\<close>), writing a key replaces or adds one entry (\<open>go_put\<close>), and \<open>len(m)\<close> is the length of the
  list. A \<open>map[string]bool\<close> used as a set is built by \<open>name_set\<close>.

  \<open>sort_names\<close>, \<open>sort_key\<close> model \<open>sort.Strings\<close>, \<open>sort.Slice\<close> and \<open>sort.SliceStable\<close>; where the Go sort is not
  stable and keys can be equal the Go result is one of several, the model's is the stable one.

  \<open>add_name\<close> is the \<open>seen\<close>/\<open>append\<close> pair of statements by which the sources collect names without
  repetition.
\<close>

named_theorems go_simps \<open>rewriting of Go map, set and accumulator operations\<close>

section \<open>Go maps\<close>

type_synonym ('k, 'v) gomap = "('k \<times> 'v) list"

definition go_get :: "'v \<Rightarrow> ('k, 'v) gomap \<Rightarrow> 'k \<Rightarrow> 'v" where
  "go_get zero m k = (case map_of m k of None \<Rightarrow> zero | Some v \<Rightarrow> v)"

definition go_put :: "'k \<Rightarrow> 'v \<Rightarrow> ('k, 'v) gomap \<Rightarrow> ('k, 'v) gomap" where
  "go_put k v m = AList.update k v m"

definition go_delete :: "'k \<Rightarrow> ('k, 'v) gomap \<Rightarrow> ('k, 'v) gomap" where
  "go_delete k m = AList.delete k m"

text \<open>Every map the code builds has one entry per key.\<close>

definition wf_map :: "('k, 'v) gomap \<Rightarrow> bool" where
  "wf_map m \<longleftrightarrow> distinct (map fst m)"

lemma map_of_go_put [go_simps]: "map_of (go_put k v m) = (map_of m)(k \<mapsto> v)"
  by (simp add: go_put_def update_conv')

lemma go_get_Nil [simp]: "go_get z [] k = z"
  by (simp add: go_get_def)

lemma go_get_Cons [simp]: "go_get z ((k', v) # m) k = (if k = k' then v else go_get z m k)"
  by (simp add: go_get_def)

lemma go_put_Nil [simp]: "go_put k v [] = [(k, v)]"
  by (simp add: go_put_def)

lemma go_put_Cons [simp]:
  "go_put k v ((k', v') # m) = (if k' = k then (k, v) # m else (k', v') # go_put k v m)"
  by (simp add: go_put_def)

lemma go_get_put [go_simps]: "go_get z (go_put k v m) k' = (if k' = k then v else go_get z m k')"
  by (simp add: go_get_def map_of_go_put)

lemma go_put_not_Nil [simp]: "go_put k v m \<noteq> []"
  by (simp add: go_put_def)

lemma keys_go_put [go_simps]: "fst ` set (go_put k v m) = insert k (fst ` set m)"
  by (simp add: go_put_def dom_update)

lemma set_go_put: "set (go_put k v m) \<subseteq> insert (k, v) (set m)"
proof (induction m)
  case (Cons x m)
  then show ?case by (cases x) auto
qed simp

lemma wf_map_Nil [simp]: "wf_map []"
  by (simp add: wf_map_def)

lemma wf_map_go_put [intro]: "wf_map m \<Longrightarrow> wf_map (go_put k v m)"
  by (simp add: wf_map_def go_put_def distinct_update)

lemma go_get_Some: "map_of m k = Some v \<Longrightarrow> go_get z m k = v"
  by (simp add: go_get_def)

lemma go_get_None: "map_of m k = None \<Longrightarrow> go_get z m k = z"
  by (simp add: go_get_def)

lemma wf_map_perm:
  assumes "mset m = mset m'" "wf_map m"
  shows "wf_map m'"
proof -
  have "mset (map fst m) = mset (map fst m')"
    using assms(1) by (metis mset_map)
  then show ?thesis
    using assms(2) unfolding wf_map_def by (metis mset_eq_imp_distinct_iff)
qed

text \<open>Reading a map does not depend on its iteration order.\<close>

lemma map_of_perm:
  assumes "mset m = mset m'" "wf_map m"
  shows "map_of m = map_of m'"
proof -
  have "set m = set m'" using assms(1) by (metis set_mset_mset)
  moreover have "distinct (map fst m)" "distinct (map fst m')"
    using assms wf_map_perm unfolding wf_map_def by blast+
  ultimately show ?thesis by (simp add: map_of_inject_set)
qed

text \<open>\<open>maps.Copy(dst, src)\<close>\<close>

definition go_copy :: "('k, 'v) gomap \<Rightarrow> ('k, 'v) gomap \<Rightarrow> ('k, 'v) gomap" where
  "go_copy dst src = fold (\<lambda>(k, v) m. go_put k v m) src dst"

lemma wf_map_go_copy: "wf_map dst \<Longrightarrow> wf_map (go_copy dst src)"
  by (induction src arbitrary: dst) (auto simp: go_copy_def split: prod.splits)

lemma map_of_go_copy:
  "wf_map src \<Longrightarrow> map_of (go_copy dst src) k = (case map_of src k of Some v \<Rightarrow> Some v | None \<Rightarrow> map_of dst k)"
proof (induction src arbitrary: dst)
  case (Cons kv src)
  obtain k' v where kv: "kv = (k', v)" by (cases kv)
  have w: "wf_map src" "map_of src k' = None"
    using Cons.prems by (auto simp: wf_map_def kv map_of_eq_None_iff)
  have "map_of (go_copy (go_put k' v dst) src) k =
      (case map_of src k of Some v \<Rightarrow> Some v | None \<Rightarrow> map_of (go_put k' v dst) k)"
    by (rule Cons.IH [OF w(1)])
  then show ?case using w(2) by (auto simp: go_copy_def kv map_of_go_put split: option.splits)
qed (simp add: go_copy_def)

section \<open>Sets of names\<close>

type_synonym names = "(string, bool) gomap"

text \<open>\<open>for _, n := range xs { m[n] = true }\<close> from an empty map.\<close>

definition name_set :: "string list \<Rightarrow> names" where
  "name_set xs = fold (\<lambda>n m. go_put n True m) xs []"

abbreviation has_name :: "names \<Rightarrow> string \<Rightarrow> bool" where
  "has_name m n \<equiv> go_get False m n"

lemma has_name_fold_put:
  "has_name (fold (\<lambda>n m. go_put n True m) xs m) n \<longleftrightarrow> n \<in> set xs \<or> has_name m n"
  by (induction xs arbitrary: m) (auto simp: go_get_put)

lemma has_name_name_set [simp, go_simps]: "has_name (name_set xs) n \<longleftrightarrow> n \<in> set xs"
  by (simp add: name_set_def has_name_fold_put)

lemma name_set_Nil_iff [simp]: "name_set xs = [] \<longleftrightarrow> xs = []"
proof -
  have "fold (\<lambda>n m. go_put n True m) ys m = [] \<longleftrightarrow> ys = [] \<and> m = []" for ys and m :: names
    by (induction ys arbitrary: m) auto
  then show ?thesis by (simp add: name_set_def)
qed

lemma wf_map_name_set [simp]: "wf_map (name_set xs)"
proof -
  have "wf_map m \<Longrightarrow> wf_map (fold (\<lambda>n m. go_put n True m) xs m)" for m :: names
    by (induction xs arbitrary: m) auto
  then show ?thesis by (simp add: name_set_def)
qed

section \<open>Collecting without repetition\<close>

text \<open>
  \<open>if !seen[k] { seen[k] = true; xs = append(xs, x) }\<close>: an accumulator of the keys seen and the elements
  kept. Several loops of the sources collect this way, by name, by request or by target reference; their
  add operations share the interface below.
\<close>

definition seen_ok :: "('a \<Rightarrow> 'k) \<Rightarrow> ('k, bool) gomap \<times> 'a list \<Rightarrow> bool" where
  "seen_ok key acc \<longleftrightarrow>
     distinct (map key (snd acc)) \<and> (\<forall>k. go_get False (fst acc) k \<longleftrightarrow> k \<in> key ` set (snd acc))"

locale seen_collector =
  fixes key :: "'a \<Rightarrow> 'k"
    and add :: "'a \<Rightarrow> ('k, bool) gomap \<times> 'a list \<Rightarrow> ('k, bool) gomap \<times> 'a list"
  assumes add_seen: "go_get False (fst acc) (key x) \<Longrightarrow> add x acc = acc"
    and add_new: "\<not> go_get False (fst acc) (key x) \<Longrightarrow>
      add x acc = (go_put (key x) True (fst acc), snd acc @ [x])"
begin

lemma seen_ok_start: "seen_ok key ([], [])"
  by (simp add: seen_ok_def)

lemma seen_ok_add: "seen_ok key acc \<Longrightarrow> seen_ok key (add x acc)"
  by (cases "go_get False (fst acc) (key x)") (auto simp: seen_ok_def add_seen add_new go_get_put)

lemma seen_ok_fold: "seen_ok key acc \<Longrightarrow> seen_ok key (fold add xs acc)"
  by (induction xs arbitrary: acc) (simp_all add: seen_ok_add)

lemma set_fold_sub: "set (snd (fold add xs acc)) \<subseteq> set xs \<union> set (snd acc)"
proof (induction xs arbitrary: acc)
  case (Cons x xs)
  have "set (snd (add x acc)) \<subseteq> insert x (set (snd acc))"
    by (cases "go_get False (fst acc) (key x)") (auto simp: add_seen add_new)
  then show ?case using Cons.IH [of "add x acc"] by auto
qed simp

lemma keys_fold:
  "seen_ok key acc \<Longrightarrow> key ` set (snd (fold add xs acc)) = key ` set xs \<union> key ` set (snd acc)"
proof (induction xs arbitrary: acc)
  case (Cons x xs)
  have "key ` set (snd (add x acc)) = insert (key x) (key ` set (snd acc))"
    using Cons.prems by (cases "go_get False (fst acc) (key x)") (auto simp: seen_ok_def add_seen add_new)
  then show ?case using Cons.IH [of "add x acc"] Cons.prems by (simp add: seen_ok_add)
qed simp

lemma collected_distinct: "distinct (map key (snd (fold add xs ([], []))))"
  using seen_ok_fold [OF seen_ok_start] by (simp add: seen_ok_def)

lemma collected_keys: "key ` set (snd (fold add xs ([], []))) = key ` set xs"
  using keys_fold [OF seen_ok_start] by simp

text \<open>The first element of every key is the one that is kept.\<close>

lemma fold_kept:
  assumes "seen_ok key acc"
  shows "set (snd (fold add xs acc)) =
    set (snd acc) \<union> {x. key x \<notin> key ` set (snd acc) \<and> find (\<lambda>y. key y = key x) xs = Some x}"
  using assms
proof (induction xs arbitrary: acc)
  case (Cons a xs)
  have IH: "set (snd (fold add xs (add a acc))) = set (snd (add a acc)) \<union>
      {x. key x \<notin> key ` set (snd (add a acc)) \<and> find (\<lambda>y. key y = key x) xs = Some x}"
    by (rule Cons.IH [OF seen_ok_add [OF Cons.prems]])
  show ?case
  proof (cases "go_get False (fst acc) (key a)")
    case True
    then have "key a \<in> key ` set (snd acc)" using Cons.prems by (simp add: seen_ok_def)
    then show ?thesis using IH True by (auto simp: add_seen)
  next
    case False
    then have "key a \<notin> key ` set (snd acc)" using Cons.prems by (simp add: seen_ok_def)
    then show ?thesis using IH False by (auto simp: add_new)
  qed
qed simp

lemma collected_kept:
  "set (snd (fold add xs ([], []))) = {x. find (\<lambda>y. key y = key x) xs = Some x}"
  using fold_kept [OF seen_ok_start] by simp

end

text \<open>Names are their own keys.\<close>

type_synonym name_acc = "names \<times> string list"

definition add_name :: "string \<Rightarrow> name_acc \<Rightarrow> name_acc" where
  "add_name n acc =
     (if has_name (fst acc) n then acc else (go_put n True (fst acc), snd acc @ [n]))"

interpretation nam: seen_collector id add_name
  by unfold_locales (simp_all add: add_name_def)

abbreviation acc_ok :: "name_acc \<Rightarrow> bool" where
  "acc_ok acc \<equiv> seen_ok id acc"

lemma set_add_name: "acc_ok acc \<Longrightarrow> set (snd (add_name n acc)) = insert n (set (snd acc))"
  by (auto simp: seen_ok_def add_name_def)

lemma set_fold_add_name:
  "acc_ok acc \<Longrightarrow> set (snd (fold add_name ns acc)) = set ns \<union> set (snd acc)"
  using nam.keys_fold by fastforce

lemmas acc_ok_empty [simp] = nam.seen_ok_start
lemmas acc_ok_add_name = nam.seen_ok_add
lemmas acc_ok_fold = nam.seen_ok_fold

section \<open>Sorting by name\<close>

definition sort_names :: "string list \<Rightarrow> string list" where
  "sort_names xs = sort xs"

lemma set_sort_names [simp]: "set (sort_names xs) = set xs"
  by (simp add: sort_names_def)

lemma length_sort_names [simp]: "length (sort_names xs) = length xs"
  by (simp add: sort_names_def)

lemma sort_names_singleton [simp]: "sort_names [x] = [x]"
  by (simp add: sort_names_def)

lemma sort_names_perm: "mset xs = mset ys \<Longrightarrow> sort_names xs = sort_names ys"
  unfolding sort_names_def by (metis properties_for_sort mset_sort sorted_sort)

text \<open>Sorting entries with distinct keys forgets their order.\<close>

lemma sort_key_perm:
  fixes f :: "'a \<Rightarrow> 'b::linorder"
  assumes "mset xs = mset ys" "distinct (map f xs)"
  shows "sort_key f xs = sort_key f ys"
proof (rule properties_for_sort_key)
  show "mset (sort_key f ys) = mset xs" using assms(1) by simp
next
  fix x assume "x \<in> set (sort_key f ys)"
  then have "x \<in> set xs" using assms(1) by (metis set_sort set_mset_mset)
  then have one: "filter (\<lambda>y. f x = f y) xs = [x]"
    using assms(2)
  proof (induction xs)
    case (Cons a xs)
    then show ?case
      by (cases "x = a") (auto simp: filter_empty_conv image_iff)
  qed simp
  have "mset (filter (\<lambda>y. f x = f y) (sort_key f ys)) = mset (filter (\<lambda>y. f x = f y) xs)"
    using assms(1) by (metis mset_filter mset_sort)
  then have "mset (filter (\<lambda>y. f x = f y) (sort_key f ys)) = {#x#}"
    by (simp only: one mset_single_iff)
  then show "filter (\<lambda>y. f x = f y) (sort_key f ys) = filter (\<lambda>y. f x = f y) xs"
    using one by (simp only: mset_single_iff)
next
  show "sorted (map f (sort_key f ys))" by simp
qed

lemma distinct_map_sort_key: "distinct (map f (sort_key g xs)) \<longleftrightarrow> distinct (map f xs)"
proof -
  have "mset (map f (sort_key g xs)) = mset (map f xs)" by simp
  then show ?thesis by (rule mset_eq_imp_distinct_iff)
qed

section \<open>Lists and options\<close>

lemma find_eq_NoneD: "find P xs = None \<Longrightarrow> x \<in> set xs \<Longrightarrow> \<not> P x"
  by (auto simp: find_None_iff)

lemma find_eq_SomeD: "find P xs = Some x \<Longrightarrow> P x \<and> x \<in> set xs"
  by (auto simp: find_Some_iff)

lemma map_of_in_set: "map_of m k = Some v \<Longrightarrow> (k, v) \<in> set m"
  by (rule map_of_SomeD)

end
