(* ===== verification/Go_Strings.thy ===== *)
theory Go_Strings
  imports Prelude
begin

text \<open>
  The functions of Go's \<open>strings\<close>, \<open>strconv\<close> and \<open>fmt\<close> packages that the operator calls, on byte strings:
  \<open>HasPrefix\<close>, \<open>Cut\<close>, \<open>SplitN\<close>, \<open>Split\<close>, \<open>LastIndex\<close>, decimal and hexadecimal formatting, and \<open>Atoi\<close>.
  The lemmas are the cutting and splitting laws that the parsers of the collector and of the client
  configuration rest on.
\<close>

section \<open>Prefixes, cutting and splitting\<close>

definition hasPrefix :: "string \<Rightarrow> string \<Rightarrow> bool" where
  "hasPrefix s p \<longleftrightarrow> take (length p) s = p"

text \<open>\<open>strings.Cut(s, sep)\<close>: the text before and after the first \<open>sep\<close>; None when there is none.\<close>

fun strCut :: "string \<Rightarrow> string \<Rightarrow> (string \<times> string) option" where
  "strCut sep [] = (if sep = [] then Some ([], []) else None)"
| "strCut sep (c # s) =
     (if hasPrefix (c # s) sep then Some ([], drop (length sep) (c # s))
      else map_option (\<lambda>(a, b). (c # a, b)) (strCut sep s))"

text \<open>\<open>strings.SplitN(s, sep, n)\<close> for \<open>n > 0\<close>: at most \<open>n\<close> parts, the last one unsplit.\<close>

fun strSplitN :: "string \<Rightarrow> string \<Rightarrow> nat \<Rightarrow> string list" where
  "strSplitN s sep 0 = []"
| "strSplitN s sep (Suc 0) = [s]"
| "strSplitN s sep (Suc (Suc n)) =
     (case strCut sep s of None \<Rightarrow> [s] | Some (a, b) \<Rightarrow> a # strSplitN b sep (Suc n))"

text \<open>
  \<open>strings.Split(s, sep)\<close> for a non-empty separator: a string has at most \<open>length s\<close> occurrences of it,
  so \<open>length s + 1\<close> parts are never too few.
\<close>

definition strSplit :: "string \<Rightarrow> string \<Rightarrow> string list" where
  "strSplit s sep = strSplitN s sep (Suc (length s))"

text \<open>\<open>strings.LastIndex(s, c)\<close> for a one-byte separator; None stands for \<open>-1\<close>.\<close>

fun strLastIndex :: "string \<Rightarrow> char \<Rightarrow> nat option" where
  "strLastIndex [] c = None"
| "strLastIndex (x # s) c =
     (case strLastIndex s c of
        Some i \<Rightarrow> Some (Suc i)
      | None \<Rightarrow> (if x = c then Some 0 else None))"

lemma hasPrefix_append [simp]: "hasPrefix (p @ s) p"
  by (simp add: hasPrefix_def)

lemma hasPrefix_Cons_Cons [simp]:
  "hasPrefix (c # s) (d # p) \<longleftrightarrow> c = d \<and> hasPrefix s p"
  by (auto simp: hasPrefix_def)

lemma hasPrefix_Nil [simp]: "hasPrefix s []" "hasPrefix [] p \<longleftrightarrow> p = []"
  by (auto simp: hasPrefix_def)

lemma hasPrefixD: "hasPrefix s p \<Longrightarrow> s = p @ drop (length p) s"
  unfolding hasPrefix_def by (metis append_take_drop_id)

lemma cut_sound: "strCut sep s = Some (a, b) \<Longrightarrow> s = a @ sep @ b"
proof (induction s arbitrary: a b)
  case (Cons c s)
  then show ?case
    by (cases "hasPrefix (c # s) sep") (auto dest: hasPrefixD)
qed (auto split: if_splits)

text \<open>A separator that starts with a byte foreign to \<open>a\<close> is found right after \<open>a\<close>.\<close>

lemma cut_append: "c \<notin> set a \<Longrightarrow> strCut (c # sep) (a @ c # sep @ b) = Some (a, b)"
proof (induction a)
  case Nil
  have "hasPrefix (sep @ b) sep" by simp
  then show ?case by simp
qed auto

lemma cut_None: "c \<notin> set s \<Longrightarrow> strCut (c # sep) s = None"
  by (induction s) auto

lemma splitN_cut:
  "c \<notin> set a \<Longrightarrow> strSplitN (a @ c # sep @ b) (c # sep) (Suc (Suc n)) = a # strSplitN b (c # sep) (Suc n)"
  by (simp add: cut_append)

lemma splitN_last: "c \<notin> set s \<Longrightarrow> strSplitN s (c # sep) (Suc n) = [s]"
  by (cases n) (auto simp: cut_None)

text \<open>More parts are allowed than the string can have: the bound does not matter.\<close>

lemma cut_shorter: "strCut (c # sep) s = Some (a, b) \<Longrightarrow> length b < length s"
  by (drule cut_sound) simp

lemma splitN_enough:
  "length s < n \<Longrightarrow> length s < m \<Longrightarrow> strSplitN s (c # sep) n = strSplitN s (c # sep) m"
proof (induction "length s" arbitrary: s n m rule: less_induct)
  case less
  obtain n' m' where nm: "n = Suc n'" "m = Suc m'"
    using less.prems by (metis Suc_pred' not_less_zero neq0_conv)
  show ?case
  proof (cases "strCut (c # sep) s")
    case None
    then show ?thesis using nm by (cases n'; cases m') auto
  next
    case (Some ab)
    obtain a b where ab: "ab = (a, b)" by fastforce
    have b: "length b < length s" using Some ab cut_shorter by blast
    then obtain n'' m'' where nm': "n' = Suc n''" "m' = Suc m''"
      using less.prems nm by (metis Suc_less_eq Suc_pred' gr_implies_not0 neq0_conv)
    have "strSplitN b (c # sep) n' = strSplitN b (c # sep) m'"
      using b less.prems nm by (intro less.hyps) auto
    then show ?thesis using Some ab nm nm' by simp
  qed
qed

lemma split_cut:
  assumes "c \<notin> set a"
  shows "strSplit (a @ c # sep @ b) (c # sep) = a # strSplit b (c # sep)"
proof -
  have "strSplit (a @ c # sep @ b) (c # sep)
      = a # strSplitN b (c # sep) (Suc (length a + length sep + length b))"
    using splitN_cut [OF assms, of sep b "length a + length sep + length b"]
    by (simp add: strSplit_def cut_append assms add.assoc)
  also have "strSplitN b (c # sep) (Suc (length a + length sep + length b)) = strSplit b (c # sep)"
    unfolding strSplit_def by (rule splitN_enough) auto
  finally show ?thesis .
qed

lemma split_last: "c \<notin> set s \<Longrightarrow> strSplit s (c # sep) = [s]"
  unfolding strSplit_def by (rule splitN_last)

lemma lastIndex_None: "strLastIndex s c = None \<longleftrightarrow> c \<notin> set s"
  by (induction s) (auto split: option.splits)

lemma lastIndex_append: "c \<notin> set b \<Longrightarrow> strLastIndex (a @ c # b) c = Some (length a)"
  by (induction a) (auto simp: lastIndex_None split: option.splits)

lemma lastIndex_bound: "strLastIndex s c = Some i \<Longrightarrow> i < length s \<and> s ! i = c"
  by (induction s arbitrary: i) (auto split: option.splits if_splits)

section \<open>Decimal numbers\<close>

definition digit_char :: "nat \<Rightarrow> char" where
  "digit_char d = char_of (48 + d)"

fun nat_dec :: "nat \<Rightarrow> string" where
  "nat_dec n = (if n < 10 then [digit_char n] else nat_dec (n div 10) @ [digit_char (n mod 10)])"

declare nat_dec.simps [simp del]

text \<open>\<open>%d\<close>\<close>

definition int_dec :: "int \<Rightarrow> string" where
  "int_dec i = (if i < 0 then CHR ''-'' # nat_dec (nat (- i)) else nat_dec (nat i))"

definition is_digit :: "char \<Rightarrow> bool" where
  "is_digit c \<longleftrightarrow> 48 \<le> (of_char c :: nat) \<and> (of_char c :: nat) \<le> 57"

definition digit_val :: "char \<Rightarrow> nat" where
  "digit_val c = of_char c - 48"

definition dec_nat :: "string \<Rightarrow> nat" where
  "dec_nat s = foldl (\<lambda>n c. 10 * n + digit_val c) 0 s"

text \<open>
  \<open>strconv.Atoi\<close> on a 64-bit platform: an optional sign and one or more digits, within the range of
  \<open>int64\<close>; None stands for the error.
\<close>

definition atoi :: "string \<Rightarrow> int option" where
  "atoi s =
     (let (neg, ds) = (case s of c # r \<Rightarrow> if c = CHR ''-'' then (True, r)
                                          else if c = CHR ''+'' then (False, r) else (False, s)
                       | [] \<Rightarrow> (False, s));
          v = (if neg then - int (dec_nat ds) else int (dec_nat ds))
      in if ds \<noteq> [] \<and> list_all is_digit ds \<and> - (2 ^ 63) \<le> v \<and> v < 2 ^ 63 then Some v else None)"

lemma of_char_digit_char: "d < 10 \<Longrightarrow> (of_char (digit_char d) :: nat) = 48 + d"
  by (simp add: digit_char_def)

lemma digit_digit_char [simp]:
  "d < 10 \<Longrightarrow> is_digit (digit_char d)" "d < 10 \<Longrightarrow> digit_val (digit_char d) = d"
  by (auto simp: is_digit_def digit_val_def of_char_digit_char)

lemma nat_dec_digits: "list_all is_digit (nat_dec n) \<and> nat_dec n \<noteq> []"
proof (induction n rule: nat_dec.induct)
  case (1 n)
  then show ?case by (auto simp: nat_dec.simps [of n])
qed

lemma dec_nat_snoc [simp]: "dec_nat (s @ [c]) = 10 * dec_nat s + digit_val c"
  by (simp add: dec_nat_def)

lemma dec_nat_nat_dec: "dec_nat (nat_dec n) = n"
proof (induction n rule: nat_dec.induct)
  case (1 n)
  show ?case
  proof (cases "n < 10")
    case True
    then show ?thesis by (simp add: nat_dec.simps [of n] dec_nat_def)
  next
    case False
    then show ?thesis using 1 by (simp add: nat_dec.simps [of n])
  qed
qed

lemma atoi_digits:
  assumes "list_all is_digit s" "s \<noteq> []" "int (dec_nat s) < 2 ^ 63"
  shows "atoi s = Some (int (dec_nat s))"
proof -
  obtain c r where s: "s = c # r" using assms(2) by (cases s) auto
  have "c \<noteq> CHR ''-''" "c \<noteq> CHR ''+''"
    using assms(1) s by (auto simp: is_digit_def)
  then show ?thesis using assms by (auto simp: atoi_def s)
qed

lemma atoi_int_dec: "0 \<le> i \<Longrightarrow> i < 2 ^ 63 \<Longrightarrow> atoi (int_dec i) = Some i"
  using nat_dec_digits [of "nat i"]
  by (simp add: int_dec_def atoi_digits dec_nat_nat_dec)

lemma nat_dec_no_char: "\<not> is_digit c \<Longrightarrow> c \<notin> set (nat_dec n)"
  using nat_dec_digits [of n] by (auto simp: list_all_iff)

section \<open>Hexadecimal\<close>

definition hex_digit :: "nat \<Rightarrow> char" where
  "hex_digit d = char_of (if d < 10 then 48 + d else 87 + d)"

text \<open>\<open>%x\<close> on a byte slice: two lower-case digits per byte.\<close>

definition hex_byte :: "char \<Rightarrow> string" where
  "hex_byte b = [hex_digit (of_char b div 16), hex_digit (of_char b mod 16)]"

definition hex_bytes :: "string \<Rightarrow> string" where
  "hex_bytes bs = concat (map hex_byte bs)"

definition is_lower_hex :: "char \<Rightarrow> bool" where
  "is_lower_hex c \<longleftrightarrow> is_digit c \<or> (97 \<le> (of_char c :: nat) \<and> (of_char c :: nat) \<le> 102)"

definition is_hex :: "char \<Rightarrow> bool" where
  "is_hex c \<longleftrightarrow> is_lower_hex c \<or> (65 \<le> (of_char c :: nat) \<and> (of_char c :: nat) \<le> 70)"

definition hex_val :: "char \<Rightarrow> nat" where
  "hex_val c = (let n = of_char c in if n \<le> 57 then n - 48 else if n \<le> 70 then n - 55 else n - 87)"

text \<open>\<open>hex.DecodeString\<close>; None stands for the error (odd length or a byte that is no hex digit).\<close>

fun hex_decode :: "string \<Rightarrow> string option" where
  "hex_decode [] = Some []"
| "hex_decode [c] = None"
| "hex_decode (c # d # s) =
     (if is_hex c \<and> is_hex d
      then map_option (\<lambda>r. char_of (16 * hex_val c + hex_val d) # r) (hex_decode s) else None)"

lemma of_char_hex_digit: "d < 16 \<Longrightarrow> (of_char (hex_digit d) :: nat) = (if d < 10 then 48 + d else 87 + d)"
  by (simp add: hex_digit_def)

lemma hex_digit_lower [simp]: "d < 16 \<Longrightarrow> is_lower_hex (hex_digit d)"
  by (auto simp: is_lower_hex_def is_digit_def of_char_hex_digit)

lemma hex_val_hex_digit [simp]: "d < 16 \<Longrightarrow> hex_val (hex_digit d) = d"
  by (simp add: hex_val_def of_char_hex_digit)

lemma of_char_less_256: "(of_char (c :: char) :: nat) < 256"
  by (metis nat_of_char_less_256)

lemma length_hex_bytes [simp]: "length (hex_bytes bs) = 2 * length bs"
  by (induction bs) (auto simp: hex_bytes_def hex_byte_def)

lemma hex_bytes_lower: "list_all is_lower_hex (hex_bytes bs)"
proof -
  have "list_all is_lower_hex (hex_byte b)" for b
    using of_char_less_256 [of b] by (simp add: hex_byte_def less_mult_imp_div_less)
  then show ?thesis by (induction bs) (auto simp: hex_bytes_def)
qed

lemma hex_decode_encode: "hex_decode (hex_bytes bs) = Some bs"
proof (induction bs)
  case (Cons b bs)
  have d: "of_char b div 16 < (16::nat)"
    using of_char_less_256 [of b] by (simp add: less_mult_imp_div_less)
  have "16 * (of_char b div 16) + of_char b mod 16 = (of_char b :: nat)" by simp
  then have "char_of (16 * (of_char b div 16) + of_char b mod (16::nat)) = b"
    by (simp only: char_of_char)
  with Cons d show ?case
    by (simp add: hex_bytes_def hex_byte_def is_hex_def)
qed (simp add: hex_bytes_def)

end
