(* ===== verification/Go_Net.thy ===== *)
theory Go_Net
  imports Go_Strings
begin

text \<open>
  Go's address parsers as far as the operator uses them: \<open>netip.ParseAddr\<close>, \<open>net.ParseIP\<close> and \<open>net.ParseCIDR\<close>
  are called only to learn whether a text is an address (or a prefix), so the model keeps the accepted
  kind of address and drops its value.
\<close>

datatype ip_kind = IPv4 | IPv6 string \<comment> \<open>the zone, empty when there is none\<close>

text \<open>One decimal octet: no leading zero, at most 255.\<close>

definition ipv4_octet :: "string \<Rightarrow> bool" where
  "ipv4_octet s \<longleftrightarrow>
     s \<noteq> [] \<and> list_all is_digit s \<and> (length s = 1 \<or> hd s \<noteq> CHR ''0'') \<and> dec_nat s \<le> 255"

definition parseIPv4 :: "string \<Rightarrow> bool" where
  "parseIPv4 s \<longleftrightarrow> (let fs = strSplit s ''.'' in length fs = 4 \<and> list_all ipv4_octet fs)"

text \<open>
  The loop of \<open>netip.parseIPv6\<close> after the zone and a leading ellipsis are gone: \<open>n\<close> is the number of
  16-bit groups read so far, \<open>ell\<close> whether an ellipsis was seen. The last test is the one after the loop:
  fewer than eight groups need an ellipsis, eight groups forbid it.
\<close>

definition ipv6_done :: "nat \<Rightarrow> bool \<Rightarrow> string \<Rightarrow> bool" where
  "ipv6_done n ell s \<longleftrightarrow> s = [] \<and> (if n < 8 then ell else \<not> ell)"

function ipv6_groups :: "nat \<Rightarrow> bool \<Rightarrow> string \<Rightarrow> bool" where
  "ipv6_groups n ell s =
     (if 8 \<le> n then ipv6_done n ell s
      else
        let hs = takeWhile is_hex s; r = drop (length hs) s in
        if hs = [] \<or> 4 < length hs then False
        else case r of
            [] \<Rightarrow> ipv6_done (n + 1) ell []
          | c # r' \<Rightarrow>
              if c = CHR ''.'' then
                (ell \<or> n = 6) \<and> n \<le> 6 \<and> parseIPv4 s \<and> ipv6_done (n + 2) ell []
              else if c \<noteq> CHR '':'' \<or> r' = [] then False
              else if hd r' = CHR '':'' then
                (if ell then False
                 else if tl r' = [] then ipv6_done (n + 1) True []
                 else ipv6_groups (n + 1) True (tl r'))
              else ipv6_groups (n + 1) ell r')"
  by pat_completeness auto
termination
  by (relation "measure (\<lambda>(n, _, _). 8 - n)") auto

declare ipv6_groups.simps [simp del]

definition parseIPv6 :: "string \<Rightarrow> ip_kind option" where
  "parseIPv6 s =
     (case (case strCut ''%'' s of None \<Rightarrow> Some (s, []) | Some (a, z) \<Rightarrow> if z = [] then None else Some (a, z)) of
        None \<Rightarrow> None
      | Some (a, z) \<Rightarrow>
          if (if hasPrefix a ''::'' then drop 2 a = [] \<or> ipv6_groups 0 True (drop 2 a)
              else ipv6_groups 0 False a)
          then Some (IPv6 z) else None)"

text \<open>The first of \<open>.\<close>, \<open>:\<close> and \<open>%\<close> decides which parser runs.\<close>

definition netip_ParseAddr :: "string \<Rightarrow> ip_kind option" where
  "netip_ParseAddr s =
     (case find (\<lambda>c. c = CHR ''.'' \<or> c = CHR '':'' \<or> c = CHR ''%'') s of
        None \<Rightarrow> None
      | Some c \<Rightarrow>
          if c = CHR ''.'' then (if parseIPv4 s then Some IPv4 else None)
          else if c = CHR '':'' then parseIPv6 s
          else None)"

text \<open>\<open>net.ParseIP(s) != nil\<close>: an address without a zone.\<close>

definition net_ParseIP :: "string \<Rightarrow> bool" where
  "net_ParseIP s \<longleftrightarrow> netip_ParseAddr s \<in> {Some IPv4, Some (IPv6 [])}"

definition addr_bits :: "ip_kind \<Rightarrow> nat" where
  "addr_bits k = (case k of IPv4 \<Rightarrow> 32 | IPv6 _ \<Rightarrow> 128)"

text \<open>The error text of \<open>net.ParseCIDR\<close>, None when it accepts.\<close>

definition net_ParseCIDR :: "string \<Rightarrow> string option" where
  "net_ParseCIDR s =
     (let err = Some (''invalid CIDR address: '' @ s) in
      case strCut ''/'' s of
        None \<Rightarrow> err
      | Some (a, m) \<Rightarrow>
          (case netip_ParseAddr a of
             Some k \<Rightarrow>
               if k \<in> {IPv4, IPv6 []} \<and> m \<noteq> [] \<and> list_all is_digit m \<and> dec_nat m \<le> addr_bits k
               then None else err
           | None \<Rightarrow> err))"

lemma ipv4_octet_byte: "ipv4_octet s \<Longrightarrow> dec_nat s < 256"
  by (simp add: ipv4_octet_def)

text \<open>Every octet printed in decimal is read back.\<close>

lemma nat_dec_hd: "n \<noteq> 0 \<Longrightarrow> hd (nat_dec n) \<noteq> CHR ''0''"
proof (induction n rule: nat_dec.induct)
  case (1 n)
  show ?case
  proof (cases "n < 10")
    case True
    then have "(of_char (hd (nat_dec n)) :: nat) = 48 + n"
      by (simp add: nat_dec.simps [of n] of_char_digit_char)
    then show ?thesis using 1(2) by auto
  next
    case False
    then have "hd (nat_dec n) = hd (nat_dec (n div 10))"
      using nat_dec_digits [of "n div 10"] by (simp add: nat_dec.simps [of n])
    then show ?thesis using 1(1) False by simp
  qed
qed

lemma ipv4_octet_nat_dec: "n < 256 \<Longrightarrow> ipv4_octet (nat_dec n)"
  using nat_dec_digits [of n] nat_dec_hd [of n] dec_nat_nat_dec [of n] nat_dec.simps [of 0]
  by (cases "n = 0") (auto simp: ipv4_octet_def)

lemma parseIPv4_dotted:
  assumes "a < 256" "b < 256" "c < 256" "d < 256"
  shows "parseIPv4 (nat_dec a @ ''.'' @ nat_dec b @ ''.'' @ nat_dec c @ ''.'' @ nat_dec d)"
proof -
  have nodot: "CHR ''.'' \<notin> set (nat_dec n)" for n
    by (rule nat_dec_no_char) (simp add: is_digit_def)
  have "strSplit (nat_dec a @ CHR ''.'' # [] @ nat_dec b @ CHR ''.'' # [] @ nat_dec c @ CHR ''.'' # [] @ nat_dec d)
        [CHR ''.''] = [nat_dec a, nat_dec b, nat_dec c, nat_dec d]"
    by (simp only: split_cut [OF nodot] split_last [OF nodot])
  then show ?thesis
    using assms by (simp add: parseIPv4_def Let_def ipv4_octet_nat_dec)
qed

end
