(* ===== verification/Api_Types.thy ===== *)
theory Api_Types
  imports Prelude Go_Net
begin

text \<open>
  The custom resources of \<open>src/api/v1alpha1\<close> as records: \<open>SingBoxNode\<close>, \<open>User\<close>, \<open>UserGroup\<close>,
  \<open>ExternalOutbound\<close>, \<open>EgressPolicy\<close> and the retired \<open>CustomRoute\<close>, each an extension of the Kubernetes
  object metadata the code reads. String-valued enumerations stay strings, as in the source: the code
  compares them with \<open>==\<close> and handles other values. Ports and priorities are \<open>int\<close>: the code only
  compares them. A pointer field that may be nil is an \<open>option\<close>.

  What the resources' methods call outside the repository is an argument: \<open>ext\<close> bundles the Kubernetes
  label selector, the regular-expression compiler and the DNS-1123 check.
\<close>

section \<open>Object metadata and conditions\<close>

record OwnerReference =
  ownerKind :: string
  ownerName :: string

record ObjectMeta =
  Name :: string
  Namespace :: string
  Labels :: "(string, string) gomap"
  Annotations :: "(string, string) gomap"
  Generation :: int
  Finalizers :: "string list"
  Deleting :: bool \<comment> \<open>\<open>!DeletionTimestamp.IsZero()\<close>\<close>
  OwnerReferences :: "OwnerReference list"

datatype ConditionStatus = CTrue | CFalse | CUnknown

record Condition =
  condType :: string
  condStatus :: ConditionStatus
  condReason :: string
  condMessage :: string
  condObservedGeneration :: int

section \<open>External functions\<close>

record LabelSelectorRequirement =
  reqKey :: string
  reqOperator :: string
  reqValues :: "string list"

text \<open>
  \<open>asSelector\<close> is \<open>metav1.LabelSelectorAsSelector\<close>: an error text, or the predicate on label sets.
  \<open>regexpCompile\<close> gives the error text of \<open>regexp.Compile\<close>, None when the expression compiles.
  \<open>isDNS1123\<close> gives the error texts of \<open>validation.IsDNS1123Subdomain\<close>. \<open>setStatusCondition\<close> is
  \<open>apimeta.SetStatusCondition\<close>; conditions carry no transition time here.
\<close>

record ext =
  asSelector :: "(string, string) gomap \<Rightarrow> LabelSelectorRequirement list \<Rightarrow>
                   string + ((string, string) gomap \<Rightarrow> bool)"
  regexpCompile :: "string \<Rightarrow> string option"
  isDNS1123 :: "string \<Rightarrow> string list"
  setStatusCondition :: "Condition list \<Rightarrow> Condition \<Rightarrow> Condition list"

text \<open>
  The documented behaviour of \<open>SetStatusCondition\<close>: an existing condition of the type is replaced in
  place, otherwise the new condition is appended.
\<close>

definition findCondition :: "string \<Rightarrow> Condition list \<Rightarrow> Condition option" where
  "findCondition t cs = find (\<lambda>c. condType c = t) cs"

fun putCondition :: "Condition list \<Rightarrow> Condition \<Rightarrow> Condition list" where
  "putCondition [] c = [c]"
| "putCondition (d # ds) c = (if condType d = condType c then c # ds else d # putCondition ds c)"

definition conditions_law :: "ext \<Rightarrow> bool" where
  "conditions_law E \<longleftrightarrow> (\<forall>cs c. setStatusCondition E cs c = putCondition cs c)"

lemma findCondition_put:
  "findCondition t (putCondition cs c) = (if t = condType c then Some c else findCondition t cs)"
  by (induction cs) (auto simp: findCondition_def)

lemma putCondition_same: "findCondition (condType c) cs = Some c \<Longrightarrow> putCondition cs c = cs"
  by (induction cs) (auto simp: findCondition_def split: if_splits)

section \<open>SingBoxNode\<close>

abbreviation ProxyRoleInbound :: string where
  "ProxyRoleInbound \<equiv> ''inbound''"

abbreviation ProxyRoleOutbound :: string where
  "ProxyRoleOutbound \<equiv> ''outbound''"

record ProtocolConfig =
  Protocol :: string
  Port :: int

record ResourceRequirements =
  resLimits :: "(string, string) gomap"
  resRequests :: "(string, string) gomap"

record SingBoxNodeSpec =
  NodeRef :: string
  Address :: string
  Region :: string
  ClientGroups :: "string list"
  Roles :: "string list"
  SupportedProtocols :: "ProtocolConfig list"
  InboundProtocol :: string
  RelayPort :: int
  AllowedInbounds :: "string list"
  AllowedOutbounds :: "string list"
  Tag :: string
  TLSSecretName :: string
  Resources :: "ResourceRequirements option"

record SingBoxNodeStatus =
  Phase :: string
  ConfigHash :: string
  EntryEndpoints :: "string list"
  TLSServerName :: string
  nodeConditions :: "Condition list"
  nodeObservedGeneration :: int

record SingBoxNode = ObjectMeta +
  nodeSpec :: SingBoxNodeSpec
  nodeStatus :: SingBoxNodeStatus

text \<open>\<open>hasRole\<close>, defined alike in the config engine, the controllers, the API server and the collector.\<close>

definition hasRole :: "SingBoxNode \<Rightarrow> string \<Rightarrow> bool" where
  "hasRole node role \<longleftrightarrow> role \<in> set (Roles (nodeSpec node))"

text \<open>A list that restricts only when it is not empty: \<open>len(l) > 0 && !slices.Contains(l, n)\<close> refuses.\<close>

definition admits :: "string list \<Rightarrow> string \<Rightarrow> bool" where
  "admits l n \<longleftrightarrow> \<not> (length l > 0 \<and> n \<notin> set l)"

lemma admits_Nil [simp]: "admits [] n"
  by (simp add: admits_def)

lemma admits_iff: "admits l n \<longleftrightarrow> l = [] \<or> n \<in> set l"
  by (auto simp: admits_def)

section \<open>User and UserGroup\<close>

record SecretReference =
  secretName :: string
  secretNamespace :: string

record UserSpec =
  AuthSecret :: SecretReference
  UserGroupRef :: string

record UserStatus =
  ActiveNodeCount :: int
  ActiveNodes :: "string list"
  userConditions :: "Condition list"
  userObservedGeneration :: int

record User = ObjectMeta +
  userSpec :: UserSpec
  userStatus :: UserStatus

record UserGroupSpec =
  AllowedNodes :: "string list"
  DeniedNodes :: "string list"

record UserGroup = ObjectMeta +
  groupSpec :: UserGroupSpec

section \<open>ExternalOutbound\<close>

abbreviation ExternalProtocolSocks5 :: string where "ExternalProtocolSocks5 \<equiv> ''socks5''"
abbreviation ExternalProtocolHTTP :: string where "ExternalProtocolHTTP \<equiv> ''http''"
abbreviation ExternalProtocolShadowsocks :: string where "ExternalProtocolShadowsocks \<equiv> ''shadowsocks''"
abbreviation ExternalProtocolTrojan :: string where "ExternalProtocolTrojan \<equiv> ''trojan''"
abbreviation ExternalProtocolHysteria2 :: string where "ExternalProtocolHysteria2 \<equiv> ''hysteria2''"
abbreviation ExternalProtocolTUIC :: string where "ExternalProtocolTUIC \<equiv> ''tuic''"
abbreviation ExternalProtocolAnyTLS :: string where "ExternalProtocolAnyTLS \<equiv> ''anytls''"

abbreviation CredKeyUsername :: string where "CredKeyUsername \<equiv> ''username''"
abbreviation CredKeyPassword :: string where "CredKeyPassword \<equiv> ''password''"
abbreviation CredKeyMethod :: string where "CredKeyMethod \<equiv> ''method''"
abbreviation CredKeyUUID :: string where "CredKeyUUID \<equiv> ''uuid''"
abbreviation CredKeyObfsPassword :: string where "CredKeyObfsPassword \<equiv> ''obfsPassword''"

record ExternalOutboundTLS =
  ServerName :: string
  Insecure :: bool

record Hysteria2Options =
  UpMbps :: int
  DownMbps :: int
  Obfs :: bool

record ExternalOutboundSpec =
  eobProtocol :: string
  eobServer :: string
  eobPort :: int
  CredentialsSecretRef :: "string option" \<comment> \<open>the secret's name\<close>
  eobTLS :: "ExternalOutboundTLS option"
  eobHysteria2 :: "Hysteria2Options option"
  eobRegion :: string
  eobClientGroups :: "string list"
  eobAllowedInbounds :: "string list"

record ExternalOutboundStatus =
  eobConditions :: "Condition list"
  eobObservedGeneration :: int

record ExternalOutbound = ObjectMeta +
  eobSpec :: ExternalOutboundSpec
  eobStatus :: ExternalOutboundStatus

section \<open>CustomRoute\<close>

abbreviation OutboundKindSingBoxNode :: string where
  "OutboundKindSingBoxNode \<equiv> ''SingBoxNode''"

abbreviation OutboundKindExternalOutbound :: string where
  "OutboundKindExternalOutbound \<equiv> ''ExternalOutbound''"

record CustomRouteSpec =
  InboundNode :: string
  OutboundNode :: string
  OutboundKind :: string

record CustomRoute = ObjectMeta +
  routeSpec :: CustomRouteSpec

definition EffectiveOutboundKind :: "CustomRoute \<Rightarrow> string" where
  "EffectiveOutboundKind r =
     (if OutboundKind (routeSpec r) = [] then OutboundKindSingBoxNode
      else OutboundKind (routeSpec r))"

section \<open>EgressPolicy\<close>

abbreviation EgressPolicyActionRoute :: string where
  "EgressPolicyActionRoute \<equiv> ''route''"

abbreviation EgressPolicyActionReject :: string where
  "EgressPolicyActionReject \<equiv> ''reject''"

record EgressPolicySelector =
  MatchLabels :: "(string, string) gomap"
  MatchExpressions :: "LabelSelectorRequirement list"
  MatchNames :: "string list"

record EgressPolicyMatch =
  matchDomain :: "string list"
  DomainSuffix :: "string list"
  DomainRegex :: "string list"
  IPCIDR :: "string list"
  RuleSet :: "string list"

record EgressPolicySpec =
  IngressSelector :: EgressPolicySelector
  EgressSelector :: EgressPolicySelector
  Match :: EgressPolicyMatch
  Action :: string
  Priority :: int
  FallbackAction :: string

record EgressPolicyStatus =
  ResolvedIngresses :: "string list"
  ResolvedEgress :: string
  policyConditions :: "Condition list"
  policyObservedGeneration :: int

record EgressPolicy = ObjectMeta +
  policySpec :: EgressPolicySpec
  policyStatus :: EgressPolicyStatus

text \<open>\<open>(s *EgressPolicySelector) Valid\<close>: the error text, None when the selector is valid.\<close>

definition selectorValid :: "ext \<Rightarrow> EgressPolicySelector \<Rightarrow> string option" where
  "selectorValid E s =
     (case asSelector E (MatchLabels s) (MatchExpressions s) of Inl e \<Rightarrow> Some e | Inr _ \<Rightarrow> None)"

text \<open>\<open>(s *EgressPolicySelector) Matches\<close>: names first, then labels; an invalid selector matches nothing.\<close>

definition selectorMatches :: "ext \<Rightarrow> EgressPolicySelector \<Rightarrow> 'a ObjectMeta_scheme \<Rightarrow> bool" where
  "selectorMatches E s obj \<longleftrightarrow>
     (if length (MatchNames s) > 0 \<and> Name obj \<notin> set (MatchNames s) then False
      else case asSelector E (MatchLabels s) (MatchExpressions s) of
             Inl _ \<Rightarrow> False
           | Inr sel \<Rightarrow> sel (Labels obj))"

abbreviation errEmptyPolicyMatch :: string where
  "errEmptyPolicyMatch \<equiv> ''at least one match field is required unless fallback is true''"

fun first_error :: "('a \<Rightarrow> string option) \<Rightarrow> 'a list \<Rightarrow> string option" where
  "first_error f [] = None"
| "first_error f (x # xs) = (case f x of Some e \<Rightarrow> Some e | None \<Rightarrow> first_error f xs)"

text \<open>\<open>(m *EgressPolicyMatch) Valid(fallback)\<close>\<close>

definition matchEmpty :: "EgressPolicyMatch \<Rightarrow> bool" where
  "matchEmpty m \<longleftrightarrow>
     length (matchDomain m) = 0 \<and> length (DomainSuffix m) = 0 \<and> length (DomainRegex m) = 0
     \<and> length (IPCIDR m) = 0 \<and> length (RuleSet m) = 0"

definition matchValid :: "ext \<Rightarrow> EgressPolicyMatch \<Rightarrow> bool \<Rightarrow> string option" where
  "matchValid E m fallback =
     (if matchEmpty m then (if fallback then None else Some errEmptyPolicyMatch)
      else case first_error (regexpCompile E) (DomainRegex m) of
             Some e \<Rightarrow> Some e
           | None \<Rightarrow> first_error net_ParseCIDR (IPCIDR m))"

lemma first_error_None: "first_error f xs = None \<longleftrightarrow> (\<forall>x\<in>set xs. f x = None)"
  by (induction xs) (auto split: option.splits)

lemma matchValid_None:
  "matchValid E m fallback = None \<longleftrightarrow>
     (if matchEmpty m then fallback
      else (\<forall>r\<in>set (DomainRegex m). regexpCompile E r = None)
         \<and> (\<forall>c\<in>set (IPCIDR m). net_ParseCIDR c = None))"
proof (cases "first_error (regexpCompile E) (DomainRegex m)")
  case None
  then have "\<forall>r\<in>set (DomainRegex m). regexpCompile E r = None"
    by (simp only: first_error_None)
  then show ?thesis
    by (simp add: matchValid_def None first_error_None [of net_ParseCIDR])
next
  case (Some e)
  then have "\<not> (\<forall>r\<in>set (DomainRegex m). regexpCompile E r = None)"
    by (simp add: first_error_None [symmetric])
  then show ?thesis using Some by (auto simp: matchValid_def)
qed

text \<open>A matching selector is a valid one, and restricts by name when it lists names.\<close>

lemma selectorMatches_valid: "selectorMatches E s obj \<Longrightarrow> selectorValid E s = None"
  by (auto simp: selectorMatches_def selectorValid_def split: if_splits sum.splits)

lemma selectorMatches_names: "selectorMatches E s obj \<Longrightarrow> admits (MatchNames s) (Name obj)"
  by (auto simp: selectorMatches_def admits_def split: if_splits)

end
