(* ===== verification/Kube.thy ===== *)
theory Kube
  imports Api_Types
begin

text \<open>
  The interface to the Kubernetes API server. The client is code outside the repository: the reconcilers
  take it as an argument, a record of functions over an abstract cluster state \<open>'s\<close>. A read gives an
  error or an object; a write gives an optional error and the next state. What a property needs of the
  client is stated as a hypothesis where it is used.

  Core objects are reduced to the fields the reconcilers read or write.
\<close>

section \<open>Errors and results\<close>

datatype reason = NotFound | Conflict | OtherReason

record apiError =
  errReason :: reason
  errText :: string

text \<open>\<open>fmt.Errorf("...: %w", err)\<close>: the text is prefixed, the reason stays visible to \<open>errors.IsNotFound\<close>.\<close>

definition wrapErr :: "string \<Rightarrow> apiError \<Rightarrow> apiError" where
  "wrapErr prefix e = e\<lparr>errText := prefix @ errText e\<rparr>"

definition IsNotFound :: "apiError \<Rightarrow> bool" where
  "IsNotFound e \<longleftrightarrow> errReason e = NotFound"

definition IsConflict :: "apiError \<Rightarrow> bool" where
  "IsConflict e \<longleftrightarrow> errReason e = Conflict"

text \<open>\<open>ctrl.Result\<close>, the delay in seconds.\<close>

record Result =
  Requeue :: bool
  RequeueAfter :: nat

abbreviation emptyResult :: Result where
  "emptyResult \<equiv> \<lparr>Requeue = False, RequeueAfter = 0\<rparr>"

type_synonym outcome = "Result \<times> apiError option"

record Request =
  reqNamespace :: string
  reqName :: string

definition requestFor :: "'a ObjectMeta_scheme \<Rightarrow> Request" where
  "requestFor obj = \<lparr>reqNamespace = Namespace obj, reqName = Name obj\<rparr>"

section \<open>Core objects\<close>

record Secret = ObjectMeta +
  secretData :: "(string, string) gomap"

record ConfigMap = ObjectMeta +
  cmData :: "(string, string) gomap"

record Service = ObjectMeta +
  svcPorts :: "int list"

record NodeCondition =
  ncType :: string
  ncStatus :: ConditionStatus

record K8sNode = ObjectMeta +
  k8sConditions :: "NodeCondition list"

record VolumeMount =
  mountName :: string
  MountPath :: string
  ReadOnly :: bool

datatype VolumeSource =
    ConfigMapVolume string
  | SecretVolume string "(string \<times> string) list"

record Volume =
  volumeName :: string
  volumeSource :: VolumeSource

record PodSpec =
  HostNetwork :: bool
  DNSPolicy :: string
  NodeSelector :: "(string, string) gomap"
  RestartPolicy :: string
  containerName :: string
  containerImage :: string
  containerArgs :: "string list"
  VolumeMounts :: "VolumeMount list"
  Volumes :: "Volume list"
  containerResources :: ResourceRequirements

record Pod = ObjectMeta +
  podSpec :: PodSpec

definition newMeta :: "string \<Rightarrow> string \<Rightarrow> ObjectMeta" where
  "newMeta ns n = \<lparr>Name = n, Namespace = ns, Labels = [], Annotations = [], Generation = 0, Finalizers = [],
     Deleting = False, OwnerReferences = []\<rparr>"

section \<open>The client\<close>

text \<open>
  Namespace and name are the first two arguments of a \<open>get\<close>. \<open>setControllerReference\<close> gives the owner
  references of an object after \<open>controllerutil.SetControllerReference\<close> by the named node, or an error.
  \<open>createOrUpdateConfigMap\<close> is \<open>controllerutil.CreateOrUpdate\<close> with its mutate function.
\<close>

record 's kube =
  getNode :: "string \<Rightarrow> string \<Rightarrow> 's \<Rightarrow> apiError + SingBoxNode"
  listNodes :: "string \<Rightarrow> 's \<Rightarrow> apiError + SingBoxNode list"
  listNodesByRef :: "string \<Rightarrow> 's \<Rightarrow> apiError + SingBoxNode list"
  updateNode :: "SingBoxNode \<Rightarrow> 's \<Rightarrow> apiError option \<times> 's"
  updateNodeStatus :: "SingBoxNode \<Rightarrow> 's \<Rightarrow> apiError option \<times> 's"
  getUser :: "string \<Rightarrow> string \<Rightarrow> 's \<Rightarrow> apiError + User"
  listUsers :: "string \<Rightarrow> 's \<Rightarrow> apiError + User list"
  updateUserStatus :: "User \<Rightarrow> 's \<Rightarrow> apiError option \<times> 's"
  patchUser :: "User \<Rightarrow> 's \<Rightarrow> apiError option \<times> 's"
  getUserGroup :: "string \<Rightarrow> string \<Rightarrow> 's \<Rightarrow> apiError + UserGroup"
  getExternalOutbound :: "string \<Rightarrow> string \<Rightarrow> 's \<Rightarrow> apiError + ExternalOutbound"
  listExternalOutbounds :: "string \<Rightarrow> 's \<Rightarrow> apiError + ExternalOutbound list"
  updateExternalOutboundStatus :: "ExternalOutbound \<Rightarrow> 's \<Rightarrow> apiError option \<times> 's"
  getPolicy :: "string \<Rightarrow> string \<Rightarrow> 's \<Rightarrow> apiError + EgressPolicy"
  listPolicies :: "string \<Rightarrow> 's \<Rightarrow> apiError + EgressPolicy list"
  updatePolicyStatus :: "EgressPolicy \<Rightarrow> 's \<Rightarrow> apiError option \<times> 's"
  getSecret :: "string \<Rightarrow> string \<Rightarrow> 's \<Rightarrow> apiError + Secret"
  createSecret :: "Secret \<Rightarrow> 's \<Rightarrow> apiError option \<times> 's"
  getK8sNode :: "string \<Rightarrow> 's \<Rightarrow> apiError + K8sNode"
  getPod :: "string \<Rightarrow> string \<Rightarrow> 's \<Rightarrow> apiError + Pod"
  createPod :: "Pod \<Rightarrow> 's \<Rightarrow> apiError option \<times> 's"
  deletePod :: "Pod \<Rightarrow> 's \<Rightarrow> apiError option \<times> 's"
  listServices :: "string \<Rightarrow> 's \<Rightarrow> apiError + Service list"
  deleteService :: "Service \<Rightarrow> 's \<Rightarrow> apiError option \<times> 's"
  setControllerReference :: "SingBoxNode \<Rightarrow> OwnerReference list \<Rightarrow> apiError + OwnerReference list"
  getConfigMap :: "string \<Rightarrow> string \<Rightarrow> 's \<Rightarrow> apiError + ConfigMap"
  createOrUpdateConfigMap ::
    "string \<Rightarrow> string \<Rightarrow> (ConfigMap \<Rightarrow> apiError + ConfigMap) \<Rightarrow> 's \<Rightarrow> apiError option \<times> 's"

section \<open>Quoted strings\<close>

text \<open>
  \<open>%q\<close> of \<open>fmt\<close> for the ASCII texts that Kubernetes accepts as names and enumeration values: quotes
  and backslashes are escaped, control characters are written as escapes.
\<close>

definition quote_char :: "char \<Rightarrow> string" where
  "quote_char c =
     (let n = of_char c :: nat in
      if c = CHR 0x22 \<or> c = CHR 0x5C then [CHR 0x5C, c]
      else if n = 7 then [CHR 0x5C, CHR ''a''] else if n = 8 then [CHR 0x5C, CHR ''b'']
      else if n = 9 then [CHR 0x5C, CHR ''t''] else if n = 10 then [CHR 0x5C, CHR ''n'']
      else if n = 11 then [CHR 0x5C, CHR ''v''] else if n = 12 then [CHR 0x5C, CHR ''f'']
      else if n = 13 then [CHR 0x5C, CHR ''r'']
      else if n < 32 \<or> n = 127 then [CHR 0x5C, CHR ''x''] @ hex_byte c
      else [c])"

definition go_quote :: "string \<Rightarrow> string" where
  "go_quote s = CHR 0x22 # concat (map quote_char s) @ [CHR 0x22]"

end
