(* ===== verification/Go_Crypto.thy ===== *)
theory Go_Crypto
  imports Go_Strings "HOL-Library.Word"
begin

text \<open>
  The digests of Go's \<open>crypto/sha1\<close> and \<open>crypto/sha256\<close> (FIPS 180-4) on byte strings, and the UUID layout
  \<open>%08x-%04x-%04x-%04x-%012x\<close> that both the credential derivation and the credential manager print.
  Nothing below assumes more of a digest than its length.
\<close>

unbundle bit_operations_syntax

section \<open>Words and bytes\<close>

definition be_word :: "string \<Rightarrow> 32 word" where
  "be_word bs = foldl (\<lambda>w b. 256 * w + of_nat (of_char b)) 0 bs"

text \<open>The last \<open>n\<close> bytes of a number, most significant first.\<close>

definition be_bytes :: "nat \<Rightarrow> nat \<Rightarrow> string" where
  "be_bytes n x = map (\<lambda>i. char_of (x div 256 ^ (n - 1 - i) mod 256)) [0..<n]"

definition chunks :: "nat \<Rightarrow> 'a list \<Rightarrow> 'a list list" where
  "chunks n xs = map (\<lambda>i. take n (drop (i * n) xs)) [0..<length xs div n]"

text \<open>Padding to whole blocks of 64 bytes: a one bit, zeros, the length in bits.\<close>

definition sha_pad :: "string \<Rightarrow> string" where
  "sha_pad msg =
     msg @ [CHR 0x80] @ replicate ((119 - length msg mod 64) mod 64) (CHR 0x00)
       @ be_bytes 8 (8 * length msg)"

lemma length_be_bytes [simp]: "length (be_bytes n x) = n"
  by (simp add: be_bytes_def)

lemma sha_pad_whole_blocks: "length (sha_pad msg) mod 64 = 0"
proof -
  obtain q r where qr: "length msg = 64 * q + r" "r < 64"
    by (metis mult_div_mod_eq mod_less_divisor zero_less_numeral)
  then have "length msg mod 64 = r" by simp
  then have len: "length (sha_pad msg) = 64 * q + (r + 9 + (119 - r) mod 64)"
    using qr by (simp add: sha_pad_def)
  show ?thesis
  proof (cases "r \<le> 55")
    case True
    then have "(119 - r) mod 64 = 55 - r"
      using mod_add_self1 [of 64 "55 - r"] by simp
    then have "length (sha_pad msg) = 64 * Suc q" using len True by simp
    then show ?thesis by (metis mod_mult_self1_is_0)
  next
    case False
    then have "(119 - r) mod 64 = 119 - r" using qr by simp
    then have "length (sha_pad msg) = 64 * Suc (Suc q)" using len False qr by simp
    then show ?thesis by (metis mod_mult_self1_is_0)
  qed
qed

section \<open>SHA-256\<close>

text \<open>
  The round constants: the first 32 bits of the fractional parts of the cube roots of the first 64
  primes. The cube root of \<open>p\<close> in units of \<open>2^-32\<close> is the integer cube root of \<open>p * 2^96\<close>, found bit
  by bit; conversion to a word drops the integer part.
\<close>

fun cube_root :: "nat \<Rightarrow> nat \<Rightarrow> nat \<Rightarrow> nat" where
  "cube_root 0 r x = r"
| "cube_root (Suc k) r x = cube_root k (if (r + 2 ^ k) ^ 3 \<le> x then r + 2 ^ k else r) x"

definition small_primes :: "nat list" where
  "small_primes = filter (\<lambda>n. list_all (\<lambda>d. n mod d \<noteq> 0) [2..<n]) [2..<312]"

definition sha256_K :: "32 word list" where
  "sha256_K = map (\<lambda>p. of_nat (cube_root 36 0 (p * 2 ^ 96))) small_primes"

definition sha256_H0 :: "32 word list" where
  "sha256_H0 =
    [0x6a09e667, 0xbb67ae85, 0x3c6ef372, 0xa54ff53a, 0x510e527f, 0x9b05688c, 0x1f83d9ab, 0x5be0cd19]"

definition sha256_schedule :: "32 word list \<Rightarrow> 32 word list" where
  "sha256_schedule ws =
     fold (\<lambda>t ws.
        let x = ws ! (t - 15); y = ws ! (t - 2);
            s0 = word_rotr 7 x XOR word_rotr 18 x XOR drop_bit 3 x;
            s1 = word_rotr 17 y XOR word_rotr 19 y XOR drop_bit 10 y
        in ws @ [s1 + ws ! (t - 7) + s0 + ws ! (t - 16)]) [16..<64] ws"

definition sha256_round :: "32 word list \<Rightarrow> nat \<Rightarrow> 32 word list \<Rightarrow> 32 word list" where
  "sha256_round ws t h =
     (let a = h ! 0; b = h ! 1; c = h ! 2; d = h ! 3; e = h ! 4; f = h ! 5; g = h ! 6;
          s1 = word_rotr 6 e XOR word_rotr 11 e XOR word_rotr 25 e;
          ch = (e AND f) XOR (NOT e AND g);
          t1 = h ! 7 + s1 + ch + sha256_K ! t + ws ! t;
          s0 = word_rotr 2 a XOR word_rotr 13 a XOR word_rotr 22 a;
          maj = (a AND b) XOR (a AND c) XOR (b AND c)
      in [t1 + s0 + maj, a, b, c, d + t1, e, f, g])"

definition sha256_block :: "string \<Rightarrow> 32 word list \<Rightarrow> 32 word list" where
  "sha256_block blk h =
     (let ws = sha256_schedule (map be_word (chunks 4 blk))
      in map2 (+) h (fold (sha256_round ws) [0..<64] h))"

definition sha256 :: "string \<Rightarrow> string" where
  "sha256 msg =
     concat (map (\<lambda>w. be_bytes 4 (unat w)) (fold sha256_block (chunks 64 (sha_pad msg)) sha256_H0))"

section \<open>SHA-1\<close>

definition sha1_H0 :: "32 word list" where
  "sha1_H0 = [0x67452301, 0xefcdab89, 0x98badcfe, 0x10325476, 0xc3d2e1f0]"

definition sha1_schedule :: "32 word list \<Rightarrow> 32 word list" where
  "sha1_schedule ws =
     fold (\<lambda>t ws. ws @ [word_rotl 1 (ws ! (t - 3) XOR ws ! (t - 8) XOR ws ! (t - 14) XOR ws ! (t - 16))])
       [16..<80] ws"

definition sha1_round :: "32 word list \<Rightarrow> nat \<Rightarrow> 32 word list \<Rightarrow> 32 word list" where
  "sha1_round ws t h =
     (let a = h ! 0; b = h ! 1; c = h ! 2; d = h ! 3;
          (f, k) = (if t < 20 then ((b AND c) OR (NOT b AND d), 0x5a827999)
                    else if t < 40 then (b XOR c XOR d, 0x6ed9eba1)
                    else if t < 60 then ((b AND c) OR (b AND d) OR (c AND d), 0x8f1bbcdc)
                    else (b XOR c XOR d, 0xca62c1d6))
      in [word_rotl 5 a + f + h ! 4 + k + ws ! t, a, word_rotl 30 b, c, d])"

definition sha1_block :: "string \<Rightarrow> 32 word list \<Rightarrow> 32 word list" where
  "sha1_block blk h =
     (let ws = sha1_schedule (map be_word (chunks 4 blk))
      in map2 (+) h (fold (sha1_round ws) [0..<80] h))"

definition sha1 :: "string \<Rightarrow> string" where
  "sha1 msg =
     concat (map (\<lambda>w. be_bytes 4 (unat w)) (fold sha1_block (chunks 64 (sha_pad msg)) sha1_H0))"

section \<open>Digest lengths\<close>

lemma length_sha256_round [simp]: "length (sha256_round ws t h) = 8"
  by (simp add: sha256_round_def Let_def)

lemma length_sha1_round [simp]: "length (sha1_round ws t h) = 5"
  by (simp add: sha1_round_def Let_def)

lemma fold_keeps_length:
  assumes "\<And>x h. length h = n \<Longrightarrow> length (f x h) = n" "length h = n"
  shows "length (fold f xs h) = n"
  using assms(2) by (induction xs arbitrary: h) (auto simp: assms(1))

lemma length_sha256_block: "length h = 8 \<Longrightarrow> length (sha256_block blk h) = 8"
  by (simp add: sha256_block_def Let_def fold_keeps_length)

lemma length_sha1_block: "length h = 5 \<Longrightarrow> length (sha1_block blk h) = 5"
  by (simp add: sha1_block_def Let_def fold_keeps_length)

lemma length_sha256_state: "length (fold sha256_block bs sha256_H0) = 8"
  by (rule fold_keeps_length) (simp_all add: length_sha256_block sha256_H0_def)

lemma length_sha1_state: "length (fold sha1_block bs sha1_H0) = 5"
  by (rule fold_keeps_length) (simp_all add: length_sha1_block sha1_H0_def)

lemma length_concat_be_bytes: "length (concat (map (\<lambda>w. be_bytes 4 (f w)) ws)) = 4 * length ws"
  by (induction ws) auto

lemma length_sha256 [simp]: "length (sha256 msg) = 32"
  by (simp add: sha256_def length_concat_be_bytes length_sha256_state)

lemma length_sha1 [simp]: "length (sha1 msg) = 20"
  by (simp add: sha1_def length_concat_be_bytes length_sha1_state)

section \<open>UUID text\<close>

text \<open>\<open>(b & mask) | bits\<close> on one byte.\<close>

definition byte_bits :: "8 word \<Rightarrow> 8 word \<Rightarrow> char \<Rightarrow> char" where
  "byte_bits msk bits b = char_of (unat ((of_nat (of_char b) AND msk) OR bits))"

text \<open>Version nibble in byte 6, variant bits in byte 8.\<close>

definition stamp_uuid :: "8 word \<Rightarrow> string \<Rightarrow> string" where
  "stamp_uuid version h =
     (let h = h[6 := byte_bits 0x0f version (h ! 6)]
      in h[8 := byte_bits 0x3f 0x80 (h ! 8)])"

text \<open>\<open>fmt.Sprintf("%08x-%04x-%04x-%04x-%012x", h[0:4], h[4:6], h[6:8], h[8:10], h[10:16])\<close>\<close>

definition uuid_text :: "string \<Rightarrow> string" where
  "uuid_text h =
     hex_bytes (take 4 h) @ ''-'' @ hex_bytes (take 2 (drop 4 h)) @ ''-'' @
     hex_bytes (take 2 (drop 6 h)) @ ''-'' @ hex_bytes (take 2 (drop 8 h)) @ ''-'' @
     hex_bytes (take 6 (drop 10 h))"

text \<open>A run of \<open>n\<close> hex digits, then the rest.\<close>

definition hex_group :: "nat \<Rightarrow> string \<Rightarrow> bool" where
  "hex_group n s \<longleftrightarrow> length s = n \<and> list_all is_hex s"

text \<open>The anchored pattern of 8-4-4-4-12 hex digits.\<close>

definition uuid_shape :: "string \<Rightarrow> bool" where
  "uuid_shape s \<longleftrightarrow>
     length s = 36 \<and> hex_group 8 (take 8 s) \<and> s ! 8 = CHR ''-'' \<and>
     hex_group 4 (take 4 (drop 9 s)) \<and> s ! 13 = CHR ''-'' \<and>
     hex_group 4 (take 4 (drop 14 s)) \<and> s ! 18 = CHR ''-'' \<and>
     hex_group 4 (take 4 (drop 19 s)) \<and> s ! 23 = CHR ''-'' \<and>
     hex_group 12 (drop 24 s)"

lemma hex_group_hex_bytes: "length bs = n \<Longrightarrow> hex_group (2 * n) (hex_bytes bs)"
  using hex_bytes_lower [of bs] by (auto simp: hex_group_def list_all_iff is_hex_def)

lemma uuid_shapeI:
  assumes "hex_group 8 a" "hex_group 4 b" "hex_group 4 c" "hex_group 4 d" "hex_group 12 e"
  shows "uuid_shape (a @ ''-'' @ b @ ''-'' @ c @ ''-'' @ d @ ''-'' @ e)"
  using assms by (auto simp: uuid_shape_def hex_group_def nth_append)

lemma uuid_text_shape:
  assumes "16 \<le> length h"
  shows "uuid_shape (uuid_text h)"
  unfolding uuid_text_def
  using hex_group_hex_bytes [of "take 4 h" 4] hex_group_hex_bytes [of "take 2 (drop 4 h)" 2]
    hex_group_hex_bytes [of "take 2 (drop 6 h)" 2] hex_group_hex_bytes [of "take 2 (drop 8 h)" 2]
    hex_group_hex_bytes [of "take 6 (drop 10 h)" 6] assms
  by (intro uuid_shapeI) auto

text \<open>The version digit and the variant digit of a stamped UUID.\<close>

lemma of_char_byte_bits: "of_char (byte_bits m v b) = unat ((of_nat (of_char b) AND m) OR v)"
proof -
  have "unat w < 256" for w :: "8 word" using unsigned_less [of w] by simp
  then show ?thesis by (simp add: byte_bits_def)
qed

lemma unat_nibble: "unat (w :: 8 word) div 16 = unat (drop_bit 4 w)"
  unfolding unat_drop_bit_eq by (simp add: drop_bit_eq_div)

lemma byte_bits_version:
  "of_char (byte_bits 0x0f 0x50 b) div 16 = (5::nat)"
  "of_char (byte_bits 0x0f 0x40 b) div 16 = (4::nat)"
  by (simp_all add: of_char_byte_bits unat_nibble)

lemma word_and_3: "(w :: 8 word) AND 3 \<in> {0, 1, 2, 3}"
proof -
  have "w AND 3 = take_bit 2 w" by (simp add: take_bit_eq_mask mask_eq_exp_minus_1)
  moreover have "unat (take_bit 2 w) < 4"
    by (simp add: unsigned_take_bit_eq take_bit_nat_less_exp [of 2, simplified])
  ultimately have "unat (w AND 3) < 4" by simp
  then consider "unat (w AND 3) = unat (0 :: 8 word)" | "unat (w AND 3) = unat (1 :: 8 word)"
    | "unat (w AND 3) = unat (2 :: 8 word)" | "unat (w AND 3) = unat (3 :: 8 word)" by fastforce
  then show ?thesis by cases (auto simp only: word_unat_eq_iff [symmetric])
qed

lemma byte_bits_variant: "of_char (byte_bits 0x3f 0x80 b) div 16 \<in> {8::nat, 9, 10, 11}"
  using word_and_3 [of "drop_bit 4 (of_nat (of_char b))"] by (auto simp: of_char_byte_bits unat_nibble)

lemma hex_bytes_Cons: "hex_bytes (b # bs) = hex_digit (of_char b div 16) # hex_digit (of_char b mod 16) # hex_bytes bs"
  by (simp add: hex_bytes_def hex_byte_def)

lemma uuid_text_stamped:
  assumes "16 \<le> length h"
  shows "uuid_text (stamp_uuid v h) ! 14 = hex_digit (of_char (byte_bits 0x0f v (h ! 6)) div 16)"
    and "uuid_text (stamp_uuid v h) ! 19 = hex_digit (of_char (byte_bits 0x3f 0x80 (h ! 8)) div 16)"
proof -
  let ?s = "stamp_uuid v h"
  have l: "16 \<le> length ?s" using assms by (simp add: stamp_uuid_def Let_def)
  have n: "?s ! 6 = byte_bits 0x0f v (h ! 6)" "?s ! 8 = byte_bits 0x3f 0x80 (h ! 8)"
    using assms by (simp_all add: stamp_uuid_def Let_def)
  have "take 2 (drop 6 ?s) = ?s ! 6 # take 1 (drop 7 ?s)" "take 2 (drop 8 ?s) = ?s ! 8 # take 1 (drop 9 ?s)"
    using l by (simp_all add: numeral_2_eq_2 Cons_nth_drop_Suc [symmetric])
  then show "uuid_text ?s ! 14 = hex_digit (of_char (byte_bits 0x0f v (h ! 6)) div 16)"
    "uuid_text ?s ! 19 = hex_digit (of_char (byte_bits 0x3f 0x80 (h ! 8)) div 16)"
    using l by (simp_all add: uuid_text_def nth_append hex_bytes_Cons n min_absorb2)
qed

end
