(* ===== verification/Go_Json.thy ===== *)
theory Go_Json
  imports Go_Strings
begin

text \<open>
  Go values as \<open>encoding/json\<close> sees them, and \<open>json.Marshal\<close>.

  \<open>JMap\<close> is a \<open>map[string]any\<close> (marshalled with its keys sorted), \<open>JStruct\<close> a struct (marshalled in field
  order; a field dropped by \<open>omitempty\<close> is absent from the list). \<open>JInt\<close> is an integer value, \<open>JNum\<close> a
  \<open>float64\<close>, given by the text that \<open>json.Marshal\<close> writes for it. The main fact is that the text of a map
  does not depend on the map's iteration order, at any depth.
\<close>

datatype json =
    JNull
  | JBool bool
  | JInt int
  | JNum string
  | JStr string
  | JArr "json list"
  | JMap "(string \<times> json) list"
  | JStruct "(string \<times> json) list"

section \<open>Reading objects\<close>

text \<open>\<open>m, ok := v.(map[string]any)\<close>\<close>

definition as_map :: "json \<Rightarrow> (string \<times> json) list option" where
  "as_map v = (case v of JMap m \<Rightarrow> Some m | _ \<Rightarrow> None)"

text \<open>\<open>s, _ := m[k].(string)\<close>: the empty string when the key is missing or no string.\<close>

definition str_field :: "(string \<times> json) list \<Rightarrow> string \<Rightarrow> string" where
  "str_field m k = (case map_of m k of Some (JStr s) \<Rightarrow> s | _ \<Rightarrow> [])"

lemma as_map_simps [simp]:
  "as_map (JMap m) = Some m" "as_map JNull = None" "as_map (JBool b) = None"
  "as_map (JInt i) = None" "as_map (JStr s) = None" "as_map (JArr xs) = None"
  "as_map (JStruct m) = None" "as_map (JNum t) = None"
  by (simp_all add: as_map_def)

lemma as_map_Some: "as_map v = Some m \<longleftrightarrow> v = JMap m"
  by (cases v) auto

section \<open>String literals\<close>

text \<open>
  The number of bytes of the rune at the head of a byte string: None where \<open>utf8.DecodeRune\<close> answers
  \<open>(RuneError, 1)\<close>.
\<close>

definition cont_byte :: "nat \<Rightarrow> bool" where
  "cont_byte b \<longleftrightarrow> 0x80 \<le> b \<and> b \<le> 0xBF"

definition utf8_size :: "nat list \<Rightarrow> nat option" where
  "utf8_size bs =
     (case bs of
        [] \<Rightarrow> None
      | b0 # r \<Rightarrow>
          if b0 < 0x80 then Some 1
          else if 0xC2 \<le> b0 \<and> b0 \<le> 0xDF then
            (case r of b1 # _ \<Rightarrow> if cont_byte b1 then Some 2 else None | _ \<Rightarrow> None)
          else if 0xE0 \<le> b0 \<and> b0 \<le> 0xEF then
            (case r of b1 # b2 # _ \<Rightarrow>
               if (if b0 = 0xE0 then 0xA0 else 0x80) \<le> b1 \<and> b1 \<le> (if b0 = 0xED then 0x9F else 0xBF)
                 \<and> cont_byte b2 then Some 3 else None
             | _ \<Rightarrow> None)
          else if 0xF0 \<le> b0 \<and> b0 \<le> 0xF4 then
            (case r of b1 # b2 # b3 # _ \<Rightarrow>
               if (if b0 = 0xF0 then 0x90 else 0x80) \<le> b1 \<and> b1 \<le> (if b0 = 0xF4 then 0x8F else 0xBF)
                 \<and> cont_byte b2 \<and> cont_byte b3 then Some 4 else None
             | _ \<Rightarrow> None)
          else None)"

abbreviation backslash :: char where
  "backslash \<equiv> CHR 0x5C"

text \<open>
  A byte below \<open>utf8.RuneSelf\<close>. The flag \<open>html\<close> is on for \<open>json.Marshal\<close> and off for an encoder after
  \<open>SetEscapeHTML(false)\<close>.
\<close>

definition json_ascii :: "bool \<Rightarrow> char \<Rightarrow> string" where
  "json_ascii html c =
     (let n = of_char c :: nat in
      if c = backslash \<or> c = CHR 0x22 then [backslash, c]
      else if n = 8 then [backslash, CHR ''b'']
      else if n = 9 then [backslash, CHR ''t'']
      else if n = 10 then [backslash, CHR ''n'']
      else if n = 12 then [backslash, CHR ''f'']
      else if n = 13 then [backslash, CHR ''r'']
      else if n < 0x20 \<or> html \<and> (c = CHR ''<'' \<or> c = CHR ''>'' \<or> c = CHR ''&'')
        then backslash # ''u00'' @ hex_byte c
      else [c])"

text \<open>
  The body of a string literal: invalid UTF-8 becomes the escape of U+FFFD, the line separators U+2028 and U+2029
  are escaped, every other rune is copied.
\<close>

function json_escape :: "bool \<Rightarrow> string \<Rightarrow> string" where
  "json_escape html [] = []"
| "json_escape html (c # s) =
     (if (of_char c :: nat) < 0x80 then json_ascii html c @ json_escape html s
      else case utf8_size (map of_char (c # s)) of
             None \<Rightarrow> backslash # ''ufffd'' @ json_escape html s
           | Some n \<Rightarrow>
               (let rune = take n (c # s) in
                (if rune = [CHR 0xE2, CHR 0x80, CHR 0xA8] then backslash # ''u2028''
                 else if rune = [CHR 0xE2, CHR 0x80, CHR 0xA9] then backslash # ''u2029''
                 else rune)) @ json_escape html (drop (n - 1) s))"
  by pat_completeness auto
termination
  by (relation "measure (\<lambda>(_, s). length s)") auto

definition json_quote :: "bool \<Rightarrow> string \<Rightarrow> string" where
  "json_quote html s = CHR 0x22 # json_escape html s @ [CHR 0x22]"

section \<open>Marshalling\<close>

fun join_comma :: "string list \<Rightarrow> string" where
  "join_comma [] = []"
| "join_comma [x] = x"
| "join_comma (x # y # xs) = x @ '','' @ join_comma (y # xs)"

definition json_member :: "bool \<Rightarrow> string \<times> string \<Rightarrow> string" where
  "json_member html kv = json_quote html (fst kv) @ '':'' @ snd kv"

definition json_object :: "bool \<Rightarrow> (string \<times> string) list \<Rightarrow> string" where
  "json_object html kvs = ''{'' @ join_comma (map (json_member html) kvs) @ ''}''"

primrec json_encode :: "bool \<Rightarrow> json \<Rightarrow> string" where
  "json_encode html JNull = ''null''"
| "json_encode html (JBool b) = (if b then ''true'' else ''false'')"
| "json_encode html (JInt i) = int_dec i"
| "json_encode html (JNum t) = t"
| "json_encode html (JStr s) = json_quote html s"
| "json_encode html (JArr vs) = ''['' @ join_comma (map (json_encode html) vs) @ '']''"
| "json_encode html (JMap m) = json_object html (sort_key fst (map (map_prod id (json_encode html)) m))"
| "json_encode html (JStruct fs) = json_object html (map (map_prod id (json_encode html)) fs)"

abbreviation json_text :: "json \<Rightarrow> string" where
  "json_text \<equiv> json_encode True"

text \<open>
  \<open>json.Marshal\<close>. It fails only on values no \<open>json\<close> stands for (channels, functions, NaN, cycles), so the
  result is always a text.
\<close>

definition json_Marshal :: "json \<Rightarrow> string + string" where
  "json_Marshal v = Inr (json_text v)"

section \<open>Independence of the map order\<close>

text \<open>Equality of Go values: maps are compared as maps, not as lists.\<close>

inductive json_eq :: "json \<Rightarrow> json \<Rightarrow> bool" where
  eq_null: "json_eq JNull JNull"
| eq_bool: "json_eq (JBool b) (JBool b)"
| eq_int: "json_eq (JInt i) (JInt i)"
| eq_num: "json_eq (JNum t) (JNum t)"
| eq_str: "json_eq (JStr s) (JStr s)"
| eq_arr: "list_all2 json_eq xs ys \<Longrightarrow> json_eq (JArr xs) (JArr ys)"
| eq_map: "list_all2 (\<lambda>p q. fst p = fst q \<and> json_eq (snd p) (snd q)) m m' \<Longrightarrow>
     mset m' = mset m'' \<Longrightarrow> wf_map m \<Longrightarrow> json_eq (JMap m) (JMap m'')"
| eq_struct: "list_all2 (\<lambda>p q. fst p = fst q \<and> json_eq (snd p) (snd q)) m m' \<Longrightarrow>
     json_eq (JStruct m) (JStruct m')"

lemma fst_map_prod_id: "map fst (map (map_prod id f) m) = map fst m"
  by (induction m) auto

lemma json_text_members:
  "list_all2 (\<lambda>p q. fst p = fst q \<and> json_text (snd p) = json_text (snd q)) m m' \<Longrightarrow>
   map (map_prod id json_text) m = map (map_prod id json_text) m'"
  by (induction rule: list_all2_induct) (auto simp: map_prod_def split: prod.splits)

lemma json_text_map_perm:
  assumes "mset m = mset m'" "wf_map m"
  shows "json_text (JMap m) = json_text (JMap m')"
proof -
  have "mset (map (map_prod id json_text) m) = mset (map (map_prod id json_text) m')"
    using assms(1) by (metis mset_map)
  moreover have "distinct (map fst (map (map_prod id json_text) m))"
    using assms(2) by (simp only: fst_map_prod_id wf_map_def)
  ultimately have "sort_key fst (map (map_prod id json_text) m)
      = sort_key fst (map (map_prod id json_text) m')"
    by (rule sort_key_perm)
  then show ?thesis by simp
qed

lemma json_eq_text: "json_eq v w \<Longrightarrow> json_text v = json_text w"
proof (induction rule: json_eq.induct)
  case (eq_arr xs ys)
  have "map json_text xs = map json_text ys"
    using eq_arr by (induction rule: list_all2_induct) auto
  then show ?case by simp
next
  case (eq_map m m' m'')
  have tx: "map (map_prod id json_text) m = map (map_prod id json_text) m'"
    using eq_map(1) by (intro json_text_members) (auto elim: list_all2_mono)
  have "map fst m = map fst m'"
    using eq_map(1) by (induction rule: list_all2_induct) auto
  then have "wf_map m'" using eq_map(3) by (simp add: wf_map_def)
  then have "json_text (JMap m') = json_text (JMap m'')"
    by (rule json_text_map_perm [OF eq_map(2)])
  then show ?case using tx by simp
next
  case (eq_struct m m')
  have "map (map_prod id json_text) m = map (map_prod id json_text) m'"
    using eq_struct by (intro json_text_members) (auto elim: list_all2_mono)
  then show ?case by simp
qed auto

end
