(* ===== verification/Config_Engine.thy ===== *)
theory Config_Engine
  imports Api_Types Go_Crypto Go_Json "HOL-Library.Product_Lexorder"
begin

text \<open>
  The configuration engine, \<open>src/internal/configengine/engine.go\<close>, in the order of the source: the
  input collected for one node, the derivation of per-protocol credentials, the builders of inbounds,
  outbounds and route rules, and \<open>Compute\<close>, which assembles and marshals the node's sing-box configuration.

  Pointers of the input that the code never checks are values, the elements of the policy and external
  outbound slices, which it checks for nil, are options. The entries of \<open>[]any\<close> are \<open>json\<close> values, a
  \<open>map[string]any\<close> is \<open>JMap\<close>.
\<close>

section \<open>Input and configuration\<close>

abbreviation relayContainerPort :: int where
  "relayContainerPort \<equiv> 10808"

definition EffectiveRelayPort :: "SingBoxNode \<Rightarrow> int" where
  "EffectiveRelayPort node =
     (if RelayPort (nodeSpec node) > 0 then RelayPort (nodeSpec node) else relayContainerPort)"

record UserCredential =
  UUID :: string

record NodeCredential =
  Username :: string
  Password :: string

type_synonym ExternalCredential = "(string, string) gomap"

record Input =
  inNode :: SingBoxNode
  inUsers :: "User list"
  inUserCreds :: "(string, UserCredential) gomap"
  inOutboundNodes :: "SingBoxNode list"
  inRoutes :: "CustomRoute list"
  inEgressPolicies :: "EgressPolicy option list"
  inNodeCreds :: "(string, NodeCredential) gomap"
  inOutboundNodesByName :: "(string, SingBoxNode) gomap"
  inExternalOutbounds :: "ExternalOutbound option list"
  inExternalOutboundsByName :: "(string, ExternalOutbound) gomap"
  inExternalCreds :: "(string, ExternalCredential) gomap"
  inUsageCollectionEnabled :: bool
  inV2RayAPIListenAddr :: string
  inUserNodeRestrictions :: "(string, names) gomap"
  inUserNodeAllowlist :: "(string, names) gomap"

record Output =
  Config :: string
  Hash :: string

record routeRule =
  rrInbound :: "string list"
  rrAuthUser :: "string list"
  rrDomain :: "string list"
  rrDomainSuffix :: "string list"
  rrDomainRegex :: "string list"
  rrIPCIDR :: "string list"
  rrRuleSet :: "string list"
  rrAction :: string
  rrOutbound :: string

record routeConfig =
  Rules :: "routeRule list"
  Final :: string

record v2rayStatsConfig =
  Enabled :: bool
  statsUsers :: "string list"

record v2rayAPIConfig =
  Listen :: string
  Stats :: v2rayStatsConfig

record experimentalConfig =
  V2RayAPI :: "v2rayAPIConfig option"

record logConfig =
  Level :: string

record singboxConfig =
  Log :: logConfig
  Inbounds :: "json list"
  Outbounds :: "json list"
  Route :: routeConfig
  Experimental :: "experimentalConfig option"

text \<open>The zero values of the map elements the engine reads.\<close>

abbreviation noUserCred :: UserCredential where
  "noUserCred \<equiv> \<lparr>UUID = []\<rparr>"

abbreviation noNodeCred :: NodeCredential where
  "noNodeCred \<equiv> \<lparr>Username = [], Password = []\<rparr>"

abbreviation noRule :: routeRule where
  "noRule \<equiv> \<lparr>rrInbound = [], rrAuthUser = [], rrDomain = [], rrDomainSuffix = [], rrDomainRegex = [],
     rrIPCIDR = [], rrRuleSet = [], rrAction = [], rrOutbound = []\<rparr>"

section \<open>Ports, roles and access lists\<close>

definition ComputeHash :: "string \<Rightarrow> string" where
  "ComputeHash config = hex_bytes (take 8 (sha256 config))"

definition ExtractNodePorts :: "SingBoxNode \<Rightarrow> int list" where
  "ExtractNodePorts node =
     map Port (SupportedProtocols (nodeSpec node)) @
     (if hasRole node ProxyRoleOutbound then [EffectiveRelayPort node] else [])"

definition IsNodeAllowed :: "string \<Rightarrow> names \<Rightarrow> names \<Rightarrow> bool" where
  "IsNodeAllowed nodeName allowedNodes deniedNodes =
     (if has_name deniedNodes nodeName then False
      else if length allowedNodes = 0 then True
      else has_name allowedNodes nodeName)"

text \<open>The call of \<open>IsNodeAllowed\<close> with the two sets of one user.\<close>

definition userAllowed :: "Input \<Rightarrow> User \<Rightarrow> string \<Rightarrow> bool" where
  "userAllowed input user nodeName =
     IsNodeAllowed nodeName (go_get [] (inUserNodeAllowlist input) (Name user))
       (go_get [] (inUserNodeRestrictions input) (Name user))"

text \<open>
  What the callers of \<open>IsNodeAllowed\<close> rely on: a denied name is refused, an empty list of allowed names
  restricts nothing, a non-empty one admits exactly its members.
\<close>

locale access_list =
  fixes allows :: "string \<Rightarrow> names \<Rightarrow> names \<Rightarrow> bool"
  assumes deny_wins: "has_name dn n \<Longrightarrow> \<not> allows n al dn"
    and no_list: "\<not> has_name dn n \<Longrightarrow> allows n [] dn"
    and listed: "\<not> has_name dn n \<Longrightarrow> al \<noteq> [] \<Longrightarrow> allows n al dn \<longleftrightarrow> has_name al n"
begin

lemma allows_iff: "allows n al dn \<longleftrightarrow> \<not> has_name dn n \<and> (al = [] \<or> has_name al n)"
  using deny_wins no_list listed by metis

lemma allows_sets: "allows n (name_set A) (name_set D) \<longleftrightarrow> n \<notin> set D \<and> (A = [] \<or> n \<in> set A)"
  by (auto simp: allows_iff)

lemma deny_antimono: "allows n al dn' \<Longrightarrow> (\<And>m. has_name dn m \<Longrightarrow> has_name dn' m) \<Longrightarrow> allows n al dn"
  by (auto simp: allows_iff)

end

interpretation acl: access_list IsNodeAllowed
  by unfold_locales (auto simp: IsNodeAllowed_def)

definition findProtocolPort :: "SingBoxNode \<Rightarrow> string \<Rightarrow> int" where
  "findProtocolPort node protocol =
     (case find (\<lambda>p. Protocol p = protocol) (SupportedProtocols (nodeSpec node)) of
        Some p \<Rightarrow> Port p
      | None \<Rightarrow> 0)"

definition EffectiveInboundProtocol :: "SingBoxNode \<Rightarrow> string" where
  "EffectiveInboundProtocol node =
     (if InboundProtocol (nodeSpec node) \<noteq> [] then InboundProtocol (nodeSpec node) else ''hysteria2'')"

fun somes :: "'a option list \<Rightarrow> 'a list" where
  "somes [] = []"
| "somes (None # xs) = somes xs"
| "somes (Some x # xs) = x # somes xs"

definition policyKey :: "EgressPolicy \<Rightarrow> int \<times> string" where
  "policyKey p = (Priority (policySpec p), Name p)"

definition policiesForNode :: "Input \<Rightarrow> EgressPolicy list" where
  "policiesForNode input = sort_key policyKey (somes (inEgressPolicies input))"

text \<open>
  \<open>sort.Slice\<close> promises no order of equal names; route names are unique in the one namespace the
  controller lists, where the sorted list is unique.
\<close>

definition routesForNode :: "Input \<Rightarrow> CustomRoute list" where
  "routesForNode input =
     sort_key Name (filter (\<lambda>r. InboundNode (routeSpec r) = Name (inNode input)) (inRoutes input))"

section \<open>Credential derivation\<close>

text \<open>
  The namespace bytes are zeros unless the base is the hex text of 16 bytes. Dropping dashes byte by
  byte is what the loop over runes does on valid UTF-8; a text with any other byte is no hex text
  either way.
\<close>

definition uuidNamespace :: "string \<Rightarrow> string" where
  "uuidNamespace baseUUID =
     (case hex_decode (filter (\<lambda>c. c \<noteq> CHR ''-'') baseUUID) of
        Some bs \<Rightarrow> if length bs = 16 then bs else replicate 16 (CHR 0x00)
      | None \<Rightarrow> replicate 16 (CHR 0x00))"

definition DeriveUUID :: "string \<Rightarrow> string \<Rightarrow> string" where
  "DeriveUUID baseUUID suffix = uuid_text (stamp_uuid 0x50 (sha1 (uuidNamespace baseUUID @ suffix)))"

definition virtualUserName :: "string \<Rightarrow> string \<Rightarrow> string" where
  "virtualUserName userName outboundNodeName = userName @ ''#'' @ outboundNodeName"

definition DerivePassword :: "string \<Rightarrow> string \<Rightarrow> string" where
  "DerivePassword baseUUID suffix = take 32 (hex_bytes (sha256 (baseUUID @ ''#'' @ suffix)))"

definition DeriveAuth :: "string \<Rightarrow> string \<Rightarrow> string \<Rightarrow> (string, json) gomap" where
  "DeriveAuth protocol uuid nodeName =
     (if protocol = ''hysteria2'' \<or> protocol = ''trojan'' then
        [(''password'', JStr (DerivePassword uuid nodeName))]
      else if protocol = ''vless'' then
        [(''uuid'', JStr (DeriveUUID uuid nodeName))]
      else if protocol = ''socks5'' then
        [(''username'', JStr uuid), (''password'', JStr (DerivePassword uuid nodeName))]
      else if protocol = ''http'' then
        [(''username'', JStr uuid), (''password'', JStr (DerivePassword uuid nodeName))]
      else if protocol = ''naive'' then
        [(''username'', JStr uuid), (''password'', JStr (DerivePassword uuid nodeName))]
      else if protocol = ''anytls'' then
        [(''password'', JStr (DerivePassword uuid nodeName))]
      else if protocol = ''tuic'' then
        [(''uuid'', JStr (DeriveUUID uuid nodeName)), (''password'', JStr (DerivePassword uuid nodeName))]
      else
        [(''password'', JStr (DerivePassword uuid nodeName))])"

text \<open>
  What the two sides of a login rely on. The node's inbound and the client's outbound are built from the
  same derived fields, each added to other fields: no derived field may hide one of those.
\<close>

abbreviation login_keys :: "string set" where
  "login_keys \<equiv> {''username'', ''password'', ''uuid''}"

locale login_scheme =
  fixes auth :: "string \<Rightarrow> string \<Rightarrow> string \<Rightarrow> (string, json) gomap"
  assumes one_per_key: "wf_map (auth p u t)"
    and auth_keys: "fst ` set (auth p u t) \<subseteq> login_keys"
begin

lemma auth_other: "k \<notin> login_keys \<Longrightarrow> map_of (auth p u t) k = None"
  using auth_keys [of p u t] by (auto simp: map_of_eq_None_iff)

lemma copy_other: "k \<notin> login_keys \<Longrightarrow> map_of (go_copy base (auth p u t)) k = map_of base k"
  using auth_other [of k p u t] by (simp add: map_of_go_copy [OF one_per_key])

lemma copy_login:
  "map_of base k = None \<Longrightarrow> map_of (go_copy base (auth p u t)) k = map_of (auth p u t) k"
  by (simp add: map_of_go_copy [OF one_per_key] split: option.splits)

end

interpretation lg: login_scheme DeriveAuth
  by unfold_locales (auto simp: DeriveAuth_def wf_map_def)

section \<open>External outbounds\<close>

definition externalNameCollidesWithNode :: "Input \<Rightarrow> string \<Rightarrow> bool" where
  "externalNameCollidesWithNode input name \<longleftrightarrow>
     name = Name (inNode input)
     \<or> map_of (inOutboundNodesByName input) name \<noteq> None
     \<or> (\<exists>n\<in>set (inOutboundNodes input). Name n = name)"

definition requiredCreds :: "ExternalCredential \<Rightarrow> string list \<Rightarrow> bool" where
  "requiredCreds creds keys \<longleftrightarrow> list_all (\<lambda>k. go_get [] creds k \<noteq> []) keys"

definition hasRequiredExternalCreds :: "ExternalOutbound \<Rightarrow> ExternalCredential \<Rightarrow> bool" where
  "hasRequiredExternalCreds eob creds =
     (let p = eobProtocol (eobSpec eob) in
      if p = ExternalProtocolShadowsocks then requiredCreds creds [CredKeyMethod, CredKeyPassword]
      else if p = ExternalProtocolTUIC then requiredCreds creds [CredKeyUUID, CredKeyPassword]
      else if (p = ExternalProtocolTrojan \<or> p = ExternalProtocolHysteria2 \<or> p = ExternalProtocolAnyTLS)
              \<and> \<not> requiredCreds creds [CredKeyPassword] then False
      else if p = ExternalProtocolHysteria2
              \<and> (case eobHysteria2 (eobSpec eob) of None \<Rightarrow> False | Some h \<Rightarrow> Obfs h)
              \<and> go_get [] creds CredKeyObfsPassword = [] then False
      else True)"

definition externalCreds :: "Input \<Rightarrow> string \<Rightarrow> ExternalCredential" where
  "externalCreds input name = go_get [] (inExternalCreds input) name"

text \<open>One call of the closure \<open>add\<close>: the accumulator is \<open>seen\<close> and \<open>result\<close>.\<close>

definition addExternal ::
    "Input \<Rightarrow> ExternalOutbound option \<Rightarrow> names \<times> ExternalOutbound list \<Rightarrow> names \<times> ExternalOutbound list" where
  "addExternal input e acc =
     (case e of
        None \<Rightarrow> acc
      | Some eob \<Rightarrow>
          if has_name (fst acc) (Name eob) then acc
          else (go_put (Name eob) True (fst acc),
                if externalNameCollidesWithNode input (Name eob) then snd acc
                else if \<not> hasRequiredExternalCreds eob (externalCreds input (Name eob)) then snd acc
                else snd acc @ [eob]))"

definition resolveExternalOutbounds :: "Input \<Rightarrow> CustomRoute list \<Rightarrow> ExternalOutbound list" where
  "resolveExternalOutbounds input myRoutes =
     (let acc = fold (addExternal input) (inExternalOutbounds input) ([], []);
          routed = map (\<lambda>r. map_of (inExternalOutboundsByName input) (OutboundNode (routeSpec r)))
                     (filter (\<lambda>r. EffectiveOutboundKind r = OutboundKindExternalOutbound) myRoutes)
      in snd (fold (addExternal input) routed acc))"

definition externalTLSEntry :: "ExternalOutboundTLS option \<Rightarrow> json" where
  "externalTLSEntry tls =
     JMap ([(''enabled'', JBool True)] @
       (case tls of
          None \<Rightarrow> []
        | Some t \<Rightarrow>
            (if ServerName t \<noteq> [] then [(''server_name'', JStr (ServerName t))] else []) @
            (if Insecure t then [(''insecure'', JBool True)] else [])))"

definition outboundTag :: "string \<Rightarrow> string" where
  "outboundTag name = ''outbound-'' @ name"

text \<open>\<open>if v := creds[k]; v != "" { entry[k] = v }\<close>\<close>

definition optCred :: "ExternalCredential \<Rightarrow> string \<Rightarrow> (string, json) gomap" where
  "optCred creds k = (if go_get [] creds k \<noteq> [] then [(k, JStr (go_get [] creds k))] else [])"

abbreviation credField :: "ExternalCredential \<Rightarrow> string \<Rightarrow> string \<times> json" where
  "credField creds k \<equiv> (k, JStr (go_get [] creds k))"

definition hysteria2Fields :: "Hysteria2Options option \<Rightarrow> ExternalCredential \<Rightarrow> (string, json) gomap" where
  "hysteria2Fields h creds =
     (case h of
        None \<Rightarrow> []
      | Some opts \<Rightarrow>
          (if UpMbps opts > 0 then [(''up_mbps'', JInt (UpMbps opts))] else []) @
          (if DownMbps opts > 0 then [(''down_mbps'', JInt (DownMbps opts))] else []) @
          (if Obfs opts then
             [(''obfs'', JMap [(''type'', JStr ''salamander''),
                               (''password'', JStr (go_get [] creds CredKeyObfsPassword))])]
           else []))"

definition externalFields :: "ExternalOutboundSpec \<Rightarrow> ExternalCredential \<Rightarrow> (string, json) gomap" where
  "externalFields spec creds =
     (let p = eobProtocol spec; tls = (''tls'', externalTLSEntry (eobTLS spec)) in
      if p = ExternalProtocolSocks5 then
        [(''type'', JStr ''socks''), (''version'', JStr ''5'')] @
        optCred creds CredKeyUsername @ optCred creds CredKeyPassword
      else if p = ExternalProtocolHTTP then
        [(''type'', JStr ''http'')] @ optCred creds CredKeyUsername @ optCred creds CredKeyPassword @
        (if eobTLS spec \<noteq> None then [tls] else [])
      else if p = ExternalProtocolShadowsocks then
        [(''type'', JStr ''shadowsocks''), credField creds CredKeyMethod, credField creds CredKeyPassword]
      else if p = ExternalProtocolTrojan then
        [(''type'', JStr ''trojan''), credField creds CredKeyPassword, tls]
      else if p = ExternalProtocolHysteria2 then
        [(''type'', JStr ''hysteria2''), credField creds CredKeyPassword] @
        hysteria2Fields (eobHysteria2 spec) creds @ [tls]
      else if p = ExternalProtocolTUIC then
        [(''type'', JStr ''tuic''), credField creds CredKeyUUID, credField creds CredKeyPassword, tls]
      else if p = ExternalProtocolAnyTLS then
        [(''type'', JStr ''anytls''), credField creds CredKeyPassword, tls]
      else [])"

definition buildExternalOutboundEntry :: "ExternalOutbound \<Rightarrow> ExternalCredential \<Rightarrow> json" where
  "buildExternalOutboundEntry eob creds =
     JMap ([(''tag'', JStr (outboundTag (Name eob))),
            (''server'', JStr (eobServer (eobSpec eob))),
            (''server_port'', JInt (eobPort (eobSpec eob)))] @ externalFields (eobSpec eob) creds)"

definition buildExternalOutbounds :: "Input \<Rightarrow> CustomRoute list \<Rightarrow> json list" where
  "buildExternalOutbounds input myRoutes =
     map (\<lambda>eob. buildExternalOutboundEntry eob (externalCreds input (Name eob)))
       (resolveExternalOutbounds input myRoutes)"

section \<open>Policies\<close>

definition resolvePolicyEgressName :: "ext \<Rightarrow> Input \<Rightarrow> EgressPolicy \<Rightarrow> string" where
  "resolvePolicyEgressName E input policy =
     (let sel = EgressSelector (policySpec policy);
          names = sort_names
            (map Name (filter (\<lambda>n. hasRole n ProxyRoleOutbound \<and> selectorMatches E sel n)
                         (map snd (inOutboundNodesByName input))) @
             map Name (filter (selectorMatches E sel) (map snd (inExternalOutboundsByName input))))
      in if length names \<noteq> 1 then [] else names ! 0)"

text \<open>\<open>name := policy.Status.ResolvedEgress; if name == "" { name = resolvePolicyEgressName(...) }\<close>\<close>

definition policyEgressName :: "ext \<Rightarrow> Input \<Rightarrow> EgressPolicy \<Rightarrow> string" where
  "policyEgressName E input policy =
     (if ResolvedEgress (policyStatus policy) = [] then resolvePolicyEgressName E input policy
      else ResolvedEgress (policyStatus policy))"

definition policyEgressAvailable :: "Input \<Rightarrow> string \<Rightarrow> bool" where
  "policyEgressAvailable input name =
     (case map_of (inOutboundNodesByName input) name of
        Some node \<Rightarrow> hasRole node ProxyRoleOutbound \<and> RelayPort (nodeSpec node) > 0
      | None \<Rightarrow>
          (case map_of (inExternalOutboundsByName input) name of
             Some eob \<Rightarrow> hasRequiredExternalCreds eob (externalCreds input name)
           | None \<Rightarrow> False))"

definition policyAuthUsers :: "Input \<Rightarrow> string \<Rightarrow> string list" where
  "policyAuthUsers input egressName =
     map (\<lambda>u. virtualUserName (Name u) egressName)
       (filter (\<lambda>u. userAllowed input u egressName) (inUsers input))"

definition policyMatchFields :: "string \<Rightarrow> EgressPolicyMatch \<Rightarrow> routeRule" where
  "policyMatchFields inboundTag m =
     noRule\<lparr>rrInbound := [inboundTag], rrDomain := matchDomain m, rrDomainSuffix := DomainSuffix m,
       rrDomainRegex := DomainRegex m, rrIPCIDR := IPCIDR m, rrRuleSet := RuleSet m\<rparr>"

definition inboundTagFor :: "SingBoxNode \<Rightarrow> string" where
  "inboundTagFor node = ''inbound-'' @ EffectiveInboundProtocol node"

text \<open>The rules one iteration of \<open>buildPolicyRules\<close> appends.\<close>

definition policyRules :: "ext \<Rightarrow> Input \<Rightarrow> EgressPolicy \<Rightarrow> routeRule list" where
  "policyRules E input policy =
     (let spec = policySpec policy;
          rule = policyMatchFields (inboundTagFor (inNode input)) (Match spec);
          name = policyEgressName E input policy;
          fallback =
            (if Action spec = EgressPolicyActionRoute \<and> FallbackAction spec = EgressPolicyActionReject
                \<and> name \<noteq> [] \<and> policyEgressAvailable input name \<and> length (policyAuthUsers input name) > 0
             then [noRule\<lparr>rrAuthUser := policyAuthUsers input name, rrAction := EgressPolicyActionReject\<rparr>]
             else [])
      in if Action spec = EgressPolicyActionReject
         then rule\<lparr>rrAction := EgressPolicyActionReject\<rparr> # fallback
         else if name = [] \<or> \<not> policyEgressAvailable input name then []
         else rule\<lparr>rrOutbound := outboundTag name\<rparr> # fallback)"

definition buildPolicyRules :: "ext \<Rightarrow> Input \<Rightarrow> EgressPolicy list \<Rightarrow> routeRule list" where
  "buildPolicyRules E input policies = concat (map (policyRules E input) policies)"

definition relayOutbound :: "Input \<Rightarrow> string \<Rightarrow> SingBoxNode \<Rightarrow> json" where
  "relayOutbound input name node =
     (let cred = go_get noNodeCred (inNodeCreds input) name in
      JMap [(''type'', JStr ''socks''), (''tag'', JStr (outboundTag name)),
            (''server'', JStr (Address (nodeSpec node))),
            (''server_port'', JInt (RelayPort (nodeSpec node))),
            (''username'', JStr (Username cred)), (''password'', JStr (Password cred))])"

text \<open>The entries for one policy target that has not been seen before.\<close>

definition policyOutbound :: "Input \<Rightarrow> string \<Rightarrow> json list" where
  "policyOutbound input name =
     (case map_of (inOutboundNodesByName input) name of
        Some node \<Rightarrow>
          if RelayPort (nodeSpec node) = 0 then [] else [relayOutbound input name node]
      | None \<Rightarrow>
          (case map_of (inExternalOutboundsByName input) name of
             Some eob \<Rightarrow>
               if hasRequiredExternalCreds eob (externalCreds input name)
               then [buildExternalOutboundEntry eob (externalCreds input name)] else []
           | None \<Rightarrow> []))"

fun policyOutboundsLoop :: "ext \<Rightarrow> Input \<Rightarrow> names \<Rightarrow> EgressPolicy list \<Rightarrow> json list" where
  "policyOutboundsLoop E input seen [] = []"
| "policyOutboundsLoop E input seen (policy # policies) =
     (let name = policyEgressName E input policy in
      if Action (policySpec policy) \<noteq> EgressPolicyActionRoute then
        policyOutboundsLoop E input seen policies
      else if name = [] \<or> has_name seen name then policyOutboundsLoop E input seen policies
      else policyOutbound input name @ policyOutboundsLoop E input (go_put name True seen) policies)"

definition buildPolicyOutbounds :: "ext \<Rightarrow> Input \<Rightarrow> EgressPolicy list \<Rightarrow> json list" where
  "buildPolicyOutbounds E input policies = policyOutboundsLoop E input [] policies"

section \<open>Inbounds and outbounds\<close>

text \<open>
  The outbound names that receive virtual users: relay peers, relay targets of routes, available
  policy targets, the node itself and the usable external outbounds, first occurrences only.
\<close>

definition peerNames :: "Input \<Rightarrow> string list" where
  "peerNames input = map Name (filter (\<lambda>n. RelayPort (nodeSpec n) \<noteq> 0) (inOutboundNodes input))"

definition routeNames :: "Input \<Rightarrow> CustomRoute list \<Rightarrow> string list" where
  "routeNames input routes =
     map (\<lambda>r. OutboundNode (routeSpec r))
       (filter (\<lambda>r. EffectiveOutboundKind r = OutboundKindSingBoxNode
          \<and> (case map_of (inOutboundNodesByName input) (OutboundNode (routeSpec r)) of
               None \<Rightarrow> False
             | Some outNode \<Rightarrow> RelayPort (nodeSpec outNode) \<noteq> 0)) routes)"

definition policyNames :: "ext \<Rightarrow> Input \<Rightarrow> string list" where
  "policyNames E input =
     map (policyEgressName E input)
       (filter (\<lambda>p. Action (policySpec p) = EgressPolicyActionRoute
          \<and> policyEgressName E input p \<noteq> [] \<and> policyEgressAvailable input (policyEgressName E input p))
          (somes (inEgressPolicies input)))"

definition routeOutboundNames :: "ext \<Rightarrow> Input \<Rightarrow> CustomRoute list \<Rightarrow> bool \<Rightarrow> string list" where
  "routeOutboundNames E input routes includeSelf =
     snd (fold add_name (map Name (resolveExternalOutbounds input routes))
       (fold add_name (if includeSelf then [Name (inNode input)] else [])
         (fold add_name (policyNames E input)
           (fold add_name (routeNames input routes)
             (fold add_name (peerNames input) ([], []))))))"

text \<open>The user entry of an inbound: the derived credentials and the name under which the user logs in.\<close>

definition userEntry :: "string \<Rightarrow> string \<Rightarrow> string \<Rightarrow> string \<Rightarrow> (string, json) gomap" where
  "userEntry proto uuid nodeName name =
     (let auth = DeriveAuth proto uuid nodeName in
      if proto = ''naive'' then go_put ''username'' (JStr name) auth
      else go_put ''name'' (JStr name) auth)"

definition buildInboundEntry :: "string \<Rightarrow> string \<Rightarrow> int \<Rightarrow> (string, json) gomap list \<Rightarrow> json" where
  "buildInboundEntry protocol tag port users =
     JMap ([(''type'', JStr (if protocol = ''socks5'' then ''socks'' else protocol)),
            (''tag'', JStr tag), (''listen'', JStr ''::''), (''listen_port'', JInt port),
            (''users'', JArr (map JMap users))] @
       (if protocol = ''hysteria2'' \<or> protocol = ''naive'' \<or> protocol = ''anytls'' \<or> protocol = ''tuic''
        then [(''tls'', JMap [(''enabled'', JBool True),
                              (''certificate_path'', JStr ''/etc/sing-box/tls/tls.crt''),
                              (''key_path'', JStr ''/etc/sing-box/tls/tls.key'')])]
        else []))"

definition userUUID :: "Input \<Rightarrow> User \<Rightarrow> string" where
  "userUUID input user = UUID (go_get noUserCred (inUserCreds input) (Name user))"

definition allowedUsers :: "Input \<Rightarrow> string \<Rightarrow> User list" where
  "allowedUsers input nodeName = filter (\<lambda>u. userAllowed input u nodeName) (inUsers input)"

definition virtualUsers :: "Input \<Rightarrow> string \<Rightarrow> string list \<Rightarrow> (string, json) gomap list" where
  "virtualUsers input proto outboundNames =
     concat (map (\<lambda>n. map (\<lambda>u. userEntry proto (userUUID input u) n (virtualUserName (Name u) n))
                        (allowedUsers input n)) outboundNames)"

definition authUsers :: "Input \<Rightarrow> string \<Rightarrow> string list" where
  "authUsers input nodeName = map (\<lambda>u. virtualUserName (Name u) nodeName) (allowedUsers input nodeName)"

definition authRules :: "Input \<Rightarrow> string list \<Rightarrow> routeRule list" where
  "authRules input outboundNames =
     map (\<lambda>n. noRule\<lparr>rrAuthUser := authUsers input n, rrOutbound := outboundTag n\<rparr>)
       (filter (\<lambda>n. length (authUsers input n) > 0) outboundNames)"

definition buildRouteInbounds ::
    "ext \<Rightarrow> Input \<Rightarrow> CustomRoute list \<Rightarrow> bool \<Rightarrow> json list \<times> routeRule list" where
  "buildRouteInbounds E input routes includeSelf =
     (let outboundNames = routeOutboundNames E input routes includeSelf;
          proto = EffectiveInboundProtocol (inNode input);
          port = findProtocolPort (inNode input) proto;
          users = virtualUsers input proto outboundNames;
          inbounds = (if port \<noteq> 0 \<and> length users > 0
                      then [buildInboundEntry proto (''inbound-'' @ proto) port users] else [])
      in (inbounds, authRules input outboundNames))"

definition buildUsersBlock :: "Input \<Rightarrow> string \<Rightarrow> string \<Rightarrow> (string, json) gomap list" where
  "buildUsersBlock input protocol nodeName =
     map (\<lambda>u. userEntry protocol (userUUID input u) nodeName (Name u)) (inUsers input)"

definition buildUserInbounds :: "Input \<Rightarrow> json list" where
  "buildUserInbounds input =
     (let proto = EffectiveInboundProtocol (inNode input);
          port = findProtocolPort (inNode input) proto;
          users = buildUsersBlock input proto (Name (inNode input))
      in if port = 0 then [] else if length users = 0 then []
         else [buildInboundEntry proto (''inbound-'' @ proto) port users])"

definition buildRelayInbound :: "Input \<Rightarrow> json" where
  "buildRelayInbound input =
     (let cred = go_get noNodeCred (inNodeCreds input) (Name (inNode input)) in
      JMap [(''type'', JStr ''socks''), (''tag'', JStr ''relay-socks5''), (''listen'', JStr ''::''),
            (''listen_port'', JInt (EffectiveRelayPort (inNode input))),
            (''users'', JArr [JMap [(''username'', JStr (Username cred)),
                                    (''password'', JStr (Password cred))]])])"

text \<open>The two binding guards the outbound builders repeat.\<close>

definition bindingAllows :: "SingBoxNode \<Rightarrow> SingBoxNode \<Rightarrow> bool" where
  "bindingAllows node outNode \<longleftrightarrow>
     admits (AllowedInbounds (nodeSpec outNode)) (Name node)
     \<and> admits (AllowedOutbounds (nodeSpec node)) (Name outNode)"

definition buildOutboundNodeOutbounds :: "Input \<Rightarrow> CustomRoute list \<Rightarrow> json list" where
  "buildOutboundNodeOutbounds input myRoutes =
     (let routedNodes = name_set (map (\<lambda>r. OutboundNode (routeSpec r)) myRoutes) in
      map (\<lambda>n. relayOutbound input (Name n) n)
        (filter (\<lambda>n. \<not> has_name routedNodes (Name n) \<and> bindingAllows (inNode input) n
                      \<and> RelayPort (nodeSpec n) \<noteq> 0) (inOutboundNodes input)))"

definition allDenied :: "Input \<Rightarrow> string \<Rightarrow> bool" where
  "allDenied input nodeName \<longleftrightarrow>
     length (inUsers input) > 0 \<and> list_all (\<lambda>u. \<not> userAllowed input u nodeName) (inUsers input)"

definition routeOutbound :: "Input \<Rightarrow> CustomRoute \<Rightarrow> json list" where
  "routeOutbound input route =
     (case map_of (inOutboundNodesByName input) (OutboundNode (routeSpec route)) of
        None \<Rightarrow> []
      | Some outNode \<Rightarrow>
          if RelayPort (nodeSpec outNode) = 0 then []
          else if \<not> bindingAllows (inNode input) outNode then []
          else if allDenied input (Name outNode) then []
          else [relayOutbound input (Name outNode) outNode])"

definition buildRouteOutbounds :: "Input \<Rightarrow> CustomRoute list \<Rightarrow> json list" where
  "buildRouteOutbounds input myRoutes = concat (map (routeOutbound input) myRoutes)"

definition directOutbound :: "string \<Rightarrow> json" where
  "directOutbound tag = JMap [(''type'', JStr ''direct''), (''tag'', JStr tag)]"

definition buildDirectOutbound :: json where
  "buildDirectOutbound = directOutbound ''direct''"

text \<open>\<open>m, ok := ob.(map[string]any)\<close> and \<open>tag, _ := m["tag"].(string)\<close>\<close>

definition obTag :: "json \<Rightarrow> string option" where
  "obTag ob = (case as_map ob of None \<Rightarrow> None | Some m \<Rightarrow> Some (str_field m ''tag''))"

fun dedupLoop :: "names \<Rightarrow> json list \<Rightarrow> json list" where
  "dedupLoop seen [] = []"
| "dedupLoop seen (ob # obs) =
     (case obTag ob of
        None \<Rightarrow> ob # dedupLoop seen obs
      | Some tag \<Rightarrow>
          if \<not> has_name seen tag then ob # dedupLoop (go_put tag True seen) obs
          else dedupLoop seen obs)"

definition deduplicateByTag :: "json list \<Rightarrow> json list" where
  "deduplicateByTag outbounds = dedupLoop [] outbounds"

fun routeFinal :: "json list \<Rightarrow> string" where
  "routeFinal [] = ''direct''"
| "routeFinal (ob # obs) =
     (case obTag ob of
        None \<Rightarrow> routeFinal obs
      | Some tag \<Rightarrow> if tag \<noteq> ''direct'' \<and> tag \<noteq> [] then tag else routeFinal obs)"

section \<open>Traffic statistics\<close>

definition statsOutboundNames :: "Input \<Rightarrow> string list" where
  "statsOutboundNames input =
     (let myRoutes = routesForNode input;
          self = (if hasRole (inNode input) ProxyRoleInbound \<and> hasRole (inNode input) ProxyRoleOutbound
                  then [Name (inNode input)] else [])
      in snd (fold add_name (map Name (resolveExternalOutbounds input myRoutes))
           (fold add_name self
             (fold add_name (routeNames input myRoutes)
               (fold add_name (peerNames input) ([], []))))))"

definition statsUserSet :: "Input \<Rightarrow> names" where
  "statsUserSet input =
     name_set (concat (map (\<lambda>n. map (\<lambda>u. virtualUserName (Name u) n) (inUsers input))
       (statsOutboundNames input)))"

definition buildExperimentalConfig :: "Input \<Rightarrow> experimentalConfig" where
  "buildExperimentalConfig input =
     \<lparr>V2RayAPI = Some
        \<lparr>Listen = (if inV2RayAPIListenAddr input = [] then ''0.0.0.0:10085''
                    else inV2RayAPIListenAddr input),
          Stats = \<lparr>Enabled = True, statsUsers = sort_names (map fst (statsUserSet input))\<rparr>\<rparr>\<rparr>"

section \<open>Compute\<close>

definition selfAllowed :: "SingBoxNode \<Rightarrow> bool" where
  "selfAllowed node \<longleftrightarrow>
     length (AllowedOutbounds (nodeSpec node)) = 0 \<or> Name node \<in> set (AllowedOutbounds (nodeSpec node))"

text \<open>The inbounds and the auth-user rules of an inbound node.\<close>

definition inboundSide :: "ext \<Rightarrow> Input \<Rightarrow> json list \<times> routeRule list" where
  "inboundSide E input =
     (let node = inNode input;
          isSelfOutbound = (hasRole node ProxyRoleInbound \<and> hasRole node ProxyRoleOutbound);
          myRoutes = routesForNode input;
          myPolicies = policiesForNode input;
          hasOutboundPeers =
            (length (inOutboundNodes input) > 0 \<or> length myRoutes > 0 \<or> length myPolicies > 0
             \<or> isSelfOutbound \<or> length (resolveExternalOutbounds input myRoutes) > 0)
      in if length myPolicies > 0 then
           (let (ibs, rls) = buildRouteInbounds E input myRoutes isSelfOutbound
            in (if length ibs = 0 then buildUserInbounds input else ibs, rls))
         else if hasOutboundPeers then buildRouteInbounds E input myRoutes isSelfOutbound
         else (buildUserInbounds input, []))"

text \<open>The outbounds of an inbound node, before the direct outbound and deduplication.\<close>

definition outboundSide :: "ext \<Rightarrow> Input \<Rightarrow> json list" where
  "outboundSide E input =
     (let node = inNode input;
          myRoutes = routesForNode input
      in buildOutboundNodeOutbounds input myRoutes @ buildRouteOutbounds input myRoutes @
         buildExternalOutbounds input myRoutes @ buildPolicyOutbounds E input (policiesForNode input) @
         (if hasRole node ProxyRoleInbound \<and> hasRole node ProxyRoleOutbound \<and> selfAllowed node
          then [directOutbound (outboundTag (Name node))] else []))"

definition computeConfig :: "ext \<Rightarrow> Input \<Rightarrow> singboxConfig" where
  "computeConfig E input =
     (let node = inNode input;
          isInbound = hasRole node ProxyRoleInbound;
          isOutbound = hasRole node ProxyRoleOutbound;
          (ibs, rls) = (if isInbound then inboundSide E input else ([], []));
          rules = buildPolicyRules E input (policiesForNode input) @ rls;
          inbounds = ibs @ (if isOutbound then [buildRelayInbound input] else []);
          outbounds = deduplicateByTag ((if isInbound then outboundSide E input else []) @
                                        [buildDirectOutbound])
      in \<lparr>Log = \<lparr>Level = ''info''\<rparr>, Inbounds = inbounds, Outbounds = outbounds,
          Route = \<lparr>Rules = rules,
                   Final = (if length rules > 0 then ''direct'' else routeFinal outbounds)\<rparr>,
          Experimental = (if inUsageCollectionEnabled input then Some (buildExperimentalConfig input)
                          else None)\<rparr>)"

section \<open>Marshalling the configuration\<close>

text \<open>A slice with \<open>omitempty\<close> is left out when empty; a nil slice without it is \<open>null\<close>.\<close>

definition omitStrs :: "string \<Rightarrow> string list \<Rightarrow> (string \<times> json) list" where
  "omitStrs k xs = (if xs = [] then [] else [(k, JArr (map JStr xs))])"

definition omitStr :: "string \<Rightarrow> string \<Rightarrow> (string \<times> json) list" where
  "omitStr k s = (if s = [] then [] else [(k, JStr s)])"

definition ruleJson :: "routeRule \<Rightarrow> json" where
  "ruleJson r = JStruct (omitStrs ''inbound'' (rrInbound r) @ omitStrs ''auth_user'' (rrAuthUser r) @
     omitStrs ''domain'' (rrDomain r) @ omitStrs ''domain_suffix'' (rrDomainSuffix r) @
     omitStrs ''domain_regex'' (rrDomainRegex r) @ omitStrs ''ip_cidr'' (rrIPCIDR r) @
     omitStrs ''rule_set'' (rrRuleSet r) @ omitStr ''action'' (rrAction r) @
     omitStr ''outbound'' (rrOutbound r))"

definition routeJson :: "routeConfig \<Rightarrow> json" where
  "routeJson r = JStruct ((if Rules r = [] then [] else [(''rules'', JArr (map ruleJson (Rules r)))]) @
     [(''final'', JStr (Final r))])"

definition v2rayJson :: "v2rayAPIConfig \<Rightarrow> json" where
  "v2rayJson c = JStruct [(''listen'', JStr (Listen c)),
     (''stats'', JStruct [(''enabled'', JBool (Enabled (Stats c))),
        (''users'', if statsUsers (Stats c) = [] then JNull
                    else JArr (map JStr (statsUsers (Stats c))))])]"

definition experimentalJson :: "experimentalConfig \<Rightarrow> json" where
  "experimentalJson e = JStruct (case V2RayAPI e of None \<Rightarrow> [] | Some c \<Rightarrow> [(''v2ray_api'', v2rayJson c)])"

definition configJson :: "singboxConfig \<Rightarrow> json" where
  "configJson cfg = JStruct ([(''log'', JStruct [(''level'', JStr (Level (Log cfg)))]),
     (''inbounds'', JArr (Inbounds cfg)), (''outbounds'', JArr (Outbounds cfg)),
     (''route'', routeJson (Route cfg))] @
     (case Experimental cfg of None \<Rightarrow> [] | Some e \<Rightarrow> [(''experimental'', experimentalJson e)]))"

definition Compute :: "ext \<Rightarrow> Input \<Rightarrow> string + Output" where
  "Compute E input =
     (case json_Marshal (configJson (computeConfig E input)) of
        Inl err \<Rightarrow> Inl (''marshal config: '' @ err)
      | Inr bytes \<Rightarrow> Inr \<lparr>Config = bytes, Hash = ComputeHash bytes\<rparr>)"

end
