(* ===== verification/Fixtures.thy ===== *)
theory Fixtures
  imports Config_Engine
begin

text \<open>
  Concrete resources for the witnesses: builders of metadata, nodes, users, policies and inputs, and an
  instance of the external functions. The label selector of \<open>demoExt\<close> is the matchLabels part of
  Kubernetes' (all listed pairs are labels of the object, an expression is an error).
\<close>

definition demoExt :: ext where
  "demoExt =
     \<lparr>asSelector = (\<lambda>ml es. if es = [] then Inr (\<lambda>ls. list_all (\<lambda>(k, v). map_of ls k = Some v) ml)
                             else Inl ''unsupported''),
      regexpCompile = (\<lambda>s. if s = ''('' then Some ''missing closing )'' else None),
      isDNS1123 = (\<lambda>s. if s = [] then [''empty''] else []),
      setStatusCondition = putCondition\<rparr>"

definition mkSpec :: "string list \<Rightarrow> ProtocolConfig list \<Rightarrow> int \<Rightarrow> SingBoxNodeSpec" where
  "mkSpec roles protos relay =
     \<lparr>NodeRef = ''host'', Address = ''10.0.0.1'', Region = ''eu'', ClientGroups = [], Roles = roles,
      SupportedProtocols = protos, InboundProtocol = [], RelayPort = relay, AllowedInbounds = [],
      AllowedOutbounds = [], Tag = [], TLSSecretName = [], Resources = None\<rparr>"

definition mkStatus :: SingBoxNodeStatus where
  "mkStatus = \<lparr>Phase = [], ConfigHash = [], EntryEndpoints = [], TLSServerName = [],
     nodeConditions = [], nodeObservedGeneration = 0\<rparr>"

definition mkNode :: "string \<Rightarrow> SingBoxNodeSpec \<Rightarrow> SingBoxNode" where
  "mkNode n spec =
     \<lparr>Name = n, Namespace = ''ns'', Labels = [], Annotations = [], Generation = 1, Finalizers = [],
      Deleting = False, OwnerReferences = [], nodeSpec = spec, nodeStatus = mkStatus\<rparr>"

definition hy2 :: ProtocolConfig where
  "hy2 = \<lparr>Protocol = ''hysteria2'', Port = 30443\<rparr>"

definition entryNode :: SingBoxNode where
  "entryNode = mkNode ''entry'' (mkSpec [''inbound''] [hy2] 0)"

definition exitNode :: SingBoxNode where
  "exitNode = mkNode ''exit'' (mkSpec [''outbound''] [] 30808)"

definition mkUser :: "string \<Rightarrow> string \<Rightarrow> User" where
  "mkUser n grp =
     \<lparr>Name = n, Namespace = ''ns'', Labels = [], Annotations = [], Generation = 1, Finalizers = [],
      Deleting = False, OwnerReferences = [],
      userSpec = \<lparr>AuthSecret = \<lparr>secretName = n, secretNamespace = []\<rparr>, UserGroupRef = grp\<rparr>,
      userStatus = \<lparr>ActiveNodeCount = 0, ActiveNodes = [], userConditions = [], userObservedGeneration = 0\<rparr>\<rparr>"

definition anySel :: EgressPolicySelector where
  "anySel = \<lparr>MatchLabels = [], MatchExpressions = [], MatchNames = []\<rparr>"

definition noMatch :: EgressPolicyMatch where
  "noMatch = \<lparr>matchDomain = [], DomainSuffix = [], DomainRegex = [], IPCIDR = [], RuleSet = []\<rparr>"

definition mkPolicy :: "string \<Rightarrow> string list \<Rightarrow> string \<Rightarrow> int \<Rightarrow> EgressPolicy" where
  "mkPolicy n egress action prio =
     \<lparr>Name = n, Namespace = ''ns'', Labels = [], Annotations = [], Generation = 1, Finalizers = [],
      Deleting = False, OwnerReferences = [],
      policySpec = \<lparr>IngressSelector = anySel, EgressSelector = anySel\<lparr>MatchNames := egress\<rparr>,
        Match = noMatch\<lparr>DomainSuffix := [''example.com'']\<rparr>, Action = action, Priority = prio,
        FallbackAction = []\<rparr>,
      policyStatus = \<lparr>ResolvedIngresses = [], ResolvedEgress = [], policyConditions = [],
        policyObservedGeneration = 0\<rparr>\<rparr>"

definition mkExternal :: "string \<Rightarrow> string \<Rightarrow> ExternalOutbound" where
  "mkExternal n proto =
     \<lparr>Name = n, Namespace = ''ns'', Labels = [], Annotations = [], Generation = 1, Finalizers = [],
      Deleting = False, OwnerReferences = [],
      eobSpec = \<lparr>eobProtocol = proto, eobServer = ''proxy.example'', eobPort = 443,
        CredentialsSecretRef = None, eobTLS = None, eobHysteria2 = None, eobRegion = ''eu'',
        eobClientGroups = [], eobAllowedInbounds = []\<rparr>,
      eobStatus = \<lparr>eobConditions = [], eobObservedGeneration = 0\<rparr>\<rparr>"

definition mkInput :: "SingBoxNode \<Rightarrow> Input" where
  "mkInput node =
     \<lparr>inNode = node, inUsers = [], inUserCreds = [], inOutboundNodes = [], inRoutes = [],
      inEgressPolicies = [], inNodeCreds = [], inOutboundNodesByName = [], inExternalOutbounds = [],
      inExternalOutboundsByName = [], inExternalCreds = [], inUsageCollectionEnabled = False,
      inV2RayAPIListenAddr = [], inUserNodeRestrictions = [], inUserNodeAllowlist = []\<rparr>"

text \<open>One entry node, one exit peer, two users (one denied the exit), one policy to the exit.\<close>

definition demoInput :: Input where
  "demoInput = (mkInput entryNode)
     \<lparr>inUsers := [mkUser ''alice'' [], mkUser ''bob'' ''g''],
      inUserCreds := [(''alice'', \<lparr>UUID = ''u1''\<rparr>), (''bob'', \<lparr>UUID = ''u2''\<rparr>)],
      inOutboundNodes := [exitNode], inOutboundNodesByName := [(''exit'', exitNode)],
      inNodeCreds := [(''exit'', \<lparr>Username = ''x'', Password = ''y''\<rparr>)],
      inEgressPolicies := [Some (mkPolicy ''p'' [''exit''] EgressPolicyActionRoute 1)],
      inUserNodeRestrictions := [(''bob'', [(''exit'', True)])]\<rparr>"

lemma demoExt_conditions: "conditions_law demoExt"
  by (simp add: conditions_law_def demoExt_def)

lemmas fixture_defs = demoExt_def mkSpec_def mkStatus_def mkNode_def hy2_def entryNode_def exitNode_def
  mkUser_def anySel_def noMatch_def mkPolicy_def mkExternal_def mkInput_def demoInput_def

end
