(* ===== verification/Demo_Cluster.thy ===== *)
theory Demo_Cluster
  imports Kube Fixtures
begin

text \<open>
  A concrete API server for the witnesses: the cluster is one list of objects per kind, reads search by
  namespace and name, an update replaces the object, a create appends it, a delete removes it.
\<close>

record cluster =
  clNodes :: "SingBoxNode list"
  clUsers :: "User list"
  clGroups :: "UserGroup list"
  clExternals :: "ExternalOutbound list"
  clPolicies :: "EgressPolicy list"
  clSecrets :: "Secret list"
  clConfigMaps :: "ConfigMap list"
  clPods :: "Pod list"
  clServices :: "Service list"
  clK8sNodes :: "K8sNode list"

definition sameKey :: "'a ObjectMeta_scheme \<Rightarrow> 'b ObjectMeta_scheme \<Rightarrow> bool" where
  "sameKey a b \<longleftrightarrow> Namespace a = Namespace b \<and> Name a = Name b"

definition getObj :: "string \<Rightarrow> string \<Rightarrow> 'a ObjectMeta_scheme list \<Rightarrow> apiError + 'a ObjectMeta_scheme" where
  "getObj ns n xs =
     (case find (\<lambda>x. Namespace x = ns \<and> Name x = n) xs of
        Some x \<Rightarrow> Inr x
      | None \<Rightarrow> Inl \<lparr>errReason = NotFound, errText = n @ '' not found''\<rparr>)"

definition listObj :: "string \<Rightarrow> 'a ObjectMeta_scheme list \<Rightarrow> apiError + 'a ObjectMeta_scheme list" where
  "listObj ns xs = Inr (filter (\<lambda>x. Namespace x = ns) xs)"

definition putObj :: "'a ObjectMeta_scheme \<Rightarrow> 'a ObjectMeta_scheme list \<Rightarrow> 'a ObjectMeta_scheme list" where
  "putObj x xs = map (\<lambda>y. if sameKey x y then x else y) xs"

definition dropObj :: "'a ObjectMeta_scheme \<Rightarrow> 'a ObjectMeta_scheme list \<Rightarrow> 'a ObjectMeta_scheme list" where
  "dropObj x xs = filter (\<lambda>y. \<not> sameKey x y) xs"

definition nodeOwner :: "SingBoxNode \<Rightarrow> OwnerReference" where
  "nodeOwner node = \<lparr>ownerKind = ''SingBoxNode'', ownerName = Name node\<rparr>"

definition demoCreateOrUpdate ::
    "string \<Rightarrow> string \<Rightarrow> (ConfigMap \<Rightarrow> apiError + ConfigMap) \<Rightarrow> cluster \<Rightarrow> apiError option \<times> cluster" where
  "demoCreateOrUpdate ns n f s =
     (case getObj ns n (clConfigMaps s) of
        Inr cm \<Rightarrow>
          (case f cm of Inl e \<Rightarrow> (Some e, s) | Inr cm' \<Rightarrow> (None, s\<lparr>clConfigMaps := putObj cm' (clConfigMaps s)\<rparr>))
      | Inl _ \<Rightarrow>
          (case f (ObjectMeta.extend (newMeta ns n) (ConfigMap.fields [])) of
             Inl e \<Rightarrow> (Some e, s)
           | Inr cm' \<Rightarrow> (None, s\<lparr>clConfigMaps := clConfigMaps s @ [cm']\<rparr>)))"

definition demoKube :: "cluster kube" where
  "demoKube =
     \<lparr>getNode = (\<lambda>ns n s. getObj ns n (clNodes s)),
      listNodes = (\<lambda>ns s. listObj ns (clNodes s)),
      listNodesByRef = (\<lambda>ref s. Inr (filter (\<lambda>n. NodeRef (nodeSpec n) = ref) (clNodes s))),
      updateNode = (\<lambda>x s. (None, s\<lparr>clNodes := putObj x (clNodes s)\<rparr>)),
      updateNodeStatus = (\<lambda>x s. (None, s\<lparr>clNodes := putObj x (clNodes s)\<rparr>)),
      getUser = (\<lambda>ns n s. getObj ns n (clUsers s)),
      listUsers = (\<lambda>ns s. listObj ns (clUsers s)),
      updateUserStatus = (\<lambda>x s. (None, s\<lparr>clUsers := putObj x (clUsers s)\<rparr>)),
      patchUser = (\<lambda>x s. (None, s\<lparr>clUsers := putObj x (clUsers s)\<rparr>)),
      getUserGroup = (\<lambda>ns n s. getObj ns n (clGroups s)),
      getExternalOutbound = (\<lambda>ns n s. getObj ns n (clExternals s)),
      listExternalOutbounds = (\<lambda>ns s. listObj ns (clExternals s)),
      updateExternalOutboundStatus = (\<lambda>x s. (None, s\<lparr>clExternals := putObj x (clExternals s)\<rparr>)),
      getPolicy = (\<lambda>ns n s. getObj ns n (clPolicies s)),
      listPolicies = (\<lambda>ns s. listObj ns (clPolicies s)),
      updatePolicyStatus = (\<lambda>x s. (None, s\<lparr>clPolicies := putObj x (clPolicies s)\<rparr>)),
      getSecret = (\<lambda>ns n s. getObj ns n (clSecrets s)),
      createSecret = (\<lambda>x s. (None, s\<lparr>clSecrets := clSecrets s @ [x]\<rparr>)),
      getK8sNode = (\<lambda>n s. getObj [] n (clK8sNodes s)),
      getPod = (\<lambda>ns n s. getObj ns n (clPods s)),
      createPod = (\<lambda>x s. (None, s\<lparr>clPods := clPods s @ [x]\<rparr>)),
      deletePod = (\<lambda>x s. (None, s\<lparr>clPods := dropObj x (clPods s)\<rparr>)),
      listServices = (\<lambda>ns s. listObj ns (clServices s)),
      deleteService = (\<lambda>x s. (None, s\<lparr>clServices := dropObj x (clServices s)\<rparr>)),
      setControllerReference = (\<lambda>node refs. Inr (refs @ [nodeOwner node])),
      getConfigMap = (\<lambda>ns n s. getObj ns n (clConfigMaps s)),
      createOrUpdateConfigMap = demoCreateOrUpdate\<rparr>"

definition emptyCluster :: cluster where
  "emptyCluster = \<lparr>clNodes = [], clUsers = [], clGroups = [], clExternals = [], clPolicies = [],
     clSecrets = [], clConfigMaps = [], clPods = [], clServices = [], clK8sNodes = []\<rparr>"

lemmas cluster_defs = demoKube_def emptyCluster_def getObj_def listObj_def putObj_def dropObj_def sameKey_def
  nodeOwner_def

end
