(* ===== verification/Egress_Policy.thy ===== *)
theory Egress_Policy
  imports Demo_Cluster
begin

text \<open>
  Resolution of egress policies, \<open>src/internal/controller/egresspolicy_helpers.go\<close>, and the policy
  reconciler, \<open>src/internal/controller/egresspolicy_controller.go\<close>. The timestamp of the reconcile
  trigger is an argument. Metrics are not modelled: the deferred function only observes.
\<close>

section \<open>Helpers\<close>

definition egressCandidates ::
    "ext \<Rightarrow> EgressPolicy \<Rightarrow> SingBoxNode list \<Rightarrow> ExternalOutbound list \<Rightarrow> string list" where
  "egressCandidates E policy nodes outbounds =
     map Name (filter (\<lambda>n. hasRole n ProxyRoleOutbound \<and> selectorMatches E (EgressSelector (policySpec policy)) n) nodes) @
     map Name (filter (selectorMatches E (EgressSelector (policySpec policy))) outbounds)"

definition notUniqueMessage :: "nat \<Rightarrow> string" where
  "notUniqueMessage k = ''egressSelector matched '' @ nat_dec k @ '' egress targets, expected exactly one''"

definition resolveEgressPolicy ::
    "ext \<Rightarrow> EgressPolicy \<Rightarrow> SingBoxNode list \<Rightarrow> ExternalOutbound list \<Rightarrow> string list \<times> string \<times> string" where
  "resolveEgressPolicy E policy nodes outbounds =
     (let spec = policySpec policy in
      case matchValid E (Match spec) (FallbackAction spec \<noteq> []) of
        Some err \<Rightarrow> ([], [], err)
      | None \<Rightarrow>
          if Action spec \<noteq> EgressPolicyActionRoute \<and> Action spec \<noteq> EgressPolicyActionReject
          then ([], [], ''unsupported action '' @ go_quote (Action spec))
          else if Action spec = EgressPolicyActionReject then ([], [], [])
          else
            (let names = egressCandidates E policy nodes outbounds in
             if length names = 0 then (names, [], [])
             else if length names \<noteq> 1 then (names, [], notUniqueMessage (length names))
             else (names, names ! 0, [])))"

definition findOutboundNode :: "SingBoxNode list \<Rightarrow> string \<Rightarrow> SingBoxNode option" where
  "findOutboundNode nodes name = find (\<lambda>n. Name n = name \<and> hasRole n ProxyRoleOutbound) nodes"

definition findExternalOutbound :: "ExternalOutbound list \<Rightarrow> string \<Rightarrow> ExternalOutbound option" where
  "findExternalOutbound outbounds name = find (\<lambda>e. Name e = name) outbounds"

definition egressConnectedToInbound ::
    "SingBoxNode \<Rightarrow> string \<Rightarrow> SingBoxNode list \<Rightarrow> ExternalOutbound list \<Rightarrow> bool" where
  "egressConnectedToInbound inbound name nodes outbounds =
     (case findOutboundNode nodes name of
        Some target \<Rightarrow>
          if Name target = Name inbound then hasRole inbound ProxyRoleOutbound
          else Region (nodeSpec target) = Region (nodeSpec inbound)
            \<and> admits (AllowedInbounds (nodeSpec target)) (Name inbound)
            \<and> admits (AllowedOutbounds (nodeSpec inbound)) (Name target)
      | None \<Rightarrow>
          (case findExternalOutbound outbounds name of
             Some target \<Rightarrow>
               \<not> (eobRegion (eobSpec target) = [] \<or> eobRegion (eobSpec target) \<noteq> Region (nodeSpec inbound))
               \<and> admits (eobAllowedInbounds (eobSpec target)) (Name inbound)
               \<and> admits (AllowedOutbounds (nodeSpec inbound)) (Name target)
           | None \<Rightarrow> False))"

section \<open>Reconciler\<close>

definition ingressCandidates :: "ext \<Rightarrow> EgressPolicy \<Rightarrow> SingBoxNode list \<Rightarrow> string list" where
  "ingressCandidates E policy nodes =
     map Name (filter (\<lambda>n. hasRole n ProxyRoleInbound \<and> selectorMatches E (IngressSelector (policySpec policy)) n) nodes)"

definition validatePolicyResolution ::
    "ext \<Rightarrow> EgressPolicy \<Rightarrow> string list \<Rightarrow> string list \<Rightarrow> string \<times> string" where
  "validatePolicyResolution E policy ingressNames egressNames =
     (let spec = policySpec policy in
      case selectorValid E (IngressSelector spec) of
        Some e \<Rightarrow> (''InvalidIngressSelector'', e)
      | None \<Rightarrow>
      (case selectorValid E (EgressSelector spec) of
        Some e \<Rightarrow> (''InvalidEgressSelector'', e)
      | None \<Rightarrow>
      (case matchValid E (Match spec) (FallbackAction spec \<noteq> []) of
        Some e \<Rightarrow> (''InvalidMatch'', e)
      | None \<Rightarrow>
        if Action spec \<noteq> EgressPolicyActionRoute \<and> Action spec \<noteq> EgressPolicyActionReject
        then (''InvalidAction'', ''unsupported action '' @ go_quote (Action spec))
        else if length ingressNames = 0
        then (''IngressNotFound'', ''ingressSelector matched no inbound SingBoxNode'')
        else if FallbackAction spec \<noteq> [] \<and> FallbackAction spec \<noteq> EgressPolicyActionReject
        then (''InvalidFallbackAction'', ''unsupported fallbackAction '' @ go_quote (FallbackAction spec))
        else if Action spec = EgressPolicyActionRoute \<and> length egressNames = 0
        then (''EgressNotFound'', ''egressSelector matched no egress targets; policy is inactive'')
        else if Action spec = EgressPolicyActionRoute \<and> length egressNames \<noteq> 1
        then (''EgressNotUnique'', notUniqueMessage (length egressNames))
        else ([], []))))"

abbreviation EgressPolicyReadyConditionType :: string where
  "EgressPolicyReadyConditionType \<equiv> ''Ready''"

abbreviation EgressPolicyDegradedConditionType :: string where
  "EgressPolicyDegradedConditionType \<equiv> ''Degraded''"

definition mkCondition :: "string \<Rightarrow> ConditionStatus \<Rightarrow> string \<Rightarrow> string \<Rightarrow> int \<Rightarrow> Condition" where
  "mkCondition t st rsn msg gen =
     \<lparr>condType = t, condStatus = st, condReason = rsn, condMessage = msg, condObservedGeneration = gen\<rparr>"

text \<open>The two conditions of \<open>updateStatus\<close> for a validation result, and the status it writes.\<close>

definition degradedCondition :: "string \<Rightarrow> string \<Rightarrow> int \<Rightarrow> Condition" where
  "degradedCondition rsn msg gen =
     (if rsn \<noteq> [] then
        mkCondition EgressPolicyDegradedConditionType
          (if rsn = ''EgressNotFound'' then CFalse else CTrue) rsn msg gen
      else mkCondition EgressPolicyDegradedConditionType CFalse ''Resolved''
             ''EgressPolicy selectors resolved'' gen)"

definition readyCondition :: "string \<Rightarrow> string \<Rightarrow> int \<Rightarrow> Condition" where
  "readyCondition rsn msg gen =
     (if rsn \<noteq> [] then mkCondition EgressPolicyReadyConditionType CFalse rsn msg gen
      else mkCondition EgressPolicyReadyConditionType CTrue ''Resolved''
             ''EgressPolicy resolved successfully'' gen)"

definition policyStatusFor ::
    "ext \<Rightarrow> EgressPolicy \<Rightarrow> string list \<Rightarrow> string list \<Rightarrow> string \<Rightarrow> string \<Rightarrow> EgressPolicyStatus" where
  "policyStatusFor E latest ingressNames egressNames rsn msg =
     (policyStatus latest)
       \<lparr>ResolvedIngresses := ingressNames,
        ResolvedEgress := (if length egressNames = 1 then egressNames ! 0 else []),
        policyObservedGeneration := Generation latest,
        policyConditions :=
          setStatusCondition E
            (setStatusCondition E (policyConditions (policyStatus latest))
              (degradedCondition rsn msg (Generation latest)))
            (readyCondition rsn msg (Generation latest))\<rparr>"

definition policyUpdateStatus ::
    "ext \<Rightarrow> 's kube \<Rightarrow> EgressPolicy \<Rightarrow> string list \<Rightarrow> string list \<Rightarrow> string \<Rightarrow> string \<Rightarrow> 's \<Rightarrow>
     apiError option \<times> 's" where
  "policyUpdateStatus E K policy ingressNames egressNames rsn msg s =
     (case getPolicy K (Namespace policy) (Name policy) s of
        Inl e \<Rightarrow> (Some e, s)
      | Inr latest \<Rightarrow>
          (let st = policyStatusFor E latest ingressNames egressNames rsn msg in
           if policyStatus latest = st then (None, s)
           else updatePolicyStatus K (latest\<lparr>policyStatus := st\<rparr>) s))"

abbreviation reconcileTrigger :: string where
  "reconcileTrigger \<equiv> ''singboxoperator.shlande.top/reconcile-trigger''"

definition triggerNodeReconcile ::
    "'s kube \<Rightarrow> string \<Rightarrow> string \<Rightarrow> string \<Rightarrow> 's \<Rightarrow> apiError option \<times> 's" where
  "triggerNodeReconcile K now ns name s =
     (case getNode K ns name s of
        Inl e \<Rightarrow> (Some e, s)
      | Inr node \<Rightarrow> updateNode K (node\<lparr>Annotations := go_put reconcileTrigger now (Annotations node)\<rparr>) s)"

fun triggerAll :: "'s kube \<Rightarrow> string \<Rightarrow> string \<Rightarrow> string list \<Rightarrow> 's \<Rightarrow> apiError option \<times> 's" where
  "triggerAll K now ns [] s = (None, s)"
| "triggerAll K now ns (name # names) s =
     (case triggerNodeReconcile K now ns name s of
        (Some e, s') \<Rightarrow> (Some e, s')
      | (None, s') \<Rightarrow> triggerAll K now ns names s')"

definition policyReconcile :: "ext \<Rightarrow> 's kube \<Rightarrow> string \<Rightarrow> Request \<Rightarrow> 's \<Rightarrow> outcome \<times> 's" where
  "policyReconcile E K now req s =
     (case getPolicy K (reqNamespace req) (reqName req) s of
        Inl e \<Rightarrow> ((emptyResult, if IsNotFound e then None else Some e), s)
      | Inr policy \<Rightarrow>
     (case listNodes K (Namespace policy) s of
        Inl e \<Rightarrow> ((emptyResult, Some e), s)
      | Inr nodes \<Rightarrow>
     (case listExternalOutbounds K (Namespace policy) s of
        Inl e \<Rightarrow> ((emptyResult, Some e), s)
      | Inr externals \<Rightarrow>
          (let ingressNames = sort_names (ingressCandidates E policy nodes);
               egressNames = sort_names (egressCandidates E policy nodes externals);
               (rsn, msg) = validatePolicyResolution E policy ingressNames egressNames
           in case policyUpdateStatus E K policy ingressNames egressNames rsn msg s of
                (Some e, s') \<Rightarrow> ((emptyResult, Some e), s')
              | (None, s') \<Rightarrow>
                  (case triggerAll K now (Namespace policy) ingressNames s' of
                     (e, s'') \<Rightarrow> ((emptyResult, e), s''))))))"

definition policyMapper :: "'s kube \<Rightarrow> string \<Rightarrow> 's \<Rightarrow> Request list" where
  "policyMapper K ns s = (case listPolicies K ns s of Inl _ \<Rightarrow> [] | Inr ps \<Rightarrow> map requestFor ps)"

section \<open>Resolution\<close>

lemma resolveEgressPolicy_name:
  assumes "resolveEgressPolicy E policy nodes outbounds = (cands, name, [])" "name \<noteq> []"
  shows "egressCandidates E policy nodes outbounds = [name] \<and> Action (policySpec policy) = EgressPolicyActionRoute"
proof -
  have "egressCandidates E policy nodes outbounds ! 0 = name" "length (egressCandidates E policy nodes outbounds) = 1"
    "Action (policySpec policy) = EgressPolicyActionRoute"
    using assms by (auto simp: resolveEgressPolicy_def Let_def split: option.splits if_splits)
  then show ?thesis by (cases "egressCandidates E policy nodes outbounds") auto
qed

lemma resolveEgressPolicy_action:
  "snd (snd (resolveEgressPolicy E policy nodes outbounds)) = [] \<Longrightarrow>
   matchValid E (Match (policySpec policy)) (FallbackAction (policySpec policy) \<noteq> []) \<noteq> Some []  \<Longrightarrow>
   Action (policySpec policy) = EgressPolicyActionRoute \<or> Action (policySpec policy) = EgressPolicyActionReject"
  by (auto simp: resolveEgressPolicy_def Let_def split: option.splits if_splits)

lemma candidate_source:
  assumes "name \<in> set (egressCandidates E policy nodes outbounds)"
  shows "findOutboundNode nodes name \<noteq> None \<or> findExternalOutbound outbounds name \<noteq> None"
  using assms by (auto simp: egressCandidates_def findOutboundNode_def findExternalOutbound_def find_None_iff)

section \<open>Properties\<close>



lemma condType_conditions [simp]:
  "condType (degradedCondition rsn msg gen) = EgressPolicyDegradedConditionType"
  "condType (readyCondition rsn msg gen) = EgressPolicyReadyConditionType"
  by (simp_all add: degradedCondition_def readyCondition_def mkCondition_def)

lemma policyStatusFor_conditions:
  assumes "conditions_law E"
  shows "findCondition EgressPolicyReadyConditionType (policyConditions (policyStatusFor E latest i e rsn msg)) =
      Some (readyCondition rsn msg (Generation latest))"
    and "findCondition EgressPolicyDegradedConditionType (policyConditions (policyStatusFor E latest i e rsn msg)) =
      Some (degradedCondition rsn msg (Generation latest))"
  using assms by (simp_all add: policyStatusFor_def conditions_law_def findCondition_put)

text \<open>C27. The conditions tell the truth: a policy is reported Ready exactly when validation finds nothing,
  it is Degraded exactly when validation finds something other than an unmatched egress selector, and the
  reported observed generation is the object's.\<close>

theorem policy_conditions_truthful:
  assumes "conditions_law E" "validatePolicyResolution E policy ings egs = (rsn, msg)"
    and "findCondition EgressPolicyReadyConditionType (policyConditions (policyStatusFor E latest ings egs rsn msg)) = Some r"
    and "findCondition EgressPolicyDegradedConditionType (policyConditions (policyStatusFor E latest ings egs rsn msg)) = Some d"
  shows "(condStatus r = CTrue \<longleftrightarrow> validatePolicyResolution E policy ings egs = ([], []))
    \<and> (condStatus d = CTrue \<longleftrightarrow> rsn \<notin> {[], ''EgressNotFound''})
    \<and> condObservedGeneration r = Generation latest \<and> condObservedGeneration d = Generation latest"
proof -
  have "rsn = [] \<Longrightarrow> msg = []"
    using assms(2) by (auto simp: validatePolicyResolution_def Let_def split: option.splits if_splits)
  then show ?thesis
    using assms(2-4) unfolding policyStatusFor_conditions [OF assms(1)]
    by (cases "rsn = []") (auto simp: readyCondition_def degradedCondition_def mkCondition_def split: if_splits)
qed

theorem policy_conditions_truthful_witness:
  "\<exists>r. findCondition EgressPolicyReadyConditionType (policyConditions
      (policyStatusFor demoExt (mkPolicy ''p'' [''exit''] EgressPolicyActionRoute 1) [''entry''] [''exit''] [] [])) = Some r
    \<and> condStatus r = CTrue"
proof -
  let ?p = "mkPolicy ''p'' [''exit''] EgressPolicyActionRoute 1"
  have v: "validatePolicyResolution demoExt ?p [''entry''] [''exit''] = ([], [])"
    by (simp add: validatePolicyResolution_def selectorValid_def matchValid_def matchEmpty_def fixture_defs Let_def)
  from policy_conditions_truthful [OF demoExt_conditions v
      policyStatusFor_conditions(1) [OF demoExt_conditions] policyStatusFor_conditions(2) [OF demoExt_conditions],
      of ?p]
  show ?thesis using v policyStatusFor_conditions(1) [OF demoExt_conditions] by blast
qed



end
