(* ===== verification/Config_Order.thy ===== *)
theory Config_Order
  imports Config_Engine
begin

text \<open>
  Go iterates a map in a random order. The engine's output must not depend on it, or every
  reconciliation would change the hash and restart the pod. Two inputs that differ only in the order of
  their maps are related by \<open>reordered\<close>; every function of the engine agrees on them.
\<close>

named_theorems reorder

definition map_perm :: "('k, 'v) gomap \<Rightarrow> ('k, 'v) gomap \<Rightarrow> bool" where
  "map_perm m m' \<longleftrightarrow> wf_map m \<and> mset m = mset m'"

definition reordered :: "Input \<Rightarrow> Input \<Rightarrow> bool" where
  "reordered a b \<longleftrightarrow>
     inNode a = inNode b \<and> inUsers a = inUsers b \<and> inOutboundNodes a = inOutboundNodes b
     \<and> inRoutes a = inRoutes b \<and> inEgressPolicies a = inEgressPolicies b
     \<and> inExternalOutbounds a = inExternalOutbounds b
     \<and> inUsageCollectionEnabled a = inUsageCollectionEnabled b
     \<and> inV2RayAPIListenAddr a = inV2RayAPIListenAddr b
     \<and> map_perm (inUserCreds a) (inUserCreds b) \<and> map_perm (inNodeCreds a) (inNodeCreds b)
     \<and> map_perm (inOutboundNodesByName a) (inOutboundNodesByName b)
     \<and> map_perm (inExternalOutboundsByName a) (inExternalOutboundsByName b)
     \<and> map_perm (inExternalCreds a) (inExternalCreds b)
     \<and> map_perm (inUserNodeRestrictions a) (inUserNodeRestrictions b)
     \<and> map_perm (inUserNodeAllowlist a) (inUserNodeAllowlist b)"

lemma map_perm_map_of: "map_perm m m' \<Longrightarrow> map_of m = map_of m'"
  by (simp add: map_perm_def map_of_perm)

lemma map_perm_go_get: "map_perm m m' \<Longrightarrow> go_get z m = go_get z m'"
  by (simp add: fun_eq_iff go_get_def map_perm_map_of)

lemma map_perm_values:
  "map_perm m m' \<Longrightarrow>
   mset (map f (filter P (map snd m))) = mset (map f (filter P (map snd m')))"
  by (simp add: map_perm_def)

lemma field_reorder [reorder]:
  assumes "reordered a b"
  shows "inNode a = inNode b" "inUsers a = inUsers b" "inOutboundNodes a = inOutboundNodes b"
    "inRoutes a = inRoutes b" "inEgressPolicies a = inEgressPolicies b"
    "inExternalOutbounds a = inExternalOutbounds b"
    "inUsageCollectionEnabled a = inUsageCollectionEnabled b"
    "inV2RayAPIListenAddr a = inV2RayAPIListenAddr b"
    "go_get c (inUserCreds a) = go_get c (inUserCreds b)"
    "go_get d (inNodeCreds a) = go_get d (inNodeCreds b)"
    "map_of (inOutboundNodesByName a) = map_of (inOutboundNodesByName b)"
    "map_of (inExternalOutboundsByName a) = map_of (inExternalOutboundsByName b)"
    "go_get e (inExternalCreds a) = go_get e (inExternalCreds b)"
    "go_get f (inUserNodeRestrictions a) = go_get f (inUserNodeRestrictions b)"
    "go_get f (inUserNodeAllowlist a) = go_get f (inUserNodeAllowlist b)"
  using assms by (simp_all add: reordered_def map_perm_map_of map_perm_go_get)

lemmas branch_cong = if_cong option.case_cong prod.case_cong

section \<open>Every function of the engine agrees on reordered inputs\<close>

lemma userAllowed_reorder [reorder]: "reordered a b \<Longrightarrow> userAllowed a = userAllowed b"
  by (simp add: fun_eq_iff userAllowed_def reorder)

lemma policiesForNode_reorder [reorder]: "reordered a b \<Longrightarrow> policiesForNode a = policiesForNode b"
  by (simp add: policiesForNode_def reorder)

lemma routesForNode_reorder [reorder]: "reordered a b \<Longrightarrow> routesForNode a = routesForNode b"
  by (simp add: routesForNode_def reorder)

lemma externalCreds_reorder [reorder]: "reordered a b \<Longrightarrow> externalCreds a = externalCreds b"
  by (simp add: fun_eq_iff externalCreds_def reorder)

lemma addExternal_reorder [reorder]: "reordered a b \<Longrightarrow> addExternal a = addExternal b"
  by (simp add: fun_eq_iff addExternal_def externalNameCollidesWithNode_def reorder split: option.split)

lemma resolveExternalOutbounds_reorder [reorder]:
  "reordered a b \<Longrightarrow> resolveExternalOutbounds a = resolveExternalOutbounds b"
  by (simp add: fun_eq_iff resolveExternalOutbounds_def reorder)

lemma buildExternalOutbounds_reorder [reorder]:
  "reordered a b \<Longrightarrow> buildExternalOutbounds a = buildExternalOutbounds b"
  by (simp add: fun_eq_iff buildExternalOutbounds_def reorder)

text \<open>The one place that iterates maps: the names are sorted before they are used.\<close>

lemma resolvePolicyEgressName_reorder [reorder]:
  assumes "reordered a b"
  shows "resolvePolicyEgressName E a = resolvePolicyEgressName E b"
proof
  fix p :: EgressPolicy
  let ?names = "\<lambda>i. map Name (filter (\<lambda>n. hasRole n ProxyRoleOutbound
        \<and> selectorMatches E (EgressSelector (policySpec p)) n) (map snd (inOutboundNodesByName i))) @
      map Name (filter (selectorMatches E (EgressSelector (policySpec p)))
        (map snd (inExternalOutboundsByName i)))"
  have "map_perm (inOutboundNodesByName a) (inOutboundNodesByName b)"
    "map_perm (inExternalOutboundsByName a) (inExternalOutboundsByName b)"
    using assms by (simp_all add: reordered_def)
  note p = this [THEN map_perm_values]
  have "mset (?names a) = mset (?names b)"
    unfolding mset_append by (intro arg_cong2 [where f = "(+)"] p)
  then have "sort_names (?names a) = sort_names (?names b)" by (rule sort_names_perm)
  then show "resolvePolicyEgressName E a p = resolvePolicyEgressName E b p"
    by (simp only: resolvePolicyEgressName_def Let_def)
qed

lemma policyEgressName_reorder [reorder]: "reordered a b \<Longrightarrow> policyEgressName E a = policyEgressName E b"
  by (simp add: fun_eq_iff policyEgressName_def reorder)

lemma policyEgressAvailable_reorder [reorder]:
  "reordered a b \<Longrightarrow> policyEgressAvailable a = policyEgressAvailable b"
  by (simp add: fun_eq_iff policyEgressAvailable_def reorder Let_def cong: branch_cong)

lemma policyAuthUsers_reorder [reorder]: "reordered a b \<Longrightarrow> policyAuthUsers a = policyAuthUsers b"
  by (simp add: fun_eq_iff policyAuthUsers_def reorder)

lemma policyRules_reorder [reorder]: "reordered a b \<Longrightarrow> policyRules E a = policyRules E b"
  by (simp add: fun_eq_iff policyRules_def reorder Let_def cong: branch_cong)

lemma buildPolicyRules_reorder [reorder]: "reordered a b \<Longrightarrow> buildPolicyRules E a = buildPolicyRules E b"
  by (simp add: fun_eq_iff buildPolicyRules_def reorder)

lemma relayOutbound_reorder [reorder]: "reordered a b \<Longrightarrow> relayOutbound a = relayOutbound b"
  by (simp add: fun_eq_iff relayOutbound_def reorder)

lemma policyOutbound_reorder [reorder]: "reordered a b \<Longrightarrow> policyOutbound a = policyOutbound b"
  by (simp add: fun_eq_iff policyOutbound_def reorder Let_def cong: branch_cong)

lemma policyOutboundsLoop_reorder [reorder]:
  "reordered a b \<Longrightarrow> policyOutboundsLoop E a seen ps = policyOutboundsLoop E b seen ps"
  by (induction ps arbitrary: seen) (simp_all add: reorder Let_def cong: branch_cong)

lemma names_reorder [reorder]:
  assumes "reordered a b"
  shows "peerNames a = peerNames b" "routeNames a = routeNames b" "policyNames E a = policyNames E b"
    "statsOutboundNames a = statsOutboundNames b"
  using assms by (simp_all add: fun_eq_iff peerNames_def routeNames_def policyNames_def
      statsOutboundNames_def reorder)

lemma routeOutboundNames_reorder [reorder]:
  "reordered a b \<Longrightarrow> routeOutboundNames E a = routeOutboundNames E b"
  by (simp add: fun_eq_iff routeOutboundNames_def reorder)

lemma users_reorder [reorder]:
  assumes "reordered a b"
  shows "userUUID a = userUUID b" "allowedUsers a = allowedUsers b"
  using assms by (simp_all add: fun_eq_iff userUUID_def allowedUsers_def reorder)

lemma virtualUsers_reorder [reorder]:
  assumes "reordered a b"
  shows "virtualUsers a = virtualUsers b" "authUsers a = authUsers b" "buildUsersBlock a = buildUsersBlock b"
  using assms by (simp_all add: fun_eq_iff virtualUsers_def authUsers_def buildUsersBlock_def reorder)

lemma inbounds_reorder [reorder]:
  assumes "reordered a b"
  shows "authRules a = authRules b" "buildUserInbounds a = buildUserInbounds b"
    "buildRelayInbound a = buildRelayInbound b"
  using assms by (simp_all add: fun_eq_iff authRules_def buildUserInbounds_def buildRelayInbound_def reorder)

lemma buildRouteInbounds_reorder [reorder]:
  "reordered a b \<Longrightarrow> buildRouteInbounds E a = buildRouteInbounds E b"
  by (simp add: fun_eq_iff buildRouteInbounds_def reorder)

lemma routeOutbound_reorder [reorder]: "reordered a b \<Longrightarrow> routeOutbound a = routeOutbound b"
  by (simp add: fun_eq_iff routeOutbound_def allDenied_def reorder Let_def cong: branch_cong)

lemma outbounds_reorder [reorder]:
  assumes "reordered a b"
  shows "buildOutboundNodeOutbounds a = buildOutboundNodeOutbounds b"
    "buildRouteOutbounds a = buildRouteOutbounds b" "buildPolicyOutbounds E a = buildPolicyOutbounds E b"
  using assms by (simp_all add: fun_eq_iff buildOutboundNodeOutbounds_def buildRouteOutbounds_def
      buildPolicyOutbounds_def reorder)

lemma sides_reorder [reorder]:
  assumes "reordered a b"
  shows "inboundSide E a = inboundSide E b" "outboundSide E a = outboundSide E b"
    "buildExperimentalConfig a = buildExperimentalConfig b"
  using assms by (simp_all add: inboundSide_def outboundSide_def buildExperimentalConfig_def
      statsUserSet_def reorder Let_def cong: branch_cong)

lemma computeConfig_reorder: "reordered a b \<Longrightarrow> computeConfig E a = computeConfig E b"
  by (simp add: computeConfig_def reorder Let_def cong: branch_cong)

end
