(* ===== verification/Config_Correct.thy ===== *)
theory Config_Correct
  imports Fixtures Config_Order
begin

text \<open>
  Correctness of the configuration engine: the tags of the outbounds, the targets of the route rules,
  the access control of virtual users, the order of policies, the independence of Go's map iteration
  order and the shape of derived credentials.
\<close>

section \<open>Outbound tags\<close>

lemma obTag_simps [simp]:
  "obTag (relayOutbound input n node) = Some (outboundTag n)"
  "obTag (directOutbound t) = Some t"
  "obTag (buildExternalOutboundEntry eob creds) = Some (outboundTag (Name eob))"
  "obTag buildDirectOutbound = Some ''direct''"
  by (simp_all add: obTag_def relayOutbound_def directOutbound_def buildExternalOutboundEntry_def
      buildDirectOutbound_def str_field_def Let_def)

lemma outboundTag_inj [simp]: "outboundTag a = outboundTag b \<longleftrightarrow> a = b"
  by (simp add: outboundTag_def)

lemma outboundTag_not_Nil [simp]: "outboundTag a \<noteq> []" "outboundTag a \<noteq> ''direct''"
  by (simp_all add: outboundTag_def)

definition tags :: "json list \<Rightarrow> string option set" where
  "tags obs = obTag ` set obs"

lemma tags_simps [simp]:
  "tags [] = {}" "tags (ob # obs) = insert (obTag ob) (tags obs)" "tags (xs @ ys) = tags xs \<union> tags ys"
  by (auto simp: tags_def)

lemma dedupLoop_set: "set (dedupLoop seen obs) \<subseteq> set obs"
proof (induction obs arbitrary: seen)
  case (Cons ob obs)
  show ?case using Cons [of seen] Cons [of "go_put t True seen" for t]
    by (auto split: option.splits)
qed simp

lemma dedupLoop_tags:
  "Some t \<in> tags (dedupLoop seen obs) \<longleftrightarrow> Some t \<in> tags obs \<and> \<not> has_name seen t"
  by (induction obs arbitrary: seen) (auto simp: go_get_put split: option.splits)

lemma dedupLoop_find:
  "\<not> has_name seen t \<Longrightarrow>
   find (\<lambda>ob. obTag ob = Some t) (dedupLoop seen obs) = find (\<lambda>ob. obTag ob = Some t) obs"
  by (induction obs arbitrary: seen) (auto simp: go_get_put split: option.splits)

lemma dedupLoop_distinct:
  "\<forall>ob\<in>set obs. obTag ob \<noteq> None \<Longrightarrow> distinct (map obTag (dedupLoop seen obs))"
proof (induction obs arbitrary: seen)
  case (Cons ob obs)
  then obtain t where t: "obTag ob = Some t" by auto
  have "obTag ob \<notin> obTag ` set (dedupLoop (go_put t True seen) obs)"
    using dedupLoop_tags [of t "go_put t True seen" obs] by (simp add: t tags_def go_get_put)
  then show ?case using Cons t by simp
qed simp

lemma dedupLoop_id:
  "distinct (map obTag obs) \<Longrightarrow> (\<And>t. Some t \<in> tags obs \<Longrightarrow> \<not> has_name seen t) \<Longrightarrow>
   dedupLoop seen obs = obs"
proof (induction obs arbitrary: seen)
  case (Cons ob obs)
  show ?case
  proof (cases "obTag ob")
    case None
    then show ?thesis using Cons by auto
  next
    case (Some t)
    have "\<not> has_name (go_put t True seen) u" if "Some u \<in> tags obs" for u
      using that Cons.prems Some by (auto simp: go_get_put tags_def)
    then have "dedupLoop (go_put t True seen) obs = obs"
      using Cons by simp
    then show ?thesis using Some Cons.prems(2) [of t] by simp
  qed
qed simp

lemma deduplicateByTag_tags [simp]: "Some t \<in> tags (deduplicateByTag obs) \<longleftrightarrow> Some t \<in> tags obs"
  by (simp add: deduplicateByTag_def dedupLoop_tags)

lemma routeFinal_tags: "routeFinal obs = ''direct'' \<or> Some (routeFinal obs) \<in> tags obs"
  by (induction obs) (auto split: option.splits)

section \<open>Outbounds of a configuration\<close>

lemma policyOutbound_tagged: "ob \<in> set (policyOutbound input name) \<Longrightarrow> \<exists>t. obTag ob = Some t"
  by (auto simp: policyOutbound_def split: option.splits if_splits)

lemma policyOutboundsLoop_tagged: "ob \<in> set (policyOutboundsLoop E input seen ps) \<Longrightarrow> \<exists>t. obTag ob = Some t"
  by (induction ps arbitrary: seen) (auto simp: Let_def split: if_splits dest: policyOutbound_tagged)

lemma routeOutbound_tagged: "ob \<in> set (routeOutbound input r) \<Longrightarrow> \<exists>t. obTag ob = Some t"
  by (auto simp: routeOutbound_def split: option.splits if_splits)

lemma outboundSide_tagged: "ob \<in> set (outboundSide E input) \<Longrightarrow> \<exists>t. obTag ob = Some t"
  by (auto simp: outboundSide_def Let_def buildOutboundNodeOutbounds_def buildRouteOutbounds_def
      buildExternalOutbounds_def buildPolicyOutbounds_def
      split: if_splits dest: policyOutboundsLoop_tagged routeOutbound_tagged)

lemma Outbounds_computeConfig:
  "Outbounds (computeConfig E input) =
     deduplicateByTag ((if hasRole (inNode input) ProxyRoleInbound then outboundSide E input else []) @
                       [buildDirectOutbound])"
  by (simp add: computeConfig_def Let_def split: prod.splits)

lemma Rules_computeConfig:
  "Rules (Route (computeConfig E input)) =
     buildPolicyRules E input (policiesForNode input) @
     (if hasRole (inNode input) ProxyRoleInbound then snd (inboundSide E input) else [])"
  by (simp add: computeConfig_def Let_def split: prod.splits)

lemma Inbounds_computeConfig:
  "Inbounds (computeConfig E input) =
     (if hasRole (inNode input) ProxyRoleInbound then fst (inboundSide E input) else []) @
     (if hasRole (inNode input) ProxyRoleOutbound then [buildRelayInbound input] else [])"
  by (simp add: computeConfig_def Let_def split: prod.splits)

lemma Final_computeConfig:
  "Final (Route (computeConfig E input)) =
     (if length (Rules (Route (computeConfig E input))) > 0 then ''direct''
      else routeFinal (Outbounds (computeConfig E input)))"
  by (simp add: computeConfig_def Let_def split: prod.splits)

lemma tags_computeConfig:
  "Some t \<in> tags (Outbounds (computeConfig E input)) \<longleftrightarrow>
     t = ''direct'' \<or> hasRole (inNode input) ProxyRoleInbound \<and> Some t \<in> tags (outboundSide E input)"
  by (auto simp: Outbounds_computeConfig)

section \<open>Targets of route rules\<close>

text \<open>
  What the controller guarantees of the input: the peers have passed both binding lists, the maps are
  keyed by object name, and admitted policies either route or reject.
\<close>

definition gated_input :: "Input \<Rightarrow> bool" where
  "gated_input input \<longleftrightarrow>
     hasRole (inNode input) ProxyRoleInbound
     \<and> (\<forall>n\<in>set (inOutboundNodes input).
          bindingAllows (inNode input) n \<and> map_of (inOutboundNodesByName input) (Name n) = Some n)
     \<and> (\<forall>r\<in>set (inRoutes input). \<forall>n. map_of (inOutboundNodesByName input) (OutboundNode (routeSpec r)) = Some n
          \<longrightarrow> bindingAllows (inNode input) n)
     \<and> (\<forall>(k, n)\<in>set (inOutboundNodesByName input). Name n = k)
     \<and> (\<forall>(k, e)\<in>set (inExternalOutboundsByName input). Name e = k)
     \<and> (\<forall>p\<in>set (somes (inEgressPolicies input)).
          Action (policySpec p) = EgressPolicyActionRoute \<or> Action (policySpec p) = EgressPolicyActionReject)"

lemma set_somes [simp]: "set (somes xs) = {x. Some x \<in> set xs}"
  by (induction xs rule: somes.induct) auto

lemma set_policiesForNode [simp]: "set (policiesForNode input) = set (somes (inEgressPolicies input))"
  by (simp add: policiesForNode_def)

lemma gated_key:
  assumes "gated_input input"
  shows "map_of (inOutboundNodesByName input) k = Some n \<Longrightarrow> Name n = k"
    and "map_of (inExternalOutboundsByName input) k = Some e \<Longrightarrow> Name e = k"
  using assms map_of_SomeD by (fastforce simp: gated_input_def)+

lemma policyOutbound_available:
  assumes "gated_input input" "policyEgressAvailable input name"
  shows "Some (outboundTag name) \<in> tags (policyOutbound input name)"
  using assms(2) gated_key [OF assms(1), of name]
  by (auto simp: policyEgressAvailable_def policyOutbound_def split: option.splits)

lemma policyOutboundsLoop_covers:
  assumes "p \<in> set ps" "Action (policySpec p) = EgressPolicyActionRoute"
    and "policyEgressName E input p = name" "name \<noteq> []" "\<not> has_name seen name"
    and "Some t \<in> tags (policyOutbound input name)"
  shows "Some t \<in> tags (policyOutboundsLoop E input seen ps)"
  using assms(1,5)
proof (induction ps arbitrary: seen)
  case (Cons q ps)
  show ?case
  proof (cases "policyEgressName E input q = name \<and> Action (policySpec q) = EgressPolicyActionRoute")
    case True
    then show ?thesis using assms(4,6) Cons.prems(2) by (simp add: Let_def)
  next
    case False
    then have "p \<in> set ps" using Cons.prems(1) assms(2,3) by auto
    then show ?thesis using Cons False by (auto simp: Let_def go_get_put)
  qed
qed simp

lemma policy_target_emitted:
  assumes "gated_input input" "p \<in> set (somes (inEgressPolicies input))"
    and "Action (policySpec p) = EgressPolicyActionRoute"
    and "policyEgressName E input p = name" "name \<noteq> []" "policyEgressAvailable input name"
  shows "Some (outboundTag name) \<in> tags (outboundSide E input)"
proof -
  have "Some (outboundTag name) \<in> tags (buildPolicyOutbounds E input (policiesForNode input))"
    unfolding buildPolicyOutbounds_def
    by (rule policyOutboundsLoop_covers [of p])
       (use assms policyOutbound_available in \<open>auto simp del: set_somes\<close>)
  then show ?thesis by (simp add: outboundSide_def Let_def)
qed

lemma set_routeOutboundNames:
  "set (routeOutboundNames E input routes includeSelf) =
     set (peerNames input) \<union> set (routeNames input routes) \<union> set (policyNames E input)
     \<union> (if includeSelf then {Name (inNode input)} else {})
     \<union> Name ` set (resolveExternalOutbounds input routes)"
  by (simp only: routeOutboundNames_def set_fold_add_name acc_ok_fold acc_ok_empty) auto

lemma distinct_routeOutboundNames: "distinct (routeOutboundNames E input routes includeSelf)"
proof -
  have "acc_ok acc \<Longrightarrow> distinct (snd acc)" for acc by (simp add: seen_ok_def)
  then show ?thesis unfolding routeOutboundNames_def by (simp only: acc_ok_fold acc_ok_empty)
qed

lemma set_routesForNode:
  "set (routesForNode input) = {r \<in> set (inRoutes input). InboundNode (routeSpec r) = Name (inNode input)}"
  by (auto simp: routesForNode_def)

lemma routeOutbound_emits:
  assumes "gated_input input" "r \<in> set (routesForNode input)" "OutboundNode (routeSpec r) = name"
    and "map_of (inOutboundNodesByName input) name = Some n" "RelayPort (nodeSpec n) \<noteq> 0"
    and "authUsers input name \<noteq> []"
  shows "Some (outboundTag name) \<in> tags (buildRouteOutbounds input (routesForNode input))"
proof -
  have "bindingAllows (inNode input) n"
    using assms(1-4) by (auto simp: gated_input_def set_routesForNode)
  moreover have "\<not> allDenied input name"
    using assms(6) by (auto simp: allDenied_def authUsers_def allowedUsers_def list_all_iff filter_empty_conv)
  ultimately have "Some (outboundTag name) \<in> tags (routeOutbound input r)"
    using assms(3-5) gated_key(1) [OF assms(1,4)] by (simp add: routeOutbound_def)
  then show ?thesis using assms(2) by (auto simp: buildRouteOutbounds_def tags_def)
qed

lemma peer_target_emitted:
  assumes "gated_input input" "name \<in> set (peerNames input)" "authUsers input name \<noteq> []"
  shows "Some (outboundTag name) \<in> tags (outboundSide E input)"
proof -
  obtain n where n: "n \<in> set (inOutboundNodes input)" "Name n = name" "RelayPort (nodeSpec n) \<noteq> 0"
    using assms(2) by (auto simp: peerNames_def)
  then have g: "bindingAllows (inNode input) n" "map_of (inOutboundNodesByName input) name = Some n"
    using assms(1) by (auto simp: gated_input_def)
  show ?thesis
  proof (cases "\<exists>r\<in>set (routesForNode input). OutboundNode (routeSpec r) = name")
    case True
    then show ?thesis using routeOutbound_emits [OF assms(1) _ _ g(2) n(3) assms(3)]
      by (auto simp: outboundSide_def Let_def)
  next
    case False
    then have "relayOutbound input name n \<in> set (buildOutboundNodeOutbounds input (routesForNode input))"
      using n g by (force simp: buildOutboundNodeOutbounds_def)
    then have "Some (outboundTag name) \<in> tags (buildOutboundNodeOutbounds input (routesForNode input))"
      by (force simp: tags_def)
    then show ?thesis by (simp add: outboundSide_def Let_def)
  qed
qed

lemma external_target_emitted:
  assumes "eob \<in> set (resolveExternalOutbounds input (routesForNode input))"
  shows "Some (outboundTag (Name eob)) \<in> tags (outboundSide E input)"
proof -
  have "Some (outboundTag (Name eob)) \<in> tags (buildExternalOutbounds input (routesForNode input))"
    using assms by (force simp: buildExternalOutbounds_def tags_def)
  then show ?thesis by (simp add: outboundSide_def Let_def)
qed

lemma route_target_emitted:
  assumes "gated_input input" "name \<in> set (routeOutboundNames E input (routesForNode input) self)"
    and "self \<Longrightarrow> hasRole (inNode input) ProxyRoleOutbound \<and> selfAllowed (inNode input)"
    and "authUsers input name \<noteq> []"
  shows "Some (outboundTag name) \<in> tags (outboundSide E input)"
proof -
  consider "name \<in> set (peerNames input)" | "name \<in> set (routeNames input (routesForNode input))"
    | "name \<in> set (policyNames E input)" | "self" "name = Name (inNode input)"
    | "name \<in> Name ` set (resolveExternalOutbounds input (routesForNode input))"
    using assms(2) by (auto simp: set_routeOutboundNames split: if_splits)
  then show ?thesis
  proof cases
    case 1 then show ?thesis using assms by (intro peer_target_emitted)
  next
    case 2
    then obtain r n where "r \<in> set (routesForNode input)" "OutboundNode (routeSpec r) = name"
      "map_of (inOutboundNodesByName input) name = Some n" "RelayPort (nodeSpec n) \<noteq> 0"
      by (auto simp: routeNames_def split: option.splits)
    from routeOutbound_emits [OF assms(1) this assms(4)] show ?thesis
      by (simp add: outboundSide_def Let_def)
  next
    case 3 then show ?thesis
      using policy_target_emitted [OF assms(1)] by (auto simp: policyNames_def)
  next
    case 4
    then have "hasRole (inNode input) ProxyRoleInbound" using assms(1) by (simp add: gated_input_def)
    then show ?thesis using 4 assms(3) by (simp add: outboundSide_def Let_def)
  next
    case 5 then show ?thesis using external_target_emitted by auto
  qed
qed

lemma inboundSide_rules:
  assumes "r \<in> set (snd (inboundSide E input))"
  obtains n self where "n \<in> set (routeOutboundNames E input (routesForNode input) self)"
    and "self \<longleftrightarrow> hasRole (inNode input) ProxyRoleInbound \<and> hasRole (inNode input) ProxyRoleOutbound"
    and "r = noRule\<lparr>rrAuthUser := authUsers input n, rrOutbound := outboundTag n\<rparr>" "authUsers input n \<noteq> []"
  using assms by (auto simp: inboundSide_def Let_def buildRouteInbounds_def authRules_def split: if_splits)

lemma policyRules_cases:
  assumes "r \<in> set (policyRules E input p)"
  shows "rrAction r = EgressPolicyActionReject \<and> rrOutbound r = []
    \<or> rrAction r = [] \<and> Action (policySpec p) \<noteq> EgressPolicyActionReject
      \<and> rrOutbound r = outboundTag (policyEgressName E input p)
      \<and> policyEgressName E input p \<noteq> [] \<and> policyEgressAvailable input (policyEgressName E input p)"
  using assms by (auto simp: policyRules_def policyMatchFields_def Let_def split: if_splits)

section \<open>A worked example\<close>

lemmas run_simps = go_simps fixture_defs hasRole_def admits_def bindingAllows_def Let_def

lemma demo_routes: "routesForNode demoInput = []"
  by (simp add: routesForNode_def fixture_defs)

lemma demo_egress:
  "policyEgressName demoExt demoInput (mkPolicy ''p'' [''exit''] EgressPolicyActionRoute 1) = ''exit''"
  "policyEgressAvailable demoInput ''exit''"
  by (simp_all add: policyEgressName_def resolvePolicyEgressName_def selectorMatches_def
      policyEgressAvailable_def run_simps)

lemma demo_policies:
  "policiesForNode demoInput = [mkPolicy ''p'' [''exit''] EgressPolicyActionRoute 1]"
  "somes (inEgressPolicies demoInput) = [mkPolicy ''p'' [''exit''] EgressPolicyActionRoute 1]"
  by (simp_all add: policiesForNode_def demoInput_def)

lemma demo_names: "routeOutboundNames demoExt demoInput [] False = [''exit'']"
  by (simp add: routeOutboundNames_def policyNames_def demo_policies demo_egress)
     (simp add: peerNames_def routeNames_def resolveExternalOutbounds_def add_name_def fixture_defs)

lemma demo_auth: "authUsers demoInput ''exit'' = [''alice#exit'']"
  by (simp add: authUsers_def allowedUsers_def userAllowed_def IsNodeAllowed_def virtualUserName_def fixture_defs)

lemma demo_inbound:
  "snd (inboundSide demoExt demoInput) =
     [noRule\<lparr>rrAuthUser := [''alice#exit''], rrOutbound := ''outbound-exit''\<rparr>]"
proof -
  have "\<not> hasRole (inNode demoInput) ProxyRoleOutbound" by (simp add: run_simps)
  then show ?thesis
    by (simp add: inboundSide_def demo_policies demo_routes buildRouteInbounds_def demo_names
        authRules_def demo_auth outboundTag_def Let_def)
qed

lemma demo_Rules:
  "Rules (Route (computeConfig demoExt demoInput)) =
     [noRule\<lparr>rrInbound := [''inbound-hysteria2''], rrDomainSuffix := [''example.com''],
        rrOutbound := ''outbound-exit''\<rparr>,
      noRule\<lparr>rrAuthUser := [''alice#exit''], rrOutbound := ''outbound-exit''\<rparr>]"
proof -
  have "hasRole (inNode demoInput) ProxyRoleInbound" by (simp add: run_simps)
  then show ?thesis
    by (simp add: Rules_computeConfig buildPolicyRules_def demo_policies demo_inbound policyRules_def
        demo_egress Let_def)
       (simp add: policyMatchFields_def inboundTagFor_def EffectiveInboundProtocol_def outboundTag_def
        fixture_defs)
qed

lemma demo_users: "u \<in> set (inUsers demoInput) \<Longrightarrow> Name u = ''alice'' \<or> Name u = ''bob''"
  by (auto simp: fixture_defs)

section \<open>Properties\<close>

lemma rule_targets:
  assumes "gated_input input"
    and "hasRole (inNode input) ProxyRoleOutbound \<longrightarrow> selfAllowed (inNode input)"
    and "r \<in> set (Rules (Route (computeConfig E input)))"
  shows "rrAction r = EgressPolicyActionReject \<and> rrOutbound r = []
    \<or> Some (rrOutbound r) \<in> obTag ` set (Outbounds (computeConfig E input))"
proof -
  have role: "hasRole (inNode input) ProxyRoleInbound" using assms(1) by (simp add: gated_input_def)
  consider p where "p \<in> set (somes (inEgressPolicies input))" "r \<in> set (policyRules E input p)"
    | "r \<in> set (snd (inboundSide E input))"
    using assms(3) role by (auto simp: Rules_computeConfig buildPolicyRules_def simp del: set_somes)
  then show ?thesis
  proof cases
    case 1
    have "Action (policySpec p) \<noteq> EgressPolicyActionReject \<Longrightarrow> Action (policySpec p) = EgressPolicyActionRoute"
      using 1(1) assms(1) unfolding gated_input_def by blast
    then show ?thesis
      using policyRules_cases [OF 1(2)] policy_target_emitted [OF assms(1) 1(1)] role
      by (auto simp: tags_def [symmetric] tags_computeConfig)
  next
    case 2
    then obtain n self where *: "n \<in> set (routeOutboundNames E input (routesForNode input) self)"
      "self \<longleftrightarrow> hasRole (inNode input) ProxyRoleInbound \<and> hasRole (inNode input) ProxyRoleOutbound"
      "r = noRule\<lparr>rrAuthUser := authUsers input n, rrOutbound := outboundTag n\<rparr>" "authUsers input n \<noteq> []"
      by (rule inboundSide_rules)
    have "Some (outboundTag n) \<in> tags (outboundSide E input)"
      using assms(2) *(2) by (intro route_target_emitted [OF assms(1) *(1) _ *(4)]) auto
    then show ?thesis using *(3) role by (simp add: tags_def [symmetric] tags_computeConfig)
  qed
qed



text \<open>C19. The outbounds of every configuration are maps with pairwise distinct tags, the direct
  outbound is among them, and so is the outbound that the route section names as final.\<close>

theorem outbounds_well_formed:
  "distinct (map obTag (Outbounds (computeConfig E input)))
   \<and> None \<notin> set (map obTag (Outbounds (computeConfig E input)))
   \<and> Some ''direct'' \<in> set (map obTag (Outbounds (computeConfig E input)))
   \<and> Some (Final (Route (computeConfig E input))) \<in> set (map obTag (Outbounds (computeConfig E input)))"
proof -
  let ?obs = "(if hasRole (inNode input) ProxyRoleInbound then outboundSide E input else []) @
              [buildDirectOutbound]"
  let ?cfg = "computeConfig E input"
  have tagged: "\<forall>ob\<in>set ?obs. obTag ob \<noteq> None"
    using outboundSide_tagged by (auto split: if_splits)
  then have "distinct (map obTag (Outbounds ?cfg))"
    by (simp add: Outbounds_computeConfig deduplicateByTag_def dedupLoop_distinct)
  moreover have "None \<notin> set (map obTag (Outbounds ?cfg))"
  proof
    assume "None \<in> set (map obTag (Outbounds ?cfg))"
    then obtain ob where "ob \<in> set (Outbounds ?cfg)" "obTag ob = None" by auto
    then show False
      using tagged dedupLoop_set [of "[]" ?obs] unfolding Outbounds_computeConfig deduplicateByTag_def by blast
  qed
  moreover have direct: "Some ''direct'' \<in> tags (Outbounds ?cfg)" by (simp add: tags_computeConfig)
  moreover have "Some (Final (Route ?cfg)) \<in> tags (Outbounds ?cfg)"
    using direct routeFinal_tags [of "Outbounds ?cfg"] by (auto simp: Final_computeConfig)
  ultimately show ?thesis by (simp add: tags_def)
qed

text \<open>Deduplication keeps, for every tag, the first outbound with this tag and no other, and leaves
  a list without repeated tags alone.\<close>

lemma deduplicateByTag_first:
  assumes "\<forall>ob\<in>set obs. obTag ob \<noteq> None"
  shows "find (\<lambda>ob. obTag ob = Some t) (deduplicateByTag obs) = find (\<lambda>ob. obTag ob = Some t) obs
    \<and> distinct (map obTag (deduplicateByTag obs))
    \<and> deduplicateByTag (deduplicateByTag obs) = deduplicateByTag obs"
  using assms by (simp_all add: deduplicateByTag_def dedupLoop_find dedupLoop_distinct dedupLoop_id)

lemma auth_user_source:
  assumes "r \<in> set (Rules (Route (computeConfig E input)))" "v \<in> set (rrAuthUser r)"
  shows "\<exists>u\<in>set (inUsers input). \<exists>n. v = virtualUserName (Name u) n
    \<and> IsNodeAllowed n (go_get [] (inUserNodeAllowlist input) (Name u))
        (go_get [] (inUserNodeRestrictions input) (Name u))
    \<and> (rrOutbound r = outboundTag n \<or> rrOutbound r = [] \<and> rrAction r = EgressPolicyActionReject)"
proof -
  consider p where "r \<in> set (policyRules E input p)" | "r \<in> set (snd (inboundSide E input))"
    using assms(1) by (auto simp: Rules_computeConfig buildPolicyRules_def split: if_splits)
  then show ?thesis
  proof cases
    case 1
    then have "v \<in> set (policyAuthUsers input (policyEgressName E input p))"
      "rrOutbound r = []" "rrAction r = EgressPolicyActionReject"
      using assms(2) by (auto simp: policyRules_def policyMatchFields_def Let_def split: if_splits)
    then show ?thesis by (auto simp: policyAuthUsers_def userAllowed_def)
  next
    case 2
    then obtain n where "r = noRule\<lparr>rrAuthUser := authUsers input n, rrOutbound := outboundTag n\<rparr>"
      by (rule inboundSide_rules)
    then show ?thesis using assms(2) by (auto simp: authUsers_def allowedUsers_def userAllowed_def)
  qed
qed

text \<open>C16. Deny wins: a rule selects a virtual user only for a user of the input whose group allows the
  target, and the rule either routes to exactly this target or rejects.\<close>

theorem auth_users_allowed:
  assumes "r \<in> set (Rules (Route (computeConfig E input)))" "v \<in> set (rrAuthUser r)"
  shows "\<exists>u\<in>set (inUsers input). \<exists>n. v = virtualUserName (Name u) n
    \<and> IsNodeAllowed n (go_get [] (inUserNodeAllowlist input) (Name u))
        (go_get [] (inUserNodeRestrictions input) (Name u))
    \<and> (rrOutbound r = outboundTag n \<or> rrOutbound r = [] \<and> rrAction r = EgressPolicyActionReject)"
  using assms by (rule auth_user_source)

theorem auth_users_allowed_witness:
  "IsNodeAllowed ''exit'' (go_get [] (inUserNodeAllowlist demoInput) ''alice'')
     (go_get [] (inUserNodeRestrictions demoInput) ''alice'')"
proof -
  let ?r = "noRule\<lparr>rrAuthUser := [''alice#exit''], rrOutbound := ''outbound-exit''\<rparr>"
  have "?r \<in> set (Rules (Route (computeConfig demoExt demoInput)))" "''alice#exit'' \<in> set (rrAuthUser ?r)"
    by (simp_all add: demo_Rules)
  from auth_users_allowed [OF this]
  obtain u n where u: "u \<in> set (inUsers demoInput)" "''alice#exit'' = virtualUserName (Name u) n"
    "IsNodeAllowed n (go_get [] (inUserNodeAllowlist demoInput) (Name u))
       (go_get [] (inUserNodeRestrictions demoInput) (Name u))" by blast
  then have "Name u = ''alice''" "n = ''exit''" using demo_users [OF u(1)] by (auto simp: virtualUserName_def)
  then show ?thesis using u(3) by simp
qed

text \<open>The names under which the users of an inbound entry log in, as sing-box reads them.\<close>

definition logins :: "string \<Rightarrow> json \<Rightarrow> string list" where
  "logins proto ib =
     (case as_map ib of
        None \<Rightarrow> []
      | Some m \<Rightarrow> (case map_of m ''users'' of
          Some (JArr us) \<Rightarrow>
            map (\<lambda>u. case as_map u of
                       None \<Rightarrow> []
                     | Some e \<Rightarrow> str_field e (if proto = ''naive'' then ''username'' else ''name'')) us
        | _ \<Rightarrow> []))"

lemma logins_buildInboundEntry:
  "logins proto (buildInboundEntry proto tag port users) =
     map (\<lambda>e. str_field e (if proto = ''naive'' then ''username'' else ''name'')) users"
  by (simp add: logins_def buildInboundEntry_def comp_def)

lemma str_field_userEntry:
  "str_field (userEntry proto uuid n v) (if proto = ''naive'' then ''username'' else ''name'') = v"
  by (simp add: userEntry_def str_field_def map_of_go_put Let_def)

lemma logins_virtualUsers:
  "map (\<lambda>e. str_field e (if proto = ''naive'' then ''username'' else ''name''))
     (virtualUsers input proto names) = concat (map (authUsers input) names)"
proof (induction names)
  case (Cons n names)
  have "map (\<lambda>e. str_field e (if proto = ''naive'' then ''username'' else ''name''))
          (map (\<lambda>u. userEntry proto (userUUID input u) n (virtualUserName (Name u) n)) (allowedUsers input n)) =
        authUsers input n"
    by (simp add: authUsers_def comp_def str_field_userEntry del: if_split)
  then show ?case using Cons by (simp add: virtualUsers_def del: map_map)
qed (simp add: virtualUsers_def)

lemma concat_filter_Nil: "concat (map f (filter (\<lambda>x. length (f x) > 0) xs)) = concat (map f xs)"
  by (induction xs) auto

lemma authRules_users: "concat (map rrAuthUser (authRules input names)) = concat (map (authUsers input) names)"
proof -
  have "map rrAuthUser (authRules input names) =
          map (authUsers input) (filter (\<lambda>n. length (authUsers input n) > 0) names)"
    by (simp add: authRules_def comp_def)
  then show ?thesis using concat_filter_Nil [of "authUsers input" names] by simp
qed


lemma demo_fst_inbound:
  "fst (buildRouteInbounds demoExt demoInput [] False) =
     [buildInboundEntry ''hysteria2'' ''inbound-hysteria2'' 30443
        [userEntry ''hysteria2'' ''u1'' ''exit'' ''alice#exit'']]"
  by (simp add: buildRouteInbounds_def demo_names Let_def)
     (simp add: virtualUsers_def allowedUsers_def userUUID_def userAllowed_def IsNodeAllowed_def
      virtualUserName_def EffectiveInboundProtocol_def findProtocolPort_def fixture_defs)


lemma virtualUserName_inj:
  assumes "CHR ''#'' \<notin> set u" "CHR ''#'' \<notin> set u'"
  shows "virtualUserName u n = virtualUserName u' n' \<longleftrightarrow> u = u' \<and> n = n'"
proof -
  have "takeWhile (\<lambda>c. c \<noteq> CHR ''#'') (virtualUserName v m) = v" if "CHR ''#'' \<notin> set v" for v m
    using that by (induction v) (auto simp: virtualUserName_def)
  then show ?thesis using assms by (metis virtualUserName_def append_same_eq same_append_eq)
qed

lemma distinct_authUsers:
  assumes "distinct (map Name (inUsers input))" "\<forall>u\<in>set (inUsers input). CHR ''#'' \<notin> set (Name u)"
    and "distinct names"
  shows "distinct (concat (map (authUsers input) names))"
  using assms(3)
proof (induction names)
  case (Cons n names)
  have "distinct (authUsers input n)"
  proof -
    have "authUsers input n = map (\<lambda>m. virtualUserName m n) (map Name (allowedUsers input n))"
      by (simp add: authUsers_def)
    moreover have "distinct (map Name (allowedUsers input n))"
      using assms(1) by (simp add: allowedUsers_def distinct_map_filter)
    moreover have "inj_on (\<lambda>m. virtualUserName m n) A" for A
      by (auto simp: inj_on_def virtualUserName_def)
    ultimately show ?thesis by (simp only: distinct_map)
  qed
  moreover have "set (authUsers input n) \<inter> set (authUsers input m) = {}" if "m \<in> set names" for m
    using that Cons.prems assms(2) by (auto simp: authUsers_def allowedUsers_def virtualUserName_inj)
  ultimately show ?case using Cons by auto
qed simp

text \<open>C20. Routing by login is unambiguous: with distinct user names free of the separator (Kubernetes
  names are), no virtual user occurs twice among the auth-user rules.\<close>

theorem virtual_users_unambiguous:
  assumes "distinct (map Name (inUsers input))" "\<forall>u\<in>set (inUsers input). CHR ''#'' \<notin> set (Name u)"
  shows "distinct (concat (map rrAuthUser (snd (buildRouteInbounds E input routes self))))"
  using distinct_authUsers [OF assms distinct_routeOutboundNames]
  by (simp add: buildRouteInbounds_def Let_def authRules_users)

theorem virtual_users_unambiguous_witness:
  "distinct (concat (map rrAuthUser (snd (buildRouteInbounds demoExt demoInput [] False))))"
  by (rule virtual_users_unambiguous) (auto simp: fixture_defs)

text \<open>The fields of a rule that match the destination of a connection or its inbound.\<close>

definition destination ::
    "routeRule \<Rightarrow> string list \<times> string list \<times> string list \<times> string list \<times> string list \<times> string list" where
  "destination r = (rrInbound r, rrDomain r, rrDomainSuffix r, rrDomainRegex r, rrIPCIDR r, rrRuleSet r)"

lemma inboundSide_destination:
  assumes "r \<in> set (snd (inboundSide E input))"
  shows "destination r = ([], [], [], [], [], [])"
proof -
  obtain n where "r = noRule\<lparr>rrAuthUser := authUsers input n, rrOutbound := outboundTag n\<rparr>"
    using assms by (rule inboundSide_rules)
  then show ?thesis by (simp add: destination_def)
qed

text \<open>C21. Policy rules come first and in order: the route section starts with the rules of all policies,
  sorted by priority and then by name, and only login rules, which match no destination, follow.\<close>

theorem policy_rules_ordered:
  "sorted (map policyKey (policiesForNode input))
   \<and> mset (policiesForNode input) = mset (somes (inEgressPolicies input))
   \<and> (\<exists>rest. Rules (Route (computeConfig E input)) =
        concat (map (policyRules E input) (policiesForNode input)) @ rest
        \<and> destination ` set rest \<subseteq> {([], [], [], [], [], [])})"
proof -
  let ?rest = "if hasRole (inNode input) ProxyRoleInbound then snd (inboundSide E input) else []"
  have "destination ` set ?rest \<subseteq> {([], [], [], [], [], [])}"
    using inboundSide_destination by auto
  then have "\<exists>rest. Rules (Route (computeConfig E input)) =
        concat (map (policyRules E input) (policiesForNode input)) @ rest
        \<and> destination ` set rest \<subseteq> {([], [], [], [], [], [])}"
    unfolding Rules_computeConfig buildPolicyRules_def by blast
  moreover have "sorted (map policyKey (policiesForNode input))"
    "mset (policiesForNode input) = mset (somes (inEgressPolicies input))"
    by (simp_all add: policiesForNode_def)
  ultimately show ?thesis by blast
qed

text \<open>C22. The configuration and its hash do not depend on Go's random map iteration order: inputs that
  differ only in the order of their maps give the same bytes, and \<open>Compute\<close> never fails.\<close>

theorem Compute_map_order:
  assumes "reordered a b"
  shows "Compute E a = Compute E b \<and> (\<exists>out. Compute E a = Inr out \<and> Hash out = ComputeHash (Config out))"
  using computeConfig_reorder [OF assms, of E] by (simp add: Compute_def json_Marshal_def)

theorem Compute_map_order_witness:
  "Compute demoExt (demoInput\<lparr>inUserCreds := [(''bob'', \<lparr>UUID = ''u2''\<rparr>), (''alice'', \<lparr>UUID = ''u1''\<rparr>)]\<rparr>) =
   Compute demoExt demoInput"
proof -
  let ?i = "demoInput\<lparr>inUserCreds := [(''bob'', \<lparr>UUID = ''u2''\<rparr>), (''alice'', \<lparr>UUID = ''u1''\<rparr>)]\<rparr>"
  have "reordered ?i demoInput"
    by (simp add: reordered_def map_perm_def wf_map_def demoInput_def mkInput_def add_mset_commute)
  from Compute_map_order [OF this] show ?thesis by blast
qed

lemma hex_digit_values:
  "hex_digit 5 = CHR ''5''" "hex_digit 8 = CHR ''8''" "hex_digit 9 = CHR ''9''"
  "hex_digit 10 = CHR ''a''" "hex_digit 11 = CHR ''b''"
  by code_simp+

text \<open>C23. Derived credentials have the shape their consumers require: a derived UUID is 36 characters of
  hex groups with version 5 and the RFC 4122 variant, a derived password is 32 lower-case hex digits, and
  the configuration hash is 16.\<close>

theorem derived_shapes:
  "uuid_shape (DeriveUUID base suffix) \<and> DeriveUUID base suffix ! 14 = CHR ''5''
   \<and> DeriveUUID base suffix ! 19 \<in> set ''89ab''
   \<and> length (DerivePassword base suffix) = 32 \<and> list_all is_lower_hex (DerivePassword base suffix)
   \<and> length (ComputeHash config) = 16 \<and> list_all is_lower_hex (ComputeHash config)"
proof -
  let ?h = "sha1 (uuidNamespace base @ suffix)"
  have l: "16 \<le> length ?h" by simp
  have "uuid_shape (DeriveUUID base suffix)"
    unfolding DeriveUUID_def by (rule uuid_text_shape) (simp add: stamp_uuid_def Let_def)
  moreover have "DeriveUUID base suffix ! 14 = CHR ''5''"
    unfolding DeriveUUID_def uuid_text_stamped(1) [OF l] byte_bits_version by (simp add: hex_digit_values)
  moreover have "DeriveUUID base suffix ! 19 \<in> set ''89ab''"
    unfolding DeriveUUID_def uuid_text_stamped(2) [OF l] using byte_bits_variant [of "?h ! 8"]
    by (auto simp: hex_digit_values)
  ultimately show ?thesis
    using hex_bytes_lower by (auto simp: DerivePassword_def ComputeHash_def list_all_iff dest: in_set_takeD)
qed

lemma set_statsOutboundNames:
  "set (statsOutboundNames input) =
     set (peerNames input) \<union> set (routeNames input (routesForNode input))
     \<union> (if hasRole (inNode input) ProxyRoleInbound \<and> hasRole (inNode input) ProxyRoleOutbound
        then {Name (inNode input)} else {})
     \<union> Name ` set (resolveExternalOutbounds input (routesForNode input))"
  by (simp only: statsOutboundNames_def Let_def set_fold_add_name acc_ok_fold acc_ok_empty) auto

lemma keys_name_set: "set (map fst (name_set xs)) = set xs"
proof -
  have "fst ` set (fold (\<lambda>n m. go_put n True m) xs m) = fst ` set m \<union> set xs" for m :: names
    by (induction xs arbitrary: m) (auto simp: keys_go_put)
  then show ?thesis by (simp add: name_set_def)
qed

text \<open>C24. Traffic accounting: with usage collection on, the statistics list is sorted without
  repetitions and contains every login that an auth-user rule routes, provided each routing policy's target is a relay
  peer or a usable external outbound of the node.\<close>

theorem stats_cover_logins:
  assumes "policyEgressName E input ` {p \<in> set (somes (inEgressPolicies input)).
             Action (policySpec p) = EgressPolicyActionRoute}
           \<subseteq> set (peerNames input) \<union> Name ` set (resolveExternalOutbounds input (routesForNode input))"
    and "V2RayAPI (buildExperimentalConfig input) = Some api"
    and "r \<in> set (snd (inboundSide E input))" "v \<in> set (rrAuthUser r)"
  shows "v \<in> set (statsUsers (Stats api)) \<and> sorted (statsUsers (Stats api)) \<and> distinct (statsUsers (Stats api))"
proof -
  have api: "statsUsers (Stats api) = sort_names (map fst (statsUserSet input))"
    using assms(2) by (auto simp: buildExperimentalConfig_def)
  obtain n self where n: "n \<in> set (routeOutboundNames E input (routesForNode input) self)"
    "self \<longleftrightarrow> hasRole (inNode input) ProxyRoleInbound \<and> hasRole (inNode input) ProxyRoleOutbound"
    "r = noRule\<lparr>rrAuthUser := authUsers input n, rrOutbound := outboundTag n\<rparr>"
    using assms(3) by (rule inboundSide_rules)
  have "set (policyNames E input) \<subseteq> set (statsOutboundNames input)"
    using assms(1) by (auto simp: policyNames_def set_statsOutboundNames simp del: set_somes)
  then have "n \<in> set (statsOutboundNames input)"
    using n(1,2) by (auto simp: set_routeOutboundNames set_statsOutboundNames split: if_splits)
  moreover obtain u where "u \<in> set (inUsers input)" "v = virtualUserName (Name u) n"
    using assms(4) n(3) by (auto simp: authUsers_def allowedUsers_def)
  ultimately have "v \<in> set (map fst (statsUserSet input))"
    unfolding statsUserSet_def keys_name_set by auto
  moreover have "distinct (map fst (statsUserSet input))"
    unfolding statsUserSet_def using wf_map_name_set by (simp only: wf_map_def)
  ultimately show ?thesis by (simp add: api sort_names_def)
qed

theorem stats_cover_logins_witness:
  "\<exists>api. V2RayAPI (buildExperimentalConfig demoInput) = Some api
     \<and> ''alice#exit'' \<in> set (statsUsers (Stats api))"
proof -
  have "policyEgressName demoExt demoInput p = ''exit''" if "p \<in> set (somes (inEgressPolicies demoInput))" for p
    using that unfolding demo_policies by (simp only: list.set empty_iff insert_iff simp_thms demo_egress)
  moreover have "''exit'' \<in> set (peerNames demoInput)" by (simp add: peerNames_def fixture_defs)
  ultimately have h: "policyEgressName demoExt demoInput ` {p \<in> set (somes (inEgressPolicies demoInput)).
             Action (policySpec p) = EgressPolicyActionRoute}
     \<subseteq> set (peerNames demoInput) \<union> Name ` set (resolveExternalOutbounds demoInput (routesForNode demoInput))"
    by (auto simp del: set_somes)
  have api: "V2RayAPI (buildExperimentalConfig demoInput) = Some (the (V2RayAPI (buildExperimentalConfig demoInput)))"
    by (simp add: buildExperimentalConfig_def)
  let ?r = "noRule\<lparr>rrAuthUser := [''alice#exit''], rrOutbound := ''outbound-exit''\<rparr>"
  have "?r \<in> set (snd (inboundSide demoExt demoInput))" "''alice#exit'' \<in> set (rrAuthUser ?r)"
    by (simp_all add: demo_inbound)
  from stats_cover_logins [OF h api this] api show ?thesis by blast
qed

section \<open>Where the hypotheses are needed\<close>

text \<open>C25. The self-admission hypothesis of the first property is necessary: for a dual-role node whose
  \<open>allowedOutbounds\<close> excludes itself, the node's own outbound is dropped while its auth-user rule
  stays, so that the configuration has a dangling rule.\<close>

theorem self_rule_dangles:
  assumes "hasRole (inNode input) ProxyRoleInbound" "hasRole (inNode input) ProxyRoleOutbound"
    and "\<not> selfAllowed (inNode input)"
    and "inRoutes input = []" "inEgressPolicies input = []" "inOutboundNodes input = []"
    and "inExternalOutbounds input = []" "authUsers input (Name (inNode input)) \<noteq> []"
  shows "outboundTag (Name (inNode input)) \<in> rrOutbound ` set (Rules (Route (computeConfig E input)))
    \<and> Some (outboundTag (Name (inNode input))) \<notin> obTag ` set (Outbounds (computeConfig E input))"
proof -
  have empty: "routesForNode input = []" "policiesForNode input = []" "resolveExternalOutbounds input [] = []"
    using assms by (simp_all add: routesForNode_def policiesForNode_def resolveExternalOutbounds_def)
  have "routeOutboundNames E input [] True = [Name (inNode input)]"
    using assms empty by (simp add: routeOutboundNames_def peerNames_def routeNames_def policyNames_def add_name_def)
  then have "outboundTag (Name (inNode input)) \<in> rrOutbound ` set (snd (inboundSide E input))"
    using assms empty by (simp add: inboundSide_def Let_def buildRouteInbounds_def authRules_def)
  moreover have "Some (outboundTag (Name (inNode input))) \<notin> tags (outboundSide E input)"
    using assms empty by (simp add: outboundSide_def Let_def buildOutboundNodeOutbounds_def
        buildRouteOutbounds_def buildExternalOutbounds_def buildPolicyOutbounds_def)
  ultimately show ?thesis
    using assms(1) by (auto simp: Rules_computeConfig tags_def [symmetric] tags_computeConfig)
qed

text \<open>A node with both roles that lists another node as its only allowed outbound.\<close>

definition selfishInput :: Input where
  "selfishInput =
     (mkInput (mkNode ''dual'' ((mkSpec [''inbound'', ''outbound''] [hy2] 30808)\<lparr>AllowedOutbounds := [''other'']\<rparr>)))
       \<lparr>inUsers := [mkUser ''alice'' []]\<rparr>"

theorem self_rule_dangles_witness:
  "Some ''outbound-dual'' \<notin> obTag ` set (Outbounds (computeConfig demoExt selfishInput))
   \<and> ''outbound-dual'' \<in> rrOutbound ` set (Rules (Route (computeConfig demoExt selfishInput)))"
proof -
  have n: "Name (inNode selfishInput) = ''dual''" by (simp add: selfishInput_def fixture_defs)
  have "authUsers selfishInput ''dual'' = [''alice#dual'']"
    by (simp add: authUsers_def allowedUsers_def userAllowed_def IsNodeAllowed_def virtualUserName_def
        selfishInput_def fixture_defs)
  then have "authUsers selfishInput (Name (inNode selfishInput)) \<noteq> []" by (simp add: n)
  from self_rule_dangles [OF _ _ _ _ _ _ _ this, of demoExt] show ?thesis
    by (simp add: n outboundTag_def) (simp add: selfishInput_def selfAllowed_def run_simps)
qed

end
