(* ===== verification/Webhooks.thy ===== *)
theory Webhooks
  imports Egress_Policy Config_Correct
begin

text \<open>
  The admission webhooks, \<open>src/internal/webhook/*.go\<close>: what \<open>ValidateCreate\<close> and \<open>ValidateUpdate\<close> run on
  the new object. A webhook accepts when its list of field errors is empty (\<open>ToAggregate\<close> of an empty list
  is nil). The path of a field error is its text.
\<close>

section \<open>Field errors\<close>

datatype badValue = VStr string | VInt int | VSelector EgressPolicySelector | VMatch EgressPolicyMatch

datatype fieldError =
    FRequired string string
  | FInvalid string badValue string
  | FDuplicate string badValue
  | FNotSupported string badValue "string list"
  | FForbidden string string

definition indexPath :: "string \<Rightarrow> nat \<Rightarrow> string" where
  "indexPath p i = p @ ''['' @ nat_dec i @ '']''"

section \<open>SingBoxNode\<close>

record SingBoxNodeWebhook =
  NodePortRangeMin :: int
  NodePortRangeMax :: int

definition inNodePortRange :: "SingBoxNodeWebhook \<Rightarrow> int \<Rightarrow> bool" where
  "inNodePortRange w port =
     (if NodePortRangeMin w = 0 \<and> NodePortRangeMax w = 0 then False
      else port \<ge> NodePortRangeMin w \<and> port \<le> NodePortRangeMax w)"

definition isValidHostname :: "string \<Rightarrow> bool" where
  "isValidHostname hostname =
     (if length hostname = 0 \<or> length hostname > 253 then False else CHR '' '' \<notin> set hostname)"

text \<open>The message has a dash in UTF-8, spelled by its bytes.\<close>

definition rangeMessage :: "SingBoxNodeWebhook \<Rightarrow> string \<Rightarrow> int \<Rightarrow> string" where
  "rangeMessage w what port =
     what @ '' '' @ int_dec port @ '' falls within the Kubernetes NodePort range ['' @
     int_dec (NodePortRangeMin w) @ '', '' @ int_dec (NodePortRangeMax w) @
     '']; hostPort in this range is rejected by Cilium '' @ [CHR 0xE2, CHR 0x80, CHR 0x94] @
     '' use a port outside this range''"

definition addressErrors :: "string \<Rightarrow> fieldError list" where
  "addressErrors a =
     (if a = [] then [FRequired ''spec.address'' ''address must not be empty'']
      else if \<not> net_ParseIP a \<and> \<not> isValidHostname a
      then [FInvalid ''spec.address'' (VStr a) ''address must be a valid IP address or hostname'']
      else [])"

fun protocolErrors :: "nat \<Rightarrow> names \<Rightarrow> ProtocolConfig list \<Rightarrow> fieldError list" where
  "protocolErrors i seen [] = []"
| "protocolErrors i seen (p # ps) =
     (if has_name seen (Protocol p)
      then [FDuplicate (indexPath ''spec.supportedProtocols'' i @ ''.protocol'') (VStr (Protocol p))] else []) @
     protocolErrors (Suc i) (go_put (Protocol p) True seen) ps"

fun portErrors :: "SingBoxNodeWebhook \<Rightarrow> nat \<Rightarrow> (int, string) gomap \<Rightarrow> ProtocolConfig list \<Rightarrow> fieldError list" where
  "portErrors w i used [] = []"
| "portErrors w i used (p # ps) =
     (if Port p \<noteq> 0 then
        (let path = indexPath ''spec.supportedProtocols'' i @ ''.port'' in
         (case map_of used (Port p) of
            Some existing \<Rightarrow> [FInvalid path (VInt (Port p)) (''port conflict with '' @ existing)]
          | None \<Rightarrow> []) @
         (if inNodePortRange w (Port p)
          then [FInvalid path (VInt (Port p)) (rangeMessage w ''port'' (Port p))] else []) @
         portErrors w (Suc i) (go_put (Port p) (indexPath ''supportedProtocols'' i @ ''.port'') used) ps)
      else portErrors w (Suc i) used ps)"

definition relayErrors :: "SingBoxNodeWebhook \<Rightarrow> int \<Rightarrow> fieldError list" where
  "relayErrors w port =
     (if port \<noteq> 0 \<and> inNodePortRange w port
      then [FInvalid ''spec.relayPort'' (VInt port) (rangeMessage w ''relayPort'' port)] else [])"

fun roleErrors :: "nat \<Rightarrow> string list \<Rightarrow> fieldError list" where
  "roleErrors i [] = []"
| "roleErrors i (r # rs) =
     (if r \<noteq> ProxyRoleInbound \<and> r \<noteq> ProxyRoleOutbound
      then [FNotSupported (indexPath ''spec.roles'' i) (VStr r) [ProxyRoleInbound, ProxyRoleOutbound]]
      else []) @ roleErrors (Suc i) rs"

text \<open>The check of \<open>allowedInbounds\<close> and of \<open>allowedOutbounds\<close>: no empty and no repeated entry.\<close>

fun allowListErrors :: "string \<Rightarrow> nat \<Rightarrow> names \<Rightarrow> string list \<Rightarrow> fieldError list" where
  "allowListErrors f i seen [] = []"
| "allowListErrors f i seen (x # xs) =
     (if x = [] then [FInvalid (indexPath (''spec.'' @ f) i) (VStr x) (f @ '' entry must not be empty'')] else []) @
     (if has_name seen x then [FDuplicate (indexPath (''spec.'' @ f) i) (VStr x)] else []) @
     allowListErrors f (Suc i) (go_put x True seen) xs"

definition inboundErrors :: "SingBoxNode \<Rightarrow> fieldError list" where
  "inboundErrors node =
     (let spec = nodeSpec node in
      (if Tag spec = ''default''
       then [FInvalid ''spec.tag'' (VStr (Tag spec))
               (go_quote ''default'' @ '' is reserved for untagged inbound nodes; choose a different tag value'')]
       else []) @
      (if length (SupportedProtocols spec) = 0
       then [FRequired ''spec.supportedProtocols''
               ''inbound nodes must declare at least one supported protocol with a port'']
       else
         (let effectiveProto = (if InboundProtocol spec = [] then ''hysteria2'' else InboundProtocol spec) in
          if find (\<lambda>p. Protocol p = effectiveProto) (SupportedProtocols spec) = None
          then [FInvalid ''spec.inboundProtocol'' (VStr (InboundProtocol spec))
                  (''effective inbound protocol '' @ go_quote effectiveProto @
                   '' must be present in spec.supportedProtocols (add an entry with protocol='' @
                   go_quote effectiveProto @ '' and the desired port)'')]
          else [])))"

definition validateSingBoxNode :: "SingBoxNodeWebhook \<Rightarrow> SingBoxNode \<Rightarrow> fieldError list" where
  "validateSingBoxNode w node =
     (let spec = nodeSpec node in
      addressErrors (Address spec) @
      protocolErrors 0 [] (SupportedProtocols spec) @
      portErrors w 0 [] (SupportedProtocols spec) @
      relayErrors w (RelayPort spec) @
      (if length (Roles spec) = 0 then [FRequired ''spec.roles'' ''at least one role is required''] else []) @
      roleErrors 0 (Roles spec) @
      allowListErrors ''allowedInbounds'' 0 [] (AllowedInbounds spec) @
      allowListErrors ''allowedOutbounds'' 0 [] (AllowedOutbounds spec) @
      (if ProxyRoleInbound \<in> set (Roles spec) then inboundErrors node else []))"

section \<open>User, UserGroup and EgressPolicy\<close>

definition dnsError :: "ext \<Rightarrow> string \<Rightarrow> string \<Rightarrow> fieldError list" where
  "dnsError E path name =
     (case isDNS1123 E name of
        [] \<Rightarrow> []
      | e # _ \<Rightarrow> [FInvalid path (VStr name) (''must be a valid DNS subdomain: '' @ e)])"

fun nodeListErrors :: "ext \<Rightarrow> string \<Rightarrow> nat \<Rightarrow> string list \<Rightarrow> fieldError list" where
  "nodeListErrors E f i [] = []"
| "nodeListErrors E f i (x # xs) = dnsError E (indexPath f i) x @ nodeListErrors E f (Suc i) xs"

definition validateUserGroup :: "ext \<Rightarrow> UserGroup \<Rightarrow> fieldError list" where
  "validateUserGroup E ug =
     nodeListErrors E ''spec.allowedNodes'' 0 (AllowedNodes (groupSpec ug)) @
     nodeListErrors E ''spec.deniedNodes'' 0 (DeniedNodes (groupSpec ug))"

definition validateUser :: "ext \<Rightarrow> User \<Rightarrow> fieldError list" where
  "validateUser E user =
     (if secretName (AuthSecret (userSpec user)) = []
      then [FRequired ''spec.authSecret.name'' ''authSecret.name must not be empty''] else []) @
     (if UserGroupRef (userSpec user) \<noteq> []
      then dnsError E ''spec.userGroupRef'' (UserGroupRef (userSpec user)) else [])"

definition validateEgressPolicy :: "ext \<Rightarrow> EgressPolicy \<Rightarrow> fieldError list" where
  "validateEgressPolicy E policy =
     (let spec = policySpec policy in
      (if Action spec \<noteq> EgressPolicyActionRoute \<and> Action spec \<noteq> EgressPolicyActionReject
       then [FNotSupported ''spec.action'' (VStr (Action spec)) [EgressPolicyActionRoute, EgressPolicyActionReject]]
       else []) @
      (case selectorValid E (IngressSelector spec) of
         Some e \<Rightarrow> [FInvalid ''spec.ingressSelector'' (VSelector (IngressSelector spec)) e] | None \<Rightarrow> []) @
      (case selectorValid E (EgressSelector spec) of
         Some e \<Rightarrow> [FInvalid ''spec.egressSelector'' (VSelector (EgressSelector spec)) e] | None \<Rightarrow> []) @
      (case matchValid E (Match spec) (FallbackAction spec \<noteq> []) of
         Some e \<Rightarrow> [FInvalid ''spec.match'' (VMatch (Match spec)) e] | None \<Rightarrow> []) @
      (if FallbackAction spec \<noteq> [] \<and> FallbackAction spec \<noteq> EgressPolicyActionReject
       then [FNotSupported ''spec.fallbackAction'' (VStr (FallbackAction spec)) [EgressPolicyActionReject]] else []) @
      (if Action spec = EgressPolicyActionRoute \<and> length (MatchNames (EgressSelector spec)) = 0
          \<and> length (MatchLabels (EgressSelector spec)) = 0 \<and> length (MatchExpressions (EgressSelector spec)) = 0
       then [FRequired ''spec.egressSelector'' ''egressSelector is required for route actions''] else []))"

section \<open>ExternalOutbound\<close>

text \<open>\<open>src/internal/webhook/v1alpha1/externaloutbound_webhook.go\<close>\<close>

definition tlsProtocol :: "string \<Rightarrow> bool" where
  "tlsProtocol p \<longleftrightarrow> p = ExternalProtocolTrojan \<or> p = ExternalProtocolHysteria2
     \<or> p = ExternalProtocolTUIC \<or> p = ExternalProtocolAnyTLS"

definition plainProtocol :: "string \<Rightarrow> bool" where
  "plainProtocol p \<longleftrightarrow> p = ExternalProtocolSocks5 \<or> p = ExternalProtocolShadowsocks"

definition tlsErrors :: "ExternalOutboundSpec \<Rightarrow> fieldError list" where
  "tlsErrors spec =
     (if tlsProtocol (eobProtocol spec) then
        (case eobTLS spec of
           None \<Rightarrow> [FRequired ''spec.tls'' (''tls is required for protocol '' @ go_quote (eobProtocol spec))]
         | Some tls \<Rightarrow>
             if ServerName tls = [] \<and> \<not> Insecure tls
             then [FRequired ''spec.tls.serverName'' ''serverName is required unless insecure is true'']
             else [])
      else if plainProtocol (eobProtocol spec) then
        (case eobTLS spec of
           None \<Rightarrow> []
         | Some _ \<Rightarrow> [FForbidden ''spec.tls'' (''tls is not allowed for protocol '' @ go_quote (eobProtocol spec))])
      else [])"

definition validateExternalOutbound :: "ExternalOutbound \<Rightarrow> fieldError list" where
  "validateExternalOutbound eob =
     (let spec = eobSpec eob; protocol = eobProtocol spec in
      tlsErrors spec @
      (if eobHysteria2 spec \<noteq> None \<and> protocol \<noteq> ExternalProtocolHysteria2
       then [FForbidden ''spec.hysteria2'' ''hysteria2 options are only allowed when protocol is hysteria2'']
       else []) @
      (if CredentialsSecretRef spec = None \<and> protocol \<noteq> ExternalProtocolSocks5 \<and> protocol \<noteq> ExternalProtocolHTTP
       then [FRequired ''spec.credentialsSecretRef''
               (''credentialsSecretRef is required for protocol '' @ go_quote protocol)]
       else []))"

section \<open>What acceptance means\<close>

lemma protocolErrors_Nil:
  "protocolErrors i seen ps = [] \<longleftrightarrow>
     distinct (map Protocol ps) \<and> (\<forall>p\<in>set ps. \<not> has_name seen (Protocol p))"
  by (induction ps arbitrary: i seen) (auto simp: go_get_put image_iff split: if_splits)

lemma portErrors_Nil:
  "portErrors w i used ps = [] \<longleftrightarrow>
     distinct (map Port (filter (\<lambda>p. Port p \<noteq> 0) ps))
     \<and> (\<forall>p\<in>set ps. Port p \<noteq> 0 \<longrightarrow> map_of used (Port p) = None \<and> \<not> inNodePortRange w (Port p))"
proof (induction ps arbitrary: i used)
  case (Cons p ps)
  show ?case
    by (cases "Port p = 0"; cases "map_of used (Port p)") (auto simp: Cons map_of_go_put Let_def image_iff)
qed simp

lemma roleErrors_Nil: "roleErrors i rs = [] \<longleftrightarrow> set rs \<subseteq> {ProxyRoleInbound, ProxyRoleOutbound}"
  by (induction rs arbitrary: i) auto

lemma allowListErrors_Nil:
  "allowListErrors f i seen xs = [] \<longleftrightarrow> distinct xs \<and> (\<forall>x\<in>set xs. x \<noteq> [] \<and> \<not> has_name seen x)"
  by (induction xs arbitrary: i seen) (auto simp: go_get_put split: if_splits)

lemma addressErrors_Nil: "addressErrors a = [] \<longleftrightarrow> a \<noteq> [] \<and> (net_ParseIP a \<or> isValidHostname a)"
  by (auto simp: addressErrors_def)

lemma relayErrors_Nil: "relayErrors w p = [] \<longleftrightarrow> p = 0 \<or> \<not> inNodePortRange w p"
  by (auto simp: relayErrors_def)

lemma inboundErrors_Nil:
  "inboundErrors node = [] \<longleftrightarrow>
     Tag (nodeSpec node) \<noteq> ''default''
     \<and> EffectiveInboundProtocol node \<in> Protocol ` set (SupportedProtocols (nodeSpec node))"
  by (auto simp: inboundErrors_def Let_def EffectiveInboundProtocol_def find_None_iff image_iff) metis+

text \<open>The contract of an accepted node.\<close>

definition node_ok :: "SingBoxNodeWebhook \<Rightarrow> SingBoxNode \<Rightarrow> bool" where
  "node_ok w node \<longleftrightarrow>
     (let spec = nodeSpec node; ports = filter (\<lambda>p. Port p \<noteq> 0) (SupportedProtocols spec) in
      Address spec \<noteq> [] \<and> (net_ParseIP (Address spec) \<or> isValidHostname (Address spec))
      \<and> distinct (map Protocol (SupportedProtocols spec))
      \<and> distinct (map Port ports)
      \<and> list_all (\<lambda>p. \<not> inNodePortRange w (Port p)) ports
      \<and> (RelayPort spec = 0 \<or> \<not> inNodePortRange w (RelayPort spec))
      \<and> Roles spec \<noteq> [] \<and> set (Roles spec) \<subseteq> {ProxyRoleInbound, ProxyRoleOutbound}
      \<and> distinct (AllowedInbounds spec) \<and> [] \<notin> set (AllowedInbounds spec)
      \<and> distinct (AllowedOutbounds spec) \<and> [] \<notin> set (AllowedOutbounds spec)
      \<and> (hasRole node ProxyRoleInbound \<longrightarrow> Tag spec \<noteq> ''default''
           \<and> EffectiveInboundProtocol node \<in> Protocol ` set (SupportedProtocols spec)))"


lemma distinct_find:
  "distinct (map f xs) \<Longrightarrow> x \<in> set xs \<Longrightarrow> find (\<lambda>y. f y = f x) xs = Some x"
  by (induction xs) auto

lemma findProtocolPort_present:
  assumes "distinct (map Protocol (SupportedProtocols (nodeSpec node)))"
    and "p \<in> set (SupportedProtocols (nodeSpec node))"
  shows "findProtocolPort node (Protocol p) = Port p"
  using distinct_find [OF assms] by (simp add: findProtocolPort_def)

text \<open>An accepted inbound node can serve its users: when its ports are positive, as the schema
  requires, its configuration has an inbound on the port of the effective protocol as soon as there is a
  user and nothing to relay to.\<close>

lemma accepted_node_serves:
  assumes "validateSingBoxNode w (inNode input) = []" "hasRole (inNode input) ProxyRoleInbound"
    and "\<forall>p\<in>set (SupportedProtocols (nodeSpec (inNode input))). Port p > 0"
    and "inUsers input \<noteq> []"
  shows "\<exists>p\<in>set (SupportedProtocols (nodeSpec (inNode input))).
     Protocol p = EffectiveInboundProtocol (inNode input)
     \<and> buildUserInbounds input =
         [buildInboundEntry (Protocol p) (''inbound-'' @ Protocol p) (Port p)
            (buildUsersBlock input (Protocol p) (Name (inNode input)))]"
proof -
  have ok: "distinct (map Protocol (SupportedProtocols (nodeSpec (inNode input))))"
    "EffectiveInboundProtocol (inNode input) \<in> Protocol ` set (SupportedProtocols (nodeSpec (inNode input)))"
    using assms(1,2) by (simp_all add: validateSingBoxNode_def Let_def protocolErrors_Nil inboundErrors_Nil hasRole_def)
  then obtain p where p: "p \<in> set (SupportedProtocols (nodeSpec (inNode input)))"
    "Protocol p = EffectiveInboundProtocol (inNode input)" by auto
  then have "findProtocolPort (inNode input) (Protocol p) = Port p" "Port p \<noteq> 0"
    using findProtocolPort_present [OF ok(1) p(1)] assms(3) by auto
  then show ?thesis using p assms(4)
    by (intro bexI [of _ p]) (simp_all add: buildUserInbounds_def buildUsersBlock_def Let_def)
qed

text \<open>C30. The policy webhook leaves only cluster state to the reconciler: an admitted policy is never
  reported invalid; what can remain is that its selectors match no ingress, no egress or too many.\<close>

theorem admitted_policy_reasons:
  assumes "validateEgressPolicy E policy = []"
  shows "fst (validatePolicyResolution E policy ings egs)
    \<in> {[], ''IngressNotFound'', ''EgressNotFound'', ''EgressNotUnique''}"
proof -
  let ?s = "policySpec policy"
  have "Action ?s = EgressPolicyActionRoute \<or> Action ?s = EgressPolicyActionReject"
    "selectorValid E (IngressSelector ?s) = None" "selectorValid E (EgressSelector ?s) = None"
    "matchValid E (Match ?s) (FallbackAction ?s \<noteq> []) = None"
    "FallbackAction ?s = [] \<or> FallbackAction ?s = EgressPolicyActionReject"
    using assms by (auto simp: validateEgressPolicy_def Let_def split: if_splits option.splits)
  then show ?thesis by (auto simp: validatePolicyResolution_def Let_def)
qed

theorem admitted_policy_reasons_witness:
  "validatePolicyResolution demoExt (mkPolicy ''p'' [''exit''] EgressPolicyActionRoute 1) [] [] =
     (''IngressNotFound'', ''ingressSelector matched no inbound SingBoxNode'')
   \<and> fst (validatePolicyResolution demoExt (mkPolicy ''p'' [''exit''] EgressPolicyActionRoute 1) [] [])
     \<in> {[], ''IngressNotFound'', ''EgressNotFound'', ''EgressNotUnique''}"
proof -
  have "validateEgressPolicy demoExt (mkPolicy ''p'' [''exit''] EgressPolicyActionRoute 1) = []"
    by (simp add: validateEgressPolicy_def selectorValid_def matchValid_def matchEmpty_def fixture_defs Let_def)
  from admitted_policy_reasons [OF this] show ?thesis
    by (simp add: validatePolicyResolution_def selectorValid_def matchValid_def matchEmpty_def fixture_defs Let_def)
qed

end
