(* ===== verification/Cred_Manager.thy ===== *)
theory Cred_Manager
  imports Kube Config_Engine
begin

text \<open>
  Credential secrets, \<open>src/internal/credmanager/credmanager.go\<close>. The random bytes are arguments: \<open>rnd\<close>
  holds the 16 bytes read for a UUID (whose read error the code ignores, leaving zeros), \<open>pw\<close> the 32
  bytes read for a password, or the read error.
\<close>

section \<open>Generated credentials\<close>

definition b64_char :: "nat \<Rightarrow> char" where
  "b64_char d =
     (if d < 26 then char_of (65 + d) else if d < 52 then char_of (71 + d)
      else if d < 62 then char_of (d - 4) else if d = 62 then CHR ''+'' else CHR 0x2F)"

text \<open>\<open>base64.StdEncoding.EncodeToString\<close>\<close>

fun base64 :: "string \<Rightarrow> string" where
  "base64 [] = []"
| "base64 [a] =
     (let n = of_char a * 16 :: nat in [b64_char (n div 64), b64_char (n mod 64), CHR ''='', CHR ''=''])"
| "base64 [a, b] =
     (let n = (of_char a * 256 + of_char b) * 4 :: nat
      in [b64_char (n div 4096), b64_char (n div 64 mod 64), b64_char (n mod 64), CHR ''=''])"
| "base64 (a # b # c # s) =
     (let n = (of_char a * 256 + of_char b) * 256 + of_char c :: nat
      in [b64_char (n div 262144), b64_char (n div 4096 mod 64), b64_char (n div 64 mod 64),
          b64_char (n mod 64)] @ base64 s)"

definition generateUUID :: "string \<Rightarrow> string" where
  "generateUUID rnd = uuid_text (stamp_uuid 0x40 rnd)"

definition generatePassword :: "apiError + string \<Rightarrow> apiError + string" where
  "generatePassword pw = (case pw of Inl e \<Rightarrow> Inl e | Inr b \<Rightarrow> Inr (base64 b))"

section \<open>Secrets\<close>

definition relaySecretName :: "string \<Rightarrow> string" where
  "relaySecretName nodeName = ''singboxnode-'' @ nodeName @ ''-relay-cred''"

definition nodeCredOf :: "Secret \<Rightarrow> NodeCredential" where
  "nodeCredOf secret =
     \<lparr>Username = go_get [] (secretData secret) ''username'',
      Password = go_get [] (secretData secret) ''password''\<rparr>"

definition EnsureNodeCredential ::
    "'s kube \<Rightarrow> string \<Rightarrow> apiError + string \<Rightarrow> SingBoxNode \<Rightarrow> 's \<Rightarrow> (apiError + NodeCredential) \<times> 's" where
  "EnsureNodeCredential K rnd pw node s =
     (let name = relaySecretName (Name node) in
      case getSecret K (Namespace node) name s of
        Inr secret \<Rightarrow> (Inr (nodeCredOf secret), s)
      | Inl err \<Rightarrow>
          if \<not> IsNotFound err then (Inl (wrapErr ''getting relay credential secret: '' err), s)
          else
            (case generatePassword pw of
               Inl e \<Rightarrow> (Inl (wrapErr ''generating password: '' e), s)
             | Inr password \<Rightarrow>
                 (let username = generateUUID rnd in
                  case setControllerReference K node [] of
                    Inl e \<Rightarrow> (Inl (wrapErr ''setting owner reference: '' e), s)
                  | Inr refs \<Rightarrow>
                      (let secret = ObjectMeta.extend ((newMeta (Namespace node) name)\<lparr>OwnerReferences := refs\<rparr>)
                              (Secret.fields [(''username'', username), (''password'', password)])
                       in case createSecret K secret s of
                            (Some e, s') \<Rightarrow> (Inl (wrapErr ''creating relay credential secret: '' e), s')
                          | (None, s') \<Rightarrow> (Inr \<lparr>Username = username, Password = password\<rparr>, s')))))"

definition GetNodeCredential :: "'s kube \<Rightarrow> string \<Rightarrow> string \<Rightarrow> 's \<Rightarrow> apiError + NodeCredential" where
  "GetNodeCredential K nodeName ns s =
     (case getSecret K ns (relaySecretName nodeName) s of
        Inl e \<Rightarrow> Inl (wrapErr (''getting relay credential secret for node '' @ nodeName @ '': '') e)
      | Inr secret \<Rightarrow> Inr (nodeCredOf secret))"

text \<open>A nil secret reference gives a nil map, which reads like an empty one.\<close>

definition GetExternalCredentials :: "'s kube \<Rightarrow> ExternalOutbound \<Rightarrow> 's \<Rightarrow> apiError + ExternalCredential" where
  "GetExternalCredentials K eob s =
     (case CredentialsSecretRef (eobSpec eob) of
        None \<Rightarrow> Inr []
      | Some ref \<Rightarrow>
          (case getSecret K (Namespace eob) ref s of
             Inl e \<Rightarrow> Inl (wrapErr (''getting credentials secret for ExternalOutbound '' @ Name eob @ '': '') e)
           | Inr secret \<Rightarrow>
               Inr (fold (\<lambda>(k, v) m. if length v > 0 then go_put k v m else m) (secretData secret) [])))"

definition GetUserCredential :: "'s kube \<Rightarrow> User \<Rightarrow> 's \<Rightarrow> apiError + UserCredential" where
  "GetUserCredential K user s =
     (let ref = AuthSecret (userSpec user);
          ns = (if secretNamespace ref = [] then Namespace user else secretNamespace ref)
      in case getSecret K ns (secretName ref) s of
           Inl e \<Rightarrow> Inl (wrapErr (''getting auth secret for user '' @ Name user @ '': '') e)
         | Inr secret \<Rightarrow> Inr \<lparr>UUID = go_get [] (secretData secret) ''uuid''\<rparr>)"

section \<open>Lemmas\<close>

text \<open>The filtered copy of a secret's data reads the same: a missing key reads as the empty string.\<close>

lemma fold_nonempty:
  assumes "wf_map d" "\<forall>k\<in>fst ` set d. map_of m k = None"
  shows "go_get [] (fold (\<lambda>(k, v) m. if length v > 0 then go_put k v m else m) d m) k =
    (if k \<in> fst ` set d then go_get [] d k else go_get [] m k)"
  using assms
proof (induction d arbitrary: m)
  case (Cons kv d)
  obtain k' v where kv: "kv = (k', v)" by (cases kv)
  let ?m = "if length v > 0 then go_put k' v m else m"
  have "wf_map d" "k' \<notin> fst ` set d" using Cons.prems(1) by (auto simp: wf_map_def kv)
  moreover have "\<forall>k\<in>fst ` set d. map_of ?m k = None"
    using Cons.prems(2) calculation(2) by (auto simp: kv map_of_go_put)
  ultimately have "go_get [] (fold (\<lambda>(k, v) m. if length v > 0 then go_put k v m else m) d ?m) k =
      (if k \<in> fst ` set d then go_get [] d k else go_get [] ?m k)"
    by (intro Cons.IH)
  moreover have "go_get [] ?m k' = v" using Cons.prems(2) by (auto simp: kv go_get_put go_get_None)
  ultimately show ?case
    using \<open>k' \<notin> fst ` set d\<close> by (auto simp: kv go_get_put)
qed simp

lemma GetExternalCredentials_reads:
  assumes "CredentialsSecretRef (eobSpec eob) = Some ref" "getSecret K (Namespace eob) ref s = Inr secret"
    and "wf_map (secretData secret)" "GetExternalCredentials K eob s = Inr creds"
  shows "go_get [] creds k = go_get [] (secretData secret) k"
proof -
  have "creds = fold (\<lambda>(k, v) m. if length v > 0 then go_put k v m else m) (secretData secret) []"
    using assms by (simp add: GetExternalCredentials_def)
  then have "go_get [] creds k =
      (if k \<in> fst ` set (secretData secret) then go_get [] (secretData secret) k else [])"
    using fold_nonempty [OF assms(3), of "[]" k] by simp
  then show ?thesis
    by (auto simp: go_get_None map_of_eq_None_iff)
qed

lemma length_base64_3: "length s mod 3 = 0 \<Longrightarrow> length (base64 s) = 4 * (length s div 3)"
  by (induction s rule: base64.induct) (auto simp: Let_def)

end
