(* ===== verification/External_Outbound.thy ===== *)
theory External_Outbound
  imports Webhooks Cred_Manager
begin

text \<open>
  The validation controller of external outbounds,
  \<open>src/internal/controller/externaloutbound_controller.go\<close>: it only writes the Accepted condition. Metrics
  and logging are not modelled.
\<close>

definition validShadowsocksMethods :: "string list" where
  "validShadowsocksMethods =
     [''aes-128-gcm'', ''aes-256-gcm'', ''chacha20-ietf-poly1305'', ''xchacha20-ietf-poly1305'',
      ''2022-blake3-aes-128-gcm'', ''2022-blake3-aes-256-gcm'', ''2022-blake3-chacha20-poly1305'', ''none'']"

record externalOutboundViolation =
  violReason :: string
  violMessage :: string

abbreviation violation :: "string \<Rightarrow> string \<Rightarrow> externalOutboundViolation" where
  "violation rsn msg \<equiv> \<lparr>violReason = rsn, violMessage = msg\<rparr>"

text \<open>The cases of the two switch arms share the webhook's protocol groups.\<close>

definition tlsViolation :: "ExternalOutboundSpec \<Rightarrow> externalOutboundViolation option" where
  "tlsViolation spec =
     (if tlsProtocol (eobProtocol spec) then
        (case eobTLS spec of
           None \<Rightarrow> Some (violation ''InvalidSpec''
             (''spec.tls is required for protocol '' @ go_quote (eobProtocol spec)))
         | Some tls \<Rightarrow>
             if ServerName tls = [] \<and> \<not> Insecure tls
             then Some (violation ''InvalidSpec''
               ''spec.tls.serverName is required unless spec.tls.insecure is true'')
             else None)
      else if plainProtocol (eobProtocol spec) \<and> eobTLS spec \<noteq> None
      then Some (violation ''InvalidSpec''
             (''spec.tls is not allowed for protocol '' @ go_quote (eobProtocol spec)))
      else None)"

definition specViolation :: "ExternalOutbound \<Rightarrow> externalOutboundViolation option" where
  "specViolation eob =
     (let spec = eobSpec eob; protocol = eobProtocol spec in
      case tlsViolation spec of
        Some v \<Rightarrow> Some v
      | None \<Rightarrow>
          if eobHysteria2 spec \<noteq> None \<and> protocol \<noteq> ExternalProtocolHysteria2
          then Some (violation ''InvalidSpec'' ''spec.hysteria2 is only allowed when spec.protocol is hysteria2'')
          else if CredentialsSecretRef spec = None \<and> protocol \<noteq> ExternalProtocolSocks5
             \<and> protocol \<noteq> ExternalProtocolHTTP
          then Some (violation ''InvalidSpec''
                 (''spec.credentialsSecretRef is required for protocol '' @ go_quote protocol))
          else None)"

definition nameConflict ::
    "'s kube \<Rightarrow> ExternalOutbound \<Rightarrow> 's \<Rightarrow> apiError + externalOutboundViolation option" where
  "nameConflict K eob s =
     (case getNode K (Namespace eob) (Name eob) s of
        Inl e \<Rightarrow> if IsNotFound e then Inr None else Inl e
      | Inr _ \<Rightarrow> Inr (Some (violation ''NameConflict''
          (''a SingBoxNode named '' @ go_quote (Name eob) @ '' exists in namespace '' @
           go_quote (Namespace eob) @ '' and wins the outbound name''))))"

definition requiredCredentialKeys :: "ExternalOutbound \<Rightarrow> string list" where
  "requiredCredentialKeys eob =
     (let p = eobProtocol (eobSpec eob) in
      if p = ExternalProtocolShadowsocks then [CredKeyMethod, CredKeyPassword]
      else if p = ExternalProtocolTrojan \<or> p = ExternalProtocolAnyTLS then [CredKeyPassword]
      else if p = ExternalProtocolHysteria2 then
        [CredKeyPassword] @
        (case eobHysteria2 (eobSpec eob) of
           None \<Rightarrow> []
         | Some h \<Rightarrow> if Obfs h then [CredKeyObfsPassword] else [])
      else if p = ExternalProtocolTUIC then [CredKeyUUID, CredKeyPassword]
      else [])"

text \<open>The checks on a secret that was read.\<close>

definition secretViolation :: "ExternalOutbound \<Rightarrow> string \<Rightarrow> Secret \<Rightarrow> externalOutboundViolation option" where
  "secretViolation eob ref secret =
     (let protocol = eobProtocol (eobSpec eob);
          has = (\<lambda>k. length (go_get [] (secretData secret) k) > 0)
      in if protocol = ExternalProtocolSocks5 \<or> protocol = ExternalProtocolHTTP then
           (if has CredKeyUsername \<noteq> has CredKeyPassword
            then Some (violation ''SecretKeyMissing''
                   (''credentials secret '' @ go_quote ref @ '' must set both '' @ go_quote CredKeyUsername @
                    '' and '' @ go_quote CredKeyPassword @ '' or neither''))
            else None)
         else
           (case find (\<lambda>k. \<not> has k) (requiredCredentialKeys eob) of
              Some key \<Rightarrow> Some (violation ''SecretKeyMissing''
                (''credentials secret '' @ go_quote ref @ '' is missing required key '' @ go_quote key @
                 '' for protocol '' @ go_quote protocol))
            | None \<Rightarrow>
                if protocol = ExternalProtocolShadowsocks
                   \<and> go_get [] (secretData secret) CredKeyMethod \<notin> set validShadowsocksMethods
                then Some (violation ''InvalidMethod''
                       (''shadowsocks method '' @ go_quote (go_get [] (secretData secret) CredKeyMethod) @
                        '' in credentials secret '' @ go_quote ref @ '' is not supported''))
                else None))"

definition credentialViolation ::
    "'s kube \<Rightarrow> ExternalOutbound \<Rightarrow> 's \<Rightarrow> apiError + externalOutboundViolation option" where
  "credentialViolation K eob s =
     (case CredentialsSecretRef (eobSpec eob) of
        None \<Rightarrow> Inr None
      | Some ref \<Rightarrow>
          (case getSecret K (Namespace eob) ref s of
             Inl e \<Rightarrow>
               if IsNotFound e
               then Inr (Some (violation ''SecretNotFound''
                      (''credentials secret '' @ go_quote ref @ '' not found in namespace '' @
                       go_quote (Namespace eob))))
               else Inl e
           | Inr secret \<Rightarrow> Inr (secretViolation eob ref secret)))"

abbreviation AcceptedConditionType :: string where
  "AcceptedConditionType \<equiv> ''Accepted''"

definition acceptedStatus ::
    "ext \<Rightarrow> ExternalOutbound \<Rightarrow> ConditionStatus \<Rightarrow> string \<Rightarrow> string \<Rightarrow> ExternalOutboundStatus" where
  "acceptedStatus E latest st rsn msg =
     (eobStatus latest)
       \<lparr>eobObservedGeneration := Generation latest,
        eobConditions := setStatusCondition E (eobConditions (eobStatus latest))
          (mkCondition AcceptedConditionType st rsn msg (Generation latest))\<rparr>"

definition setAccepted ::
    "ext \<Rightarrow> 's kube \<Rightarrow> ExternalOutbound \<Rightarrow> ConditionStatus \<Rightarrow> string \<Rightarrow> string \<Rightarrow> 's \<Rightarrow> outcome \<times> 's" where
  "setAccepted E K eob st rsn msg s =
     (case getExternalOutbound K (Namespace eob) (Name eob) s of
        Inl e \<Rightarrow> ((emptyResult, Some e), s)
      | Inr latest \<Rightarrow>
          (case updateExternalOutboundStatus K (latest\<lparr>eobStatus := acceptedStatus E latest st rsn msg\<rparr>) s of
             (Some e, s') \<Rightarrow>
               if IsConflict e then ((emptyResult\<lparr>Requeue := True\<rparr>, None), s')
               else ((emptyResult, Some e), s')
           | (None, s') \<Rightarrow> ((emptyResult, None), s')))"

text \<open>The chain of checks of \<open>Reconcile\<close>: each runs only when the one before it found nothing.\<close>

definition externalViolation ::
    "'s kube \<Rightarrow> ExternalOutbound \<Rightarrow> 's \<Rightarrow> apiError + externalOutboundViolation option" where
  "externalViolation K eob s =
     (case specViolation eob of
        Some v \<Rightarrow> Inr (Some v)
      | None \<Rightarrow>
          (case nameConflict K eob s of
             Inl e \<Rightarrow> Inl e
           | Inr (Some v) \<Rightarrow> Inr (Some v)
           | Inr None \<Rightarrow> credentialViolation K eob s))"

definition externalReconcile :: "ext \<Rightarrow> 's kube \<Rightarrow> Request \<Rightarrow> 's \<Rightarrow> outcome \<times> 's" where
  "externalReconcile E K req s =
     (case getExternalOutbound K (reqNamespace req) (reqName req) s of
        Inl e \<Rightarrow> ((emptyResult, if IsNotFound e then None else Some e), s)
      | Inr eob \<Rightarrow>
          (case externalViolation K eob s of
             Inl e \<Rightarrow> ((emptyResult, Some e), s)
           | Inr (Some v) \<Rightarrow> setAccepted E K eob CFalse (violReason v) (violMessage v) s
           | Inr None \<Rightarrow> setAccepted E K eob CTrue ''Valid'' ''ExternalOutbound spec is valid'' s))"

definition credentialsSecretMapper :: "'s kube \<Rightarrow> Secret \<Rightarrow> 's \<Rightarrow> Request list" where
  "credentialsSecretMapper K secret s =
     (case listExternalOutbounds K (Namespace secret) s of
        Inl _ \<Rightarrow> []
      | Inr eobs \<Rightarrow>
          map requestFor (filter (\<lambda>e. CredentialsSecretRef (eobSpec e) = Some (Name secret)) eobs))"

section \<open>Properties\<close>

text \<open>C31. The webhook and the controller enforce the same specification rules: the webhook admits an
  external outbound exactly when the controller finds no violation in its specification.\<close>

theorem webhook_controller_agree:
  "validateExternalOutbound eob = [] \<longleftrightarrow> specViolation eob = None"
  by (auto simp: validateExternalOutbound_def tlsErrors_def specViolation_def tlsViolation_def Let_def
      tlsProtocol_def plainProtocol_def split: option.splits if_splits)

lemma hasRequired_keys:
  assumes "specViolation eob = None" "\<And>k. go_get [] creds k = go_get [] data k"
    and "\<forall>k\<in>set (requiredCredentialKeys eob). go_get [] data k \<noteq> []"
  shows "hasRequiredExternalCreds eob creds"
  using assms(2,3)
  by (auto simp: hasRequiredExternalCreds_def requiredCredentialKeys_def requiredCreds_def Let_def
      split: option.splits if_splits)

lemma secretViolation_keys:
  assumes "secretViolation eob ref secret = None"
  shows "\<forall>k\<in>set (requiredCredentialKeys eob). go_get [] (secretData secret) k \<noteq> []"
proof (cases "eobProtocol (eobSpec eob) = ExternalProtocolSocks5 \<or> eobProtocol (eobSpec eob) = ExternalProtocolHTTP")
  case True
  then show ?thesis by (auto simp: requiredCredentialKeys_def)
next
  case False
  then have "find (\<lambda>k. \<not> length (go_get [] (secretData secret) k) > 0) (requiredCredentialKeys eob) = None"
    using assms by (auto simp: secretViolation_def Let_def split: option.splits)
  then show ?thesis by (auto simp: find_None_iff)
qed

text \<open>C32. Accepted means usable: when the controller finds no violation, the credentials the node
  reconciler loads for the external outbound satisfy the config engine, so that the engine emits it.\<close>

theorem accepted_external_usable:
  assumes "externalViolation K eob s = Inr None"
    and "\<forall>ref secret. getSecret K (Namespace eob) ref s = Inr secret \<longrightarrow> wf_map (secretData secret)"
  shows "\<exists>creds. GetExternalCredentials K eob s = Inr creds \<and> hasRequiredExternalCreds eob creds"
proof (cases "CredentialsSecretRef (eobSpec eob)")
  case None
  then have "eobProtocol (eobSpec eob) = ExternalProtocolSocks5 \<or> eobProtocol (eobSpec eob) = ExternalProtocolHTTP"
    using assms(1) by (auto simp: externalViolation_def specViolation_def Let_def split: option.splits if_splits)
  then show ?thesis using None by (auto simp: GetExternalCredentials_def hasRequiredExternalCreds_def)
next
  case (Some ref)
  have spec: "specViolation eob = None" and cred: "credentialViolation K eob s = Inr None"
    using assms(1) by (auto simp: externalViolation_def split: option.splits sum.splits)
  then obtain secret where sec: "getSecret K (Namespace eob) ref s = Inr secret"
    "secretViolation eob ref secret = None"
    using Some by (auto simp: credentialViolation_def split: sum.splits if_splits)
  then obtain creds where creds: "GetExternalCredentials K eob s = Inr creds"
    using Some by (auto simp: GetExternalCredentials_def)
  have "go_get [] creds k = go_get [] (secretData secret) k" for k
    using GetExternalCredentials_reads [OF Some sec(1) _ creds] assms(2) sec(1) by blast
  then have "hasRequiredExternalCreds eob creds"
    using hasRequired_keys [OF spec _ secretViolation_keys [OF sec(2)]] by blast
  then show ?thesis using creds by blast
qed

definition demoSecret :: Secret where
  "demoSecret = ObjectMeta.extend (newMeta ''ns'' ''cred'') (Secret.fields [(''password'', ''pw'')])"

definition demoTrojan :: ExternalOutbound where
  "demoTrojan = (mkExternal ''ext'' ExternalProtocolTrojan)
     \<lparr>eobSpec := (eobSpec (mkExternal ''ext'' ExternalProtocolTrojan))
        \<lparr>CredentialsSecretRef := Some ''cred'', eobTLS := Some \<lparr>ServerName = ''a.example'', Insecure = False\<rparr>\<rparr>\<rparr>"

theorem accepted_external_usable_witness:
  "\<exists>creds. GetExternalCredentials demoKube demoTrojan (emptyCluster\<lparr>clSecrets := [demoSecret]\<rparr>) = Inr creds
     \<and> hasRequiredExternalCreds demoTrojan creds"
proof (rule accepted_external_usable)
  show "externalViolation demoKube demoTrojan (emptyCluster\<lparr>clSecrets := [demoSecret]\<rparr>) = Inr None"
    by (simp add: externalViolation_def specViolation_def tlsViolation_def tlsProtocol_def nameConflict_def
        credentialViolation_def secretViolation_def requiredCredentialKeys_def demoTrojan_def demoSecret_def
        mkExternal_def cluster_defs newMeta_def IsNotFound_def ObjectMeta.extend_def Secret.fields_def Let_def)
  show "\<forall>ref secret. getSecret demoKube (Namespace demoTrojan) ref (emptyCluster\<lparr>clSecrets := [demoSecret]\<rparr>) = Inr secret
      \<longrightarrow> wf_map (secretData secret)"
    by (auto simp: cluster_defs demoSecret_def wf_map_def newMeta_def ObjectMeta.extend_def Secret.fields_def
        split: if_splits)
qed

end
