(* ===== verification/Node_Controller.thy ===== *)
theory Node_Controller
  imports Egress_Policy Cred_Manager
begin

text \<open>
  The node reconciler, \<open>src/internal/controller/singboxnode_controller.go\<close> and \<open>node_health.go\<close>: collecting
  the engine's input from the cluster, writing the config map, rolling the pod, removing services of
  earlier versions, and the status. The reconciler's read-only helpers take the client and the state;
  the others return the next state. Metrics and logging are not modelled.

  \<open>pem.Decode\<close> with \<open>x509.ParseCertificate\<close> is the argument \<open>dnsNames\<close>: the DNS names of the certificate
  in a PEM text, None when either fails.
\<close>

record SingBoxNodeReconciler =
  DefaultTLSSecret :: string
  SingBoxImage :: string
  UsageCollectionEnabled :: bool
  V2RayAPIListenAddr :: string

abbreviation singboxNodeFinalizer :: string where
  "singboxNodeFinalizer \<equiv> ''singboxoperator.shlande.top/singboxnode-finalizer''"

abbreviation configHashAnnotation :: string where
  "configHashAnnotation \<equiv> ''singboxoperator.shlande.top/config-hash''"

section \<open>Collecting the input\<close>

definition emptyInput :: "SingBoxNodeReconciler \<Rightarrow> SingBoxNode \<Rightarrow> Input" where
  "emptyInput R node =
     \<lparr>inNode = node, inUsers = [], inUserCreds = [], inOutboundNodes = [], inRoutes = [],
      inEgressPolicies = [], inNodeCreds = [], inOutboundNodesByName = [], inExternalOutbounds = [],
      inExternalOutboundsByName = [], inExternalCreds = [],
      inUsageCollectionEnabled = UsageCollectionEnabled R, inV2RayAPIListenAddr = V2RayAPIListenAddr R,
      inUserNodeRestrictions = [], inUserNodeAllowlist = []\<rparr>"

text \<open>\<open>if err == nil { input.NodeCreds[name] = ... }\<close>\<close>

definition loadNodeCred :: "'s kube \<Rightarrow> string \<Rightarrow> string \<Rightarrow> 's \<Rightarrow> Input \<Rightarrow> Input" where
  "loadNodeCred K name ns s input =
     (case GetNodeCredential K name ns s of
        Inl _ \<Rightarrow> input
      | Inr cred \<Rightarrow> input\<lparr>inNodeCreds := go_put name cred (inNodeCreds input)\<rparr>)"

definition loadExternalCredential :: "'s kube \<Rightarrow> ExternalOutbound \<Rightarrow> 's \<Rightarrow> Input \<Rightarrow> Input" where
  "loadExternalCredential K eob s input =
     (case GetExternalCredentials K eob s of
        Inl _ \<Rightarrow> input
      | Inr creds \<Rightarrow> input\<lparr>inExternalCreds := go_put (Name eob) creds (inExternalCreds input)\<rparr>)"

definition addPeer :: "'s kube \<Rightarrow> SingBoxNode \<Rightarrow> 's \<Rightarrow> SingBoxNode \<Rightarrow> Input \<Rightarrow> Input" where
  "addPeer K node s other input =
     (if Name other = Name node then input
      else if Region (nodeSpec other) = Region (nodeSpec node) \<and> hasRole other ProxyRoleOutbound then
        (if \<not> admits (AllowedInbounds (nodeSpec other)) (Name node) then input
         else if \<not> admits (AllowedOutbounds (nodeSpec node)) (Name other) then input
         else loadNodeCred K (Name other) (Namespace node) s
           (input\<lparr>inOutboundNodes := inOutboundNodes input @ [other],
                  inOutboundNodesByName := go_put (Name other) other (inOutboundNodesByName input)\<rparr>))
      else input)"

definition addExternalCandidate ::
    "'s kube \<Rightarrow> SingBoxNode \<Rightarrow> names \<Rightarrow> 's \<Rightarrow> ExternalOutbound \<Rightarrow> Input \<Rightarrow> Input" where
  "addExternalCandidate K node sbnNames s eob input =
     (if has_name sbnNames (Name eob) then input
      else if eobRegion (eobSpec eob) = [] \<or> eobRegion (eobSpec eob) \<noteq> Region (nodeSpec node) then input
      else if \<not> admits (eobAllowedInbounds (eobSpec eob)) (Name node) then input
      else if \<not> admits (AllowedOutbounds (nodeSpec node)) (Name eob) then input
      else loadExternalCredential K eob s
        (input\<lparr>inExternalOutbounds := inExternalOutbounds input @ [Some eob],
               inExternalOutboundsByName := go_put (Name eob) eob (inExternalOutboundsByName input)\<rparr>))"

definition loadUser :: "'s kube \<Rightarrow> User \<Rightarrow> 's \<Rightarrow> Input \<Rightarrow> Input" where
  "loadUser K user s input =
     (let input = input\<lparr>inUsers := inUsers input @ [user]\<rparr> in
      case GetUserCredential K user s of
        Inl _ \<Rightarrow> input
      | Inr cred \<Rightarrow> input\<lparr>inUserCreds := go_put (Name user) cred (inUserCreds input)\<rparr>)"

definition loadGroup :: "User \<Rightarrow> UserGroup \<Rightarrow> Input \<Rightarrow> Input" where
  "loadGroup user ug input =
     (let deniedSet = name_set (DeniedNodes (groupSpec ug));
          allowedSet = name_set (AllowedNodes (groupSpec ug));
          input = input\<lparr>inUserNodeRestrictions := go_put (Name user) deniedSet (inUserNodeRestrictions input)\<rparr>
      in if length allowedSet > 0
         then input\<lparr>inUserNodeAllowlist := go_put (Name user) allowedSet (inUserNodeAllowlist input)\<rparr>
         else input)"

fun collectUsers :: "'s kube \<Rightarrow> SingBoxNode \<Rightarrow> 's \<Rightarrow> User list \<Rightarrow> Input \<Rightarrow> apiError + Input" where
  "collectUsers K node s [] input = Inr input"
| "collectUsers K node s (user # users) input =
     (if UserGroupRef (userSpec user) = [] then collectUsers K node s users (loadUser K user s input)
      else
        (case getUserGroup K (Namespace node) (UserGroupRef (userSpec user)) s of
           Inl err \<Rightarrow>
             if IsNotFound err then collectUsers K node s users (loadUser K user s input)
             else Inl (wrapErr (''fetching UserGroup '' @ UserGroupRef (userSpec user) @ '': '') err)
         | Inr ug \<Rightarrow> collectUsers K node s users (loadGroup user ug (loadUser K user s input))))"

definition addPolicy ::
    "ext \<Rightarrow> 's kube \<Rightarrow> SingBoxNode \<Rightarrow> SingBoxNode list \<Rightarrow> ExternalOutbound list \<Rightarrow> 's \<Rightarrow> EgressPolicy \<Rightarrow>
     Input \<Rightarrow> Input" where
  "addPolicy E K node nodes externals s policy input =
     (if \<not> hasRole node ProxyRoleInbound \<or> \<not> selectorMatches E (IngressSelector (policySpec policy)) node
      then input
      else
        (let (_, egressName, message) = resolveEgressPolicy E policy nodes externals;
             added = input\<lparr>inEgressPolicies := inEgressPolicies input @ [Some policy]\<rparr>
         in if message \<noteq> [] then input
            else if Action (policySpec policy) = EgressPolicyActionReject then added
            else if egressName = [] then input
            else if \<not> egressConnectedToInbound node egressName nodes externals then input
            else
              (case findOutboundNode nodes egressName of
                 Some egressNode \<Rightarrow>
                   loadNodeCred K (Name egressNode) (Namespace node) s
                     (added\<lparr>inOutboundNodesByName :=
                        go_put (Name egressNode) egressNode (inOutboundNodesByName input)\<rparr>)
               | None \<Rightarrow>
                   (case findExternalOutbound externals egressName of
                      Some egress \<Rightarrow>
                        loadExternalCredential K egress s
                          (added\<lparr>inExternalOutboundsByName :=
                             go_put (Name egress) egress (inExternalOutboundsByName input)\<rparr>)
                    | None \<Rightarrow> added))))"

text \<open>Listed objects of one namespace have distinct names, so that \<open>sort.Slice\<close> by name has one result.\<close>

definition sortByName :: "'a ObjectMeta_scheme list \<Rightarrow> 'a ObjectMeta_scheme list" where
  "sortByName xs = sort_key Name xs"

definition collectInput ::
    "ext \<Rightarrow> 's kube \<Rightarrow> SingBoxNodeReconciler \<Rightarrow> SingBoxNode \<Rightarrow> 's \<Rightarrow> apiError + Input" where
  "collectInput E K R node s =
     (case listNodes K (Namespace node) s of
        Inl e \<Rightarrow> Inl (wrapErr ''listing SingBoxNodes: '' e)
      | Inr listed \<Rightarrow>
     (case listExternalOutbounds K (Namespace node) s of
        Inl e \<Rightarrow> Inl (wrapErr ''listing ExternalOutbounds: '' e)
      | Inr listedExt \<Rightarrow>
        (let nodes = sortByName listed;
             externals = sortByName listedExt;
             sbnNames = name_set (Name node # map Name nodes);
             input = fold (addPeer K node s) nodes (emptyInput R node);
             input = fold (addExternalCandidate K node sbnNames s) externals input;
             collected =
               (if hasRole node ProxyRoleInbound then
                  (case listUsers K (Namespace node) s of
                     Inl e \<Rightarrow> Inl (wrapErr ''listing Users: '' e)
                   | Inr users \<Rightarrow> collectUsers K node s (sortByName users) input)
                else Inr input)
         in case collected of
              Inl e \<Rightarrow> Inl e
            | Inr input \<Rightarrow>
                (case listPolicies K (Namespace node) s of
                   Inl e \<Rightarrow> Inl (wrapErr ''listing EgressPolicies: '' e)
                 | Inr policies \<Rightarrow>
                     (let input = fold (addPolicy E K node nodes externals s) policies input
                      in Inr (if hasRole node ProxyRoleOutbound
                              then loadNodeCred K (Name node) (Namespace node) s input else input))))))"

section \<open>Node health\<close>

definition isNodeReady :: "K8sNode \<Rightarrow> bool" where
  "isNodeReady node =
     (case find (\<lambda>c. ncType c = ''Ready'') (k8sConditions node) of
        Some c \<Rightarrow> ncStatus c = CTrue
      | None \<Rightarrow> False)"

definition isNodeOfflineAnnotated :: "K8sNode \<Rightarrow> bool" where
  "isNodeOfflineAnnotated node \<longleftrightarrow>
     go_get [] (Annotations node) ''singboxoperator.shlande.top/offline'' = ''true''"

definition isNodeAvailable :: "K8sNode \<Rightarrow> bool" where
  "isNodeAvailable node \<longleftrightarrow> isNodeReady node \<and> \<not> isNodeOfflineAnnotated node"

definition getNodeReadyStatus :: "K8sNode \<Rightarrow> ConditionStatus" where
  "getNodeReadyStatus node =
     (case find (\<lambda>c. ncType c = ''Ready'') (k8sConditions node) of
        Some c \<Rightarrow> ncStatus c
      | None \<Rightarrow> CUnknown)"

text \<open>\<open>NodeReadyConditionChangedPredicate.UpdateFunc\<close>, None for an object that is nil or no Node.\<close>

definition nodeReadyChanged :: "K8sNode option \<Rightarrow> K8sNode option \<Rightarrow> bool" where
  "nodeReadyChanged oldObj newObj =
     (case (oldObj, newObj) of
        (Some oldNode, Some newNode) \<Rightarrow> getNodeReadyStatus oldNode \<noteq> getNodeReadyStatus newNode
      | _ \<Rightarrow> False)"

section \<open>Config map, pod and services\<close>

definition mutateConfigMap :: "'s kube \<Rightarrow> SingBoxNode \<Rightarrow> Output \<Rightarrow> ConfigMap \<Rightarrow> apiError + ConfigMap" where
  "mutateConfigMap K node out cm =
     (let cm = cm\<lparr>Annotations := go_put configHashAnnotation (Hash out) (Annotations cm),
                   cmData := [(''config.json'', Config out)]\<rparr>
      in case setControllerReference K node (OwnerReferences cm) of
           Inl e \<Rightarrow> Inl e
         | Inr refs \<Rightarrow> Inr (cm\<lparr>OwnerReferences := refs\<rparr>))"

definition reconcileConfigMap :: "'s kube \<Rightarrow> SingBoxNode \<Rightarrow> Output \<Rightarrow> 's \<Rightarrow> apiError option \<times> 's" where
  "reconcileConfigMap K node out s =
     createOrUpdateConfigMap K (Namespace node) (Name node @ ''-config'') (mutateConfigMap K node out) s"

definition needsTLS :: "SingBoxNode \<Rightarrow> bool" where
  "needsTLS node \<longleftrightarrow>
     (\<exists>p\<in>set (SupportedProtocols (nodeSpec node)).
        Protocol p = ''hysteria2'' \<or> Protocol p = ''tuic'' \<or> Protocol p = ''naive'' \<or> Protocol p = ''anytls'')"

definition tlsSecretFor :: "SingBoxNodeReconciler \<Rightarrow> SingBoxNode \<Rightarrow> string" where
  "tlsSecretFor R node =
     (if TLSSecretName (nodeSpec node) = [] then DefaultTLSSecret R else TLSSecretName (nodeSpec node))"

definition singboxImage :: "SingBoxNodeReconciler \<Rightarrow> string" where
  "singboxImage R =
     (if SingBoxImage R \<noteq> [] then SingBoxImage R else ''ghcr.io/sagernet/sing-box:latest'')"

definition resourcesOrDefault :: "ResourceRequirements option \<Rightarrow> ResourceRequirements" where
  "resourcesOrDefault r = (case r of Some x \<Rightarrow> x | None \<Rightarrow> \<lparr>resLimits = [], resRequests = []\<rparr>)"

definition podVolumeMounts :: "SingBoxNodeReconciler \<Rightarrow> SingBoxNode \<Rightarrow> VolumeMount list" where
  "podVolumeMounts R node =
     [\<lparr>mountName = ''config'', MountPath = ''/etc/sing-box'', ReadOnly = False\<rparr>] @
     (if needsTLS node \<and> tlsSecretFor R node \<noteq> []
      then [\<lparr>mountName = ''tls'', MountPath = ''/etc/sing-box/tls'', ReadOnly = True\<rparr>] else [])"

definition podVolumes :: "SingBoxNodeReconciler \<Rightarrow> SingBoxNode \<Rightarrow> Volume list" where
  "podVolumes R node =
     [\<lparr>volumeName = ''config'', volumeSource = ConfigMapVolume (Name node @ ''-config'')\<rparr>] @
     (if needsTLS node \<and> tlsSecretFor R node \<noteq> []
      then [\<lparr>volumeName = ''tls'', volumeSource = SecretVolume (tlsSecretFor R node)
               [(''tls.crt'', ''tls.crt''), (''tls.key'', ''tls.key'')]\<rparr>] else [])"

definition desiredPodHash :: "string \<Rightarrow> string" where
  "desiredPodHash configHash = configHash @ ''-'' @ int_dec 2"

definition desiredPod :: "SingBoxNodeReconciler \<Rightarrow> SingBoxNode \<Rightarrow> string \<Rightarrow> Pod" where
  "desiredPod R node configHash =
     ObjectMeta.extend
       ((newMeta (Namespace node) (Name node @ ''-sing-box-server''))
          \<lparr>Labels := [(''app'', ''singbox''), (''singboxnode'', Name node)],
           Annotations := [(configHashAnnotation, desiredPodHash configHash)]\<rparr>)
       (Pod.fields
          \<lparr>HostNetwork = True, DNSPolicy = ''ClusterFirstWithHostNet'',
           NodeSelector = [(''kubernetes.io/hostname'', NodeRef (nodeSpec node))],
           RestartPolicy = ''Always'', containerName = ''singbox'', containerImage = singboxImage R,
           containerArgs = [''run'', ''-c'', ''/etc/sing-box/config.json''],
           VolumeMounts = podVolumeMounts R node, Volumes = podVolumes R node,
           containerResources = resourcesOrDefault (Resources (nodeSpec node))\<rparr>)"

definition reconcilePod ::
    "'s kube \<Rightarrow> SingBoxNodeReconciler \<Rightarrow> SingBoxNode \<Rightarrow> string \<Rightarrow> 's \<Rightarrow> (bool \<times> apiError option) \<times> 's" where
  "reconcilePod K R node configHash s =
     (case getPod K (Namespace node) (Name node @ ''-sing-box-server'') s of
        Inr existing \<Rightarrow>
          if go_get [] (Annotations existing) configHashAnnotation = desiredPodHash configHash
          then ((False, None), s)
          else
            (case deletePod K existing s of
               (Some delErr, s') \<Rightarrow> if \<not> IsNotFound delErr then ((False, Some delErr), s') else ((True, None), s')
             | (None, s') \<Rightarrow> ((True, None), s'))
      | Inl err \<Rightarrow>
          if \<not> IsNotFound err then ((False, Some err), s)
          else
            (let pod = desiredPod R node configHash in
             case setControllerReference K node (OwnerReferences pod) of
               Inl e \<Rightarrow> ((False, Some e), s)
             | Inr refs \<Rightarrow>
                 (case createPod K (pod\<lparr>OwnerReferences := refs\<rparr>) s of (e, s') \<Rightarrow> ((False, e), s'))))"

definition ownedByNode :: "SingBoxNode \<Rightarrow> Service \<Rightarrow> bool" where
  "ownedByNode node svc \<longleftrightarrow>
     (\<exists>ref\<in>set (OwnerReferences svc). ownerKind ref = ''SingBoxNode'' \<and> ownerName ref = Name node)"

fun deleteOwned :: "'s kube \<Rightarrow> SingBoxNode \<Rightarrow> Service list \<Rightarrow> 's \<Rightarrow> apiError option \<times> 's" where
  "deleteOwned K node [] s = (None, s)"
| "deleteOwned K node (svc # svcs) s =
     (if ownedByNode node svc then
        (case deleteService K svc s of
           (Some e, s') \<Rightarrow>
             if \<not> IsNotFound e then (Some (wrapErr (''deleting orphan service '' @ Name svc @ '': '') e), s')
             else deleteOwned K node svcs s'
         | (None, s') \<Rightarrow> deleteOwned K node svcs s')
      else deleteOwned K node svcs s)"

definition deleteOrphanServices :: "'s kube \<Rightarrow> SingBoxNode \<Rightarrow> 's \<Rightarrow> apiError option \<times> 's" where
  "deleteOrphanServices K node s =
     (case listServices K (Namespace node) s of
        Inl e \<Rightarrow> (Some e, s)
      | Inr svcs \<Rightarrow> deleteOwned K node svcs s)"

definition reconcileServices :: "'s kube \<Rightarrow> SingBoxNode \<Rightarrow> 's \<Rightarrow> (bool \<times> apiError option) \<times> 's" where
  "reconcileServices K node s =
     (case deleteOrphanServices K node s of
        (Some e, s') \<Rightarrow> ((False, Some (wrapErr ''deleting orphan services: '' e)), s')
      | (None, s') \<Rightarrow> ((False, None), s'))"

section \<open>Status\<close>

abbreviation NodeReadyConditionType :: string where
  "NodeReadyConditionType \<equiv> ''NodeReady''"

definition nodeReadyCondition :: "SingBoxNode \<Rightarrow> int \<Rightarrow> apiError + K8sNode \<Rightarrow> Condition" where
  "nodeReadyCondition node gen k8s =
     (let ref = go_quote (NodeRef (nodeSpec node)) in
      case k8s of
        Inl _ \<Rightarrow> mkCondition NodeReadyConditionType CFalse ''NodeNotFound'' (''Kubernetes Node '' @ ref @ '' not found'') gen
      | Inr k8sNode \<Rightarrow>
          if \<not> isNodeAvailable k8sNode then
            (if isNodeOfflineAnnotated k8sNode
             then mkCondition NodeReadyConditionType CFalse ''NodeOffline''
                    (''Kubernetes Node '' @ ref @ '' is manually taken offline'') gen
             else mkCondition NodeReadyConditionType CFalse ''NodeNotReady''
                    (''Kubernetes Node '' @ ref @ '' is not ready'') gen)
          else mkCondition NodeReadyConditionType CTrue ''NodeReady'' (''Kubernetes Node '' @ ref @ '' is ready'') gen)"

definition addNodeCondition :: "ext \<Rightarrow> Condition \<Rightarrow> SingBoxNode \<Rightarrow> SingBoxNode" where
  "addNodeCondition E c node =
     node\<lparr>nodeStatus := (nodeStatus node)
       \<lparr>nodeConditions := setStatusCondition E (nodeConditions (nodeStatus node)) c\<rparr>\<rparr>"

definition updateNodeReadyStatus :: "ext \<Rightarrow> 's kube \<Rightarrow> SingBoxNode \<Rightarrow> 's \<Rightarrow> apiError option \<times> 's" where
  "updateNodeReadyStatus E K node s =
     (let k8s = getK8sNode K (NodeRef (nodeSpec node)) s in
      case getNode K (Namespace node) (Name node) s of
        Inl e \<Rightarrow> (Some e, s)
      | Inr latest \<Rightarrow>
          updateNodeStatus K (addNodeCondition E (nodeReadyCondition node (Generation latest) k8s) latest) s)"

definition resolveTLSServerName ::
    "'s kube \<Rightarrow> SingBoxNodeReconciler \<Rightarrow> (string \<Rightarrow> string list option) \<Rightarrow> SingBoxNode \<Rightarrow> 's \<Rightarrow> string" where
  "resolveTLSServerName K R dnsNames node s =
     (if \<not> needsTLS node then []
      else if tlsSecretFor R node = [] then []
      else
        (case getSecret K (Namespace node) (tlsSecretFor R node) s of
           Inl _ \<Rightarrow> []
         | Inr secret \<Rightarrow>
             (let certPEM = go_get [] (secretData secret) ''tls.crt'' in
              if length certPEM = 0 then []
              else
                (case dnsNames certPEM of
                   None \<Rightarrow> []
                 | Some sans \<Rightarrow> (case find (\<lambda>san. san \<noteq> []) sans of None \<Rightarrow> [] | Some san \<Rightarrow> san)))))"

definition entryEndpoint :: "SingBoxNode \<Rightarrow> ProtocolConfig \<Rightarrow> string" where
  "entryEndpoint node proto = Protocol proto @ '':'' @ Address (nodeSpec node) @ '':'' @ int_dec (Port proto)"

definition runningStatus ::
    "ext \<Rightarrow> SingBoxNode \<Rightarrow> string \<Rightarrow> string \<Rightarrow> SingBoxNodeStatus" where
  "runningStatus E latest configHash serverName =
     (nodeStatus latest)
       \<lparr>Phase := ''Running'', ConfigHash := configHash, nodeObservedGeneration := Generation latest,
        EntryEndpoints := map (entryEndpoint latest) (SupportedProtocols (nodeSpec latest)),
        TLSServerName := serverName,
        nodeConditions := setStatusCondition E (nodeConditions (nodeStatus latest))
          (mkCondition ''Ready'' CTrue ''Reconciled'' ''SingBoxNode reconciled successfully'' (Generation latest))\<rparr>"

definition nodeUpdateStatus ::
    "ext \<Rightarrow> 's kube \<Rightarrow> SingBoxNodeReconciler \<Rightarrow> (string \<Rightarrow> string list option) \<Rightarrow> SingBoxNode \<Rightarrow> string \<Rightarrow> 's \<Rightarrow>
     outcome \<times> 's" where
  "nodeUpdateStatus E K R dnsNames node configHash s =
     (case getNode K (Namespace node) (Name node) s of
        Inl e \<Rightarrow> ((emptyResult, Some e), s)
      | Inr latest \<Rightarrow>
          (case updateNodeStatus K
                  (latest\<lparr>nodeStatus :=
                     runningStatus E latest configHash (resolveTLSServerName K R dnsNames latest s)\<rparr>) s of
             (e, s') \<Rightarrow> ((emptyResult, e), s')))"

definition setDegraded :: "ext \<Rightarrow> 's kube \<Rightarrow> SingBoxNode \<Rightarrow> string \<Rightarrow> string \<Rightarrow> 's \<Rightarrow> outcome \<times> 's" where
  "setDegraded E K node rsn msg s =
     (case getNode K (Namespace node) (Name node) s of
        Inl e \<Rightarrow> ((emptyResult, Some e), s)
      | Inr latest \<Rightarrow>
          (case updateNodeStatus K
                  (addNodeCondition E (mkCondition ''Degraded'' CTrue rsn msg (Generation latest))
                    (latest\<lparr>nodeStatus := (nodeStatus latest)\<lparr>Phase := ''Failed''\<rparr>\<rparr>)) s of
             (Some e, s') \<Rightarrow> ((emptyResult, Some e), s')
           | (None, s') \<Rightarrow>
               ((emptyResult, Some \<lparr>errReason = OtherReason, errText = rsn @ '': '' @ msg\<rparr>), s')))"

section \<open>Reconcile\<close>

definition handleDeletion :: "'s kube \<Rightarrow> SingBoxNode \<Rightarrow> 's \<Rightarrow> outcome \<times> 's" where
  "handleDeletion K node s =
     (if singboxNodeFinalizer \<in> set (Finalizers node) then
        (case updateNode K (node\<lparr>Finalizers := filter (\<lambda>f. f \<noteq> singboxNodeFinalizer) (Finalizers node)\<rparr>) s of
           (e, s') \<Rightarrow> ((emptyResult, e), s'))
      else ((emptyResult, None), s))"

definition ensureCredential ::
    "'s kube \<Rightarrow> string \<Rightarrow> apiError + string \<Rightarrow> SingBoxNode \<Rightarrow> 's \<Rightarrow> apiError option \<times> 's" where
  "ensureCredential K rnd pw node s =
     (if hasRole node ProxyRoleOutbound then
        (case EnsureNodeCredential K rnd pw node s of (Inl e, s') \<Rightarrow> (Some e, s') | (Inr _, s') \<Rightarrow> (None, s'))
      else (None, s))"

text \<open>The steps of \<open>Reconcile\<close> after the input was collected.\<close>

definition applyInput ::
    "ext \<Rightarrow> 's kube \<Rightarrow> SingBoxNodeReconciler \<Rightarrow> (string \<Rightarrow> string list option) \<Rightarrow> SingBoxNode \<Rightarrow> Input \<Rightarrow> 's \<Rightarrow>
     outcome \<times> 's" where
  "applyInput E K R dnsNames node input s =
     (case Compute E input of
        Inl err \<Rightarrow> setDegraded E K node ''ConfigComputeFailed'' err s
      | Inr out \<Rightarrow>
     (case reconcileConfigMap K node out s of
        (Some e, s1) \<Rightarrow> ((emptyResult, Some e), s1)
      | (None, s1) \<Rightarrow>
     (case reconcilePod K R node (Hash out) s1 of
        ((_, Some e), s2) \<Rightarrow> ((emptyResult, Some e), s2)
      | ((True, None), s2) \<Rightarrow> ((emptyResult\<lparr>RequeueAfter := 3\<rparr>, None), s2)
      | ((False, None), s2) \<Rightarrow>
     (case reconcileServices K node s2 of
        ((_, Some e), s3) \<Rightarrow> ((emptyResult, Some e), s3)
      | ((True, None), s3) \<Rightarrow> ((emptyResult\<lparr>Requeue := True\<rparr>, None), s3)
      | ((False, None), s3) \<Rightarrow> nodeUpdateStatus E K R dnsNames node (Hash out) s3))))"

definition nodeReconcile ::
    "ext \<Rightarrow> 's kube \<Rightarrow> SingBoxNodeReconciler \<Rightarrow> (string \<Rightarrow> string list option) \<Rightarrow> string \<Rightarrow> apiError + string \<Rightarrow>
     Request \<Rightarrow> 's \<Rightarrow> outcome \<times> 's" where
  "nodeReconcile E K R dnsNames rnd pw req s =
     (case getNode K (reqNamespace req) (reqName req) s of
        Inl e \<Rightarrow> ((emptyResult, if IsNotFound e then None else Some e), s)
      | Inr node \<Rightarrow>
          if Deleting node then handleDeletion K node s
          else if singboxNodeFinalizer \<notin> set (Finalizers node) then
            (case updateNode K (node\<lparr>Finalizers := Finalizers node @ [singboxNodeFinalizer]\<rparr>) s of
               (Some e, s') \<Rightarrow> ((emptyResult, Some e), s')
             | (None, s') \<Rightarrow> ((emptyResult\<lparr>Requeue := True\<rparr>, None), s'))
          else
            (let s1 = snd (updateNodeReadyStatus E K node s) in
             case ensureCredential K rnd pw node s1 of
               (Some e, s2) \<Rightarrow> ((emptyResult, Some e), s2)
             | (None, s2) \<Rightarrow>
                 (case collectInput E K R node s2 of
                    Inl e \<Rightarrow> ((emptyResult, Some e), s2)
                  | Inr input \<Rightarrow> applyInput E K R dnsNames node input s2)))"

section \<open>Watch mappers\<close>

definition sameRegionNodeMapper :: "'s kube \<Rightarrow> SingBoxNode \<Rightarrow> 's \<Rightarrow> Request list" where
  "sameRegionNodeMapper K changed s =
     (case listNodes K (Namespace changed) s of
        Inl _ \<Rightarrow> []
      | Inr nodes \<Rightarrow>
          map requestFor (filter (\<lambda>n. Name n \<noteq> Name changed
            \<and> Region (nodeSpec n) = Region (nodeSpec changed)) nodes))"

definition matchingProtocolNodeMapper :: "'s kube \<Rightarrow> User \<Rightarrow> 's \<Rightarrow> Request list" where
  "matchingProtocolNodeMapper K user s =
     (case listNodes K (Namespace user) s of
        Inl _ \<Rightarrow> []
      | Inr nodes \<Rightarrow> map requestFor (filter (\<lambda>n. hasRole n ProxyRoleInbound) nodes))"

type_synonym request_acc = "(Request, bool) gomap \<times> Request list"

definition addRequest :: "Request \<Rightarrow> request_acc \<Rightarrow> request_acc" where
  "addRequest r acc =
     (if go_get False (fst acc) r then acc else (go_put r True (fst acc), snd acc @ [r]))"

interpretation rq: seen_collector id addRequest
  by unfold_locales (simp_all add: addRequest_def)

definition usersInGroupToNodesMapper :: "'s kube \<Rightarrow> UserGroup \<Rightarrow> 's \<Rightarrow> Request list" where
  "usersInGroupToNodesMapper K grp s =
     (case listUsers K (Namespace grp) s of
        Inl _ \<Rightarrow> []
      | Inr users \<Rightarrow>
     (case listNodes K (Namespace grp) s of
        Inl _ \<Rightarrow> []
      | Inr nodes \<Rightarrow>
          snd (fold (\<lambda>user acc. fold (\<lambda>n acc. addRequest (requestFor n) acc)
                      (filter (\<lambda>n. hasRole n ProxyRoleInbound) nodes) acc)
                 (filter (\<lambda>u. UserGroupRef (userSpec u) = Name grp) users) ([], []))))"

definition egressPolicyMapper :: "ext \<Rightarrow> 's kube \<Rightarrow> EgressPolicy \<Rightarrow> 's \<Rightarrow> Request list" where
  "egressPolicyMapper E K policy s =
     (case listNodes K (Namespace policy) s of
        Inl _ \<Rightarrow> []
      | Inr nodes \<Rightarrow>
          map requestFor (filter (\<lambda>n. hasRole n ProxyRoleInbound
            \<and> selectorMatches E (IngressSelector (policySpec policy)) n) nodes))"

definition policyLinks :: "ext \<Rightarrow> SingBoxNode \<Rightarrow> ExternalOutbound \<Rightarrow> EgressPolicy \<Rightarrow> bool" where
  "policyLinks E node eob policy \<longleftrightarrow>
     Action (policySpec policy) = EgressPolicyActionRoute
     \<and> selectorMatches E (IngressSelector (policySpec policy)) node
     \<and> selectorMatches E (EgressSelector (policySpec policy)) eob"

definition affectedByExternal ::
    "ext \<Rightarrow> string \<Rightarrow> ExternalOutbound option \<Rightarrow> EgressPolicy list \<Rightarrow> SingBoxNode \<Rightarrow> bool" where
  "affectedByExternal E region eob policies node \<longleftrightarrow>
     hasRole node ProxyRoleInbound
     \<and> (region \<noteq> [] \<and> Region (nodeSpec node) = region
        \<or> (case eob of None \<Rightarrow> False | Some e \<Rightarrow> list_ex (policyLinks E node e) policies))"

text \<open>The \<open>seen\<close> set holds node names; the requests carry the node's own namespace.\<close>

fun affectedLoop :: "(SingBoxNode \<Rightarrow> bool) \<Rightarrow> names \<Rightarrow> SingBoxNode list \<Rightarrow> Request list" where
  "affectedLoop P seen [] = []"
| "affectedLoop P seen (n # ns) =
     (if P n \<and> \<not> has_name seen (Name n)
      then requestFor n # affectedLoop P (go_put (Name n) True seen) ns
      else affectedLoop P seen ns)"

definition inboundsAffectedByExternalOutbound ::
    "ext \<Rightarrow> 's kube \<Rightarrow> string \<Rightarrow> string \<Rightarrow> string \<Rightarrow> 's \<Rightarrow> Request list" where
  "inboundsAffectedByExternalOutbound E K ns eobName region s =
     (case listNodes K ns s of
        Inl _ \<Rightarrow> []
      | Inr nodes \<Rightarrow>
     (case listExternalOutbounds K ns s of
        Inl _ \<Rightarrow> []
      | Inr externals \<Rightarrow>
     (case listPolicies K ns s of
        Inl _ \<Rightarrow> []
      | Inr policies \<Rightarrow>
          affectedLoop (affectedByExternal E region (find (\<lambda>e. Name e = eobName) externals) policies) [] nodes)))"

definition externalOutboundMapper :: "ext \<Rightarrow> 's kube \<Rightarrow> ExternalOutbound \<Rightarrow> 's \<Rightarrow> Request list" where
  "externalOutboundMapper E K eob s =
     inboundsAffectedByExternalOutbound E K (Namespace eob) (Name eob) (eobRegion (eobSpec eob)) s"

definition externalCredentialSecretMapper :: "ext \<Rightarrow> 's kube \<Rightarrow> Secret \<Rightarrow> 's \<Rightarrow> Request list" where
  "externalCredentialSecretMapper E K secret s =
     (case listExternalOutbounds K (Namespace secret) s of
        Inl _ \<Rightarrow> []
      | Inr eobs \<Rightarrow>
          snd (fold (\<lambda>eob acc. fold addRequest (externalOutboundMapper E K eob s) acc)
                 (filter (\<lambda>e. CredentialsSecretRef (eobSpec e) = Some (Name secret)) eobs) ([], [])))"

definition nodeToSingBoxNodesMapper :: "'s kube \<Rightarrow> K8sNode \<Rightarrow> 's \<Rightarrow> Request list" where
  "nodeToSingBoxNodesMapper K k8sNode s =
     (case listNodesByRef K (Name k8sNode) s of Inl _ \<Rightarrow> [] | Inr nodes \<Rightarrow> map requestFor nodes)"

end
