(* ===== verification/User_Controller.thy ===== *)
theory User_Controller
  imports Node_Controller
begin

text \<open>
  The user and user group reconcilers, \<open>src/internal/controller/user_controller.go\<close> and
  \<open>usergroup_controller.go\<close>. Timestamps are arguments. Metrics and logging are not modelled.
\<close>

section \<open>User\<close>

definition findMatchingInboundNodes :: "'s kube \<Rightarrow> User \<Rightarrow> 's \<Rightarrow> apiError + SingBoxNode list" where
  "findMatchingInboundNodes K user s =
     (case listNodes K (Namespace user) s of
        Inl e \<Rightarrow> Inl (wrapErr ''listing SingBoxNodes: '' e)
      | Inr nodes \<Rightarrow>
          (let matching = filter (\<lambda>n. hasRole n ProxyRoleInbound) nodes in
           if UserGroupRef (userSpec user) = [] then Inr matching
           else
             (case getUserGroup K (Namespace user) (UserGroupRef (userSpec user)) s of
                Inl e \<Rightarrow> if \<not> IsNotFound e then Inl e else Inr matching
              | Inr ug \<Rightarrow>
                  (let allowedSet = name_set (AllowedNodes (groupSpec ug));
                       deniedSet = name_set (DeniedNodes (groupSpec ug))
                   in Inr (filter (\<lambda>n. IsNodeAllowed (Name n) allowedSet deniedSet) matching)))))"

definition userTriggerNode :: "'s kube \<Rightarrow> string \<Rightarrow> SingBoxNode \<Rightarrow> 's \<Rightarrow> apiError option \<times> 's" where
  "userTriggerNode K now node s =
     (case getNode K (Namespace node) (Name node) s of
        Inl e \<Rightarrow> (Some e, s)
      | Inr latest \<Rightarrow> updateNode K (latest\<lparr>Annotations := go_put reconcileTrigger now (Annotations latest)\<rparr>) s)"

text \<open>The \<open>int32\<close> count is the length: a namespace holds fewer than \<open>2^31\<close> nodes.\<close>

definition userStatusFor :: "ext \<Rightarrow> User \<Rightarrow> SingBoxNode list \<Rightarrow> UserStatus" where
  "userStatusFor E latest nodes =
     (userStatus latest)
       \<lparr>ActiveNodeCount := int (length nodes), ActiveNodes := map Name nodes,
        userObservedGeneration := Generation latest,
        userConditions := setStatusCondition E (userConditions (userStatus latest))
          (mkCondition ''Ready'' CTrue ''Reconciled''
             (''User active on '' @ nat_dec (length nodes) @ '' nodes'') (Generation latest))\<rparr>"

definition userGroupCondition :: "User \<Rightarrow> bool \<Rightarrow> Condition" where
  "userGroupCondition latest found =
     (if found then mkCondition ''UserGroupReady'' CTrue ''UserGroupFound'' [] (Generation latest)
      else mkCondition ''UserGroupReady'' CFalse ''UserGroupNotFound''
             (''UserGroup '' @ go_quote (UserGroupRef (userSpec latest)) @ '' not found in namespace '' @
              go_quote (Namespace latest)) (Generation latest))"

definition addUserCondition :: "ext \<Rightarrow> Condition \<Rightarrow> UserStatus \<Rightarrow> UserStatus" where
  "addUserCondition E c st = st\<lparr>userConditions := setStatusCondition E (userConditions st) c\<rparr>"

definition userUpdateStatus ::
    "ext \<Rightarrow> 's kube \<Rightarrow> User \<Rightarrow> SingBoxNode list \<Rightarrow> 's \<Rightarrow> outcome \<times> 's" where
  "userUpdateStatus E K user nodes s =
     (case getUser K (Namespace user) (Name user) s of
        Inl e \<Rightarrow> ((emptyResult, Some e), s)
      | Inr latest \<Rightarrow>
          (let st = userStatusFor E latest nodes;
               write = (\<lambda>st. case updateUserStatus K (latest\<lparr>userStatus := st\<rparr>) s of
                               (e, s') \<Rightarrow> ((emptyResult, e), s'))
           in if UserGroupRef (userSpec latest) = [] then write st
              else
                (case getUserGroup K (Namespace latest) (UserGroupRef (userSpec latest)) s of
                   Inl e \<Rightarrow>
                     if \<not> IsNotFound e then ((emptyResult, Some e), s)
                     else write (addUserCondition E (userGroupCondition latest False) st)
                 | Inr _ \<Rightarrow> write (addUserCondition E (userGroupCondition latest True) st))))"

text \<open>A failed trigger is logged and skipped.\<close>

definition userReconcile :: "ext \<Rightarrow> 's kube \<Rightarrow> string \<Rightarrow> Request \<Rightarrow> 's \<Rightarrow> outcome \<times> 's" where
  "userReconcile E K now req s =
     (case getUser K (reqNamespace req) (reqName req) s of
        Inl e \<Rightarrow> ((emptyResult, if IsNotFound e then None else Some e), s)
      | Inr user \<Rightarrow>
          (case findMatchingInboundNodes K user s of
             Inl e \<Rightarrow> ((emptyResult, Some e), s)
           | Inr nodes \<Rightarrow>
               userUpdateStatus E K user nodes (fold (\<lambda>n s. snd (userTriggerNode K now n s)) nodes s)))"

section \<open>UserGroup\<close>

text \<open>A failed patch is logged and skipped.\<close>

definition userGroupReconcile :: "'s kube \<Rightarrow> string \<Rightarrow> Request \<Rightarrow> 's \<Rightarrow> outcome \<times> 's" where
  "userGroupReconcile K timestamp req s =
     (let proceed =
        (case listUsers K (reqNamespace req) s of
           Inl e \<Rightarrow> ((emptyResult, Some e), s)
         | Inr users \<Rightarrow>
             ((emptyResult, None),
              fold (\<lambda>u s. snd (patchUser K (u\<lparr>Annotations := go_put reconcileTrigger timestamp (Annotations u)\<rparr>) s))
                (filter (\<lambda>u. UserGroupRef (userSpec u) = reqName req) users) s))
      in case getUserGroup K (reqNamespace req) (reqName req) s of
           Inl e \<Rightarrow> if \<not> IsNotFound e then ((emptyResult, Some e), s) else proceed
         | Inr _ \<Rightarrow> proceed)"

end
