(* ===== verification/Client_Config.thy ===== *)
theory Client_Config
  imports Node_Controller
begin

text \<open>
  Client configurations, \<open>src/internal/apiserver/client_config.go\<close>, \<open>client_policy.go\<close> and \<open>policy.go\<close>: the
  paths a user may choose, one outbound per entry node and relay target, grouped into selectors, and the
  rules of the egress policies.

  A failed call is an error text, a template that is no JSON object, or a panic; sorting a slice of two or more policies that holds nil
  panics in the comparison.
\<close>

section \<open>Input\<close>

record ClientConfigInput =
  ciUser :: User
  ciEgressPolicies :: "EgressPolicy option list"
  ciUserCred :: UserCredential
  ciInboundNodes :: "SingBoxNode list"
  ciRoutesByInbound :: "(string, CustomRoute list) gomap"
  ciOutboundsByName :: "(string, SingBoxNode) gomap"
  ciExternalOutboundsByName :: "(string, ExternalOutbound) gomap"
  ciExternalOutbounds :: "ExternalOutbound list"
  ciOfflineNodeNames :: names
  ciAllowedNodeNames :: names
  ciDeniedNodeNames :: names
  ciPolicyOnlyEgressNames :: names

datatype failure = Failed string | BadTemplate | Panicked

record outboundRef =
  refName :: string
  refAllowedInbounds :: "string list"
  refClientGroups :: "string list"

section \<open>Policies\<close>

definition targetHasClientGroup :: "ClientConfigInput \<Rightarrow> string \<Rightarrow> string \<Rightarrow> bool" where
  "targetHasClientGroup input name grp =
     (case map_of (ciOutboundsByName input) name of
        Some n \<Rightarrow> grp \<in> set (ClientGroups (nodeSpec n))
      | None \<Rightarrow>
          (case map_of (ciExternalOutboundsByName input) name of
             Some e \<Rightarrow> grp \<in> set (eobClientGroups (eobSpec e))
           | None \<Rightarrow> False))"

text \<open>The last match in map order and the number of matches.\<close>

definition resolveClientPolicyEgress :: "ext \<Rightarrow> ClientConfigInput \<Rightarrow> EgressPolicy \<Rightarrow> string \<times> nat" where
  "resolveClientPolicyEgress E input policy =
     (let sel = EgressSelector (policySpec policy);
          acc = fold (\<lambda>n acc. if selectorMatches E sel n then (Name n, snd acc + 1) else acc)
                  (map snd (ciOutboundsByName input)) ([], 0)
      in fold (\<lambda>e acc. if selectorMatches E sel e then (Name e, snd acc + 1) else acc)
           (map snd (ciExternalOutboundsByName input)) acc)"

definition strArr :: "string \<Rightarrow> string list \<Rightarrow> (string, json) gomap" where
  "strArr k xs = (if length xs > 0 then [(k, JArr (map JStr xs))] else [])"

definition policyMatchRule :: "EgressPolicyMatch \<Rightarrow> (string, json) gomap" where
  "policyMatchRule m =
     strArr ''domain'' (matchDomain m) @ strArr ''domain_suffix'' (DomainSuffix m) @
     strArr ''domain_regex'' (DomainRegex m) @ strArr ''ip_cidr'' (IPCIDR m) @ strArr ''rule_set'' (RuleSet m)"

text \<open>The checks on one policy, in order.\<close>

definition policyError :: "ext \<Rightarrow> EgressPolicy \<Rightarrow> string option" where
  "policyError E policy =
     (let spec = policySpec policy; pre = ''policy '' @ Name policy in
      case selectorValid E (IngressSelector spec) of
        Some e \<Rightarrow> Some (pre @ '' ingressSelector: '' @ e)
      | None \<Rightarrow>
      (case selectorValid E (EgressSelector spec) of
        Some e \<Rightarrow> Some (pre @ '' egressSelector: '' @ e)
      | None \<Rightarrow>
      (case matchValid E (Match spec) (FallbackAction spec \<noteq> []) of
        Some e \<Rightarrow> Some (pre @ '' match: '' @ e)
      | None \<Rightarrow>
        if FallbackAction spec \<noteq> [] \<and> FallbackAction spec \<noteq> EgressPolicyActionReject
        then Some (pre @ '': invalid fallbackAction '' @ go_quote (FallbackAction spec))
        else if Action spec \<noteq> EgressPolicyActionRoute \<and> Action spec \<noteq> EgressPolicyActionReject
        then Some (pre @ '': invalid action '' @ go_quote (Action spec))
        else None)))"

fun clientPolicyLoop ::
    "ext \<Rightarrow> ClientConfigInput \<Rightarrow> EgressPolicy option list \<Rightarrow> json list \<Rightarrow> names \<Rightarrow> failure + json list \<times> names" where
  "clientPolicyLoop E input [] rules targets = Inr (rules, targets)"
| "clientPolicyLoop E input (None # ps) rules targets = Inl (Failed ''nil egress policy'')"
| "clientPolicyLoop E input (Some policy # ps) rules targets =
     (case policyError E policy of
        Some e \<Rightarrow> Inl (Failed e)
      | None \<Rightarrow>
          (let rule = policyMatchRule (Match (policySpec policy)) in
           if Action (policySpec policy) = EgressPolicyActionReject
           then clientPolicyLoop E input ps (rules @ [JMap (go_put ''action'' (JStr ''reject'') rule)]) targets
           else
             (let (name, count) = resolveClientPolicyEgress E input policy in
              if count = 0 then clientPolicyLoop E input ps rules targets
              else if count \<noteq> 1
              then Inl (Failed (''policy '' @ Name policy @ '': egressSelector matched '' @ nat_dec count @
                                '' targets, expected exactly one''))
              else
                (let rule' = (if targetHasClientGroup input name ''ai'' then go_put ''outbound'' (JStr ''ai'') rule
                              else go_put ''action'' (JStr ''reject'') rule)
                 in clientPolicyLoop E input ps (rules @ [JMap rule']) (go_put name True targets)))))"

definition policyOptKey :: "EgressPolicy option \<Rightarrow> int \<times> string" where
  "policyOptKey p = (case p of None \<Rightarrow> (0, []) | Some q \<Rightarrow> policyKey q)"

definition buildClientPolicies :: "ext \<Rightarrow> ClientConfigInput \<Rightarrow> failure + json list \<times> names" where
  "buildClientPolicies E input =
     (if length (ciEgressPolicies input) > 1 \<and> None \<in> set (ciEgressPolicies input) then Inl Panicked
      else clientPolicyLoop E input (sort_key policyOptKey (ciEgressPolicies input)) [] [])"

definition policyOnlyEgresses :: "ext \<Rightarrow> EgressPolicy list \<Rightarrow> SingBoxNode list \<Rightarrow> ExternalOutbound list \<Rightarrow> names" where
  "policyOnlyEgresses E policies nodes outbounds =
     fold (\<lambda>policy names.
        if Action (policySpec policy) \<noteq> EgressPolicyActionRoute then names
        else
          (let matches = egressCandidates E policy nodes outbounds in
           if length matches = 1 then go_put (matches ! 0) True names else names)) policies []"

section \<open>Targets of an entry node\<close>

definition supportsProtocol :: "SingBoxNode \<Rightarrow> string \<Rightarrow> bool" where
  "supportsProtocol node protocol \<longleftrightarrow> (\<exists>p\<in>set (SupportedProtocols (nodeSpec node)). Protocol p = protocol)"

fun findEntryEndpoint :: "string list \<Rightarrow> string \<Rightarrow> (string \<times> int) option" where
  "findEntryEndpoint [] protocol = None"
| "findEntryEndpoint (ep # eps) protocol =
     (case strSplitN ep '':'' 3 of
        [proto, address, port] \<Rightarrow>
          if proto \<noteq> protocol then findEntryEndpoint eps protocol
          else (case atoi port of None \<Rightarrow> findEntryEndpoint eps protocol | Some p \<Rightarrow> Some (address, p))
      | _ \<Rightarrow> findEntryEndpoint eps protocol)"

text \<open>The guards that all kinds of targets share.\<close>

definition notPolicyOnly :: "ClientConfigInput \<Rightarrow> string \<Rightarrow> bool" where
  "notPolicyOnly input name \<longleftrightarrow>
     \<not> has_name (ciPolicyOnlyEgressNames input) name \<or> targetHasClientGroup input name ''ai''"

definition clientAllowed :: "ClientConfigInput \<Rightarrow> string \<Rightarrow> bool" where
  "clientAllowed input name = IsNodeAllowed name (ciAllowedNodeNames input) (ciDeniedNodeNames input)"

definition relayTarget :: "ClientConfigInput \<Rightarrow> SingBoxNode \<Rightarrow> SingBoxNode \<Rightarrow> bool" where
  "relayTarget input inbound n \<longleftrightarrow>
     RelayPort (nodeSpec n) \<noteq> 0 \<and> Region (nodeSpec n) = Region (nodeSpec inbound)
     \<and> notPolicyOnly input (Name n) \<and> \<not> has_name (ciOfflineNodeNames input) (Name n)
     \<and> clientAllowed input (Name n)
     \<and> admits (AllowedInbounds (nodeSpec n)) (Name inbound)
     \<and> admits (AllowedOutbounds (nodeSpec inbound)) (Name n)"

definition selfTarget :: "ClientConfigInput \<Rightarrow> SingBoxNode \<Rightarrow> bool" where
  "selfTarget input inbound \<longleftrightarrow>
     hasRole inbound ProxyRoleOutbound \<and> notPolicyOnly input (Name inbound)
     \<and> \<not> has_name (ciOfflineNodeNames input) (Name inbound) \<and> clientAllowed input (Name inbound)
     \<and> admits (AllowedOutbounds (nodeSpec inbound)) (Name inbound)"

text \<open>A routed external outbound, which auto-discovery additionally requires to have a region.\<close>

definition externalTarget :: "ClientConfigInput \<Rightarrow> SingBoxNode \<Rightarrow> ExternalOutbound \<Rightarrow> bool" where
  "externalTarget input inbound e \<longleftrightarrow>
     eobRegion (eobSpec e) = Region (nodeSpec inbound) \<and> notPolicyOnly input (Name e)
     \<and> map_of (ciOutboundsByName input) (Name e) = None \<and> clientAllowed input (Name e)
     \<and> admits (eobAllowedInbounds (eobSpec e)) (Name inbound)
     \<and> admits (AllowedOutbounds (nodeSpec inbound)) (Name e)"

definition nodeRefOf :: "SingBoxNode \<Rightarrow> outboundRef" where
  "nodeRefOf n = \<lparr>refName = Name n, refAllowedInbounds = AllowedInbounds (nodeSpec n),
     refClientGroups = ClientGroups (nodeSpec n)\<rparr>"

definition selfRefOf :: "SingBoxNode \<Rightarrow> outboundRef" where
  "selfRefOf n = \<lparr>refName = Name n, refAllowedInbounds = [], refClientGroups = ClientGroups (nodeSpec n)\<rparr>"

definition externalRefOf :: "ExternalOutbound \<Rightarrow> outboundRef" where
  "externalRefOf e = \<lparr>refName = Name e, refAllowedInbounds = eobAllowedInbounds (eobSpec e),
     refClientGroups = eobClientGroups (eobSpec e)\<rparr>"

definition addRef :: "outboundRef \<Rightarrow> names \<times> outboundRef list \<Rightarrow> names \<times> outboundRef list" where
  "addRef r acc =
     (if has_name (fst acc) (refName r) then acc else (go_put (refName r) True (fst acc), snd acc @ [r]))"

interpretation rf: seen_collector refName addRef
  by unfold_locales (simp_all add: addRef_def)

definition routeRefs :: "ClientConfigInput \<Rightarrow> SingBoxNode \<Rightarrow> CustomRoute \<Rightarrow> outboundRef list" where
  "routeRefs input inbound r =
     (if EffectiveOutboundKind r = OutboundKindExternalOutbound then
        (case map_of (ciExternalOutboundsByName input) (OutboundNode (routeSpec r)) of
           None \<Rightarrow> []
         | Some e \<Rightarrow> if externalTarget input inbound e then [externalRefOf e] else [])
      else
        (case map_of (ciOutboundsByName input) (OutboundNode (routeSpec r)) of
           None \<Rightarrow> []
         | Some n \<Rightarrow> if relayTarget input inbound n then [nodeRefOf n] else []))"

definition candidateRefs :: "ClientConfigInput \<Rightarrow> SingBoxNode \<Rightarrow> outboundRef list" where
  "candidateRefs input inbound =
     map nodeRefOf (filter (relayTarget input inbound) (map snd (ciOutboundsByName input))) @
     (if selfTarget input inbound then [selfRefOf inbound] else []) @
     map externalRefOf (filter (\<lambda>e. eobRegion (eobSpec e) \<noteq> [] \<and> externalTarget input inbound e)
       (map snd (ciExternalOutboundsByName input))) @
     concat (map (routeRefs input inbound) (go_get [] (ciRoutesByInbound input) (Name inbound)))"

definition resolveOutboundNodes :: "ClientConfigInput \<Rightarrow> string \<Rightarrow> outboundRef list" where
  "resolveOutboundNodes input inboundName =
     (case find (\<lambda>n. Name n = inboundName) (ciInboundNodes input) of
        None \<Rightarrow> []
      | Some inbound \<Rightarrow> sort_key refName (snd (fold addRef (candidateRefs input inbound) ([], []))))"

section \<open>Outbounds\<close>

definition proxyFields ::
    "string \<Rightarrow> string \<Rightarrow> int \<Rightarrow> string \<Rightarrow> string \<Rightarrow> string \<Rightarrow> string \<Rightarrow> UserCredential \<Rightarrow> (string, json) gomap" where
  "proxyFields tag address port protocol userName outboundNodeName tlsServerName cred =
     (let ob = [(''type'', JStr (if protocol = ''socks5'' then ''socks'' else protocol)), (''tag'', JStr tag),
                (''server'', JStr address), (''server_port'', JInt port)];
          ob = go_copy ob (DeriveAuth protocol (UUID cred) outboundNodeName);
          ob = (if protocol = ''naive'' then go_put ''username'' (JStr (userName @ ''#'' @ outboundNodeName)) ob
                else ob)
      in if protocol = ''hysteria2'' \<or> protocol = ''naive'' \<or> protocol = ''anytls'' \<or> protocol = ''tuic''
         then go_put ''tls'' (JMap ([(''enabled'', JBool True)] @
                (if tlsServerName \<noteq> [] then [(''server_name'', JStr tlsServerName)]
                 else [(''insecure'', JBool True)]))) ob
         else ob)"

definition buildProxyOutbound ::
    "string \<Rightarrow> string \<Rightarrow> int \<Rightarrow> string \<Rightarrow> string \<Rightarrow> string \<Rightarrow> string \<Rightarrow> UserCredential \<Rightarrow> json" where
  "buildProxyOutbound tag address port protocol userName outboundNodeName tlsServerName cred =
     JMap (proxyFields tag address port protocol userName outboundNodeName tlsServerName cred)"

definition pathTag :: "SingBoxNode \<Rightarrow> outboundRef \<Rightarrow> string" where
  "pathTag inbound r =
     (if refName r = Name inbound then refName r else refName r @ ''#'' @ Name inbound)"

definition clientGroup :: "string \<Rightarrow> bool" where
  "clientGroup g \<longleftrightarrow> \<not> (g \<noteq> ''hk'' \<and> g \<noteq> ''jp'' \<and> g \<noteq> ''us'' \<and> g \<noteq> ''ai'')"

text \<open>The groups a target joins.\<close>

definition joinedGroups :: "ClientConfigInput \<Rightarrow> outboundRef \<Rightarrow> string list" where
  "joinedGroups input r =
     filter (\<lambda>g. clientGroup g \<and> \<not> (g \<noteq> ''ai'' \<and> has_name (ciPolicyOnlyEgressNames input) (refName r)))
       (refClientGroups r)"

type_synonym path_acc = "json list \<times> (string, string list) gomap"

definition addPath :: "ClientConfigInput \<Rightarrow> SingBoxNode \<Rightarrow> string \<Rightarrow> int \<Rightarrow> string \<Rightarrow> outboundRef \<Rightarrow> path_acc \<Rightarrow> path_acc" where
  "addPath input inbound address port protocol r acc =
     (let tag = pathTag inbound r;
          ob = buildProxyOutbound tag address port protocol (Name (ciUser input)) (refName r)
                 (TLSServerName (nodeStatus inbound)) (ciUserCred input);
          groups = joinedGroups input r
      in (if groups \<noteq> [] then fst acc @ [ob] else fst acc,
          fold (\<lambda>g m. go_put g (go_get [] m g @ [tag]) m) groups (snd acc)))"

definition addInbound :: "ClientConfigInput \<Rightarrow> SingBoxNode \<Rightarrow> path_acc \<Rightarrow> path_acc" where
  "addInbound input inbound acc =
     (if has_name (ciOfflineNodeNames input) (Name inbound) then acc
      else
        (let protocol = EffectiveInboundProtocol inbound in
         if \<not> supportsProtocol inbound protocol then acc
         else
           (case findEntryEndpoint (EntryEndpoints (nodeStatus inbound)) protocol of
              None \<Rightarrow> acc
            | Some (address, port) \<Rightarrow>
                fold (addPath input inbound address port protocol)
                  (resolveOutboundNodes input (Name inbound)) acc)))"

definition selectorOutbound :: "(string, string list) gomap \<Rightarrow> string \<Rightarrow> json" where
  "selectorOutbound groups g =
     JMap [(''type'', JStr ''selector''), (''tag'', JStr g),
           (''outbounds'', JArr (map JStr (remdups_adj (sort_names (go_get [] groups g)))))]"

definition groupTagsOf :: "(string, string list) gomap \<Rightarrow> string list" where
  "groupTagsOf groups = sort_names (filter (\<lambda>k. length (go_get [] groups k) > 0) (map fst groups))"

definition hidePolicyTargets :: "ClientConfigInput \<Rightarrow> names \<Rightarrow> ClientConfigInput" where
  "hidePolicyTargets input targets =
     (if length targets > 0
      then input\<lparr>ciPolicyOnlyEgressNames :=
             fold (\<lambda>name m. if \<not> targetHasClientGroup input name ''ai'' then go_put name True m else m)
               (map fst targets) (ciPolicyOnlyEgressNames input)\<rparr>
      else input)"

definition clientPaths :: "ClientConfigInput \<Rightarrow> path_acc" where
  "clientPaths input = fold (addInbound input) (ciInboundNodes input) ([], [])"

definition BuildClientConfig :: "ext \<Rightarrow> ClientConfigInput \<Rightarrow> failure + json list" where
  "BuildClientConfig E input =
     (case buildClientPolicies E input of
        Inl e \<Rightarrow> Inl e
      | Inr (_, targets) \<Rightarrow>
          (let (proxyOutbounds, groups) = clientPaths (hidePolicyTargets input targets)
           in Inr (proxyOutbounds @ map (selectorOutbound groups) (groupTagsOf groups) @
                   [directOutbound ''direct''])))"

end
