(* ===== verification/Go_Float.thy ===== *)
theory Go_Float
  imports Go_Strings
begin

text \<open>
  \<open>float64\<close> values as \<open>encoding/json\<close> reads and writes them: \<open>strconv.ParseFloat\<close> of a JSON number literal,
  and the shortest decimal text that reads back as the same value. All arithmetic is exact, on integers:
  a finite positive value is a pair \<open>(m, e)\<close> that stands for \<open>m * 2 ^ e\<close>.
\<close>

section \<open>Rounding to float64\<close>

fun bit_count :: "nat \<Rightarrow> nat" where
  "bit_count n = (if n = 0 then 0 else Suc (bit_count (n div 2)))"

declare bit_count.simps [simp del]

text \<open>The quotient rounded to the nearest integer, ties to even.\<close>

definition round_div :: "nat \<Rightarrow> nat \<Rightarrow> nat" where
  "round_div a b =
     (let q = a div b; r = a mod b in
      if 2 * r < b \<or> 2 * r = b \<and> even q then q else q + 1)"

definition scale_div :: "nat \<Rightarrow> nat \<Rightarrow> int \<Rightarrow> nat \<times> nat" where
  "scale_div num den e = (if e \<ge> 0 then (num, den * 2 ^ nat e) else (num * 2 ^ nat (- e), den))"

text \<open>
  The value nearest to \<open>num / den\<close>: 53 bits of mantissa, the exponent not below \<open>-1074\<close>; None on overflow.
\<close>

definition float_round :: "nat \<Rightarrow> nat \<Rightarrow> (nat \<times> int) option" where
  "float_round num den =
     (if num = 0 then Some (0, - 1074)
      else
        (let e0 = int (bit_count num) - int (bit_count den) - 53;
             (a0, b0) = scale_div num den e0;
             e1 = max (if a0 div b0 \<ge> 2 ^ 53 then e0 + 1 else e0) (- 1074);
             (a, b) = scale_div num den e1;
             m = round_div a b;
             (m, e) = (if m = 2 ^ 53 then (2 ^ 52, e1 + 1) else (m, e1))
         in if e > 971 then None else Some (m, e)))"

text \<open>\<open>d * 10 ^ k\<close> as a fraction.\<close>

definition dec_frac :: "nat \<Rightarrow> int \<Rightarrow> nat \<times> nat" where
  "dec_frac d k = (if k \<ge> 0 then (d * 10 ^ nat k, 1) else (d, 10 ^ nat (- k)))"

definition bin_frac :: "nat \<times> int \<Rightarrow> nat \<times> nat" where
  "bin_frac v = (if snd v \<ge> 0 then (fst v * 2 ^ nat (snd v), 1) else (fst v, 2 ^ nat (- snd v)))"

definition float_of_dec :: "nat \<Rightarrow> int \<Rightarrow> (nat \<times> int) option" where
  "float_of_dec d k = (let (a, b) = dec_frac d k in float_round a b)"

section \<open>Shortest decimal\<close>

text \<open>The least \<open>k\<close> with \<open>a / b < 10 ^ k\<close>, searched from an estimate.\<close>

fun dec_exp :: "nat \<Rightarrow> nat \<Rightarrow> nat \<Rightarrow> int \<Rightarrow> int" where
  "dec_exp 0 a b k = k"
| "dec_exp (Suc f) a b k =
     (let (p, q) = dec_frac 1 k in if a * q < b * p then k else dec_exp f a b (k + 1))"

text \<open>
  The two decimals with \<open>n\<close> digits next to the value \<open>a / b < 10 ^ k\<close> that read back as \<open>v\<close>, the nearer
  one, on a tie the even one.
\<close>

definition digits_try :: "nat \<times> int \<Rightarrow> nat \<Rightarrow> nat \<Rightarrow> int \<Rightarrow> nat \<Rightarrow> nat option" where
  "digits_try v a b k n =
     (let (p, q) = dec_frac 1 (k - int n);
          lo = a * q div (b * p);
          near = round_div (a * q) (b * p);
          far = (if near = lo then lo + 1 else lo);
          ok = (\<lambda>d. float_of_dec d (k - int n) = Some v)
      in if ok near then Some near else if ok far then Some far else None)"

fun shortest_from :: "nat \<Rightarrow> nat \<times> int \<Rightarrow> nat \<Rightarrow> nat \<Rightarrow> int \<Rightarrow> nat \<Rightarrow> nat \<times> int" where
  "shortest_from 0 v a b k n = (0, k)"
| "shortest_from (Suc f) v a b k n =
     (case digits_try v a b k n of
        Some d \<Rightarrow> (d, k - int n)
      | None \<Rightarrow> shortest_from f v a b k (n + 1))"

text \<open>Digits and exponent of the shortest decimal of a positive value; 17 digits always read back.\<close>

definition shortest :: "nat \<times> int \<Rightarrow> nat \<times> int" where
  "shortest v =
     (let (a, b) = bin_frac v;
          k0 = (int (bit_count a) - int (bit_count b)) * 3 div 10 - 2;
          k = dec_exp 700 a b k0
      in shortest_from 18 v a b k 1)"

section \<open>Texts\<close>

text \<open>Digits without trailing zeros: \<open>d * 10 ^ k\<close>.\<close>

fun strip_zeros :: "nat \<Rightarrow> nat \<Rightarrow> int \<Rightarrow> nat \<times> int" where
  "strip_zeros 0 d k = (d, k)"
| "strip_zeros (Suc f) d k = (if d \<noteq> 0 \<and> d mod 10 = 0 then strip_zeros f (d div 10) (k + 1) else (d, k))"

text \<open>
  \<open>d * 10 ^ k\<close> in the format of \<open>encoding/json\<close>: plain for \<open>1e-6 \<le> v < 1e21\<close>, else with an exponent whose
  leading zero is dropped when it is negative.
\<close>

definition float_format :: "nat \<Rightarrow> int \<Rightarrow> string" where
  "float_format d0 k0 =
     (let (d, k) = strip_zeros 400 d0 k0;
          ds = nat_dec d;
          pt = int (length ds) + k
      in if pt \<ge> - 5 \<and> pt \<le> 21 then
           (if k \<ge> 0 then ds @ replicate (nat k) (CHR ''0'')
            else if pt > 0 then take (nat pt) ds @ ''.'' @ drop (nat pt) ds
            else ''0.'' @ replicate (nat (- pt)) (CHR ''0'') @ ds)
         else
           (let x = pt - 1;
                m = take 1 ds @ (if length ds > 1 then ''.'' @ drop 1 ds else [])
            in if x < 0 then m @ ''e-'' @ nat_dec (nat (- x))
               else m @ ''e+'' @ nat_dec (nat x)))"

definition float_text :: "bool \<Rightarrow> nat \<times> int \<Rightarrow> string" where
  "float_text neg v =
     (if neg then ''-'' else []) @
     (if fst v = 0 then ''0'' else (let (d, k) = shortest v in float_format d k))"

section \<open>JSON number literals\<close>

definition all_digits :: "string \<Rightarrow> bool" where
  "all_digits s \<longleftrightarrow> s \<noteq> [] \<and> list_all is_digit s"

text \<open>Integer part, fraction and exponent of a literal of the JSON grammar; None for any other text.\<close>

definition exp_part :: "string \<Rightarrow> int option" where
  "exp_part s =
     (case s of
        [] \<Rightarrow> Some 0
      | c # r \<Rightarrow>
          if c = CHR ''e'' \<or> c = CHR ''E'' then
            (case r of
               [] \<Rightarrow> None
             | d # r' \<Rightarrow>
                 if d = CHR ''-'' then (if all_digits r' then Some (- int (dec_nat r')) else None)
                 else if d = CHR ''+'' then (if all_digits r' then Some (int (dec_nat r')) else None)
                 else if all_digits r then Some (int (dec_nat r)) else None)
          else None)"

definition unsigned_parts :: "string \<Rightarrow> (nat \<times> int) option" where
  "unsigned_parts s =
     (let ip = takeWhile is_digit s; r = dropWhile is_digit s in
      if ip = [] \<or> length ip > 1 \<and> hd ip = CHR ''0'' then None
      else
        (case r of
           c # r' \<Rightarrow>
             if c = CHR ''.'' then
               (let fp = takeWhile is_digit r' in
                if fp = [] then None
                else map_option (\<lambda>x. (dec_nat (ip @ fp), x - int (length fp))) (exp_part (dropWhile is_digit r')))
             else map_option (\<lambda>x. (dec_nat ip, x)) (exp_part r)
         | [] \<Rightarrow> Some (dec_nat ip, 0)))"

text \<open>
  Exponents beyond the range of the type are decided without computing the power: more than 310 digits
  before the point overflow, a value below \<open>10 ^ -400\<close> rounds to zero.
\<close>

definition float_literal :: "nat \<Rightarrow> int \<Rightarrow> (nat \<times> int) option" where
  "float_literal d k =
     (if d = 0 then Some (0, - 1074)
      else
        (let pt = int (length (nat_dec d)) + k in
         if pt > 310 then None else if pt < - 400 then Some (0, - 1074) else float_of_dec d k))"

text \<open>The text of the value of a literal: None for a text that is no literal or is out of range.\<close>

definition json_number :: "string \<Rightarrow> string option" where
  "json_number s =
     (let (neg, r) = (case s of c # r \<Rightarrow> if c = CHR ''-'' then (True, r) else (False, s) | [] \<Rightarrow> (False, s)) in
      case unsigned_parts r of
        None \<Rightarrow> None
      | Some (d, k) \<Rightarrow> map_option (float_text neg) (float_literal d k))"

end
