(* ===== verification/Go_Json_Decode.thy ===== *)
theory Go_Json_Decode
  imports Go_Json Go_Float
begin

text \<open>
  \<open>json.Unmarshal\<close> into a \<open>map[string]any\<close>. The text is split into tokens and the tokens drive a machine
  with a stack of open arrays and objects, at most 10000 deep as in \<open>encoding/json\<close>. A repeated key keeps
  its last value. Only the presence of an error is modelled (None), not its text.
\<close>

section \<open>String literals\<close>

definition utf8_encode :: "nat \<Rightarrow> string" where
  "utf8_encode r =
     map char_of
       (if r < 0x80 then [r]
        else if r < 0x800 then [0xC0 + r div 64, 0x80 + r mod 64]
        else if r < 0x10000 then [0xE0 + r div 4096, 0x80 + r div 64 mod 64, 0x80 + r mod 64]
        else [0xF0 + r div 262144, 0x80 + r div 4096 mod 64, 0x80 + r div 64 mod 64, 0x80 + r mod 64])"

abbreviation replacement :: nat where
  "replacement \<equiv> 0xFFFD"

text \<open>\<open>getu4\<close>: the four hex digits after a backslash and \<open>u\<close>.\<close>

definition getu4 :: "string \<Rightarrow> nat option" where
  "getu4 s =
     (case s of
        b # u # c1 # c2 # c3 # c4 # _ \<Rightarrow>
          if b = backslash \<and> u = CHR ''u'' \<and> list_all is_hex [c1, c2, c3, c4]
          then Some (((hex_val c1 * 16 + hex_val c2) * 16 + hex_val c3) * 16 + hex_val c4) else None
      | _ \<Rightarrow> None)"

definition surrogate :: "nat \<Rightarrow> bool" where
  "surrogate r \<longleftrightarrow> 0xD800 \<le> r \<and> r < 0xE000"

text \<open>\<open>utf16.DecodeRune\<close>\<close>

definition utf16_pair :: "nat \<Rightarrow> nat \<Rightarrow> nat" where
  "utf16_pair r1 r2 =
     (if 0xD800 \<le> r1 \<and> r1 < 0xDC00 \<and> 0xDC00 \<le> r2 \<and> r2 < 0xE000
      then (r1 - 0xD800) * 1024 + (r2 - 0xDC00) + 0x10000 else replacement)"

definition simple_escape :: "char \<Rightarrow> char option" where
  "simple_escape c =
     map_of [(CHR 0x22, CHR 0x22), (backslash, backslash), (CHR ''/'', CHR ''/''), (CHR ''b'', CHR 0x08),
             (CHR ''f'', CHR 0x0C), (CHR ''n'', CHR 0x0A), (CHR ''r'', CHR 0x0D), (CHR ''t'', CHR 0x09)] c"

text \<open>The escape at the head of \<open>s\<close>, a text that starts with a backslash: the bytes written, the bytes read.\<close>

definition escape :: "string \<Rightarrow> (string \<times> nat) option" where
  "escape s =
     (case s of
        _ # c # _ \<Rightarrow>
          if c = CHR ''u'' then
            (case getu4 s of
               None \<Rightarrow> None
             | Some r \<Rightarrow>
                 if surrogate r then
                   (case getu4 (drop 6 s) of
                      Some r2 \<Rightarrow>
                        if utf16_pair r r2 \<noteq> replacement then Some (utf8_encode (utf16_pair r r2), 12)
                        else Some (utf8_encode replacement, 6)
                    | None \<Rightarrow> Some (utf8_encode replacement, 6))
                 else Some (utf8_encode r, 6))
          else map_option (\<lambda>d. ([d], 2)) (simple_escape c)
      | _ \<Rightarrow> None)"

lemma escape_positive: "escape s = Some (w, n) \<Longrightarrow> 2 \<le> n"
  by (auto simp: escape_def split: list.splits if_splits option.splits)

text \<open>\<open>unquote\<close> of the text between the quotes; control characters and malformed escapes are errors.\<close>

function unquote :: "string \<Rightarrow> string option" where
  "unquote [] = Some []"
| "unquote (c # s) =
     (if c = backslash then
        (case escape (c # s) of
           None \<Rightarrow> None
         | Some (w, n) \<Rightarrow> map_option ((@) w) (unquote (drop (n - 1) s)))
      else if c = CHR 0x22 \<or> (of_char c :: nat) < 0x20 then None
      else if (of_char c :: nat) < 0x80 then map_option ((#) c) (unquote s)
      else
        (case utf8_size (map of_char (c # s)) of
           None \<Rightarrow> map_option ((@) (utf8_encode replacement)) (unquote s)
         | Some n \<Rightarrow> map_option ((@) (take n (c # s))) (unquote (drop (n - 1) s))))"
  by pat_completeness auto
termination
  by (relation "measure length") auto

text \<open>The text up to the closing quote, with its escapes, and the rest.\<close>

fun string_body :: "string \<Rightarrow> (string \<times> string) option" where
  "string_body [] = None"
| "string_body (c # s) =
     (if c = CHR 0x22 then Some ([], s)
      else if c = backslash then
        (case s of
           [] \<Rightarrow> None
         | d # s' \<Rightarrow> map_option (\<lambda>(b, r). (c # d # b, r)) (string_body s'))
      else map_option (\<lambda>(b, r). (c # b, r)) (string_body s))"

lemma string_body_shorter: "string_body s = Some (b, r) \<Longrightarrow> length r < length s"
  by (induction s arbitrary: b rule: string_body.induct) (fastforce split: if_splits list.splits)+

section \<open>Tokens\<close>

datatype token =
    LBrace | RBrace | LBracket | RBracket | Comma | Colon
  | TString string
  | TLiteral string

definition json_space :: "char \<Rightarrow> bool" where
  "json_space c \<longleftrightarrow> c \<in> {CHR '' '', CHR 0x09, CHR 0x0A, CHR 0x0D}"

definition punctuation :: "char \<Rightarrow> token option" where
  "punctuation c =
     map_of [(CHR ''{'', LBrace), (CHR ''}'', RBrace), (CHR ''['', LBracket), (CHR '']'', RBracket),
             (CHR '','', Comma), (CHR '':'', Colon)] c"

text \<open>The bytes of numbers and of \<open>true\<close>, \<open>false\<close> and \<open>null\<close>.\<close>

definition literal_char :: "char \<Rightarrow> bool" where
  "literal_char c \<longleftrightarrow>
     is_digit c \<or> c \<in> {CHR ''+'', CHR ''-'', CHR ''.''}
     \<or> 97 \<le> (of_char c :: nat) \<and> (of_char c :: nat) \<le> 122 \<or> 65 \<le> (of_char c :: nat) \<and> (of_char c :: nat) \<le> 90"

function tokens :: "string \<Rightarrow> token list option" where
  "tokens [] = Some []"
| "tokens (c # s) =
     (if json_space c then tokens s
      else
        (case punctuation c of
           Some t \<Rightarrow> map_option ((#) t) (tokens s)
         | None \<Rightarrow>
             if c = CHR 0x22 then
               (case string_body s of
                  None \<Rightarrow> None
                | Some (b, r) \<Rightarrow> map_option ((#) (TString b)) (tokens r))
             else if literal_char c then
               map_option ((#) (TLiteral (c # takeWhile literal_char s))) (tokens (dropWhile literal_char s))
             else None))"
  by pat_completeness auto
termination
  by (relation "measure length") (auto dest: string_body_shorter simp: length_dropWhile_le le_imp_less_Suc)

section \<open>Values\<close>

text \<open>
  A text is decoded into an interface value or, in raw mode, into the tree that decoding into a struct
  walks: numbers keep their literal and objects, as \<open>JStruct\<close>, all their members in order.
\<close>

definition valid_number :: "string \<Rightarrow> bool" where
  "valid_number t \<longleftrightarrow> unsigned_parts (case t of c # r \<Rightarrow> if c = CHR ''-'' then r else t | [] \<Rightarrow> t) \<noteq> None"

definition number_value :: "bool \<Rightarrow> string \<Rightarrow> json option" where
  "number_value raw t =
     (if raw then (if valid_number t then Some (JNum t) else None) else map_option JNum (json_number t))"

definition literal_value :: "bool \<Rightarrow> string \<Rightarrow> json option" where
  "literal_value raw t =
     (if t = ''true'' then Some (JBool True) else if t = ''false'' then Some (JBool False)
      else if t = ''null'' then Some JNull else number_value raw t)"

text \<open>An open array with its elements, an open object with its members and the key being read.\<close>

datatype frame =
    InArray "json list"
  | InObject "(string \<times> json) list" string

datatype expect =
    AnyValue
  | ValueOrEnd
  | KeyOrEnd
  | KeyOnly
  | WantColon
  | CommaOrEnd
  | Finished json

type_synonym machine = "frame list \<times> expect"

text \<open>A complete value goes into the innermost open array or object.\<close>

definition put_value :: "bool \<Rightarrow> json \<Rightarrow> frame list \<Rightarrow> machine" where
  "put_value raw v st =
     (case st of
        [] \<Rightarrow> ([], Finished v)
      | InArray xs # st' \<Rightarrow> (InArray (xs @ [v]) # st', CommaOrEnd)
      | InObject m k # st' \<Rightarrow> (InObject (if raw then m @ [(k, v)] else go_put k v m) k # st', CommaOrEnd))"

definition close_frame :: "bool \<Rightarrow> bool \<Rightarrow> frame list \<Rightarrow> machine option" where
  "close_frame raw brace st =
     (case st of
        InArray xs # st' \<Rightarrow> if brace then None else Some (put_value raw (JArr xs) st')
      | InObject m _ # st' \<Rightarrow>
          if brace then Some (put_value raw (if raw then JStruct m else JMap m) st') else None
      | [] \<Rightarrow> None)"

definition open_frame :: "frame \<Rightarrow> expect \<Rightarrow> frame list \<Rightarrow> machine option" where
  "open_frame f x st = (if length st \<ge> 10000 then None else Some (f # st, x))"

definition start_value :: "bool \<Rightarrow> token \<Rightarrow> frame list \<Rightarrow> machine option" where
  "start_value raw t st =
     (case t of
        LBrace \<Rightarrow> open_frame (InObject [] []) KeyOrEnd st
      | LBracket \<Rightarrow> open_frame (InArray []) ValueOrEnd st
      | TString b \<Rightarrow> map_option (\<lambda>s. put_value raw (JStr s) st) (unquote b)
      | TLiteral l \<Rightarrow> map_option (\<lambda>v. put_value raw v st) (literal_value raw l)
      | _ \<Rightarrow> None)"

definition read_key :: "token \<Rightarrow> frame list \<Rightarrow> machine option" where
  "read_key t st =
     (case (t, st) of
        (TString b, InObject m _ # st') \<Rightarrow> map_option (\<lambda>k. (InObject m k # st', WantColon)) (unquote b)
      | _ \<Rightarrow> None)"

definition after_value :: "bool \<Rightarrow> token \<Rightarrow> frame list \<Rightarrow> machine option" where
  "after_value raw t st =
     (case t of
        Comma \<Rightarrow> (case st of InArray _ # _ \<Rightarrow> Some (st, AnyValue) | InObject _ _ # _ \<Rightarrow> Some (st, KeyOnly) | [] \<Rightarrow> None)
      | RBracket \<Rightarrow> close_frame raw False st
      | RBrace \<Rightarrow> close_frame raw True st
      | _ \<Rightarrow> None)"

fun json_step :: "bool \<Rightarrow> token \<Rightarrow> machine \<Rightarrow> machine option" where
  "json_step raw t (st, AnyValue) = start_value raw t st"
| "json_step raw t (st, ValueOrEnd) = (if t = RBracket then close_frame raw False st else start_value raw t st)"
| "json_step raw t (st, KeyOrEnd) = (if t = RBrace then close_frame raw True st else read_key t st)"
| "json_step raw t (st, KeyOnly) = read_key t st"
| "json_step raw t (st, WantColon) = (if t = Colon then Some (st, AnyValue) else None)"
| "json_step raw t (st, CommaOrEnd) = after_value raw t st"
| "json_step raw t (st, Finished v) = None"

fun json_run :: "bool \<Rightarrow> token list \<Rightarrow> machine \<Rightarrow> machine option" where
  "json_run raw [] M = Some M"
| "json_run raw (t # ts) M = (case json_step raw t M of None \<Rightarrow> None | Some M' \<Rightarrow> json_run raw ts M')"

definition json_value :: "bool \<Rightarrow> string \<Rightarrow> json option" where
  "json_value raw s =
     (case tokens s of
        None \<Rightarrow> None
      | Some ts \<Rightarrow>
          (case json_run raw ts ([], AnyValue) of
             Some ([], Finished v) \<Rightarrow> Some v
           | _ \<Rightarrow> None))"

text \<open>
  \<open>var m map[string]any; err := json.Unmarshal(data, &m)\<close>: an error, the nil map for \<open>null\<close>, or a map.
\<close>

definition json_Unmarshal :: "string \<Rightarrow> (string, json) gomap option option" where
  "json_Unmarshal s =
     (case json_value False s of
        Some (JMap m) \<Rightarrow> Some (Some m)
      | Some JNull \<Rightarrow> Some None
      | _ \<Rightarrow> None)"

section \<open>Decoding into structs\<close>

text \<open>
  Member names match field names up to case; besides the ASCII letters only the long s and the Kelvin
  sign fold to one.
\<close>

definition upper_ascii :: "char \<Rightarrow> char" where
  "upper_ascii c = (let n = of_char c :: nat in if 97 \<le> n \<and> n \<le> 122 then char_of (n - 32) else c)"

fun fold_name :: "string \<Rightarrow> string" where
  "fold_name [] = []"
| "fold_name (c # s) =
     (if c = CHR 0xC5 \<and> hasPrefix s [CHR 0xBF] then CHR ''S'' # fold_name (drop 1 s)
      else if c = CHR 0xE2 \<and> hasPrefix s [CHR 0x84, CHR 0xAA] then CHR ''K'' # fold_name (drop 2 s)
      else upper_ascii c # fold_name s)"

text \<open>
  The decoders take the old value of the field and give the new one, or None for a type error. \<open>null\<close>
  leaves a field of these types as it is.
\<close>

definition decode_bool :: "bool \<Rightarrow> json \<Rightarrow> bool option" where
  "decode_bool old v = (case v of JNull \<Rightarrow> Some old | JBool b \<Rightarrow> Some b | _ \<Rightarrow> None)"

definition decode_string :: "string \<Rightarrow> json \<Rightarrow> string option" where
  "decode_string old v = (case v of JNull \<Rightarrow> Some old | JStr s \<Rightarrow> Some s | _ \<Rightarrow> None)"

definition decode_int :: "int \<Rightarrow> json \<Rightarrow> int option" where
  "decode_int old v = (case v of JNull \<Rightarrow> Some old | JNum t \<Rightarrow> atoi t | _ \<Rightarrow> None)"

text \<open>The members of an object in order, each given to the decoder of its field.\<close>

fun decode_members :: "(string \<Rightarrow> json \<Rightarrow> 'a \<Rightarrow> 'a option) \<Rightarrow> (string \<times> json) list \<Rightarrow> 'a \<Rightarrow> 'a option" where
  "decode_members f [] old = Some old"
| "decode_members f ((k, v) # ms) old =
     (case f (fold_name k) v old of None \<Rightarrow> None | Some new \<Rightarrow> decode_members f ms new)"

definition decode_object :: "(string \<Rightarrow> json \<Rightarrow> 'a \<Rightarrow> 'a option) \<Rightarrow> 'a \<Rightarrow> json \<Rightarrow> 'a option" where
  "decode_object f old v =
     (case v of JNull \<Rightarrow> Some old | JStruct ms \<Rightarrow> decode_members f ms old | _ \<Rightarrow> None)"

text \<open>
  A slice, with the elements behind its end that later decoding would reuse: element \<open>i\<close> is decoded into
  the old element \<open>i\<close>. An empty array gives a fresh slice, \<open>null\<close> gives nil.
\<close>

fun decode_elements :: "('a \<Rightarrow> json \<Rightarrow> 'a option) \<Rightarrow> 'a \<Rightarrow> 'a list \<Rightarrow> json list \<Rightarrow> 'a list option" where
  "decode_elements f zero old [] = Some []"
| "decode_elements f zero old (v # vs) =
     (case f (case old of x # _ \<Rightarrow> x | [] \<Rightarrow> zero) v of
        None \<Rightarrow> None
      | Some y \<Rightarrow> map_option ((#) y) (decode_elements f zero (drop 1 old) vs))"

definition decode_slice :: "('a \<Rightarrow> json \<Rightarrow> 'a option) \<Rightarrow> 'a \<Rightarrow> 'a list \<times> 'a list \<Rightarrow> json \<Rightarrow> ('a list \<times> 'a list) option" where
  "decode_slice f zero old v =
     (case v of
        JNull \<Rightarrow> Some ([], [])
      | JArr vs \<Rightarrow>
          if vs = [] then Some ([], [])
          else map_option (\<lambda>xs. (xs, drop (length vs) (fst old @ snd old))) (decode_elements f zero (fst old @ snd old) vs)
      | _ \<Rightarrow> None)"

end
