(* ===== verification/Client_Template.thy ===== *)
theory Client_Template
  imports Client_Config Go_Json_Decode
begin

text \<open>
  Merging a client configuration into a template, \<open>src/internal/apiserver/template.go\<close>. The template is
  decoded into nested maps; the code updates them in place, the model puts the updated map back under its
  key. Decoded values form a tree, so that no two places share a map.
\<close>

section \<open>Reading decoded values\<close>

text \<open>\<open>m, ok := v.(map[string]any)\<close> and \<open>xs, ok := v.([]any)\<close> for \<open>v = config[key]\<close>\<close>

definition map_field :: "(string, json) gomap \<Rightarrow> string \<Rightarrow> (string, json) gomap option" where
  "map_field m k = (case map_of m k of Some (JMap x) \<Rightarrow> Some x | _ \<Rightarrow> None)"

definition arr_field :: "(string, json) gomap \<Rightarrow> string \<Rightarrow> json list option" where
  "arr_field m k = (case map_of m k of Some (JArr xs) \<Rightarrow> Some xs | _ \<Rightarrow> None)"

text \<open>\<open>m[key] == "text"\<close> on interface values.\<close>

definition field_is :: "(string, json) gomap \<Rightarrow> string \<Rightarrow> json \<Rightarrow> bool" where
  "field_is m k v \<longleftrightarrow> map_of m k = Some v"

text \<open>\<open>m[key] == nil\<close>: the key is missing or its value is null.\<close>

definition field_nil :: "(string, json) gomap \<Rightarrow> string \<Rightarrow> bool" where
  "field_nil m k \<longleftrightarrow> map_of m k = None \<or> map_of m k = Some JNull"

abbreviation proxyDNSTag :: string where "proxyDNSTag \<equiv> ''proxy-dns''"
abbreviation localDNSTag :: string where "localDNSTag \<equiv> ''local''"
abbreviation clientModeAuto :: string where "clientModeAuto \<equiv> ''Auto''"

definition clientRegionModes :: "(string \<times> string) list" where
  "clientRegionModes = [(''HK'', ''hk''), (''JP'', ''jp''), (''US'', ''us'')]"

fun join_lines :: "string list \<Rightarrow> string" where
  "join_lines [] = []"
| "join_lines [l] = l"
| "join_lines (l # k # ls) = l @ CHR 0x0A # join_lines (k # ls)"

definition DefaultTemplate :: string where
  \<open>DefaultTemplate = join_lines
     [''{'',
      ''  "log": {"level": "info"},'',
      ''  "dns": {'',
      ''    "servers": ['',
      ''      {"type": "https", "tag": "proxy-dns", "server": "1.1.1.1"},'',
      ''      {"type": "hosts", "path": [], "predefined": {}, "tag": "block"},'',
      ''      {"type": "local", "tag": "local"}'',
      ''    ],'',
      ''    "rules": ['',
      ''      {"rule_set": "geosite-cn", "server": "local"}'',
      ''    ],'',
      ''    "final": "proxy-dns",'',
      ''    "strategy": "ipv4_only"'',
      ''  },'',
      ''  "inbounds": ['',
      ''    {'',
      ''      "type": "tun",'',
      ''      "tag": "tun-in",'',
      ''      "address": "172.19.0.1/30",'',
      ''      "auto_route": true,'',
      ''      "strict_route": true,'',
      ''      "stack": "gvisor",'',
      ''      "platform": {'',
      ''        "http_proxy": {'',
      ''          "enabled": true,'',
      ''          "server": "127.0.0.1",'',
      ''          "server_port": 7891'',
      ''        }'',
      ''      }'',
      ''    },'',
      ''    {"type": "socks", "tag": "socks-in", "listen": "127.0.0.1", "listen_port": 7890},'',
      ''    {"type": "http", "tag": "http-in", "listen": "127.0.0.1", "listen_port": 7891}'',
      ''  ],'',
      ''  "outbounds": [],'',
      ''  "route": {'',
      ''    "rules": ['',
      ''      {"action": "sniff"},'',
      ''      {"protocol": "dns", "action": "hijack-dns"},'',
      ''      {"rule_set": ["geosite-cn"], "outbound": "direct"},'',
      ''      {"ip_is_private": true, "outbound": "direct"},'',
      ''      {"rule_set": ["category-ads-all"], "action": "reject"}'',
      ''    ],'',
      ''    "rule_set": ['',
      ''      {'',
      ''        "tag": "geosite-cn",'',
      ''        "type": "remote",'',
      ''        "format": "binary",'',
      ''        "url": "https://fastly.jsdelivr.net/gh/SagerNet/sing-geosite@rule-set/geosite-cn.srs",'',
      ''        "http_client": {"detour": "direct"}'',
      ''      },'',
      ''      {'',
      ''        "tag": "category-ads-all",'',
      ''        "type": "remote",'',
      ''        "format": "binary",'',
      ''        "url": "https://fastly.jsdelivr.net/gh/SagerNet/sing-geosite@rule-set/geosite-category-ads-all.srs",'',
      ''        "http_client": {"detour": "direct"}'',
      ''      }'',
      ''    ],'',
      ''    "final": "direct",'',
      ''    "auto_detect_interface": true,'',
      ''    "default_domain_resolver": "proxy-dns"'',
      ''  },'',
      ''  "experimental": {"clash_api": {"default_mode": "Auto"}}'',
      ''}'']\<close>

section \<open>Deprecated fields\<close>

definition normalizeRuleSet :: "json \<Rightarrow> json" where
  "normalizeRuleSet raw =
     (case raw of
        JMap rset \<Rightarrow>
          (case map_of rset ''download_detour'' of
             Some (JStr detour) \<Rightarrow>
               JMap (go_delete ''download_detour''
                 (if map_of rset ''http_client'' = None
                  then go_put ''http_client'' (JMap [(''detour'', JStr detour)]) rset else rset))
           | _ \<Rightarrow> raw)
      | _ \<Rightarrow> raw)"

definition normalizeDeprecatedClientConfig :: "(string, json) gomap \<Rightarrow> (string, json) gomap" where
  "normalizeDeprecatedClientConfig m =
     (let m = (case map_field m ''dns'' of
                 Some dns \<Rightarrow> go_put ''dns'' (JMap (go_delete ''independent_cache'' dns)) m
               | None \<Rightarrow> m)
      in case map_field m ''route'' of
           None \<Rightarrow> m
         | Some route \<Rightarrow>
             (case arr_field route ''rule_set'' of
                None \<Rightarrow> m
              | Some sets \<Rightarrow>
                  go_put ''route'' (JMap (go_put ''rule_set'' (JArr (map normalizeRuleSet sets)) route)) m))"

text \<open>A slice of values; one that nothing was appended to is nil, which is written as \<open>null\<close>.\<close>

definition sliceJson :: "json list \<Rightarrow> json" where
  "sliceJson xs = (if xs = [] then JNull else JArr xs)"

text \<open>Writing into the nil map that \<open>null\<close> decodes to panics.\<close>

definition MergeOutbounds :: "string \<Rightarrow> json list \<Rightarrow> failure + string" where
  "MergeOutbounds templateJSON generatedOutbounds =
     (case json_Unmarshal templateJSON of
        None \<Rightarrow> Inl BadTemplate
      | Some None \<Rightarrow> Inl Panicked
      | Some (Some m) \<Rightarrow>
          (let m = normalizeDeprecatedClientConfig m
           in Inr (json_text (JMap (go_put ''outbounds'' (sliceJson generatedOutbounds) m)))))"

section \<open>Rules\<close>

definition isDomesticDirectRule :: "(string, json) gomap \<Rightarrow> bool" where
  "isDomesticDirectRule rule =
     (if \<not> field_is rule ''outbound'' (JStr ''direct'') then False
      else if field_is rule ''ip_is_private'' (JBool True) then True
      else (case arr_field rule ''rule_set'' of None \<Rightarrow> False | Some sets \<Rightarrow> JStr ''geosite-cn'' \<in> set sets))"

definition definedRuleSets :: "(string, json) gomap \<Rightarrow> names" where
  "definedRuleSets route =
     (case arr_field route ''rule_set'' of
        None \<Rightarrow> []
      | Some sets \<Rightarrow>
          fold (\<lambda>s m. case s of
                        JMap entry \<Rightarrow> (case map_of entry ''tag'' of Some (JStr tag) \<Rightarrow> go_put tag True m | _ \<Rightarrow> m)
                      | _ \<Rightarrow> m) sets [])"

text \<open>The policies whose rule sets must be defined, in the order of the input.\<close>

fun undefinedRuleSet :: "ext \<Rightarrow> ClientConfigInput \<Rightarrow> names \<Rightarrow> EgressPolicy option list \<Rightarrow> failure option" where
  "undefinedRuleSet E input defs [] = None"
| "undefinedRuleSet E input defs (None # ps) = Some Panicked"
| "undefinedRuleSet E input defs (Some p # ps) =
     (if Action (policySpec p) = EgressPolicyActionRoute \<and> snd (resolveClientPolicyEgress E input p) = 0
      then undefinedRuleSet E input defs ps
      else
        (case find (\<lambda>ref. \<not> has_name defs ref) (RuleSet (Match (policySpec p))) of
           Some ref \<Rightarrow>
             Some (Failed (''policy '' @ Name p @ '': rule_set '' @ go_quote ref @
                           '' is not defined in template route.rule_set''))
         | None \<Rightarrow> undefinedRuleSet E input defs ps))"

definition outboundTags :: "json list \<Rightarrow> names" where
  "outboundTags obs =
     fold (\<lambda>ob m. case ob of
                     JMap v \<Rightarrow> (case map_of v ''tag'' of Some (JStr tag) \<Rightarrow> go_put tag True m | _ \<Rightarrow> m)
                   | _ \<Rightarrow> m) obs []"

definition leadingRule :: "json \<Rightarrow> bool" where
  "leadingRule r =
     (case r of
        JMap rule \<Rightarrow> field_is rule ''action'' (JStr ''sniff'') \<or> field_is rule ''action'' (JStr ''hijack-dns'')
      | _ \<Rightarrow> False)"

definition domesticRule :: "json \<Rightarrow> bool" where
  "domesticRule r = (case r of JMap rule \<Rightarrow> isDomesticDirectRule rule | _ \<Rightarrow> False)"

definition proxySelectorFor :: "names \<Rightarrow> string" where
  "proxySelectorFor has =
     (case find (\<lambda>mode. has_name has (snd mode)) clientRegionModes of None \<Rightarrow> [] | Some mode \<Rightarrow> snd mode)"

definition modeRules :: "names \<Rightarrow> json list" where
  "modeRules has =
     (if proxySelectorFor has \<noteq> []
      then [JMap [(''clash_mode'', JStr clientModeAuto), (''outbound'', JStr (proxySelectorFor has))]] else []) @
     map (\<lambda>mode. JMap [(''clash_mode'', JStr (fst mode)), (''outbound'', JStr (snd mode))])
       (filter (\<lambda>mode. has_name has (snd mode)) clientRegionModes)"

definition keptRule :: "json \<Rightarrow> json list" where
  "keptRule item =
     (case item of
        JMap rule \<Rightarrow>
          if isDomesticDirectRule rule then []
          else if field_is rule ''clash_mode'' (JStr ''Proxy'') \<or> field_is rule ''clash_mode'' (JStr ''proxy'') then []
          else if field_is rule ''outbound'' (JStr ''proxy'')
          then [JMap (go_put ''outbound'' (JStr ''direct'') (filter (\<lambda>kv. fst kv \<noteq> ''outbound'') rule))]
          else [item]
      | _ \<Rightarrow> [item])"

definition mergedRules :: "json list \<Rightarrow> json list \<Rightarrow> bool \<Rightarrow> names \<Rightarrow> json list" where
  "mergedRules original polRules resolve has =
     (let lead = takeWhile leadingRule original; rest = dropWhile leadingRule original in
      lead @ polRules @ (if resolve then [JMap [(''action'', JStr ''resolve'')]] else []) @
      filter domesticRule rest @ modeRules has @ concat (map keptRule rest))"

section \<open>DNS\<close>

definition isServer :: "string \<Rightarrow> json \<Rightarrow> bool" where
  "isServer tag raw = (case raw of JMap server \<Rightarrow> field_is server ''tag'' (JStr tag) | _ \<Rightarrow> False)"

definition dnsServers :: "(string, json) gomap \<Rightarrow> json list" where
  "dnsServers config =
     (case map_field config ''dns'' of
        None \<Rightarrow> []
      | Some dns \<Rightarrow> (case arr_field dns ''servers'' of None \<Rightarrow> [] | Some servers \<Rightarrow> servers))"

definition clientDNSServer :: "(string, json) gomap \<Rightarrow> string \<Rightarrow> (string, json) gomap option" where
  "clientDNSServer config tag =
     (case find (isServer tag) (dnsServers config) of Some (JMap server) \<Rightarrow> Some server | _ \<Rightarrow> None)"

text \<open>The server found first is updated where it stands in the list.\<close>

fun updateServer :: "string \<Rightarrow> (string, json) gomap \<Rightarrow> json list \<Rightarrow> json list" where
  "updateServer tag server [] = []"
| "updateServer tag server (raw # raws) =
     (if isServer tag raw then JMap server # raws else raw # updateServer tag server raws)"

definition regionTag :: "string \<times> string \<Rightarrow> string" where
  "regionTag mode = proxyDNSTag @ ''-'' @ snd mode"

definition reservedTag :: "(string, json) gomap \<Rightarrow> names \<Rightarrow> string option" where
  "reservedTag config has =
     find (\<lambda>tag. clientDNSServer config tag \<noteq> None)
       (map regionTag (filter (\<lambda>mode. has_name has (snd mode)) clientRegionModes))"

text \<open>\<open>netip.ParseAddr\<close> fails: the server is a host name.\<close>

definition needsResolver :: "json \<Rightarrow> bool" where
  "needsResolver raw =
     (case raw of
        JMap ob \<Rightarrow>
          str_field ob ''server'' \<noteq> [] \<and> field_nil ob ''domain_resolver''
          \<and> netip_ParseAddr (str_field ob ''server'') = None
      | _ \<Rightarrow> False)"

definition withResolver :: "json \<Rightarrow> json" where
  "withResolver raw =
     (case raw of
        JMap ob \<Rightarrow> if needsResolver raw then JMap (go_put ''domain_resolver'' (JStr localDNSTag) ob) else raw
      | _ \<Rightarrow> raw)"

text \<open>
  The result holds the configuration with the updated \<open>dns\<close>, the updated \<open>route\<close>, and the outbounds.
\<close>

definition configureClientDNS ::
    "(string, json) gomap \<Rightarrow> (string, json) gomap \<Rightarrow> json list \<Rightarrow> string \<Rightarrow> names \<Rightarrow>
     failure + (string, json) gomap \<times> (string, json) gomap \<times> json list" where
  "configureClientDNS config route outbounds proxySelector has =
     (case (clientDNSServer config proxyDNSTag, map_field config ''dns'') of
        (Some proxyDNS, Some dns) \<Rightarrow>
          (let servers = dnsServers config;
               hasLocal = (clientDNSServer config localDNSTag \<noteq> None);
               dnsRules = (case arr_field dns ''rules'' of Some rs \<Rightarrow> rs | None \<Rightarrow> [])
           in if arr_field dns ''rules'' = None \<and> \<not> field_nil dns ''rules''
              then Inl (Failed ''template dns.rules must be an array'')
              else
                (let proxyDNS = (if proxySelector \<noteq> [] then go_put ''detour'' (JStr proxySelector) proxyDNS
                                 else go_delete ''detour'' proxyDNS);
                     modes = filter (\<lambda>mode. has_name has (snd mode)) clientRegionModes;
                     servers = updateServer proxyDNSTag proxyDNS servers @
                       map (\<lambda>mode. JMap (go_put ''detour'' (JStr (snd mode)) (go_put ''tag'' (JStr (regionTag mode)) proxyDNS))) modes @
                       (if \<not> hasLocal \<and> list_ex needsResolver outbounds
                        then [JMap [(''type'', JStr ''local''), (''tag'', JStr localDNSTag)]] else []);
                     rules = dnsRules @
                       map (\<lambda>mode. JMap [(''clash_mode'', JStr (fst mode)), (''server'', JStr (regionTag mode))]) modes @
                       [JMap [(''clash_mode'', JStr clientModeAuto), (''server'', JStr proxyDNSTag)]];
                     dns = go_put ''final'' (JStr proxyDNSTag) (go_put ''rules'' (JArr rules) (go_put ''servers'' (JArr servers) dns))
                 in case reservedTag config has of
                      Some tag \<Rightarrow>
                        Inl (Failed (''template DNS server tag '' @ go_quote tag @
                                     '' is reserved for generated Clash mode DNS''))
                    | None \<Rightarrow>
                        Inr (go_put ''dns'' (JMap dns) config,
                             go_put ''default_domain_resolver'' (JStr proxyDNSTag) route,
                             map withResolver outbounds)))
      | _ \<Rightarrow> Inr (config, route, outbounds))"

section \<open>The merge\<close>

definition withClashMode :: "(string, json) gomap \<Rightarrow> (string, json) gomap" where
  "withClashMode m =
     (let experimental = (case map_field m ''experimental'' of Some x \<Rightarrow> x | None \<Rightarrow> []);
          clash = (case map_field experimental ''clash_api'' of Some x \<Rightarrow> x | None \<Rightarrow> [])
      in go_put ''experimental'' (JMap (go_put ''clash_api''
           (JMap (go_put ''default_mode'' (JStr clientModeAuto) clash)) experimental)) m)"

definition mergeDecoded ::
    "ext \<Rightarrow> (string, json) gomap \<Rightarrow> json list \<Rightarrow> json list \<Rightarrow> ClientConfigInput \<Rightarrow> failure + (string, json) gomap" where
  "mergeDecoded E template polRules generatedOutbounds input =
     (let m = normalizeDeprecatedClientConfig template in
      case map_field m ''route'' of
        None \<Rightarrow> Inl (Failed ''template route must be an object'')
      | Some route \<Rightarrow>
          if arr_field route ''rules'' = None \<and> length polRules \<noteq> 0
          then Inl (Failed ''template route.rules must be an array'')
          else
            (let original = (case arr_field route ''rules'' of Some rs \<Rightarrow> rs | None \<Rightarrow> []) in
             case undefinedRuleSet E input (definedRuleSets route) (ciEgressPolicies input) of
               Some e \<Rightarrow> Inl e
             | None \<Rightarrow>
                 (let has = outboundTags generatedOutbounds;
                      rules = mergedRules original polRules (clientDNSServer m proxyDNSTag \<noteq> None) has;
                      selector = proxySelectorFor has;
                      route = go_put ''rules'' (sliceJson rules) route;
                      m = withClashMode m;
                      route = (if selector \<noteq> [] then go_put ''final'' (JStr selector) route else route)
                  in case configureClientDNS m route generatedOutbounds selector has of
                       Inl e \<Rightarrow> Inl e
                     | Inr (m, route, outbounds) \<Rightarrow>
                         Inr (go_put ''outbounds'' (sliceJson outbounds) (go_put ''route'' (JMap route) m)))))"

definition MergeClientConfig :: "ext \<Rightarrow> string \<Rightarrow> json list \<Rightarrow> ClientConfigInput \<Rightarrow> failure + string" where
  "MergeClientConfig E templateJSON generatedOutbounds input =
     (case buildClientPolicies E input of
        Inl e \<Rightarrow> Inl e
      | Inr (polRules, _) \<Rightarrow>
          (case json_Unmarshal templateJSON of
             None \<Rightarrow> Inl BadTemplate
           | Some decoded \<Rightarrow>
               (case mergeDecoded E (case decoded of Some m \<Rightarrow> m | None \<Rightarrow> []) polRules generatedOutbounds input of
                  Inl e \<Rightarrow> Inl e
                | Inr m \<Rightarrow> Inr (json_text (JMap m)))))"

end
