(* ===== verification/Client_Handler.thy ===== *)
theory Client_Handler
  imports Client_Template Cred_Manager
begin

text \<open>
  The HTTP handler of client configurations, \<open>src/internal/apiserver/handler.go\<close>: it finds the user whose
  secret holds the UUID of the request, gathers the input from the cluster, builds the outbounds and
  merges them into the template. A response is its status, content type and body; a panic, which the
  HTTP server turns into an aborted connection, gives none.
\<close>

record Server =
  BindAddress :: string
  TemplateRef :: string

record httpResponse =
  respStatus :: nat
  respType :: string
  respBody :: string

section \<open>Responses\<close>

abbreviation newline :: string where
  "newline \<equiv> [CHR 0x0A]"

text \<open>\<open>http.Error\<close> and \<open>http.NotFound\<close>\<close>

definition httpError :: "string \<Rightarrow> nat \<Rightarrow> httpResponse" where
  "httpError msg code = \<lparr>respStatus = code, respType = ''text/plain; charset=utf-8'', respBody = msg @ newline\<rparr>"

definition httpNotFound :: httpResponse where
  "httpNotFound = httpError ''404 page not found'' 404"

definition writeInternalError :: httpResponse where
  "writeInternalError =
     \<lparr>respStatus = 500, respType = ''application/json'',
      respBody = json_text (JMap [(''error'', JStr ''internal server error'')]) @ newline\<rparr>"

section \<open>The request\<close>

definition trimPrefix :: "string \<Rightarrow> string \<Rightarrow> string" where
  "trimPrefix s p = (if hasPrefix s p then drop (length p) s else s)"

text \<open>Namespace and UUID of a request path.\<close>

definition requestParts :: "string \<Rightarrow> (string \<times> string) option" where
  "requestParts path =
     (case strSplitN (trimPrefix path ''/api/v1/client-config/'') ''/'' 2 of
        [ns, u] \<Rightarrow> if ns = [] \<or> u = [] then None else Some (ns, u)
      | _ \<Rightarrow> None)"

text \<open>
  \<open>strings.EqualFold\<close> with a second argument of hex digits and dashes: no other letter folds to one of
  those, so that only the ASCII letters matter.
\<close>

definition ascii_lower :: "char \<Rightarrow> char" where
  "ascii_lower c =
     (let n = of_char c :: nat in if 65 \<le> n \<and> n \<le> 90 then char_of (n + 32) else c)"

definition equalFold :: "string \<Rightarrow> string \<Rightarrow> bool" where
  "equalFold s t \<longleftrightarrow> map ascii_lower s = map ascii_lower t"

text \<open>The first user with the UUID; users without a readable credential are skipped.\<close>

fun matchUser :: "'s kube \<Rightarrow> 's \<Rightarrow> string \<Rightarrow> User list \<Rightarrow> (User \<times> UserCredential) option" where
  "matchUser K s requestUUID [] = None"
| "matchUser K s requestUUID (user # users) =
     (case GetUserCredential K user s of
        Inl _ \<Rightarrow> matchUser K s requestUUID users
      | Inr cred \<Rightarrow>
          if \<not> equalFold (UUID cred) requestUUID then matchUser K s requestUUID users
          else Some (user, cred))"

section \<open>The input\<close>

definition isSingBoxNodeReady :: "SingBoxNode \<Rightarrow> bool" where
  "isSingBoxNodeReady node =
     (case find (\<lambda>c. condType c = ''NodeReady'') (nodeConditions (nodeStatus node)) of
        Some c \<Rightarrow> condStatus c = CTrue
      | None \<Rightarrow> True)"

text \<open>\<open>m[x.Name] = x\<close> for every element.\<close>

definition byName :: "'a ObjectMeta_scheme list \<Rightarrow> (string, 'a ObjectMeta_scheme) gomap" where
  "byName xs = fold (\<lambda>x m. go_put (Name x) x m) xs []"

definition offlineNames :: "SingBoxNode list \<Rightarrow> names" where
  "offlineNames nodes = name_set (map Name (filter (\<lambda>n. \<not> isSingBoxNodeReady n) nodes))"

text \<open>The group of a user: an error, no group (or a group that does not exist), or the group.\<close>

definition userGroupFor :: "'s kube \<Rightarrow> string \<Rightarrow> User \<Rightarrow> 's \<Rightarrow> apiError + UserGroup option" where
  "userGroupFor K ns user s =
     (if UserGroupRef (userSpec user) = [] then Inr None
      else
        (case getUserGroup K ns (UserGroupRef (userSpec user)) s of
           Inl e \<Rightarrow> if \<not> IsNotFound e then Inl e else Inr None
         | Inr ug \<Rightarrow> Inr (Some ug)))"

definition handlerInput ::
    "ext \<Rightarrow> User \<Rightarrow> UserCredential \<Rightarrow> SingBoxNode list \<Rightarrow> ExternalOutbound list \<Rightarrow> EgressPolicy list \<Rightarrow>
     UserGroup option \<Rightarrow> ClientConfigInput" where
  "handlerInput E user cred nodes externals policies ug =
     \<lparr>ciUser = user, ciEgressPolicies = map Some policies, ciUserCred = cred,
      ciInboundNodes = filter (\<lambda>n. hasRole n ProxyRoleInbound) nodes, ciRoutesByInbound = [],
      ciOutboundsByName = byName (filter (\<lambda>n. hasRole n ProxyRoleOutbound) nodes),
      ciExternalOutboundsByName = byName externals, ciExternalOutbounds = externals,
      ciOfflineNodeNames = offlineNames nodes,
      ciAllowedNodeNames = (case ug of None \<Rightarrow> [] | Some g \<Rightarrow> name_set (AllowedNodes (groupSpec g))),
      ciDeniedNodeNames = (case ug of None \<Rightarrow> [] | Some g \<Rightarrow> name_set (DeniedNodes (groupSpec g))),
      ciPolicyOnlyEgressNames = policyOnlyEgresses E policies nodes externals\<rparr>"

section \<open>The template\<close>

definition templateBytes :: "'s kube \<Rightarrow> Server \<Rightarrow> 's \<Rightarrow> string" where
  "templateBytes K srv s =
     (if TemplateRef srv = [] then DefaultTemplate
      else
        (case strSplitN (TemplateRef srv) ''/'' 2 of
           [ns, n] \<Rightarrow>
             (case getConfigMap K ns n s of
                Inl _ \<Rightarrow> DefaultTemplate
              | Inr cm \<Rightarrow> (case map_of (cmData cm) ''config.json'' of Some data \<Rightarrow> data | None \<Rightarrow> DefaultTemplate))
         | _ \<Rightarrow> DefaultTemplate))"

section \<open>The handler\<close>

text \<open>The part after the input was gathered.\<close>

definition respondWith :: "ext \<Rightarrow> string \<Rightarrow> ClientConfigInput \<Rightarrow> httpResponse option" where
  "respondWith E template input =
     (case BuildClientConfig E input of
        Inl Panicked \<Rightarrow> None
      | Inl _ \<Rightarrow> Some writeInternalError
      | Inr outbounds \<Rightarrow>
          (case MergeClientConfig E template outbounds input of
             Inl Panicked \<Rightarrow> None
           | Inl _ \<Rightarrow> Some writeInternalError
           | Inr body \<Rightarrow> Some \<lparr>respStatus = 200, respType = ''application/json'', respBody = body\<rparr>))"

definition handleClientConfig :: "ext \<Rightarrow> 's kube \<Rightarrow> Server \<Rightarrow> string \<Rightarrow> 's \<Rightarrow> httpResponse option" where
  "handleClientConfig E K srv path s =
     (case requestParts path of
        None \<Rightarrow> Some httpNotFound
      | Some (ns, requestUUID) \<Rightarrow>
          if \<not> uuid_shape requestUUID then Some (httpError ''invalid uuid'' 400)
          else
            (case listUsers K ns s of
               Inl _ \<Rightarrow> Some writeInternalError
             | Inr users \<Rightarrow>
            (case matchUser K s requestUUID users of
               None \<Rightarrow> Some httpNotFound
             | Some (user, cred) \<Rightarrow>
            (case listNodes K ns s of
               Inl _ \<Rightarrow> Some writeInternalError
             | Inr nodes \<Rightarrow>
            (case listExternalOutbounds K ns s of
               Inl _ \<Rightarrow> Some writeInternalError
             | Inr externals \<Rightarrow>
            (case listPolicies K ns s of
               Inl _ \<Rightarrow> Some writeInternalError
             | Inr policies \<Rightarrow>
            (case userGroupFor K ns user s of
               Inl _ \<Rightarrow> Some (httpError ''internal server error'' 500)
             | Inr ug \<Rightarrow>
                 respondWith E (templateBytes K srv s) (handlerInput E user cred nodes externals policies ug))))))))"

end
