(* ===== verification/Template_Default.thy ===== *)
theory Template_Default
  imports Client_Template
begin

text \<open>
  The built-in template: decoding \<open>DefaultTemplate\<close> of \<open>src/internal/apiserver/template.go\<close> gives
  \<open>defaultConfig\<close>. The text is read line by line, since no token of it spans two lines.
\<close>

section \<open>Tokens of a line\<close>

lemma string_body_append: "string_body s = Some (b, r) \<Longrightarrow> string_body (s @ x) = Some (b, r @ x)"
  by (induction s arbitrary: b rule: string_body.induct) (fastforce split: if_splits list.splits)+

lemma while_append:
  assumes "\<not> P c"
  shows "takeWhile P (s @ c # x) = takeWhile P s" "dropWhile P (s @ c # x) = dropWhile P s @ c # x"
  using assms by (induction s) auto

lemma newline_no_literal: "\<not> literal_char (CHR 0x0A)"
  by (simp add: literal_char_def is_digit_def)

lemma tokens_line:
  assumes "tokens s = Some ts"
  shows "tokens (s @ CHR 0x0A # x) = (case tokens x of None \<Rightarrow> None | Some us \<Rightarrow> Some (ts @ us))"
  using assms
proof (induction s arbitrary: ts rule: tokens.induct)
  case 1
  then show ?case by (auto simp: json_space_def split: option.splits)
next
  case (2 c s)
  consider "json_space c" | t where "\<not> json_space c" "punctuation c = Some t"
    | b r where "\<not> json_space c" "punctuation c = None" "c = CHR 0x22" "string_body s = Some (b, r)"
    | "\<not> json_space c" "punctuation c = None" "c \<noteq> CHR 0x22" "literal_char c"
    using 2(5) by (auto split: if_splits option.splits)
  then show ?case
  proof cases
    case 1
    then show ?thesis using 2(1,5) by simp
  next
    case 2
    then show ?thesis using "2.IH"(4) "2.prems" by (auto split: option.splits)
  next
    case 3
    then show ?thesis using "2.IH"(2) "2.prems" by (auto simp: string_body_append split: option.splits)
  next
    case 4
    then show ?thesis
      using "2.IH"(3) "2.prems"
      by (auto simp: while_append [where P = literal_char, OF newline_no_literal] split: option.splits)
  qed
qed

lemma tokens_join:
  assumes "list_all2 (\<lambda>l ts. tokens l = Some ts) ls tss"
  shows "tokens (join_lines ls) = Some (concat tss)"
  using assms
proof (induction ls arbitrary: tss rule: join_lines.induct)
  case (3 l k ls)
  from 3(2) obtain ts us where "tss = ts # us" "tokens l = Some ts" "list_all2 (\<lambda>l ts. tokens l = Some ts) (k # ls) us"
    by (auto simp: list_all2_Cons1)
  then show ?case using 3(1) [of us] by (simp add: tokens_line)
qed (auto simp: list_all2_Cons1)

lemma unmarshal_lines:
  assumes "list_all2 (\<lambda>l ts. tokens l = Some ts) ls tss"
    and "json_run False (concat tss) ([], AnyValue) = Some ([], Finished (JMap m))"
  shows "json_Unmarshal (join_lines ls) = Some (Some m)"
  using assms tokens_join [OF assms(1)] by (simp add: json_Unmarshal_def json_value_def)

lemma list_all2_step: "P x y \<Longrightarrow> list_all2 P xs ys \<Longrightarrow> list_all2 P (x # xs) (y # ys)"
  by simp

section \<open>Numbers\<close>

text \<open>The equations of \<open>float64\<close> texts on numerals.\<close>

lemma dec_exp_numeral:
  "dec_exp (numeral f) a b k =
     (let (p, q) = dec_frac 1 k in if a * q < b * p then k else dec_exp (pred_numeral f) a b (k + 1))"
  by (simp only: numeral_eq_Suc [of f] dec_exp.simps)

lemma shortest_from_numeral:
  "shortest_from (numeral f) v a b k n =
     (case digits_try v a b k n of
        Some d \<Rightarrow> (d, k - int n)
      | None \<Rightarrow> shortest_from (pred_numeral f) v a b k (n + 1))"
  by (simp only: numeral_eq_Suc [of f] shortest_from.simps)

lemma strip_zeros_numeral:
  "strip_zeros (numeral f) d k =
     (if d \<noteq> 0 \<and> d mod 10 = 0 then strip_zeros (pred_numeral f) (d div 10) (k + 1) else (d, k))"
  by (simp only: numeral_eq_Suc [of f] strip_zeros.simps)

lemma bit_count_numeral:
  "bit_count 0 = 0" "bit_count (Suc 0) = 1" "bit_count 1 = 1"
  "bit_count (numeral n) = Suc (bit_count (numeral n div 2))"
  by (simp_all add: bit_count.simps [of "Suc 0"] bit_count.simps [of 0] bit_count.simps [of "numeral n"])

lemma digit_charI: "of_char c = 48 + d \<Longrightarrow> digit_char d = c"
  unfolding digit_char_def by (metis char_of_char)

lemma digit_char_numeral:
  "digit_char 0 = CHR ''0''" "digit_char (Suc 0) = CHR ''1''" "digit_char 7 = CHR ''7''"
  "digit_char 8 = CHR ''8''" "digit_char 9 = CHR ''9''"
  by (rule digit_charI, simp)+

lemma nat_dec_numeral:
  "nat_dec (numeral n) = (if (numeral n :: nat) < 10 then [digit_char (numeral n)]
       else nat_dec (numeral n div 10) @ [digit_char (numeral n mod 10)])"
  by (simp add: nat_dec.simps [of "numeral n"])

lemmas float_eval = json_number_def unsigned_parts_def exp_part_def float_literal_def float_text_def
  float_format_def shortest_def float_of_dec_def dec_frac_def bin_frac_def float_round_def scale_div_def
  round_div_def digits_try_def dec_exp_numeral shortest_from_numeral strip_zeros_numeral bit_count_numeral
  dec_nat_def digit_val_def is_digit_def nat_dec_numeral digit_char_numeral Let_def

lemma port_numbers: "json_number ''7890'' = Some ''7890''" "json_number ''7891'' = Some ''7891''"
  by (simp_all add: float_eval)

section \<open>The decoded template\<close>

definition defaultRules :: "json list" where
  "defaultRules =
     [JMap [(''action'', JStr ''sniff'')],
      JMap [(''protocol'', JStr ''dns''), (''action'', JStr ''hijack-dns'')],
      JMap [(''rule_set'', JArr [JStr ''geosite-cn'']), (''outbound'', JStr ''direct'')],
      JMap [(''ip_is_private'', JBool True), (''outbound'', JStr ''direct'')],
      JMap [(''rule_set'', JArr [JStr ''category-ads-all'']), (''action'', JStr ''reject'')]]"

definition remoteSet :: "string \<Rightarrow> string \<Rightarrow> json" where
  "remoteSet tag url =
     JMap [(''tag'', JStr tag), (''type'', JStr ''remote''), (''format'', JStr ''binary''), (''url'', JStr url),
           (''http_client'', JMap [(''detour'', JStr ''direct'')])]"

definition defaultRoute :: "(string, json) gomap" where
  "defaultRoute =
     [(''rules'', JArr defaultRules),
      (''rule_set'', JArr
         [remoteSet ''geosite-cn'' ''https://fastly.jsdelivr.net/gh/SagerNet/sing-geosite@rule-set/geosite-cn.srs'',
          remoteSet ''category-ads-all''
            ''https://fastly.jsdelivr.net/gh/SagerNet/sing-geosite@rule-set/geosite-category-ads-all.srs'']),
      (''final'', JStr ''direct''), (''auto_detect_interface'', JBool True),
      (''default_domain_resolver'', JStr ''proxy-dns'')]"

definition defaultDNS :: "(string, json) gomap" where
  "defaultDNS =
     [(''servers'', JArr
         [JMap [(''type'', JStr ''https''), (''tag'', JStr ''proxy-dns''), (''server'', JStr ''1.1.1.1'')],
          JMap [(''type'', JStr ''hosts''), (''path'', JArr []), (''predefined'', JMap []), (''tag'', JStr ''block'')],
          JMap [(''type'', JStr ''local''), (''tag'', JStr ''local'')]]),
      (''rules'', JArr [JMap [(''rule_set'', JStr ''geosite-cn''), (''server'', JStr ''local'')]]),
      (''final'', JStr ''proxy-dns''), (''strategy'', JStr ''ipv4_only'')]"

definition defaultInbounds :: "json list" where
  "defaultInbounds =
     [JMap [(''type'', JStr ''tun''), (''tag'', JStr ''tun-in''), (''address'', JStr ''172.19.0.1/30''),
            (''auto_route'', JBool True), (''strict_route'', JBool True), (''stack'', JStr ''gvisor''),
            (''platform'', JMap [(''http_proxy'', JMap [(''enabled'', JBool True), (''server'', JStr ''127.0.0.1''),
               (''server_port'', JNum ''7891'')])])],
      JMap [(''type'', JStr ''socks''), (''tag'', JStr ''socks-in''), (''listen'', JStr ''127.0.0.1''),
            (''listen_port'', JNum ''7890'')],
      JMap [(''type'', JStr ''http''), (''tag'', JStr ''http-in''), (''listen'', JStr ''127.0.0.1''),
            (''listen_port'', JNum ''7891'')]]"

definition defaultConfig :: "(string, json) gomap" where
  "defaultConfig =
     [(''log'', JMap [(''level'', JStr ''info'')]), (''dns'', JMap defaultDNS), (''inbounds'', JArr defaultInbounds),
      (''outbounds'', JArr []), (''route'', JMap defaultRoute),
      (''experimental'', JMap [(''clash_api'', JMap [(''default_mode'', JStr ''Auto'')])])]"

lemmas token_eval = tokens.simps json_space_def punctuation_def literal_char_def is_digit_def

lemmas step_eval = open_frame_def start_value_def read_key_def after_value_def close_frame_def put_value_def
  literal_value_def number_value_def port_numbers unquote.simps

lemmas default_defs = defaultConfig_def defaultDNS_def defaultInbounds_def defaultRoute_def remoteSet_def
  defaultRules_def

lemma DefaultTemplate_decodes: "json_Unmarshal DefaultTemplate = Some (Some defaultConfig)"
  unfolding DefaultTemplate_def
  apply (rule unmarshal_lines)
   apply ((rule list_all2_step, simp add: token_eval)+, rule list_all2_Nil [THEN iffD2], rule refl)
  apply (simp add: step_eval default_defs)
  done

end
