(* ===== verification/Node_Correct.thy ===== *)
theory Node_Correct
  imports Node_Controller Config_Correct
begin

text \<open>
  Correctness of the node reconciler: the collected input satisfies what the config engine relies on,
  group restrictions and relay credentials reach the engine unchanged, and the pod converges to the
  computed configuration.
\<close>

named_theorems collect_simps

section \<open>Each step of the collection touches its own fields\<close>

lemma loadNodeCred_fields [collect_simps]:
  "inNode (loadNodeCred K n ns s i) = inNode i" "inUsers (loadNodeCred K n ns s i) = inUsers i"
  "inOutboundNodes (loadNodeCred K n ns s i) = inOutboundNodes i" "inRoutes (loadNodeCred K n ns s i) = inRoutes i"
  "inEgressPolicies (loadNodeCred K n ns s i) = inEgressPolicies i"
  "inOutboundNodesByName (loadNodeCred K n ns s i) = inOutboundNodesByName i"
  "inExternalOutbounds (loadNodeCred K n ns s i) = inExternalOutbounds i"
  "inExternalOutboundsByName (loadNodeCred K n ns s i) = inExternalOutboundsByName i"
  "inUserNodeRestrictions (loadNodeCred K n ns s i) = inUserNodeRestrictions i"
  "inUserNodeAllowlist (loadNodeCred K n ns s i) = inUserNodeAllowlist i"
  by (simp_all add: loadNodeCred_def split: sum.split)

lemma loadExternalCredential_fields [collect_simps]:
  "inNode (loadExternalCredential K e s i) = inNode i" "inUsers (loadExternalCredential K e s i) = inUsers i"
  "inOutboundNodes (loadExternalCredential K e s i) = inOutboundNodes i"
  "inRoutes (loadExternalCredential K e s i) = inRoutes i"
  "inEgressPolicies (loadExternalCredential K e s i) = inEgressPolicies i"
  "inNodeCreds (loadExternalCredential K e s i) = inNodeCreds i"
  "inOutboundNodesByName (loadExternalCredential K e s i) = inOutboundNodesByName i"
  "inExternalOutbounds (loadExternalCredential K e s i) = inExternalOutbounds i"
  "inExternalOutboundsByName (loadExternalCredential K e s i) = inExternalOutboundsByName i"
  "inUserNodeRestrictions (loadExternalCredential K e s i) = inUserNodeRestrictions i"
  "inUserNodeAllowlist (loadExternalCredential K e s i) = inUserNodeAllowlist i"
  by (simp_all add: loadExternalCredential_def split: sum.split)

lemma loadUser_fields [collect_simps]:
  "inNode (loadUser K u s i) = inNode i" "inUsers (loadUser K u s i) = inUsers i @ [u]"
  "inOutboundNodes (loadUser K u s i) = inOutboundNodes i" "inRoutes (loadUser K u s i) = inRoutes i"
  "inEgressPolicies (loadUser K u s i) = inEgressPolicies i" "inNodeCreds (loadUser K u s i) = inNodeCreds i"
  "inOutboundNodesByName (loadUser K u s i) = inOutboundNodesByName i"
  "inExternalOutboundsByName (loadUser K u s i) = inExternalOutboundsByName i"
  "inUserNodeRestrictions (loadUser K u s i) = inUserNodeRestrictions i"
  "inUserNodeAllowlist (loadUser K u s i) = inUserNodeAllowlist i"
  by (simp_all add: loadUser_def Let_def split: sum.split)

lemma loadGroup_fields [collect_simps]:
  "inNode (loadGroup u g i) = inNode i" "inUsers (loadGroup u g i) = inUsers i"
  "inOutboundNodes (loadGroup u g i) = inOutboundNodes i" "inRoutes (loadGroup u g i) = inRoutes i"
  "inEgressPolicies (loadGroup u g i) = inEgressPolicies i" "inNodeCreds (loadGroup u g i) = inNodeCreds i"
  "inOutboundNodesByName (loadGroup u g i) = inOutboundNodesByName i"
  "inExternalOutboundsByName (loadGroup u g i) = inExternalOutboundsByName i"
  by (simp_all add: loadGroup_def Let_def)

text \<open>The part of the input that users do not touch.\<close>

lemma collectUsers_frame:
  assumes "collectUsers K node s users i = Inr out"
  shows "inNode out = inNode i \<and> inOutboundNodes out = inOutboundNodes i \<and> inRoutes out = inRoutes i
    \<and> inEgressPolicies out = inEgressPolicies i \<and> inNodeCreds out = inNodeCreds i
    \<and> inOutboundNodesByName out = inOutboundNodesByName i
    \<and> inExternalOutboundsByName out = inExternalOutboundsByName i"
  using assms
  by (induction users arbitrary: i) (auto simp: collect_simps split: if_splits sum.splits)

section \<open>The gates\<close>

definition collect_inv :: "SingBoxNode \<Rightarrow> SingBoxNode list \<Rightarrow> Input \<Rightarrow> bool" where
  "collect_inv node nodes i \<longleftrightarrow>
     inNode i = node \<and> inRoutes i = []
     \<and> (\<forall>n\<in>set (inOutboundNodes i). n \<in> set nodes \<and> bindingAllows node n
          \<and> map_of (inOutboundNodesByName i) (Name n) = Some n)
     \<and> (\<forall>(k, n)\<in>set (inOutboundNodesByName i). Name n = k \<and> n \<in> set nodes)
     \<and> (\<forall>(k, e)\<in>set (inExternalOutboundsByName i). Name e = k)
     \<and> (\<forall>p\<in>set (somes (inEgressPolicies i)).
          Action (policySpec p) = EgressPolicyActionRoute \<or> Action (policySpec p) = EgressPolicyActionReject)"

lemma collect_inv_loads [simp]:
  "collect_inv node nodes (loadNodeCred K n ns s i) = collect_inv node nodes i"
  "collect_inv node nodes (loadExternalCredential K e s i) = collect_inv node nodes i"
  "collect_inv node nodes (i\<lparr>inExternalOutbounds := es\<rparr>) = collect_inv node nodes i"
  by (simp_all add: collect_inv_def collect_simps)

lemma distinct_names_eq:
  "distinct (map Name nodes) \<Longrightarrow> a \<in> set nodes \<Longrightarrow> b \<in> set nodes \<Longrightarrow> Name a = Name b \<Longrightarrow> a = b"
  by (simp add: distinct_map inj_on_def)

lemma collect_inv_put:
  assumes "collect_inv node nodes i" "distinct (map Name nodes)" "n \<in> set nodes"
  shows "collect_inv node nodes (i\<lparr>inOutboundNodesByName := go_put (Name n) n (inOutboundNodesByName i)\<rparr>)"
proof -
  have "Name m = k \<and> m \<in> set nodes" if "(k, m) \<in> set (go_put (Name n) n (inOutboundNodesByName i))" for k m
    using that set_go_put [of "Name n" n "inOutboundNodesByName i"] assms(1,3) unfolding collect_inv_def by auto
  moreover have "m = n" if "m \<in> set (inOutboundNodes i)" "Name m = Name n" for m
    using that assms distinct_names_eq unfolding collect_inv_def by blast
  ultimately show ?thesis using assms(1) by (auto simp: collect_inv_def map_of_go_put)
qed

lemma collect_inv_putExternal:
  assumes "collect_inv node nodes i"
  shows "collect_inv node nodes (i\<lparr>inExternalOutboundsByName := go_put (Name e) e (inExternalOutboundsByName i)\<rparr>)"
proof -
  have "Name m = k" if "(k, m) \<in> set (go_put (Name e) e (inExternalOutboundsByName i))" for k m
    using that set_go_put [of "Name e" e "inExternalOutboundsByName i"] assms unfolding collect_inv_def by auto
  then show ?thesis using assms by (auto simp: collect_inv_def)
qed

lemma collect_inv_addPeer:
  assumes "collect_inv node nodes i" "distinct (map Name nodes)" "n \<in> set nodes"
  shows "collect_inv node nodes (addPeer K node s n i)"
proof -
  let ?j = "i\<lparr>inOutboundNodesByName := go_put (Name n) n (inOutboundNodesByName i)\<rparr>"
  have "collect_inv node nodes ?j" by (rule collect_inv_put [OF assms])
  then have "collect_inv node nodes (i\<lparr>inOutboundNodes := inOutboundNodes i @ [n],
      inOutboundNodesByName := go_put (Name n) n (inOutboundNodesByName i)\<rparr>)" if "bindingAllows node n"
    using that assms(3) by (auto simp: collect_inv_def map_of_go_put)
  then show ?thesis using assms(1) by (simp add: addPeer_def bindingAllows_def)
qed

lemma collect_inv_addExternal:
  assumes "collect_inv node nodes i"
  shows "collect_inv node nodes (addExternalCandidate K node' names s e i)"
proof -
  have "collect_inv node nodes (i\<lparr>inExternalOutbounds := es,
      inExternalOutboundsByName := go_put (Name e) e (inExternalOutboundsByName i)\<rparr>)" for es
    using collect_inv_putExternal [of node nodes "i\<lparr>inExternalOutbounds := es\<rparr>" e] assms by simp
  then show ?thesis using assms by (simp add: addExternalCandidate_def)
qed

lemma collect_inv_policy:
  assumes "collect_inv node nodes i"
    and "Action (policySpec p) = EgressPolicyActionRoute \<or> Action (policySpec p) = EgressPolicyActionReject"
  shows "collect_inv node nodes (i\<lparr>inEgressPolicies := inEgressPolicies i @ [Some p]\<rparr>)"
  using assms by (auto simp: collect_inv_def)

text \<open>The documented fact that an error has a text.\<close>

definition errors_have_text :: "ext \<Rightarrow> bool" where
  "errors_have_text E \<longleftrightarrow> (\<forall>r. regexpCompile E r \<noteq> Some [])"

lemma net_ParseCIDR_text: "net_ParseCIDR c \<noteq> Some []"
  by (auto simp: net_ParseCIDR_def Let_def split: option.splits)

lemma first_error_text: "(\<And>x. f x \<noteq> Some []) \<Longrightarrow> first_error f xs \<noteq> Some []"
  by (induction xs) (auto split: option.splits)

lemma matchValid_text:
  assumes "errors_have_text E"
  shows "matchValid E m fallback \<noteq> Some []"
proof -
  have "first_error (regexpCompile E) xs \<noteq> Some []" for xs
    using assms by (intro first_error_text) (simp add: errors_have_text_def)
  moreover have "first_error net_ParseCIDR xs \<noteq> Some []" for xs
    by (intro first_error_text net_ParseCIDR_text)
  ultimately show ?thesis by (auto simp: matchValid_def split: option.splits)
qed

lemma findOutboundNode_set: "findOutboundNode nodes name = Some n \<Longrightarrow> n \<in> set nodes \<and> Name n = name"
  by (auto simp: findOutboundNode_def dest: find_eq_SomeD)

lemma findExternalOutbound_name: "findExternalOutbound es name = Some e \<Longrightarrow> e \<in> set es \<and> Name e = name"
  by (auto simp: findExternalOutbound_def dest: find_eq_SomeD)

text \<open>The outcomes of \<open>addPolicy\<close>: nothing, the policy alone, or the policy with its resolved target.\<close>

lemma addPolicy_cases:
  assumes "errors_have_text E"
  obtains
    (skip) "addPolicy E K node nodes externals s p i = i"
  | (plain) "addPolicy E K node nodes externals s p i = i\<lparr>inEgressPolicies := inEgressPolicies i @ [Some p]\<rparr>"
      "Action (policySpec p) = EgressPolicyActionRoute \<or> Action (policySpec p) = EgressPolicyActionReject"
  | (relay) n where "n \<in> set nodes" "hasRole n ProxyRoleOutbound"
      "Action (policySpec p) = EgressPolicyActionRoute"
      "egressConnectedToInbound node (Name n) nodes externals"
      "addPolicy E K node nodes externals s p i =
         loadNodeCred K (Name n) (Namespace node) s (i\<lparr>inEgressPolicies := inEgressPolicies i @ [Some p],
           inOutboundNodesByName := go_put (Name n) n (inOutboundNodesByName i)\<rparr>)"
  | (external) e where "e \<in> set externals" "Action (policySpec p) = EgressPolicyActionRoute"
      "egressConnectedToInbound node (Name e) nodes externals"
      "addPolicy E K node nodes externals s p i =
         loadExternalCredential K e s (i\<lparr>inEgressPolicies := inEgressPolicies i @ [Some p],
           inExternalOutboundsByName := go_put (Name e) e (inExternalOutboundsByName i)\<rparr>)"
proof -
  obtain cands name msg where res: "resolveEgressPolicy E p nodes externals = (cands, name, msg)"
    by (metis prod.exhaust)
  note d = addPolicy_def [of E K node nodes externals s p i] res Let_def
  show ?thesis
  proof (cases "hasRole node ProxyRoleInbound \<and> selectorMatches E (IngressSelector (policySpec p)) node \<and> msg = []")
    case False
    then show ?thesis using skip by (auto simp: d)
  next
    case ok: True
    then have act: "Action (policySpec p) = EgressPolicyActionRoute \<or> Action (policySpec p) = EgressPolicyActionReject"
      using resolveEgressPolicy_action [of E p nodes externals] res matchValid_text [OF assms] by simp
    show ?thesis
    proof (cases "Action (policySpec p) = EgressPolicyActionReject")
      case True
      then show ?thesis using plain act ok by (simp add: d)
    next
      case route: False
      show ?thesis
      proof (cases "name = [] \<or> \<not> egressConnectedToInbound node name nodes externals")
        case True
        then show ?thesis using skip route ok by (auto simp: d)
      next
        case conn: False
        show ?thesis
        proof (cases "findOutboundNode nodes name")
          case (Some n)
          then have "n \<in> set nodes" "Name n = name" "hasRole n ProxyRoleOutbound"
            by (auto simp: findOutboundNode_def dest: find_eq_SomeD)
          then show ?thesis using relay [of n] Some route act conn ok by (simp add: d)
        next
          case None
          then obtain e where e: "findExternalOutbound externals name = Some e"
            using conn by (auto simp: egressConnectedToInbound_def split: option.splits)
          then show ?thesis
            using external [of e] findExternalOutbound_name [OF e] None route act conn ok by (simp add: d)
        qed
      qed
    qed
  qed
qed

lemma collect_inv_addPolicy:
  assumes "collect_inv node nodes i" "distinct (map Name nodes)" "errors_have_text E"
  shows "collect_inv node nodes (addPolicy E K node' nodes externals s p i)"
  using assms(3)
proof (cases rule: addPolicy_cases [of E K node' nodes externals s p i])
  case skip
  then show ?thesis using assms(1) by simp
next
  case plain
  then show ?thesis using collect_inv_policy [OF assms(1)] by simp
next
  case (relay n)
  have "collect_inv node nodes (i\<lparr>inEgressPolicies := inEgressPolicies i @ [Some p]\<rparr>)"
    using collect_inv_policy [OF assms(1)] relay by simp
  from collect_inv_put [OF this assms(2) relay(1)] show ?thesis using relay by simp
next
  case (external e)
  have "collect_inv node nodes (i\<lparr>inEgressPolicies := inEgressPolicies i @ [Some p]\<rparr>)"
    using collect_inv_policy [OF assms(1)] external by simp
  from collect_inv_putExternal [OF this, of e] show ?thesis using external by simp
qed

lemma fold_preserves: "P i \<Longrightarrow> (\<And>x i. P i \<Longrightarrow> P (f x i)) \<Longrightarrow> P (fold f xs i)"
  by (induction xs arbitrary: i) auto

lemma collect_inv_empty: "collect_inv node nodes (emptyInput R node)"
  by (simp add: collect_inv_def emptyInput_def)

lemma set_sortByName [simp]: "set (sortByName xs) = set xs"
  by (simp add: sortByName_def)

lemma distinct_sortByName: "distinct (map Name (sortByName xs)) \<longleftrightarrow> distinct (map Name xs)"
proof -
  have "mset (map Name (sortByName xs)) = mset (map Name xs)" by (simp add: sortByName_def)
  then show ?thesis by (metis mset_eq_imp_distinct_iff)
qed

text \<open>The stages of a successful collection.\<close>

lemma collectInput_stages:
  assumes "collectInput E K R node s = Inr input"
  obtains listed listedExt users policies peers withExt withUsers withPolicies where
    "listNodes K (Namespace node) s = Inr listed" "listExternalOutbounds K (Namespace node) s = Inr listedExt"
    "listPolicies K (Namespace node) s = Inr policies"
    "peers = fold (addPeer K node s) (sortByName listed) (emptyInput R node)"
    "withExt = fold (addExternalCandidate K node (name_set (Name node # map Name (sortByName listed))) s)
       (sortByName listedExt) peers"
    "if hasRole node ProxyRoleInbound
     then listUsers K (Namespace node) s = Inr users
       \<and> collectUsers K node s (sortByName users) withExt = Inr withUsers
     else withUsers = withExt"
    "withPolicies = fold (addPolicy E K node (sortByName listed) (sortByName listedExt) s) policies withUsers"
    "input = (if hasRole node ProxyRoleOutbound
              then loadNodeCred K (Name node) (Namespace node) s withPolicies else withPolicies)"
  using assms unfolding collectInput_def
  by (auto simp: Let_def split: sum.splits if_splits)

lemma collectInput_inv:
  assumes "collectInput E K R node s = Inr input" "errors_have_text E"
    and "listNodes K (Namespace node) s = Inr listed" "distinct (map Name listed)"
  shows "collect_inv node (sortByName listed) input"
proof -
  let ?nodes = "sortByName listed"
  obtain listedExt users policies peers withExt withUsers withPolicies where st:
    "peers = fold (addPeer K node s) ?nodes (emptyInput R node)"
    "withExt = fold (addExternalCandidate K node (name_set (Name node # map Name ?nodes)) s)
       (sortByName listedExt) peers"
    "if hasRole node ProxyRoleInbound
     then listUsers K (Namespace node) s = Inr users
       \<and> collectUsers K node s (sortByName users) withExt = Inr withUsers
     else withUsers = withExt"
    "withPolicies = fold (addPolicy E K node ?nodes (sortByName listedExt) s) policies withUsers"
    "input = (if hasRole node ProxyRoleOutbound
              then loadNodeCred K (Name node) (Namespace node) s withPolicies else withPolicies)"
    using assms(1,3) by (elim collectInput_stages) auto
  have d: "distinct (map Name ?nodes)" using assms(4) by (simp add: distinct_sortByName)
  have "collect_inv node ?nodes peers"
    unfolding st(1) by (rule fold_invariant [where Q = "\<lambda>n. n \<in> set ?nodes"])
      (auto intro: collect_inv_empty collect_inv_addPeer [OF _ d])
  then have "collect_inv node ?nodes withExt"
    unfolding st(2) by (rule fold_preserves [where P = "collect_inv node ?nodes"]) (rule collect_inv_addExternal)
  then have "collect_inv node ?nodes withUsers"
    using st(3) collectUsers_frame [of K node s "sortByName users" withExt withUsers]
    by (cases "hasRole node ProxyRoleInbound") (simp_all add: collect_inv_def)
  then have "collect_inv node ?nodes withPolicies"
    unfolding st(4)
    by (rule fold_preserves [where P = "collect_inv node ?nodes"]) (rule collect_inv_addPolicy [OF _ d assms(2)])
  then show ?thesis by (simp add: st(5))
qed

lemma collect_inv_gated:
  "collect_inv node nodes i \<Longrightarrow> hasRole node ProxyRoleInbound \<Longrightarrow> gated_input i"
  unfolding collect_inv_def gated_input_def by (auto simp del: set_somes)

section \<open>Group restrictions\<close>

text \<open>The group of a user as the reconciler sees it: a missing group restricts nothing.\<close>

definition groupOf :: "'s kube \<Rightarrow> SingBoxNode \<Rightarrow> 's \<Rightarrow> User \<Rightarrow> UserGroup option" where
  "groupOf K node s u =
     (if UserGroupRef (userSpec u) = [] then None
      else case getUserGroup K (Namespace node) (UserGroupRef (userSpec u)) s of
             Inl _ \<Rightarrow> None
           | Inr ug \<Rightarrow> Some ug)"

definition group_allows :: "UserGroup option \<Rightarrow> string \<Rightarrow> bool" where
  "group_allows g n \<longleftrightarrow>
     (case g of
        None \<Rightarrow> True
      | Some ug \<Rightarrow> n \<notin> set (DeniedNodes (groupSpec ug))
          \<and> (AllowedNodes (groupSpec ug) = [] \<or> n \<in> set (AllowedNodes (groupSpec ug))))"

definition deniedOf :: "UserGroup option \<Rightarrow> names" where
  "deniedOf g = (case g of None \<Rightarrow> [] | Some ug \<Rightarrow> name_set (DeniedNodes (groupSpec ug)))"

definition allowedOf :: "UserGroup option \<Rightarrow> names" where
  "allowedOf g = (case g of None \<Rightarrow> [] | Some ug \<Rightarrow> name_set (AllowedNodes (groupSpec ug)))"

lemma IsNodeAllowed_group: "IsNodeAllowed n (allowedOf g) (deniedOf g) \<longleftrightarrow> group_allows g n"
  by (auto simp: acl.allows_iff group_allows_def allowedOf_def deniedOf_def split: option.splits)

lemma name_set_empty [simp]: "name_set [] = []"
  by (simp add: name_set_def)

text \<open>One user: what is recorded under the user's name, and nothing else changes.\<close>

lemma loadGroup_sets:
  assumes "go_get [] (inUserNodeAllowlist i) (Name u) = []"
  shows "go_get [] (inUserNodeRestrictions (loadGroup u ug i)) k =
      (if k = Name u then deniedOf (Some ug) else go_get [] (inUserNodeRestrictions i) k)"
    and "go_get [] (inUserNodeAllowlist (loadGroup u ug i)) k =
      (if k = Name u then allowedOf (Some ug) else go_get [] (inUserNodeAllowlist i) k)"
  using assms by (auto simp: loadGroup_def Let_def deniedOf_def allowedOf_def go_get_put)

lemma collectUsers_sets:
  assumes "collectUsers K node s users i = Inr out" "distinct (map Name users)"
    and "\<forall>u\<in>set users. go_get [] (inUserNodeRestrictions i) (Name u) = [] \<and> go_get [] (inUserNodeAllowlist i) (Name u) = []"
  shows "inUsers out = inUsers i @ users
    \<and> (\<forall>u\<in>set users. go_get [] (inUserNodeRestrictions out) (Name u) = deniedOf (groupOf K node s u)
         \<and> go_get [] (inUserNodeAllowlist out) (Name u) = allowedOf (groupOf K node s u))
    \<and> (\<forall>k. k \<notin> Name ` set users \<longrightarrow>
         go_get [] (inUserNodeRestrictions out) k = go_get [] (inUserNodeRestrictions i) k
         \<and> go_get [] (inUserNodeAllowlist out) k = go_get [] (inUserNodeAllowlist i) k)"
  using assms
proof (induction users arbitrary: i)
  case (Cons u users)
  let ?g = "groupOf K node s u"
  define j where "j = (case ?g of None \<Rightarrow> loadUser K u s i | Some ug \<Rightarrow> loadGroup u ug (loadUser K u s i))"
  have rest: "collectUsers K node s users j = Inr out"
    using Cons.prems(1) by (auto simp: j_def groupOf_def split: if_splits sum.splits)
  have j: "inUsers j = inUsers i @ [u]"
    "go_get [] (inUserNodeRestrictions j) k = (if k = Name u then deniedOf ?g else go_get [] (inUserNodeRestrictions i) k)"
    "go_get [] (inUserNodeAllowlist j) k = (if k = Name u then allowedOf ?g else go_get [] (inUserNodeAllowlist i) k)"
    for k
    using Cons.prems(3) loadGroup_sets [of "loadUser K u s i" u]
    by (auto simp: j_def collect_simps deniedOf_def allowedOf_def split: option.split)
  have "\<forall>v\<in>set users. go_get [] (inUserNodeRestrictions j) (Name v) = [] \<and> go_get [] (inUserNodeAllowlist j) (Name v) = []"
    using Cons.prems(2,3) by (auto simp: j image_iff)
  from Cons.IH [OF rest _ this] Cons.prems(2) show ?case by (auto simp: j image_iff)
qed simp

lemma addPeer_users [collect_simps]:
  "inUsers (addPeer K node s n i) = inUsers i"
  "inUserNodeRestrictions (addPeer K node s n i) = inUserNodeRestrictions i"
  "inUserNodeAllowlist (addPeer K node s n i) = inUserNodeAllowlist i"
  by (simp_all add: addPeer_def collect_simps)

lemma addExternalCandidate_users [collect_simps]:
  "inUsers (addExternalCandidate K node names s e i) = inUsers i"
  "inUserNodeRestrictions (addExternalCandidate K node names s e i) = inUserNodeRestrictions i"
  "inUserNodeAllowlist (addExternalCandidate K node names s e i) = inUserNodeAllowlist i"
  by (simp_all add: addExternalCandidate_def collect_simps)

lemma addPolicy_users [collect_simps]:
  "inUsers (addPolicy E K node nodes es s p i) = inUsers i"
  "inUserNodeRestrictions (addPolicy E K node nodes es s p i) = inUserNodeRestrictions i"
  "inUserNodeAllowlist (addPolicy E K node nodes es s p i) = inUserNodeAllowlist i"
  by (auto simp: addPolicy_def collect_simps Let_def split: prod.splits option.splits)

lemma fold_field:
  assumes "\<And>x i. f (g x i) = f i"
  shows "f (fold g xs i) = f i"
  using assms by (induction xs arbitrary: i) auto

lemma collected_users:
  assumes "collectInput E K R node s = Inr input" "hasRole node ProxyRoleInbound"
    and "listUsers K (Namespace node) s = Inr users" "distinct (map Name users)" "u \<in> set (inUsers input)"
  shows "u \<in> set users \<and> (userAllowed input u n \<longleftrightarrow> group_allows (groupOf K node s u) n)"
proof -
  obtain listed listedExt policies peers withExt withUsers withPolicies where st:
    "peers = fold (addPeer K node s) (sortByName listed) (emptyInput R node)"
    "withExt = fold (addExternalCandidate K node (name_set (Name node # map Name (sortByName listed))) s)
       (sortByName listedExt) peers"
    "collectUsers K node s (sortByName users) withExt = Inr withUsers"
    "withPolicies = fold (addPolicy E K node (sortByName listed) (sortByName listedExt) s) policies withUsers"
    "input = (if hasRole node ProxyRoleOutbound
              then loadNodeCred K (Name node) (Namespace node) s withPolicies else withPolicies)"
    using assms(1-3) by (elim collectInput_stages) auto
  have e: "inUsers withExt = []" "inUserNodeRestrictions withExt = []" "inUserNodeAllowlist withExt = []"
    unfolding st(1,2) by (simp_all add: fold_field collect_simps emptyInput_def)
  have i: "inUsers input = inUsers withUsers" "inUserNodeRestrictions input = inUserNodeRestrictions withUsers"
    "inUserNodeAllowlist input = inUserNodeAllowlist withUsers"
    unfolding st(4,5) by (simp_all add: fold_field collect_simps)
  from collectUsers_sets [OF st(3)] assms(4) e have "inUsers withUsers = sortByName users"
    "\<forall>u\<in>set users. go_get [] (inUserNodeRestrictions withUsers) (Name u) = deniedOf (groupOf K node s u)
         \<and> go_get [] (inUserNodeAllowlist withUsers) (Name u) = allowedOf (groupOf K node s u)"
    by (auto simp: distinct_sortByName)
  then show ?thesis using assms(5) by (auto simp: i userAllowed_def IsNodeAllowed_group)
qed

section \<open>Relay credentials\<close>

text \<open>What the API server holds for a node: None when the secret cannot be read.\<close>

definition credOf :: "'s kube \<Rightarrow> string \<Rightarrow> 's \<Rightarrow> string \<Rightarrow> NodeCredential option" where
  "credOf K ns s k = (case GetNodeCredential K k ns s of Inl _ \<Rightarrow> None | Inr c \<Rightarrow> Some c)"

definition readCred :: "NodeCredential option \<Rightarrow> NodeCredential" where
  "readCred r = (case r of None \<Rightarrow> noNodeCred | Some c \<Rightarrow> c)"

definition creds_inv :: "'s kube \<Rightarrow> string \<Rightarrow> 's \<Rightarrow> Input \<Rightarrow> bool" where
  "creds_inv K ns s i \<longleftrightarrow>
     (\<forall>k. map_of (inNodeCreds i) k = None \<or> map_of (inNodeCreds i) k = credOf K ns s k)
     \<and> (\<forall>k\<in>fst ` set (inOutboundNodesByName i). map_of (inNodeCreds i) k = credOf K ns s k)"

lemma go_get_readCred: "go_get noNodeCred m k = readCred (map_of m k)"
  by (simp add: go_get_def readCred_def)

lemma creds_inv_read:
  assumes "creds_inv K ns s i" "k \<in> fst ` set (inOutboundNodesByName i)"
  shows "go_get noNodeCred (inNodeCreds i) k = readCred (credOf K ns s k)"
  unfolding go_get_readCred using assms unfolding creds_inv_def by metis

lemma map_of_loadNodeCred:
  "map_of (inNodeCreds (loadNodeCred K n ns s i)) k =
     (if k = n \<and> credOf K ns s n \<noteq> None then credOf K ns s n else map_of (inNodeCreds i) k)"
  by (simp add: loadNodeCred_def credOf_def map_of_go_put split: sum.split)

lemma creds_inv_load:
  assumes "creds_inv K ns s i"
  shows "creds_inv K ns s (loadNodeCred K n ns s (i\<lparr>inOutboundNodesByName := go_put n x (inOutboundNodesByName i)\<rparr>))"
    and "creds_inv K ns s (loadNodeCred K n ns s i)"
  using assms unfolding creds_inv_def map_of_loadNodeCred loadNodeCred_fields
  by (auto simp: keys_go_put)

lemma creds_inv_other [simp]:
  "creds_inv K ns s (loadExternalCredential K e s i) = creds_inv K ns s i"
  "creds_inv K ns s (i\<lparr>inExternalOutbounds := es\<rparr>) = creds_inv K ns s i"
  "creds_inv K ns s (i\<lparr>inExternalOutboundsByName := em\<rparr>) = creds_inv K ns s i"
  "creds_inv K ns s (i\<lparr>inEgressPolicies := ps\<rparr>) = creds_inv K ns s i"
  "creds_inv K ns s (i\<lparr>inOutboundNodes := os\<rparr>) = creds_inv K ns s i"
  by (simp_all add: creds_inv_def collect_simps)

lemma creds_inv_addPeer: "creds_inv K (Namespace node) s i \<Longrightarrow> creds_inv K (Namespace node) s (addPeer K node s n i)"
  using creds_inv_load(1) [of K "Namespace node" s "i\<lparr>inOutboundNodes := inOutboundNodes i @ [n]\<rparr>"]
  by (simp add: addPeer_def)

lemma creds_inv_addExternal:
  "creds_inv K ns s i \<Longrightarrow> creds_inv K ns s (addExternalCandidate K node names s e i)"
  by (simp add: addExternalCandidate_def)

lemma creds_inv_addPolicy:
  assumes "creds_inv K (Namespace node) s i" "errors_have_text E"
  shows "creds_inv K (Namespace node) s (addPolicy E K node nodes es s p i)"
  using assms(2)
proof (cases rule: addPolicy_cases [of E K node nodes es s p i])
  case (relay n)
  then show ?thesis
    using creds_inv_load(1) [of K "Namespace node" s "i\<lparr>inEgressPolicies := inEgressPolicies i @ [Some p]\<rparr>"] assms(1)
    by simp
qed (use assms(1) in simp_all)

lemma collected_creds:
  assumes "collectInput E K R node s = Inr input" "errors_have_text E"
  shows "creds_inv K (Namespace node) s input"
    and "hasRole node ProxyRoleOutbound \<Longrightarrow>
      go_get noNodeCred (inNodeCreds input) (Name node) = readCred (credOf K (Namespace node) s (Name node))"
proof -
  let ?ns = "Namespace node"
  obtain listed listedExt users policies peers withExt withUsers withPolicies where st:
    "peers = fold (addPeer K node s) (sortByName listed) (emptyInput R node)"
    "withExt = fold (addExternalCandidate K node (name_set (Name node # map Name (sortByName listed))) s)
       (sortByName listedExt) peers"
    "if hasRole node ProxyRoleInbound
     then listUsers K ?ns s = Inr users \<and> collectUsers K node s (sortByName users) withExt = Inr withUsers
     else withUsers = withExt"
    "withPolicies = fold (addPolicy E K node (sortByName listed) (sortByName listedExt) s) policies withUsers"
    "input = (if hasRole node ProxyRoleOutbound then loadNodeCred K (Name node) ?ns s withPolicies else withPolicies)"
    using assms(1) by (elim collectInput_stages) auto
  have "creds_inv K ?ns s (emptyInput R node)" by (simp add: creds_inv_def emptyInput_def)
  then have "creds_inv K ?ns s peers"
    unfolding st(1) by (rule fold_preserves [where P = "creds_inv K ?ns s"]) (rule creds_inv_addPeer)
  then have "creds_inv K ?ns s withExt"
    unfolding st(2) by (rule fold_preserves [where P = "creds_inv K ?ns s"]) (rule creds_inv_addExternal)
  then have "creds_inv K ?ns s withUsers"
    using st(3) collectUsers_frame [of K node s "sortByName users" withExt withUsers]
    by (cases "hasRole node ProxyRoleInbound") (simp_all add: creds_inv_def)
  then have inv: "creds_inv K ?ns s withPolicies"
    unfolding st(4)
    by (rule fold_preserves [where P = "creds_inv K ?ns s"]) (rule creds_inv_addPolicy [OF _ assms(2)])
  then show "creds_inv K ?ns s input" by (simp add: st(5) creds_inv_load(2))
  show "go_get noNodeCred (inNodeCreds input) (Name node) = readCred (credOf K ?ns s (Name node))"
    if "hasRole node ProxyRoleOutbound"
  proof -
    have "map_of (inNodeCreds withPolicies) (Name node) = None
        \<or> map_of (inNodeCreds withPolicies) (Name node) = credOf K ?ns s (Name node)"
      using inv unfolding creds_inv_def by blast
    then have "map_of (inNodeCreds input) (Name node) = credOf K ?ns s (Name node)"
      using that by (auto simp: st(5) map_of_loadNodeCred)
    then show ?thesis by (simp add: go_get_readCred)
  qed
qed

section \<open>Properties\<close>


text \<open>C2. Group restrictions are enforced end to end: a rule of the computed configuration selects a
  virtual user only for a listed user whose group, as stored in the cluster, allows the target.\<close>

theorem collected_access_control:
  assumes "collectInput E K R node s = Inr input" "hasRole node ProxyRoleInbound"
    and "listUsers K (Namespace node) s = Inr users" "distinct (map Name users)"
    and "r \<in> set (Rules (Route (computeConfig E input)))" "v \<in> set (rrAuthUser r)"
  shows "\<exists>u\<in>set users. \<exists>n. v = virtualUserName (Name u) n \<and> group_allows (groupOf K node s u) n
    \<and> (rrOutbound r = outboundTag n \<or> rrOutbound r = [] \<and> rrAction r = EgressPolicyActionReject)"
proof -
  obtain u n where u: "u \<in> set (inUsers input)" "v = virtualUserName (Name u) n"
    "rrOutbound r = outboundTag n \<or> rrOutbound r = [] \<and> rrAction r = EgressPolicyActionReject"
    and "IsNodeAllowed n (go_get [] (inUserNodeAllowlist input) (Name u))
           (go_get [] (inUserNodeRestrictions input) (Name u))"
    using auth_user_source [OF assms(5,6)] by blast
  then have "userAllowed input u n" by (simp add: userAllowed_def)
  with collected_users [OF assms(1-4) u(1)] show ?thesis using u by blast
qed


section \<open>Rolling the pod\<close>

text \<open>
  The API server as the pod logic relies on it: a read finds the object under its key, fails only with
  NotFound, a create of an absent pod and a delete of a present one succeed and take effect.
\<close>

definition pods_law :: "'s kube \<Rightarrow> bool" where
  "pods_law K \<longleftrightarrow>
     (\<forall>ns n s p. getPod K ns n s = Inr p \<longrightarrow> Namespace p = ns \<and> Name p = n)
     \<and> (\<forall>ns n s e. getPod K ns n s = Inl e \<longrightarrow> IsNotFound e)
     \<and> (\<forall>p s e. getPod K (Namespace p) (Name p) s = Inl e \<longrightarrow>
          (\<exists>s'. createPod K p s = (None, s') \<and> getPod K (Namespace p) (Name p) s' = Inr p))
     \<and> (\<forall>p s. getPod K (Namespace p) (Name p) s = Inr p \<longrightarrow>
          (\<exists>s' e. deletePod K p s = (None, s') \<and> getPod K (Namespace p) (Name p) s' = Inl e))
     \<and> (\<forall>node. \<exists>refs. setControllerReference K node [] = Inr refs)"

lemma desiredPod_meta [simp]:
  "Namespace (desiredPod R node h) = Namespace node" "Name (desiredPod R node h) = Name node @ ''-sing-box-server''"
  "OwnerReferences (desiredPod R node h) = []"
  "Annotations (desiredPod R node h) = [(configHashAnnotation, desiredPodHash h)]"
  by (simp_all add: desiredPod_def ObjectMeta.extend_def Pod.fields_def newMeta_def)

lemma reconcilePod_create:
  assumes "pods_law K" "getPod K (Namespace node) (Name node @ ''-sing-box-server'') s = Inl e"
    and "reconcilePod K R node h s = (r, s')"
  shows "\<exists>pod. getPod K (Namespace node) (Name node @ ''-sing-box-server'') s' = Inr pod
    \<and> go_get [] (Annotations pod) configHashAnnotation = desiredPodHash h"
proof -
  obtain refs where refs: "setControllerReference K node [] = Inr refs" using assms(1) unfolding pods_law_def by blast
  let ?pod = "(desiredPod R node h)\<lparr>OwnerReferences := refs\<rparr>"
  have "getPod K (Namespace ?pod) (Name ?pod) s = Inl e" using assms(2) by simp
  then obtain t where c: "createPod K ?pod s = (None, t)" "getPod K (Namespace ?pod) (Name ?pod) t = Inr ?pod"
    using assms(1) unfolding pods_law_def by blast
  moreover have "IsNotFound e" using assms(1,2) unfolding pods_law_def by blast
  ultimately have "s' = t" using assms(2,3) refs by (simp add: reconcilePod_def Let_def)
  then show ?thesis using c(2) by (intro exI [of _ ?pod]) simp
qed


section \<open>A cluster\<close>

definition mkSecret :: "string \<Rightarrow> (string, string) gomap \<Rightarrow> Secret" where
  "mkSecret n d = ObjectMeta.extend (newMeta ''ns'' n) (Secret.fields d)"

definition mkGroup :: "string \<Rightarrow> string list \<Rightarrow> string list \<Rightarrow> UserGroup" where
  "mkGroup n allow deny =
     ObjectMeta.extend (newMeta ''ns'' n) (UserGroup.fields \<lparr>AllowedNodes = allow, DeniedNodes = deny\<rparr>)"

definition demoReconciler :: SingBoxNodeReconciler where
  "demoReconciler = \<lparr>DefaultTLSSecret = [], SingBoxImage = [], UsageCollectionEnabled = False, V2RayAPIListenAddr = []\<rparr>"

definition demoCluster :: cluster where
  "demoCluster = emptyCluster
     \<lparr>clNodes := [exitNode, entryNode],
      clUsers := [mkUser ''bob'' ''g'', mkUser ''alice'' []],
      clGroups := [mkGroup ''g'' [] [''exit'']],
      clPolicies := [mkPolicy ''p'' [''exit''] EgressPolicyActionRoute 1],
      clSecrets := [mkSecret ''alice'' [(''uuid'', ''u1'')], mkSecret ''bob'' [(''uuid'', ''u2'')],
        mkSecret ''singboxnode-exit-relay-cred'' [(''username'', ''x''), (''password'', ''y'')]]\<rparr>"

lemma demo_lists:
  "listNodes demoKube ''ns'' demoCluster = Inr [exitNode, entryNode]"
  "listExternalOutbounds demoKube ''ns'' demoCluster = Inr []"
  "listUsers demoKube ''ns'' demoCluster = Inr [mkUser ''bob'' ''g'', mkUser ''alice'' []]"
  "listPolicies demoKube ''ns'' demoCluster = Inr [mkPolicy ''p'' [''exit''] EgressPolicyActionRoute 1]"
  by (simp_all add: demoCluster_def cluster_defs fixture_defs)

lemma demo_secrets:
  "GetNodeCredential demoKube ''exit'' ''ns'' demoCluster = Inr \<lparr>Username = ''x'', Password = ''y''\<rparr>"
  "GetUserCredential demoKube (mkUser ''alice'' []) demoCluster = Inr \<lparr>UUID = ''u1''\<rparr>"
  "GetUserCredential demoKube (mkUser ''bob'' ''g'') demoCluster = Inr \<lparr>UUID = ''u2''\<rparr>"
  "getUserGroup demoKube ''ns'' ''g'' demoCluster = Inr (mkGroup ''g'' [] [''exit''])"
  by (simp_all add: GetNodeCredential_def GetUserCredential_def nodeCredOf_def relaySecretName_def
      demoCluster_def cluster_defs mkSecret_def mkGroup_def mkUser_def newMeta_def ObjectMeta.extend_def
      Secret.fields_def UserGroup.fields_def)

lemma demo_meta:
  "Namespace entryNode = ''ns''" "Name entryNode = ''entry''" "Namespace exitNode = ''ns''" "Name exitNode = ''exit''"
  "hasRole entryNode ProxyRoleInbound" "\<not> hasRole entryNode ProxyRoleOutbound"
  "hasRole exitNode ProxyRoleOutbound" "\<not> hasRole exitNode ProxyRoleInbound"
  by (simp_all add: hasRole_def fixture_defs)

lemma demo_sorted:
  "sortByName [exitNode, entryNode] = [entryNode, exitNode]" "sortByName [] = []"
  "sortByName [mkUser ''bob'' ''g'', mkUser ''alice'' []] = [mkUser ''alice'' [], mkUser ''bob'' ''g'']"
  by (simp_all add: sortByName_def fixture_defs)

lemma demo_peers:
  "addPeer demoKube entryNode demoCluster entryNode i = i"
  "addPeer demoKube entryNode demoCluster exitNode i =
     i\<lparr>inOutboundNodes := inOutboundNodes i @ [exitNode],
       inOutboundNodesByName := go_put ''exit'' exitNode (inOutboundNodesByName i),
       inNodeCreds := go_put ''exit'' \<lparr>Username = ''x'', Password = ''y''\<rparr> (inNodeCreds i)\<rparr>"
  "addPeer demoKube exitNode demoCluster entryNode i = i" "addPeer demoKube exitNode demoCluster exitNode i = i"
  by (simp_all add: addPeer_def demo_meta loadNodeCred_def demo_secrets)
     (simp_all add: fixture_defs)

lemma demo_users_collected:
  "collectUsers demoKube entryNode demoCluster [mkUser ''alice'' [], mkUser ''bob'' ''g''] i =
     Inr (loadGroup (mkUser ''bob'' ''g'') (mkGroup ''g'' [] [''exit''])
       (loadUser demoKube (mkUser ''bob'' ''g'') demoCluster (loadUser demoKube (mkUser ''alice'' []) demoCluster i)))"
  by (simp add: demo_meta demo_secrets) (simp add: mkUser_def demo_secrets)

lemma demo_addPolicy:
  "addPolicy demoExt demoKube entryNode [entryNode, exitNode] [] demoCluster
     (mkPolicy ''p'' [''exit''] EgressPolicyActionRoute 1) i =
   i\<lparr>inEgressPolicies := inEgressPolicies i @ [Some (mkPolicy ''p'' [''exit''] EgressPolicyActionRoute 1)],
     inOutboundNodesByName := go_put ''exit'' exitNode (inOutboundNodesByName i),
     inNodeCreds := go_put ''exit'' \<lparr>Username = ''x'', Password = ''y''\<rparr> (inNodeCreds i)\<rparr>"
proof -
  let ?p = "mkPolicy ''p'' [''exit''] EgressPolicyActionRoute 1"
  have "egressCandidates demoExt ?p [entryNode, exitNode] [] = [''exit'']"
    by (simp add: egressCandidates_def selectorMatches_def hasRole_def fixture_defs)
  moreover have "matchValid demoExt (Match (policySpec ?p)) False = None" "FallbackAction (policySpec ?p) = []"
    "Action (policySpec ?p) = EgressPolicyActionRoute" "selectorMatches demoExt (IngressSelector (policySpec ?p)) entryNode"
    by (simp_all add: matchValid_def matchEmpty_def selectorMatches_def fixture_defs)
  moreover have "findOutboundNode [entryNode, exitNode] ''exit'' = Some exitNode"
    by (simp add: findOutboundNode_def demo_meta)
  moreover have "egressConnectedToInbound entryNode ''exit'' [entryNode, exitNode] []"
    by (simp add: egressConnectedToInbound_def calculation demo_meta) (simp add: fixture_defs)
  ultimately show ?thesis
    by (simp add: addPolicy_def resolveEgressPolicy_def Let_def demo_meta loadNodeCred_def demo_secrets)
qed

lemma demo_collect: "collectInput demoExt demoKube demoReconciler entryNode demoCluster = Inr demoInput"
  by (simp add: collectInput_def demo_meta demo_lists demo_sorted demo_peers demo_users_collected demo_addPolicy Let_def
      del: collectUsers.simps)
     (simp add: demoInput_def emptyInput_def demoReconciler_def mkInput_def loadUser_def loadGroup_def demo_secrets
      mkGroup_def name_set_def newMeta_def ObjectMeta.extend_def UserGroup.fields_def, simp add: mkUser_def)

lemma demo_errors: "errors_have_text demoExt"
  by (simp add: errors_have_text_def demoExt_def)


theorem collected_access_control_witness:
  "\<exists>u\<in>set [mkUser ''bob'' ''g'', mkUser ''alice'' []]. \<exists>n. ''alice#exit'' = virtualUserName (Name u) n
     \<and> group_allows (groupOf demoKube entryNode demoCluster u) n"
proof -
  let ?r = "noRule\<lparr>rrAuthUser := [''alice#exit''], rrOutbound := ''outbound-exit''\<rparr>"
  have r: "?r \<in> set (Rules (Route (computeConfig demoExt demoInput)))" "''alice#exit'' \<in> set (rrAuthUser ?r)"
    by (simp_all add: demo_Rules)
  have "listUsers demoKube (Namespace entryNode) demoCluster = Inr [mkUser ''bob'' ''g'', mkUser ''alice'' []]"
    "distinct (map Name [mkUser ''bob'' ''g'', mkUser ''alice'' []])"
    by (simp_all add: demo_meta demo_lists) (simp add: mkUser_def)
  from collected_access_control [OF demo_collect demo_meta(5) this r] show ?thesis by blast
qed

lemma demo_collect_exit:
  "collectInput demoExt demoKube demoReconciler exitNode demoCluster =
     Inr ((emptyInput demoReconciler exitNode)\<lparr>inNodeCreds := [(''exit'', \<lparr>Username = ''x'', Password = ''y''\<rparr>)]\<rparr>)"
  by (simp add: collectInput_def demo_meta demo_lists demo_sorted demo_peers Let_def addPolicy_def loadNodeCred_def
      demo_secrets) (simp add: emptyInput_def)


lemma getObj_append:
  "getObj (Namespace x) (Name x) xs = Inl e \<Longrightarrow> getObj (Namespace x) (Name x) (xs @ [x]) = Inr x"
  by (induction xs) (auto simp: getObj_def split: option.splits if_splits)

lemma getObj_drop: "\<exists>e. getObj (Namespace x) (Name x) (dropObj x xs) = Inl e"
  by (auto simp: getObj_def dropObj_def sameKey_def find_None_iff split: option.splits dest!: find_eq_SomeD)

lemma demo_pods: "pods_law demoKube"
  unfolding pods_law_def
  by (auto simp: demoKube_def getObj_append getObj_drop)
     (auto simp: getObj_def IsNotFound_def split: option.splits dest: find_eq_SomeD)


end
