(* ===== verification/Client_Correct.thy ===== *)
theory Client_Correct
  imports Client_Config Node_Correct Webhooks
begin

text \<open>
  Correctness of the client configurations: the logins agree with those of the nodes, the selectors name
  emitted outbounds only, tags do not clash, groups are respected, entry endpoints are read back as
  written, and map iteration order does not matter.
\<close>

section \<open>Fields of a proxy outbound\<close>

lemma proxyFields_base:
  "k \<notin> login_keys \<Longrightarrow> k \<noteq> ''tls'' \<Longrightarrow> map_of (proxyFields tag a p proto u n sn cred) k =
   map_of [(''type'', JStr (if proto = ''socks5'' then ''socks'' else proto)), (''tag'', JStr tag),
           (''server'', JStr a), (''server_port'', JInt p)] k"
  by (simp add: proxyFields_def Let_def map_of_go_put lg.copy_other)

lemma proxyFields_login:
  assumes "k \<in> login_keys"
  shows "map_of (proxyFields tag a p proto u n sn cred) k =
    map_of (if proto = ''naive'' then go_put ''username'' (JStr (u @ ''#'' @ n)) (DeriveAuth proto (UUID cred) n)
            else DeriveAuth proto (UUID cred) n) k"
proof -
  define base where "base = [(''type'', JStr (if proto = ''socks5'' then ''socks'' else proto)),
    (''tag'', JStr tag), (''server'', JStr a), (''server_port'', JInt p)]"
  define auth where "auth = DeriveAuth proto (UUID cred) n"
  have c: "map_of (go_copy base auth) k = map_of auth k"
    unfolding auth_def by (rule lg.copy_login) (use assms in \<open>auto simp: base_def\<close>)
  have t: "''tls'' \<noteq> k" using assms by auto
  have "map_of (proxyFields tag a p proto u n sn cred) k =
      map_of (if proto = ''naive'' then go_put ''username'' (JStr (u @ ''#'' @ n)) (go_copy base auth)
              else go_copy base auth) k"
    using t unfolding proxyFields_def Let_def base_def [symmetric] auth_def [symmetric]
    by (cases "proto = ''hysteria2'' \<or> proto = ''naive'' \<or> proto = ''anytls'' \<or> proto = ''tuic''")
       (simp_all only: if_True if_False map_of_go_put fun_upd_other not_sym)
  also have "\<dots> = map_of (if proto = ''naive'' then go_put ''username'' (JStr (u @ ''#'' @ n)) auth else auth) k"
    by (simp add: map_of_go_put c)
  finally show ?thesis by (simp only: auth_def)
qed

lemma obTag_proxy [simp]: "obTag (buildProxyOutbound tag a p proto u n sn cred) = Some tag"
proof -
  have "map_of (proxyFields tag a p proto u n sn cred) ''tag'' = Some (JStr tag)"
    by (simp add: proxyFields_base)
  then show ?thesis by (simp add: obTag_def buildProxyOutbound_def str_field_def)
qed

lemma obTag_selector [simp]: "obTag (selectorOutbound groups g) = Some g"
  by (simp add: obTag_def selectorOutbound_def str_field_def)

section \<open>Targets\<close>

lemma map_of_range: "map_of m k = Some v \<Longrightarrow> v \<in> snd ` set m"
  by (drule map_of_SomeD) force

lemma routeRefs_source:
  assumes "r \<in> set (routeRefs input i q)"
  shows "(\<exists>n\<in>snd ` set (ciOutboundsByName input). relayTarget input i n \<and> r = nodeRefOf n)
      \<or> (\<exists>e\<in>snd ` set (ciExternalOutboundsByName input). externalTarget input i e \<and> r = externalRefOf e)"
proof (cases "EffectiveOutboundKind q = OutboundKindExternalOutbound")
  case True
  then obtain e where "map_of (ciExternalOutboundsByName input) (OutboundNode (routeSpec q)) = Some e"
      "externalTarget input i e" "r = externalRefOf e"
    using assms by (cases "map_of (ciExternalOutboundsByName input) (OutboundNode (routeSpec q))")
      (auto simp: routeRefs_def split: if_splits)
  then show ?thesis using map_of_range by metis
next
  case False
  then obtain n where "map_of (ciOutboundsByName input) (OutboundNode (routeSpec q)) = Some n"
      "relayTarget input i n" "r = nodeRefOf n"
    using assms by (cases "map_of (ciOutboundsByName input) (OutboundNode (routeSpec q))")
      (auto simp: routeRefs_def split: if_splits)
  then show ?thesis using map_of_range by metis
qed

lemma candidateRefs_source:
  assumes "r \<in> set (candidateRefs input i)"
  shows "(\<exists>n\<in>snd ` set (ciOutboundsByName input). relayTarget input i n \<and> r = nodeRefOf n)
      \<or> selfTarget input i \<and> r = selfRefOf i
      \<or> (\<exists>e\<in>snd ` set (ciExternalOutboundsByName input). externalTarget input i e \<and> r = externalRefOf e)"
proof -
  define A where "A = (\<exists>n\<in>snd ` set (ciOutboundsByName input). relayTarget input i n \<and> r = nodeRefOf n)"
  define C where
    "C = (\<exists>e\<in>snd ` set (ciExternalOutboundsByName input). externalTarget input i e \<and> r = externalRefOf e)"
  have "A \<or> selfTarget input i \<and> r = selfRefOf i \<or> C \<or> (\<exists>q. r \<in> set (routeRefs input i q))"
    using assms unfolding candidateRefs_def A_def C_def by (auto split: if_splits)
  moreover have "A \<or> C" if "r \<in> set (routeRefs input i q)" for q
    using routeRefs_source [OF that] by (simp only: A_def C_def)
  ultimately have "A \<or> selfTarget input i \<and> r = selfRefOf i \<or> C" by blast
  then show ?thesis by (simp only: A_def C_def)
qed

lemma resolved_candidate:
  assumes "r \<in> set (resolveOutboundNodes input name)"
  shows "\<exists>i\<in>set (ciInboundNodes input). Name i = name \<and> r \<in> set (candidateRefs input i)"
proof -
  obtain i where i: "find (\<lambda>n. Name n = name) (ciInboundNodes input) = Some i"
      and r: "r \<in> set (snd (fold addRef (candidateRefs input i) ([], [])))"
    using assms by (cases "find (\<lambda>n. Name n = name) (ciInboundNodes input)") (auto simp: resolveOutboundNodes_def)
  have "r \<in> set (candidateRefs input i)" using r rf.set_fold_sub [of "candidateRefs input i" "([], [])"] by auto
  then show ?thesis using find_eq_SomeD [OF i] by blast
qed

lemma distinct_resolved: "distinct (map refName (resolveOutboundNodes input name))"
proof (cases "find (\<lambda>n. Name n = name) (ciInboundNodes input)")
  case (Some i)
  have "distinct (map refName (sort_key refName (snd (fold addRef (candidateRefs input i) ([], [])))))"
    by (simp only: distinct_map_sort_key rf.collected_distinct)
  then show ?thesis by (simp only: resolveOutboundNodes_def Some option.case)
qed (simp add: resolveOutboundNodes_def)

lemma candidate_allowed:
  assumes "r \<in> set (candidateRefs input i)"
  shows "clientAllowed input (refName r) \<and> admits (AllowedOutbounds (nodeSpec i)) (refName r)
    \<and> notPolicyOnly input (refName r)"
  using candidateRefs_source [OF assms]
  by (elim disjE bexE conjE)
     (simp_all add: relayTarget_def selfTarget_def externalTarget_def nodeRefOf_def selfRefOf_def externalRefOf_def)

section \<open>Paths and selectors\<close>

definition pathOutbound :: "ClientConfigInput \<Rightarrow> SingBoxNode \<Rightarrow> string \<times> int \<Rightarrow> outboundRef \<Rightarrow> json" where
  "pathOutbound input i ep r =
     buildProxyOutbound (pathTag i r) (fst ep) (snd ep) (EffectiveInboundProtocol i) (Name (ciUser input))
       (refName r) (TLSServerName (nodeStatus i)) (ciUserCred input)"

text \<open>The endpoint and the targets under which an entry node is advertised.\<close>

definition entryOf :: "ClientConfigInput \<Rightarrow> SingBoxNode \<Rightarrow> (string \<times> int) option" where
  "entryOf input i =
     (if has_name (ciOfflineNodeNames input) (Name i) \<or> \<not> supportsProtocol i (EffectiveInboundProtocol i) then None
      else findEntryEndpoint (EntryEndpoints (nodeStatus i)) (EffectiveInboundProtocol i))"

definition shownRefs :: "ClientConfigInput \<Rightarrow> SingBoxNode \<Rightarrow> outboundRef list" where
  "shownRefs input i = filter (\<lambda>r. joinedGroups input r \<noteq> []) (resolveOutboundNodes input (Name i))"

definition inboundPaths :: "ClientConfigInput \<Rightarrow> SingBoxNode \<Rightarrow> json list" where
  "inboundPaths input i =
     (case entryOf input i of None \<Rightarrow> [] | Some ep \<Rightarrow> map (pathOutbound input i ep) (shownRefs input i))"

lemma addInbound_entry:
  "addInbound input i acc =
     (case entryOf input i of
        None \<Rightarrow> acc
      | Some ep \<Rightarrow> fold (addPath input i (fst ep) (snd ep) (EffectiveInboundProtocol i))
                     (resolveOutboundNodes input (Name i)) acc)"
  by (auto simp: addInbound_def entryOf_def Let_def split: option.splits)

lemma fst_addPath:
  "fst (addPath input i (fst ep) (snd ep) (EffectiveInboundProtocol i) r acc) =
   fst acc @ (if joinedGroups input r \<noteq> [] then [pathOutbound input i ep r] else [])"
  by (simp add: addPath_def pathOutbound_def Let_def)

lemma fst_fold_addPath:
  "fst (fold (addPath input i (fst ep) (snd ep) (EffectiveInboundProtocol i)) rs acc) =
   fst acc @ map (pathOutbound input i ep) (filter (\<lambda>r. joinedGroups input r \<noteq> []) rs)"
  by (induction rs arbitrary: acc) (simp_all add: fst_addPath)

lemma fst_addInbound: "fst (addInbound input i acc) = fst acc @ inboundPaths input i"
  by (simp add: addInbound_entry inboundPaths_def shownRefs_def fst_fold_addPath split: option.splits)

lemma fst_clientPaths: "fst (clientPaths input) = concat (map (inboundPaths input) (ciInboundNodes input))"
proof -
  have "fst (fold (addInbound input) is acc) = fst acc @ concat (map (inboundPaths input) is)" for "is" acc
    by (induction "is" arbitrary: acc) (simp_all add: fst_addInbound)
  then show ?thesis by (simp add: clientPaths_def)
qed

lemma obTag_path [simp]: "obTag (pathOutbound input i ep r) = Some (pathTag i r)"
  by (simp add: pathOutbound_def)

text \<open>The selectors hold the tags of the paths, and every path is in one.\<close>

definition groups_ok :: "path_acc \<Rightarrow> bool" where
  "groups_ok acc \<longleftrightarrow>
     wf_map (snd acc) \<and> (\<forall>g\<in>fst ` set (snd acc). clientGroup g)
     \<and> obTag ` set (fst acc) = {Some t |t. \<exists>g. t \<in> set (go_get [] (snd acc) g)}"

lemma fold_append_tag:
  "set (go_get [] (fold (\<lambda>g m. go_put g (go_get [] m g @ [tag]) m) gs m) g) =
   set (go_get [] m g) \<union> (if g \<in> set gs then {tag} else {})"
  by (induction gs arbitrary: m) (auto simp: go_get_put)

lemma fold_append_keys:
  "fst ` set (fold (\<lambda>g m. go_put g (go_get [] m g @ [tag]) m) gs m) = fst ` set m \<union> set gs"
  by (induction gs arbitrary: m) (auto simp: keys_go_put)

lemma fold_append_wf: "wf_map m \<Longrightarrow> wf_map (fold (\<lambda>g m. go_put g (go_get [] m g @ [tag]) m) gs m)"
  by (induction gs arbitrary: m) auto

lemma groups_ok_addPath:
  assumes "groups_ok acc"
  shows "groups_ok (addPath input i (fst ep) (snd ep) (EffectiveInboundProtocol i) r acc)"
proof -
  let ?acc = "addPath input i (fst ep) (snd ep) (EffectiveInboundProtocol i) r acc"
  have s: "snd ?acc = fold (\<lambda>g m. go_put g (go_get [] m g @ [pathTag i r]) m) (joinedGroups input r) (snd acc)"
    by (simp add: addPath_def Let_def)
  have "\<forall>g\<in>set (joinedGroups input r). clientGroup g" by (simp add: joinedGroups_def)
  moreover have "obTag ` set (fst ?acc) =
      obTag ` set (fst acc) \<union> (if joinedGroups input r \<noteq> [] then {Some (pathTag i r)} else {})"
    by (simp only: fst_addPath set_append image_Un) simp
  moreover have "{Some t |t. \<exists>g. t \<in> set (go_get [] (snd ?acc) g)} =
      {Some t |t. \<exists>g. t \<in> set (go_get [] (snd acc) g)} \<union>
      (if joinedGroups input r \<noteq> [] then {Some (pathTag i r)} else {})"
  proof (cases "joinedGroups input r = []")
    case False
    then obtain g0 where "g0 \<in> set (joinedGroups input r)" by (meson last_in_set)
    then show ?thesis using False unfolding s fold_append_tag by (auto intro: exI [of _ g0])
  qed (simp add: s)
  ultimately show ?thesis
    using assms unfolding groups_ok_def s by (auto simp: fold_append_keys fold_append_wf)
qed

lemma groups_ok_clientPaths: "groups_ok (clientPaths input)"
proof -
  have start: "groups_ok ([], [])" by (simp add: groups_ok_def)
  have "groups_ok acc \<Longrightarrow> groups_ok (addInbound input i acc)" for i acc
    by (cases "entryOf input i")
       (simp_all add: addInbound_entry fold_preserves [where P = groups_ok] groups_ok_addPath)
  then show ?thesis
    unfolding clientPaths_def by (intro fold_preserves [where P = groups_ok] start)
qed

lemma hidePolicyTargets_fields [simp]:
  "ciInboundNodes (hidePolicyTargets input ts) = ciInboundNodes input"
  "ciOutboundsByName (hidePolicyTargets input ts) = ciOutboundsByName input"
  "ciExternalOutboundsByName (hidePolicyTargets input ts) = ciExternalOutboundsByName input"
  "ciOfflineNodeNames (hidePolicyTargets input ts) = ciOfflineNodeNames input"
  "ciRoutesByInbound (hidePolicyTargets input ts) = ciRoutesByInbound input"
  "ciAllowedNodeNames (hidePolicyTargets input ts) = ciAllowedNodeNames input"
  "ciDeniedNodeNames (hidePolicyTargets input ts) = ciDeniedNodeNames input"
  "ciUser (hidePolicyTargets input ts) = ciUser input"
  "ciUserCred (hidePolicyTargets input ts) = ciUserCred input"
  by (simp_all add: hidePolicyTargets_def)

lemma hidePolicyTargets_preds [simp]:
  "clientAllowed (hidePolicyTargets input ts) n = clientAllowed input n"
  "targetHasClientGroup (hidePolicyTargets input ts) n g = targetHasClientGroup input n g"
  by (simp_all add: clientAllowed_def targetHasClientGroup_def cong: option.case_cong)

lemma hidden_names:
  "has_name (ciPolicyOnlyEgressNames (hidePolicyTargets input ts)) n \<longleftrightarrow>
     has_name (ciPolicyOnlyEgressNames input) n \<or> n \<in> fst ` set ts \<and> \<not> targetHasClientGroup input n ''ai''"
proof -
  have "has_name (fold (\<lambda>name m. if \<not> P name then go_put name True m else m) ns m) n \<longleftrightarrow>
      has_name m n \<or> n \<in> set ns \<and> \<not> P n" for P ns m
    by (induction ns arbitrary: m) (auto simp: go_get_put)
  then show ?thesis by (auto simp: hidePolicyTargets_def)
qed

lemma BuildClientConfig_parts:
  assumes "BuildClientConfig E input = Inr obs"
  obtains rules targets where "buildClientPolicies E input = Inr (rules, targets)"
    and "obs = fst (clientPaths (hidePolicyTargets input targets)) @
      map (selectorOutbound (snd (clientPaths (hidePolicyTargets input targets))))
        (groupTagsOf (snd (clientPaths (hidePolicyTargets input targets)))) @ [directOutbound ''direct'']"
  using assms by (cases "buildClientPolicies E input") (auto simp: BuildClientConfig_def Let_def split: prod.splits)

lemma distinct_compact: "sorted xs \<Longrightarrow> distinct (remdups_adj xs)" for xs :: "string list"
  by (induction xs rule: remdups_adj.induct) (auto simp: order.antisym)

lemma compact_sorted: "sorted (remdups_adj (sort_names xs))" "distinct (remdups_adj (sort_names xs))"
  by (simp_all add: distinct_compact sort_names_def sorted_remdups_adj)

lemma sort_names_Nil_iff [simp]: "sort_names xs = [] \<longleftrightarrow> xs = []"
  by (metis length_sort_names length_0_conv)

lemma groupTagsOf_ok:
  assumes "groups_ok acc"
  shows "distinct (groupTagsOf (snd acc))" "g \<in> set (groupTagsOf (snd acc)) \<Longrightarrow> clientGroup g"
    and "g \<in> set (groupTagsOf (snd acc)) \<longleftrightarrow> go_get [] (snd acc) g \<noteq> []"
proof -
  have w: "wf_map (snd acc)" "\<forall>g\<in>fst ` set (snd acc). clientGroup g" using assms by (auto simp: groups_ok_def)
  then show "distinct (groupTagsOf (snd acc))"
    by (simp add: groupTagsOf_def sort_names_def wf_map_def)
  show "g \<in> set (groupTagsOf (snd acc)) \<Longrightarrow> clientGroup g" using w by (auto simp: groupTagsOf_def)
  have "go_get [] (snd acc) g = []" if "g \<notin> fst ` set (snd acc)"
    using that by (metis go_get_None map_of_eq_None_iff)
  then show "g \<in> set (groupTagsOf (snd acc)) \<longleftrightarrow> go_get [] (snd acc) g \<noteq> []"
    by (auto simp: groupTagsOf_def)
qed

lemma last_sep_unique:
  assumes "x @ c # a = y @ c # b" "c \<notin> set a" "c \<notin> set b"
  shows "a = b"
proof -
  have "rev (takeWhile (\<lambda>d. d \<noteq> c) (rev (x @ c # a))) = a" "rev (takeWhile (\<lambda>d. d \<noteq> c) (rev (y @ c # b))) = b"
    using assms(2,3) by (auto simp: takeWhile_append)
  then show ?thesis using assms(1) by metis
qed

lemma pathTag_eq: "pathTag i r = pathTag i q \<longleftrightarrow> refName r = refName q"
proof -
  have "a \<noteq> b @ CHR ''#'' # a" for a b :: string by (metis append_eq_append_conv2 length_append length_Cons
      add_Suc_right less_add_Suc1 less_irrefl_nat add.commute)
  then show ?thesis by (auto simp: pathTag_def)
qed

lemma sep_member: "x @ c # y = z \<Longrightarrow> c \<in> set z"
  by auto

lemma pathTag_inbound:
  assumes "pathTag i r = pathTag j q" "CHR ''#'' \<notin> set (Name i)" "CHR ''#'' \<notin> set (Name j)"
  shows "Name i = Name j"
  using assms last_sep_unique [of "refName r" "CHR ''#''" "Name i" "refName q" "Name j"]
  by (auto simp: pathTag_def split: if_splits dest!: sep_member)

definition pathTags :: "ClientConfigInput \<Rightarrow> SingBoxNode \<Rightarrow> string list" where
  "pathTags input i = (case entryOf input i of None \<Rightarrow> [] | Some _ \<Rightarrow> map (pathTag i) (shownRefs input i))"

lemma obTag_inboundPaths: "map obTag (inboundPaths input i) = map Some (pathTags input i)"
  by (simp add: inboundPaths_def pathTags_def split: option.split)

lemma distinct_pathTags: "distinct (pathTags input i)"
proof -
  have "distinct (map refName (shownRefs input i))"
    using distinct_resolved by (simp add: shownRefs_def distinct_map_filter)
  then have "distinct (map (pathTag i) (shownRefs input i))"
    by (simp add: distinct_map inj_on_def pathTag_eq)
  then show ?thesis by (simp add: pathTags_def split: option.split)
qed

lemma distinct_allTags:
  assumes "distinct (map Name is)" "\<And>i. i \<in> set is \<Longrightarrow> CHR ''#'' \<notin> set (Name i)"
  shows "distinct (concat (map (pathTags input) is))"
  using assms
proof (induction "is")
  case (Cons i "is")
  have "set (pathTags input i) \<inter> set (pathTags input j) = {}" if "j \<in> set is" for j
  proof -
    have "Name i \<noteq> Name j" using Cons.prems(1) that by auto
    then have "pathTag i r \<noteq> pathTag j q" for r q
      using pathTag_inbound [of i r j q] Cons.prems(2) that by auto
    then show ?thesis by (auto simp: pathTags_def split: option.splits)
  qed
  then show ?case using Cons by (auto simp: distinct_pathTags)
qed simp

section \<open>Entry endpoints\<close>

lemma endpoint_parts:
  assumes "CHR '':'' \<notin> set (Protocol p)" "CHR '':'' \<notin> set (Address (nodeSpec node))"
  shows "strSplitN (entryEndpoint node p) '':'' 3 = [Protocol p, Address (nodeSpec node), int_dec (Port p)]"
  using assms splitN_cut [of "CHR '':''" "Protocol p" "[]" _ 1]
    splitN_cut [of "CHR '':''" "Address (nodeSpec node)" "[]" _ 0]
  by (simp add: entryEndpoint_def numeral_3_eq_3)

lemma atoi_colon: "CHR '':'' \<in> set s \<Longrightarrow> atoi s = None"
proof -
  assume c: "CHR '':'' \<in> set s"
  have "\<not> list_all is_digit r" if "CHR '':'' \<in> set r" for r
    using that by (auto simp: list_all_iff is_digit_def intro!: bexI [of _ "CHR '':''"])
  moreover have "CHR '':'' \<in> set r" if "s = d # r" "d = CHR ''-'' \<or> d = CHR ''+''" for d r
    using c that by auto
  moreover have "\<not> is_digit CHR '':''" by (simp add: is_digit_def)
  ultimately show ?thesis using c by (cases s) (auto simp: atoi_def)
qed

lemma endpoint_colon_parts:
  assumes "CHR '':'' \<notin> set (Protocol p)" "CHR '':'' \<in> set (Address (nodeSpec node))"
  shows "\<exists>a b. strSplitN (entryEndpoint node p) '':'' 3 = [Protocol p, a, b] \<and> atoi b = None"
proof -
  obtain a b where ab: "Address (nodeSpec node) = a @ CHR '':'' # b" "CHR '':'' \<notin> set a"
    using split_list_first [OF assms(2)] by blast
  have "strSplitN (entryEndpoint node p) '':'' 3 = [Protocol p, a, b @ '':'' @ int_dec (Port p)]"
    using assms(1) ab splitN_cut [of "CHR '':''" "Protocol p" "[]" _ 1] splitN_cut [of "CHR '':''" a "[]" _ 0]
    by (simp add: entryEndpoint_def numeral_3_eq_3)
  then show ?thesis by (simp add: atoi_colon)
qed

section \<open>Map order\<close>

definition keyed :: "(string, 'a ObjectMeta_scheme) gomap \<Rightarrow> bool" where
  "keyed m \<longleftrightarrow> wf_map m \<and> list_all (\<lambda>(k, x). Name x = k) m"

lemma keyed_names: "keyed m \<Longrightarrow> map (\<lambda>kx. Name (snd kx)) m = map fst m"
  by (auto simp: keyed_def list_all_iff)

lemma find_key: "find (\<lambda>y. f y = k) xs = map_of (map (\<lambda>y. (f y, y)) xs) k"
  by (induction xs) auto

lemma find_perm:
  assumes "mset xs = mset ys" "distinct (map f xs)"
  shows "find (\<lambda>y. f y = k) xs = find (\<lambda>y. f y = k) ys"
proof -
  have "map_of (map (\<lambda>y. (f y, y)) xs) = map_of (map (\<lambda>y. (f y, y)) ys)"
    using assms by (intro map_of_perm) (auto simp: wf_map_def comp_def)
  then show ?thesis by (simp add: find_key)
qed

lemma find_append: "find P (xs @ ys) = (case find P xs of None \<Rightarrow> find P ys | Some x \<Rightarrow> Some x)"
  by (induction xs) auto

lemma collected_refs_perm:
  assumes "mset as = mset as'" "distinct (map refName as)" "mset bs = mset bs'" "distinct (map refName bs)"
  shows "sort_key refName (snd (fold addRef (as @ cs @ bs @ ds) ([], []))) =
    sort_key refName (snd (fold addRef (as' @ cs @ bs' @ ds) ([], [])))"
proof (rule sort_key_perm)
  have "find (\<lambda>y. refName y = k) (as @ cs @ bs @ ds) = find (\<lambda>y. refName y = k) (as' @ cs @ bs' @ ds)" for k
    by (simp only: find_append find_perm [OF assms(1,2)] find_perm [OF assms(3,4)])
  then have "set (snd (fold addRef (as @ cs @ bs @ ds) ([], []))) = set (snd (fold addRef (as' @ cs @ bs' @ ds) ([], [])))"
    by (simp only: rf.collected_kept)
  then show "mset (snd (fold addRef (as @ cs @ bs @ ds) ([], []))) = mset (snd (fold addRef (as' @ cs @ bs' @ ds) ([], [])))"
    using rf.collected_distinct by (metis distinct_map set_eq_iff_mset_eq_distinct)
qed (rule rf.collected_distinct)

text \<open>Two inputs that differ in the iteration order of the maps of targets.\<close>

definition reordered_client :: "ClientConfigInput \<Rightarrow> ClientConfigInput \<Rightarrow> bool" where
  "reordered_client a b \<longleftrightarrow>
     b = a\<lparr>ciOutboundsByName := ciOutboundsByName b, ciExternalOutboundsByName := ciExternalOutboundsByName b\<rparr>
     \<and> mset (ciOutboundsByName a) = mset (ciOutboundsByName b) \<and> keyed (ciOutboundsByName a)
     \<and> mset (ciExternalOutboundsByName a) = mset (ciExternalOutboundsByName b) \<and> keyed (ciExternalOutboundsByName a)"

lemma reordered_client_fields:
  assumes "reordered_client a b"
  shows "ciUser b = ciUser a" "ciEgressPolicies b = ciEgressPolicies a" "ciUserCred b = ciUserCred a"
    "ciInboundNodes b = ciInboundNodes a" "ciRoutesByInbound b = ciRoutesByInbound a"
    "ciOfflineNodeNames b = ciOfflineNodeNames a" "ciAllowedNodeNames b = ciAllowedNodeNames a"
    "ciDeniedNodeNames b = ciDeniedNodeNames a" "ciPolicyOnlyEgressNames b = ciPolicyOnlyEgressNames a"
    "map_of (ciOutboundsByName b) = map_of (ciOutboundsByName a)"
    "map_of (ciExternalOutboundsByName b) = map_of (ciExternalOutboundsByName a)"
proof -
  have e: "b = a\<lparr>ciOutboundsByName := ciOutboundsByName b, ciExternalOutboundsByName := ciExternalOutboundsByName b\<rparr>"
    using assms by (simp add: reordered_client_def)
  show "ciUser b = ciUser a" "ciEgressPolicies b = ciEgressPolicies a" "ciUserCred b = ciUserCred a"
    "ciInboundNodes b = ciInboundNodes a" "ciRoutesByInbound b = ciRoutesByInbound a"
    "ciOfflineNodeNames b = ciOfflineNodeNames a" "ciAllowedNodeNames b = ciAllowedNodeNames a"
    "ciDeniedNodeNames b = ciDeniedNodeNames a" "ciPolicyOnlyEgressNames b = ciPolicyOnlyEgressNames a"
    by (subst e; simp)+
  show "map_of (ciOutboundsByName b) = map_of (ciOutboundsByName a)"
    "map_of (ciExternalOutboundsByName b) = map_of (ciExternalOutboundsByName a)"
    using assms map_of_perm unfolding reordered_client_def keyed_def by metis+
qed

lemma reordered_targets:
  assumes "reordered_client a b"
  shows "targetHasClientGroup b n g = targetHasClientGroup a n g"
    and "relayTarget b i x = relayTarget a i x" "selfTarget b i = selfTarget a i"
    and "externalTarget b i e = externalTarget a i e" "routeRefs b i q = routeRefs a i q"
    and "joinedGroups b r = joinedGroups a r"
proof -
  note f = reordered_client_fields [OF assms]
  show t: "targetHasClientGroup b n g = targetHasClientGroup a n g" for n g
    by (simp only: targetHasClientGroup_def f)
  show rt: "relayTarget b i x = relayTarget a i x" for x
    by (simp only: relayTarget_def notPolicyOnly_def clientAllowed_def f t)
  show et: "externalTarget b i e = externalTarget a i e" for e
    by (simp only: externalTarget_def notPolicyOnly_def clientAllowed_def f t)
  show "selfTarget b i = selfTarget a i"
    by (simp only: selfTarget_def notPolicyOnly_def clientAllowed_def f t)
  show "routeRefs b i q = routeRefs a i q" by (simp only: routeRefs_def f rt et)
  show "joinedGroups b r = joinedGroups a r" by (simp only: joinedGroups_def f)
qed

lemma keyed_filter_names:
  assumes "keyed m"
  shows "distinct (map Name (filter P (map snd m)))"
proof -
  have "distinct (map Name (map snd m))"
    using assms by (simp only: map_map comp_def keyed_names) (simp add: keyed_def wf_map_def)
  then show ?thesis by (rule distinct_map_filter)
qed

lemma reordered_resolved:
  assumes "reordered_client a b"
  shows "resolveOutboundNodes b name = resolveOutboundNodes a name"
proof -
  note f = reordered_client_fields [OF assms] and t = reordered_targets [OF assms]
  have m: "mset (ciOutboundsByName a) = mset (ciOutboundsByName b)" "keyed (ciOutboundsByName a)"
    "mset (ciExternalOutboundsByName a) = mset (ciExternalOutboundsByName b)" "keyed (ciExternalOutboundsByName a)"
    using assms by (auto simp: reordered_client_def)
  have c: "sort_key refName (snd (fold addRef (candidateRefs a i) ([], []))) =
      sort_key refName (snd (fold addRef (candidateRefs b i) ([], [])))" for i
    unfolding candidateRefs_def t f
  proof (rule collected_refs_perm)
    show "mset (map nodeRefOf (filter (relayTarget a i) (map snd (ciOutboundsByName a)))) =
        mset (map nodeRefOf (filter (relayTarget a i) (map snd (ciOutboundsByName b))))"
      by (simp only: mset_map mset_filter m(1))
    show "distinct (map refName (map nodeRefOf (filter (relayTarget a i) (map snd (ciOutboundsByName a)))))"
      using keyed_filter_names [OF m(2)] by (simp add: comp_def nodeRefOf_def)
    let ?P = "\<lambda>e. eobRegion (eobSpec e) \<noteq> [] \<and> externalTarget a i e"
    show "mset (map externalRefOf (filter ?P (map snd (ciExternalOutboundsByName a)))) =
        mset (map externalRefOf (filter ?P (map snd (ciExternalOutboundsByName b))))"
      by (simp only: mset_map mset_filter m(3))
    show "distinct (map refName (map externalRefOf (filter ?P (map snd (ciExternalOutboundsByName a)))))"
      using keyed_filter_names [OF m(4)] by (simp add: comp_def externalRefOf_def)
  qed
  show ?thesis by (simp only: resolveOutboundNodes_def f c)
qed

lemma reordered_paths:
  assumes "reordered_client a b"
  shows "clientPaths b = clientPaths a"
proof -
  note f = reordered_client_fields [OF assms]
  have p: "addPath b = addPath a"
    by (intro ext) (simp only: addPath_def f reordered_targets [OF assms])
  have "addInbound b = addInbound a"
    by (intro ext) (simp only: addInbound_def f p reordered_resolved [OF assms])
  then show ?thesis by (simp only: clientPaths_def f)
qed

text \<open>The targets a policy selects, and the resolution in terms of them.\<close>

definition selected :: "ext \<Rightarrow> ClientConfigInput \<Rightarrow> EgressPolicy \<Rightarrow> string list" where
  "selected E input policy =
     map Name (filter (selectorMatches E (EgressSelector (policySpec policy))) (map snd (ciOutboundsByName input))) @
     map Name (filter (selectorMatches E (EgressSelector (policySpec policy))) (map snd (ciExternalOutboundsByName input)))"

lemma resolveClientPolicyEgress_selected:
  "resolveClientPolicyEgress E input policy =
     (let ms = selected E input policy in (if ms = [] then [] else last ms, length ms))"
proof -
  have count: "fold (\<lambda>x acc. if P x then (Name x, snd acc + 1) else acc) xs acc =
      (let ms = map Name (filter P xs) in (if ms = [] then fst acc else last ms, snd acc + length ms))"
    for P and xs :: "'x ObjectMeta_scheme list" and acc :: "string \<times> nat"
    by (induction xs arbitrary: acc) (auto simp: Let_def)
  show ?thesis
    unfolding resolveClientPolicyEgress_def selected_def Let_def count [unfolded Let_def] by auto
qed

lemma reordered_egress:
  assumes "reordered_client a b"
  shows "resolveClientPolicyEgress E b p = resolveClientPolicyEgress E a p
    \<or> snd (resolveClientPolicyEgress E b p) = snd (resolveClientPolicyEgress E a p)
      \<and> snd (resolveClientPolicyEgress E a p) \<ge> 2"
proof -
  have "mset (selected E b p) = mset (selected E a p)"
    using assms unfolding reordered_client_def selected_def by (simp only: mset_append mset_map mset_filter)
  then have l: "length (selected E b p) = length (selected E a p)"
      and one: "length (selected E a p) = 1 \<Longrightarrow> selected E b p = selected E a p"
    by (metis size_mset) (metis mset_eq_length One_nat_def length_0_conv length_Suc_conv mset_single_iff_right
        mset_zero_iff_right mset.simps \<open>mset (selected E b p) = mset (selected E a p)\<close>)
  consider "length (selected E a p) = 0" | "length (selected E a p) = 1" | "length (selected E a p) \<ge> 2" by linarith
  then show ?thesis
    using l one by cases (auto simp: resolveClientPolicyEgress_selected Let_def)
qed

lemma reordered_loop:
  assumes "reordered_client a b"
  shows "clientPolicyLoop E b ps rules targets = clientPolicyLoop E a ps rules targets"
proof (induction ps arbitrary: rules targets)
  case (Cons q ps)
  show ?case
  proof (cases q)
    case (Some p)
    from reordered_egress [OF assms, of E p] show ?thesis
      by (auto simp: Some Cons.IH reordered_targets [OF assms] Let_def split: option.split prod.split)
  qed simp
qed simp

lemma reordered_hide:
  assumes "reordered_client a b"
  shows "reordered_client (hidePolicyTargets a ts) (hidePolicyTargets b ts)"
proof -
  have "b = a\<lparr>ciOutboundsByName := ciOutboundsByName b, ciExternalOutboundsByName := ciExternalOutboundsByName b\<rparr>"
    using assms by (simp add: reordered_client_def)
  then obtain m e where b: "b = a\<lparr>ciOutboundsByName := m, ciExternalOutboundsByName := e\<rparr>" by blast
  have "hidePolicyTargets b ts = (hidePolicyTargets a ts)\<lparr>ciOutboundsByName := m, ciExternalOutboundsByName := e\<rparr>"
    using reordered_targets(1) [OF assms] by (simp add: hidePolicyTargets_def b)
  then show ?thesis using assms by (simp add: reordered_client_def b)
qed

section \<open>Properties\<close>

text \<open>C10. A client configuration is a list of proxy outbounds, then selectors, then the direct outbound. The
  selectors have distinct tags among \<open>hk\<close>, \<open>jp\<close>, \<open>us\<close> and \<open>ai\<close> and list, sorted and without repetition, at
  least one outbound each; together they list exactly the tags of the proxy outbounds. So no selector
  names a missing outbound and no path is unreachable.\<close>

theorem selectors_closed:
  assumes "BuildClientConfig E input = Inr obs"
  shows "\<exists>paths sels. obs = paths @
      map (\<lambda>(g, ts). JMap [(''type'', JStr ''selector''), (''tag'', JStr g), (''outbounds'', JArr (map JStr ts))]) sels @
      [directOutbound ''direct'']
    \<and> distinct (map fst sels) \<and> fst ` set sels \<subseteq> {''hk'', ''jp'', ''us'', ''ai''}
    \<and> list_all (\<lambda>(g, ts). ts \<noteq> [] \<and> sorted ts \<and> distinct ts) sels
    \<and> obTag ` set paths = Some ` \<Union> (set ` snd ` set sels)"
proof -
  obtain targets where obs: "obs = fst (clientPaths (hidePolicyTargets input targets)) @
      map (selectorOutbound (snd (clientPaths (hidePolicyTargets input targets))))
        (groupTagsOf (snd (clientPaths (hidePolicyTargets input targets)))) @ [directOutbound ''direct'']"
    using assms by (rule BuildClientConfig_parts)
  define acc where "acc = clientPaths (hidePolicyTargets input targets)"
  define tagsOf where "tagsOf g = remdups_adj (sort_names (go_get [] (snd acc) g))" for g
  define sels where "sels = map (\<lambda>g. (g, tagsOf g)) (groupTagsOf (snd acc))"
  have ok: "groups_ok acc" unfolding acc_def by (rule groups_ok_clientPaths)
  have "obs = fst acc @ map (\<lambda>(g, ts). JMap [(''type'', JStr ''selector''), (''tag'', JStr g),
      (''outbounds'', JArr (map JStr ts))]) sels @ [directOutbound ''direct'']"
    by (simp add: obs acc_def [symmetric] sels_def tagsOf_def selectorOutbound_def)
  moreover have "distinct (map fst sels)"
    using groupTagsOf_ok(1) [OF ok] by (simp add: sels_def comp_def)
  moreover have "fst ` set sels \<subseteq> {''hk'', ''jp'', ''us'', ''ai''}"
  proof
    fix g assume "g \<in> fst ` set sels"
    then have "clientGroup g" by (intro groupTagsOf_ok(2) [OF ok]) (auto simp: sels_def)
    then show "g \<in> {''hk'', ''jp'', ''us'', ''ai''}" by (auto simp: clientGroup_def)
  qed
  moreover have "list_all (\<lambda>(g, ts). ts \<noteq> [] \<and> sorted ts \<and> distinct ts) sels"
    using groupTagsOf_ok(3) [OF ok] by (auto simp: sels_def list_all_iff tagsOf_def compact_sorted)
  moreover have "\<Union> (set ` snd ` set sels) = (\<Union>g\<in>set (groupTagsOf (snd acc)). set (go_get [] (snd acc) g))"
    by (simp add: sels_def tagsOf_def image_image)
  then have "\<Union> (set ` snd ` set sels) = {t. \<exists>g. t \<in> set (go_get [] (snd acc) g)}"
    using groupTagsOf_ok(3) [OF ok] by fastforce
  then have "obTag ` set (fst acc) = Some ` \<Union> (set ` snd ` set sels)"
    using ok by (auto simp: groups_ok_def)
  ultimately show ?thesis by (intro exI [of _ "fst acc"] exI [of _ sels] conjI)
qed


text \<open>C33. The outbounds of a client configuration have pairwise different tags, provided the entry nodes
  have different names, free of the separator, and none is named like a selector or like the direct
  outbound.\<close>

theorem client_tags_distinct:
  assumes "BuildClientConfig E input = Inr obs" "distinct (map Name (ciInboundNodes input))"
    and "\<And>i. i \<in> set (ciInboundNodes input) \<Longrightarrow>
      CHR ''#'' \<notin> set (Name i) \<and> Name i \<notin> {''hk'', ''jp'', ''us'', ''ai'', ''direct''}"
  shows "distinct (map obTag obs)"
proof -
  obtain targets where obs: "obs = fst (clientPaths (hidePolicyTargets input targets)) @
      map (selectorOutbound (snd (clientPaths (hidePolicyTargets input targets))))
        (groupTagsOf (snd (clientPaths (hidePolicyTargets input targets)))) @ [directOutbound ''direct'']"
    using assms(1) by (rule BuildClientConfig_parts)
  define hidden where "hidden = hidePolicyTargets input targets"
  define tags where "tags = concat (map (pathTags hidden) (ciInboundNodes input))"
  define groups where "groups = groupTagsOf (snd (clientPaths hidden))"
  have "map obTag (fst (clientPaths hidden)) = map Some tags"
    by (simp add: fst_clientPaths tags_def map_concat comp_def obTag_inboundPaths hidden_def)
  then have "map obTag obs = map Some (tags @ groups @ [''direct''])"
    by (simp add: obs hidden_def [symmetric] groups_def comp_def obTag_simps)
  moreover have "distinct tags"
    unfolding tags_def using assms(2,3) by (intro distinct_allTags) auto
  moreover have "distinct groups" and g: "\<And>g. g \<in> set groups \<Longrightarrow> clientGroup g"
    using groupTagsOf_ok(1,2) [OF groups_ok_clientPaths [of hidden]] by (simp_all add: groups_def)
  moreover have "\<not> clientGroup t \<and> t \<noteq> ''direct''" if t: "t \<in> set tags" for t
  proof -
    obtain i r where i: "i \<in> set (ciInboundNodes input)" "t = pathTag i r"
      using t by (auto simp: tags_def pathTags_def split: option.splits)
    show ?thesis
    proof (cases "refName r = Name i")
      case True
      then show ?thesis using assms(3) [OF i(1)] i(2) by (simp add: pathTag_def clientGroup_def)
    next
      case False
      then have "CHR ''#'' \<in> set t" by (simp add: i(2) pathTag_def)
      then show ?thesis by (auto simp: clientGroup_def)
    qed
  qed
  then have "set tags \<inter> set groups = {}" "''direct'' \<notin> set tags" using g by blast+
  moreover have "''direct'' \<notin> set groups" using g [of "''direct''"] by (auto simp: clientGroup_def)
  ultimately show ?thesis by (auto simp: distinct_map)
qed

text \<open>Both ends of a login agree.\<close>

lemma client_login_eq:
  assumes "k \<in> login_keys"
  shows "map_of (proxyFields tag addr port proto user target sn cred) k =
    map_of (userEntry proto (UUID cred) target (virtualUserName user target)) k"
  using assms by (simp add: proxyFields_login userEntry_def Let_def map_of_go_put virtualUserName_def) auto

text \<open>C34. The endpoints that the node controller writes into a node's status are read back by the client
  configuration: for an address without a colon the protocol's address and port are found.\<close>

theorem endpoint_roundtrip:
  assumes "find (\<lambda>p. Protocol p = proto) (SupportedProtocols (nodeSpec node)) = Some p"
    and "\<And>q. q \<in> set (SupportedProtocols (nodeSpec node)) \<Longrightarrow> CHR '':'' \<notin> set (Protocol q)"
    and "CHR '':'' \<notin> set (Address (nodeSpec node))" "0 \<le> Port p" "Port p < 2 ^ 31"
  shows "findEntryEndpoint (EntryEndpoints (runningStatus E node hash sn)) proto
    = Some (Address (nodeSpec node), Port p)"
proof -
  have "findEntryEndpoint (map (entryEndpoint node) ps) proto = Some (Address (nodeSpec node), Port p)"
    if "find (\<lambda>p. Protocol p = proto) ps = Some p" "\<And>q. q \<in> set ps \<Longrightarrow> CHR '':'' \<notin> set (Protocol q)" for ps
    using that
  proof (induction ps)
    case (Cons q ps)
    then show ?case
      using assms(3-5) by (auto simp: endpoint_parts atoi_int_dec split: if_splits)
  qed simp
  then show ?thesis using assms(1,2) by (simp add: runningStatus_def)
qed

theorem endpoint_roundtrip_witness:
  "findEntryEndpoint (EntryEndpoints (runningStatus demoExt entryNode ''h'' [])) ''hysteria2'' =
   Some (Address (nodeSpec entryNode), 30443)"
proof -
  have "find (\<lambda>p. Protocol p = ''hysteria2'') (SupportedProtocols (nodeSpec entryNode)) = Some hy2"
    by (simp add: fixture_defs)
  from endpoint_roundtrip [OF this, of demoExt "''h''" "[]"] show ?thesis
    by (simp add: fixture_defs)
qed

text \<open>C35. A node whose address contains a colon, such as every IPv6 address, is not advertised: after the node
  controller wrote its endpoints, the client configuration passes over it, although the address is one
  that admission accepts.\<close>

theorem ipv6_entry_lost:
  assumes "CHR '':'' \<in> set (Address (nodeSpec i))"
    and "\<And>q. q \<in> set (SupportedProtocols (nodeSpec i)) \<Longrightarrow> CHR '':'' \<notin> set (Protocol q)"
    and "EntryEndpoints (nodeStatus i) = EntryEndpoints (runningStatus E i hash sn)"
  shows "addInbound input i acc = acc"
proof -
  have "findEntryEndpoint (map (entryEndpoint i) ps) proto = None"
    if "\<And>q. q \<in> set ps \<Longrightarrow> CHR '':'' \<notin> set (Protocol q)" for ps proto
    using that
  proof (induction ps)
    case (Cons q ps)
    obtain a b where "strSplitN (entryEndpoint i q) '':'' 3 = [Protocol q, a, b]" "atoi b = None"
      using endpoint_colon_parts [of q i] Cons.prems [of q] assms(1) by auto
    then show ?case using Cons by simp
  qed simp
  then show ?thesis
    using assms(2,3) by (simp add: addInbound_def runningStatus_def Let_def)
qed

text \<open>The iteration order of the maps of targets does not matter: inputs that differ in nothing else give the
  same outbounds or the same error.\<close>

lemma BuildClientConfig_map_order:
  assumes "reordered_client a b"
  shows "BuildClientConfig E b = BuildClientConfig E a"
proof -
  have "buildClientPolicies E b = buildClientPolicies E a"
    by (simp only: buildClientPolicies_def reordered_client_fields [OF assms] reordered_loop [OF assms])
  moreover have "clientPaths (hidePolicyTargets b ts) = clientPaths (hidePolicyTargets a ts)" for ts
    by (rule reordered_paths [OF reordered_hide [OF assms]])
  ultimately show ?thesis by (simp only: BuildClientConfig_def)
qed

section \<open>Witnesses\<close>

text \<open>One online entry node, one exit in the \<open>hk\<close> group.\<close>

definition readyEntry :: SingBoxNode where
  "readyEntry = entryNode\<lparr>nodeStatus := mkStatus\<lparr>EntryEndpoints := [''hysteria2:10.0.0.1:30443''],
     TLSServerName := ''vpn.example''\<rparr>\<rparr>"

definition hkExit :: SingBoxNode where
  "hkExit = exitNode\<lparr>nodeSpec := (nodeSpec exitNode)\<lparr>ClientGroups := [''hk'']\<rparr>\<rparr>"

definition demoClient :: ClientConfigInput where
  "demoClient = \<lparr>ciUser = mkUser ''alice'' [], ciEgressPolicies = [], ciUserCred = \<lparr>UUID = ''u1''\<rparr>,
     ciInboundNodes = [readyEntry], ciRoutesByInbound = [], ciOutboundsByName = [(''exit'', hkExit)],
     ciExternalOutboundsByName = [], ciExternalOutbounds = [], ciOfflineNodeNames = [],
     ciAllowedNodeNames = [], ciDeniedNodeNames = [], ciPolicyOnlyEgressNames = []\<rparr>"

lemmas client_fixture_defs = readyEntry_def hkExit_def demoClient_def fixture_defs

lemma demo_refs: "resolveOutboundNodes demoClient ''entry'' = [nodeRefOf hkExit]"
  by (simp add: resolveOutboundNodes_def candidateRefs_def relayTarget_def selfTarget_def notPolicyOnly_def
      clientAllowed_def IsNodeAllowed_def addRef_def hasRole_def nodeRefOf_def client_fixture_defs)

lemma demo_endpoint:
  "findEntryEndpoint [''hysteria2:10.0.0.1:30443''] ''hysteria2'' = Some (''10.0.0.1'', 30443)"
  by (simp add: numeral_3_eq_3 atoi_def dec_nat_def digit_val_def is_digit_def)

abbreviation demoPath :: json where
  "demoPath \<equiv> buildProxyOutbound ''exit#entry'' ''10.0.0.1'' 30443 ''hysteria2'' ''alice'' ''exit'' ''vpn.example''
     \<lparr>UUID = ''u1''\<rparr>"

lemma demo_paths: "clientPaths demoClient = ([demoPath], [(''hk'', [''exit#entry''])])"
proof -
  have "clientPaths demoClient = addInbound demoClient readyEntry ([], [])"
    by (simp add: clientPaths_def demoClient_def)
  also have "\<dots> = addPath demoClient readyEntry ''10.0.0.1'' 30443 ''hysteria2'' (nodeRefOf hkExit) ([], [])"
  proof -
    have "EntryEndpoints (nodeStatus readyEntry) = [''hysteria2:10.0.0.1:30443'']" "Name readyEntry = ''entry''"
      "EffectiveInboundProtocol readyEntry = ''hysteria2''" "supportsProtocol readyEntry ''hysteria2''"
      "ciOfflineNodeNames demoClient = []"
      by (simp_all add: EffectiveInboundProtocol_def supportsProtocol_def client_fixture_defs)
    then show ?thesis
      by (simp only: addInbound_def Let_def demo_endpoint demo_refs go_get_Nil if_False not_True_eq_False
          option.case prod.case fold_Cons fold_Nil comp_apply id_apply)
  qed
  also have "\<dots> = ([demoPath], [(''hk'', [''exit#entry''])])"
    by (simp add: addPath_def Let_def joinedGroups_def clientGroup_def nodeRefOf_def pathTag_def client_fixture_defs)
  finally show ?thesis .
qed

lemma demo_client:
  "BuildClientConfig demoExt demoClient =
   Inr [demoPath, selectorOutbound [(''hk'', [''exit#entry''])] ''hk'', directOutbound ''direct'']"
proof -
  have "buildClientPolicies demoExt demoClient = Inr ([], [])"
    by (simp add: buildClientPolicies_def demoClient_def)
  moreover have "hidePolicyTargets demoClient [] = demoClient" by (simp add: hidePolicyTargets_def)
  ultimately show ?thesis by (simp add: BuildClientConfig_def demo_paths groupTagsOf_def)
qed

theorem selectors_closed_witness:
  "\<exists>paths sels. [demoPath, selectorOutbound [(''hk'', [''exit#entry''])] ''hk'', directOutbound ''direct''] = paths @
      map (\<lambda>(g, ts). JMap [(''type'', JStr ''selector''), (''tag'', JStr g), (''outbounds'', JArr (map JStr ts))]) sels @
      [directOutbound ''direct'']
    \<and> distinct (map fst sels) \<and> fst ` set sels \<subseteq> {''hk'', ''jp'', ''us'', ''ai''}
    \<and> list_all (\<lambda>(g, ts). ts \<noteq> [] \<and> sorted ts \<and> distinct ts) sels
    \<and> obTag ` set paths = Some ` \<Union> (set ` snd ` set sels)"
  by (rule selectors_closed [OF demo_client])

lemma demo_path_fields:
  "map_of (proxyFields ''exit#entry'' ''10.0.0.1'' 30443 ''hysteria2'' ''alice'' ''exit'' ''vpn.example''
     \<lparr>UUID = ''u1''\<rparr>) ''server'' = Some (JStr ''10.0.0.1'')"
  by (simp add: proxyFields_base)


theorem client_tags_distinct_witness:
  "distinct (map obTag [demoPath, selectorOutbound [(''hk'', [''exit#entry''])] ''hk'', directOutbound ''direct''])"
  by (rule client_tags_distinct [OF demo_client]) (auto simp: client_fixture_defs)

text \<open>A node with an IPv6 address that admission accepts.\<close>

definition ipv6Node :: SingBoxNode where
  "ipv6Node = entryNode\<lparr>nodeSpec := (nodeSpec entryNode)\<lparr>Address := ''2001:db8::1''\<rparr>,
     nodeStatus := mkStatus\<lparr>EntryEndpoints := [''hysteria2:2001:db8::1:30443'']\<rparr>\<rparr>"

theorem ipv6_entry_lost_witness:
  "addressErrors (Address (nodeSpec ipv6Node)) = [] \<and> addInbound demoClient ipv6Node ([], []) = ([], [])"
proof
  show "addressErrors (Address (nodeSpec ipv6Node)) = []"
    by (simp add: ipv6Node_def addressErrors_Nil isValidHostname_def)
  have "int_dec 30443 = ''30443''" by (simp add: int_dec_def nat_dec.simps digit_char_def) code_simp
  then have "EntryEndpoints (nodeStatus ipv6Node) = EntryEndpoints (runningStatus demoExt ipv6Node [] [])"
    by (simp add: ipv6Node_def runningStatus_def entryEndpoint_def fixture_defs)
  then show "addInbound demoClient ipv6Node ([], []) = ([], [])"
    by (rule ipv6_entry_lost [rotated 2]) (auto simp: ipv6Node_def fixture_defs)
qed

end
