(* ===== verification/Handler_Correct.thy ===== *)
theory Handler_Correct
  imports Client_Handler Template_Default Client_Correct
begin

text \<open>
  Correctness of the client configuration handler: whose configuration a request gets, that every request
  is answered, and that the configuration merged into the built-in template refers to no missing outbound.
\<close>

section \<open>The matching user\<close>

lemma matchUser_first:
  assumes "matchUser K s u users = Some (user, cred)"
  shows "\<exists>before after. users = before @ user # after \<and> GetUserCredential K user s = Inr cred
    \<and> equalFold (UUID cred) u
    \<and> (\<forall>v\<in>set before. \<forall>c. GetUserCredential K v s = Inr c \<longrightarrow> \<not> equalFold (UUID c) u)"
  using assms
proof (induction users)
  case (Cons v users)
  show ?case
  proof (cases "matchUser K s u users = Some (user, cred) \<and> (\<forall>c. GetUserCredential K v s = Inr c \<longrightarrow> \<not> equalFold (UUID c) u)")
    case True
    then obtain before after where "users = before @ user # after" "GetUserCredential K user s = Inr cred"
      "equalFold (UUID cred) u"
      "\<forall>v\<in>set before. \<forall>c. GetUserCredential K v s = Inr c \<longrightarrow> \<not> equalFold (UUID c) u"
      using Cons.IH by blast
    then show ?thesis using True by (intro exI [of _ "v # before"] exI [of _ after]) simp
  next
    case False
    then show ?thesis using Cons.prems
      by (intro exI [of _ "[]"] exI [of _ users]) (auto split: sum.splits if_splits)
  qed
qed simp

section \<open>No panics\<close>

lemma clientPolicyLoop_fails: "clientPolicyLoop E input ps rules ts \<noteq> Inl Panicked"
proof (induction ps arbitrary: rules ts)
  case (Cons p ps)
  then show ?case by (cases p) (simp_all add: Let_def split: option.splits prod.splits)
qed simp

lemma undefinedRuleSet_fails: "None \<notin> set ps \<Longrightarrow> undefinedRuleSet E input defs ps \<noteq> Some Panicked"
  by (induction E input defs ps rule: undefinedRuleSet.induct) (auto split: option.splits)

lemma configureClientDNS_fails: "configureClientDNS m route obs sel has \<noteq> Inl Panicked"
  by (auto simp: configureClientDNS_def Let_def split: option.splits prod.splits)

lemma guard_fails: "y \<noteq> Inl Panicked \<Longrightarrow> (if c then Inl (Failed x) else y) \<noteq> Inl Panicked"
  by simp

lemma dns_then_fails:
  "(case configureClientDNS m route obs sel has of Inl e \<Rightarrow> Inl e | Inr (m, route, obs) \<Rightarrow> Inr (f m route obs))
   \<noteq> Inl Panicked"
  using configureClientDNS_fails [of m route obs sel has] by (auto split: sum.split prod.split)

lemma mergeDecoded_fails:
  assumes "None \<notin> set (ciEgressPolicies input)"
  shows "mergeDecoded E template polRules obs input \<noteq> Inl Panicked"
proof (cases "map_field (normalizeDeprecatedClientConfig template) ''route''")
  case (Some route)
  have "undefinedRuleSet E input (definedRuleSets route) (ciEgressPolicies input) \<noteq> Some Panicked"
    using assms by (rule undefinedRuleSet_fails)
  then show ?thesis
    unfolding mergeDecoded_def Let_def Some option.case
    by (intro guard_fails) (cases "undefinedRuleSet E input (definedRuleSets route) (ciEgressPolicies input)",
      simp_all only: option.case dns_then_fails, simp_all)
qed (simp add: mergeDecoded_def)

lemma handlerInput_policies [simp]:
  "ciEgressPolicies (handlerInput E user cred nodes externals policies ug) = map Some policies"
  by (simp add: handlerInput_def)

lemma respondWith_answers:
  assumes "None \<notin> set (ciEgressPolicies input)"
  shows "respondWith E template input \<noteq> None"
proof -
  have b: "buildClientPolicies E input \<noteq> Inl Panicked"
    using assms clientPolicyLoop_fails by (simp add: buildClientPolicies_def)
  have "BuildClientConfig E input \<noteq> Inl Panicked"
    using b by (auto simp: BuildClientConfig_def split: sum.splits prod.splits)
  moreover have "MergeClientConfig E template obs input \<noteq> Inl Panicked" for obs
    using b mergeDecoded_fails [OF assms]
    by (auto simp: MergeClientConfig_def split: sum.splits prod.splits option.splits)
  ultimately show ?thesis by (auto simp: respondWith_def split: sum.splits failure.splits)
qed


text \<open>C4. Authentication: a configuration is only given to a request that carries the UUID of a user of the
  requested namespace, compared without case; it is built for the first such user, with that user's
  credential, group and the objects of that namespace.\<close>

theorem config_for_holder:
  assumes "handleClientConfig E K srv path s = Some r" "respStatus r = 200"
  shows "\<exists>ns u before user after cred nodes externals policies ug.
    requestParts path = Some (ns, u) \<and> uuid_shape u
    \<and> listUsers K ns s = Inr (before @ user # after)
    \<and> GetUserCredential K user s = Inr cred \<and> equalFold (UUID cred) u
    \<and> (\<forall>v\<in>set before. \<forall>c. GetUserCredential K v s = Inr c \<longrightarrow> \<not> equalFold (UUID c) u)
    \<and> listNodes K ns s = Inr nodes \<and> listExternalOutbounds K ns s = Inr externals
    \<and> listPolicies K ns s = Inr policies \<and> userGroupFor K ns user s = Inr ug
    \<and> respondWith E (templateBytes K srv s) (handlerInput E user cred nodes externals policies ug) = Some r"
proof -
  obtain ns u users user cred nodes externals policies ug
    where h: "requestParts path = Some (ns, u)" "uuid_shape u" "listUsers K ns s = Inr users"
      "matchUser K s u users = Some (user, cred)" "listNodes K ns s = Inr nodes"
      "listExternalOutbounds K ns s = Inr externals" "listPolicies K ns s = Inr policies"
      "userGroupFor K ns user s = Inr ug"
      "respondWith E (templateBytes K srv s) (handlerInput E user cred nodes externals policies ug) = Some r"
    using assms
    by (auto simp: handleClientConfig_def httpNotFound_def httpError_def writeInternalError_def
        split: option.splits sum.splits prod.splits if_splits)
  from matchUser_first [OF h(4)] obtain before after where "users = before @ user # after"
    "GetUserCredential K user s = Inr cred" "equalFold (UUID cred) u"
    "\<forall>v\<in>set before. \<forall>c. GetUserCredential K v s = Inr c \<longrightarrow> \<not> equalFold (UUID c) u" by blast
  with h show ?thesis
    by (intro exI [of _ ns] exI [of _ u] exI [of _ before] exI [of _ user] exI [of _ after] exI [of _ cred]
        exI [of _ nodes] exI [of _ externals] exI [of _ policies] exI [of _ ug]) simp
qed

section \<open>References\<close>

text \<open>An outbound of the configuration has the tag.\<close>

definition has_outbound :: "json list \<Rightarrow> string \<Rightarrow> bool" where
  "has_outbound obs t = list_ex (\<lambda>ob. case ob of JMap f \<Rightarrow> map_of f ''tag'' = Some (JStr t) | _ \<Rightarrow> False) obs"

text \<open>The field, if there is one, names an outbound.\<close>

definition refers :: "string \<Rightarrow> json list \<Rightarrow> json \<Rightarrow> bool" where
  "refers key obs r =
     (case r of
        JMap f \<Rightarrow> (case map_of f key of None \<Rightarrow> True | Some (JStr t) \<Rightarrow> has_outbound obs t | _ \<Rightarrow> False)
      | _ \<Rightarrow> False)"

lemma outboundTags_iff [simp]: "has_name (outboundTags obs) t \<longleftrightarrow> has_outbound obs t"
proof -
  have "has_name (fold (\<lambda>ob m. case ob of
                     JMap v \<Rightarrow> (case map_of v ''tag'' of Some (JStr tag) \<Rightarrow> go_put tag True m | _ \<Rightarrow> m)
                   | _ \<Rightarrow> m) obs m) t \<longleftrightarrow> has_name m t \<or> has_outbound obs t" for m
    by (induction obs arbitrary: m) (auto simp: has_outbound_def go_simps split: json.splits option.splits)
  then show ?thesis by (simp add: outboundTags_def)
qed

lemma proxySelectorFor_outbound:
  "proxySelectorFor (outboundTags obs) \<noteq> [] \<Longrightarrow> has_outbound obs (proxySelectorFor (outboundTags obs))"
  by (auto simp: proxySelectorFor_def split: option.splits dest: find_eq_SomeD)

lemma modeRules_refer: "r \<in> set (modeRules (outboundTags obs)) \<Longrightarrow> refers ''outbound'' obs r"
  using proxySelectorFor_outbound by (auto simp: modeRules_def refers_def)

lemma direct_emitted: "BuildClientConfig E input = Inr obs \<Longrightarrow> has_outbound obs ''direct''"
  by (auto simp: BuildClientConfig_def has_outbound_def directOutbound_def split: sum.splits prod.splits)

lemma matchRule_outbound: "map_of (policyMatchRule m) ''outbound'' = None"
  by (simp add: policyMatchRule_def strArr_def)

text \<open>A rule of a policy rejects or names the \<open>ai\<close> selector.\<close>

lemma clientPolicyLoop_rules:
  assumes "clientPolicyLoop E input ps rules ts = Inr (rules', ts')" "r \<in> set rules'"
  shows "r \<in> set rules \<or> (\<exists>f. r = JMap f \<and> map_of f ''outbound'' \<in> {None, Some (JStr ''ai'')})"
  using assms
proof (induction ps arbitrary: rules ts)
  case (Cons p ps)
  note IH = Cons.IH [OF _ Cons.prems(2)]
  obtain q where p: "p = Some q" using Cons.prems by (cases p) auto
  show ?case
    using Cons.prems(1)
    by (auto simp: p Let_def map_of_go_put matchRule_outbound split: option.splits prod.splits if_splits dest!: IH)
qed simp

lemma policy_rules:
  assumes "buildClientPolicies E input = Inr (rules, ts)" "r \<in> set rules"
  shows "\<exists>f. r = JMap f \<and> map_of f ''outbound'' \<in> {None, Some (JStr ''ai'')}"
proof -
  from assms(1) have "clientPolicyLoop E input (sort_key policyOptKey (ciEgressPolicies input)) [] [] = Inr (rules, ts)"
    by (simp add: buildClientPolicies_def split: if_splits)
  from clientPolicyLoop_rules [OF this assms(2)] show ?thesis by simp
qed

section \<open>The built-in template\<close>

lemma policies_present:
  assumes "buildClientPolicies E input = Inr x"
  shows "None \<notin> set (ciEgressPolicies input)"
proof
  assume none: "None \<in> set (ciEgressPolicies input)"
  then have "\<not> length (ciEgressPolicies input) > 1" using assms by (auto simp: buildClientPolicies_def)
  with none have "ciEgressPolicies input = [None]" by (cases "ciEgressPolicies input") auto
  then show False using assms by (simp add: buildClientPolicies_def)
qed

lemma undefinedRuleSet_none:
  assumes "None \<notin> set ps" "\<And>p. Some p \<in> set ps \<Longrightarrow> \<forall>ref\<in>set (RuleSet (Match (policySpec p))). has_name defs ref"
  shows "undefinedRuleSet E input defs ps = None"
  using assms
proof (induction ps)
  case (Cons p ps)
  then obtain q where p: "p = Some q" by (cases p) auto
  have "find (\<lambda>ref. \<not> has_name defs ref) (RuleSet (Match (policySpec q))) = None"
    using Cons.prems(2) [of q] by (auto simp: p find_None_iff)
  moreover have "undefinedRuleSet E input defs ps = None" using Cons by (intro Cons.IH) auto
  ultimately show ?case by (simp add: p)
qed simp

lemma default_normal: "normalizeDeprecatedClientConfig defaultConfig = defaultConfig"
  by (simp add: normalizeDeprecatedClientConfig_def map_field_def arr_field_def normalizeRuleSet_def default_defs
      go_delete_def)

lemma default_route: "map_field defaultConfig ''route'' = Some defaultRoute"
  by (simp add: map_field_def defaultConfig_def)

lemma default_sets: "has_name (definedRuleSets defaultRoute) t \<longleftrightarrow> t \<in> {''geosite-cn'', ''category-ads-all''}"
  by (auto simp: definedRuleSets_def arr_field_def defaultRoute_def remoteSet_def)

lemma default_rules:
  "arr_field defaultRoute ''rules'' = Some defaultRules"
  "mergedRules defaultRules pol True has =
   take 2 defaultRules @ pol @ JMap [(''action'', JStr ''resolve'')] # take 2 (drop 2 defaultRules) @
   modeRules has @ [last defaultRules]"
  by (simp_all add: arr_field_def defaultRoute_def defaultRules_def mergedRules_def leadingRule_def domesticRule_def
      keptRule_def isDomesticDirectRule_def field_is_def)

definition proxyServer :: "(string, json) gomap" where
  "proxyServer = [(''type'', JStr ''https''), (''tag'', JStr ''proxy-dns''), (''server'', JStr ''1.1.1.1'')]"

lemma default_server:
  "clientDNSServer defaultConfig ''proxy-dns'' = Some proxyServer" "map_field defaultConfig ''dns'' = Some defaultDNS"
  by (simp_all add: clientDNSServer_def dnsServers_def map_field_def arr_field_def isServer_def field_is_def
      defaultConfig_def defaultDNS_def proxyServer_def)

lemma default_unreserved: "reservedTag defaultConfig has = None"
  by (simp add: reservedTag_def find_None_iff clientRegionModes_def regionTag_def clientDNSServer_def dnsServers_def
      map_field_def arr_field_def isServer_def field_is_def defaultConfig_def defaultDNS_def)

lemma default_dns_rules: "arr_field defaultDNS ''rules'' \<noteq> None"
  by (simp add: arr_field_def defaultDNS_def)

lemma default_clash: "withClashMode defaultConfig = defaultConfig"
  by (simp add: withClashMode_def map_field_def defaultConfig_def)

lemma default_servers: "updateServer ''proxy-dns'' server (dnsServers defaultConfig) = JMap server # tl (dnsServers defaultConfig)"
  "\<forall>r\<in>set (tl (dnsServers defaultConfig)). refers ''detour'' obs r"
  by (simp_all add: dnsServers_def map_field_def arr_field_def isServer_def field_is_def refers_def
      defaultConfig_def defaultDNS_def)

lemma default_dns:
  assumes "sel \<noteq> [] \<Longrightarrow> has_outbound obs sel"
  shows "\<exists>dns servers. configureClientDNS defaultConfig route obs sel (outboundTags obs) =
      Inr (go_put ''dns'' (JMap dns) defaultConfig, go_put ''default_domain_resolver'' (JStr ''proxy-dns'') route,
           map withResolver obs)
    \<and> arr_field dns ''servers'' = Some servers \<and> list_all (refers ''detour'' obs) servers"
proof -
  define server where "server = (if sel \<noteq> [] then go_put ''detour'' (JStr sel) proxyServer else go_delete ''detour'' proxyServer)"
  define modes where "modes = filter (\<lambda>mode. has_name (outboundTags obs) (snd mode)) clientRegionModes"
  define servers where "servers = JMap server # tl (dnsServers defaultConfig) @
     map (\<lambda>mode. JMap (go_put ''detour'' (JStr (snd mode)) (go_put ''tag'' (JStr (regionTag mode)) server))) modes @
     (if clientDNSServer defaultConfig ''local'' = None \<and> list_ex needsResolver obs
      then [JMap [(''type'', JStr ''local''), (''tag'', JStr ''local'')]] else [])"
  have "refers ''detour'' obs (JMap server)"
    using assms by (auto simp: server_def refers_def map_of_go_put proxyServer_def go_delete_def)
  moreover have "refers ''detour'' obs (JMap (go_put ''detour'' (JStr (snd mode)) m))" if "mode \<in> set modes" for mode m
    using that by (simp add: modes_def refers_def map_of_go_put)
  ultimately have "list_all (refers ''detour'' obs) servers"
    using default_servers(2) by (auto simp: servers_def list_all_iff) (simp add: refers_def)
  then show ?thesis
    unfolding configureClientDNS_def default_server option.case prod.case Let_def default_unreserved
    apply (simp only: default_dns_rules HOL.simp_thms if_False default_servers(1) modes_def [symmetric] server_def [symmetric])
    apply (rule exI, rule exI [of _ servers], intro conjI, rule refl)
    apply (simp_all add: arr_field_def map_of_go_put servers_def)
    done
qed

lemma withResolver_tags: "has_outbound (map withResolver obs) = has_outbound obs"
proof -
  have "(case withResolver ob of JMap f \<Rightarrow> map_of f ''tag'' = Some (JStr t) | _ \<Rightarrow> False) \<longleftrightarrow>
      (case ob of JMap f \<Rightarrow> map_of f ''tag'' = Some (JStr t) | _ \<Rightarrow> False)" for ob t
    by (cases ob) (simp_all add: withResolver_def map_of_go_put)
  then show ?thesis by (simp add: fun_eq_iff has_outbound_def list_ex_iff)
qed

lemma withResolver_refers: "refers key (map withResolver obs) = refers key obs"
  by (simp add: fun_eq_iff refers_def withResolver_tags split: json.splits option.splits)

lemma default_rules_refer:
  assumes "has_outbound obs ''direct''" "\<And>r. r \<in> set pol \<Longrightarrow> refers ''outbound'' obs r"
  shows "list_all (refers ''outbound'' obs) (mergedRules defaultRules pol True (outboundTags obs))"
proof -
  have "\<forall>r\<in>set (JMap [(''action'', JStr ''resolve'')] # defaultRules). refers ''outbound'' obs r"
    using assms(1) by (simp add: defaultRules_def refers_def)
  moreover have "last defaultRules \<in> set defaultRules" by (rule last_in_set) (simp add: defaultRules_def)
  ultimately show ?thesis
    using assms(2) modeRules_refer [of _ obs]
    by (auto simp: default_rules(2) list_all_iff dest!: in_set_takeD in_set_dropD)
qed

text \<open>
  Merging into the built-in template: the route of the result, with the final outbound replaced when a
  regional selector is there.
\<close>

definition defaultMerged :: "json list \<Rightarrow> json list \<Rightarrow> (string, json) gomap" where
  "defaultMerged pol obs =
     (let sel = proxySelectorFor (outboundTags obs);
          route = go_put ''rules'' (JArr (mergedRules defaultRules pol True (outboundTags obs))) defaultRoute
      in if sel \<noteq> [] then go_put ''final'' (JStr sel) route else route)"

lemma defaultMerged_final:
  assumes "has_outbound obs ''direct''"
  shows "\<exists>t. map_of (defaultMerged pol obs) ''final'' = Some (JStr t) \<and> has_outbound obs t"
  using assms proxySelectorFor_outbound [of obs]
  by (auto simp: defaultMerged_def Let_def map_of_go_put defaultRoute_def)

lemma default_merge:
  assumes "buildClientPolicies E input = Inr (pol, targets)" "obs \<noteq> []"
    and "\<And>p. Some p \<in> set (ciEgressPolicies input) \<Longrightarrow>
      set (RuleSet (Match (policySpec p))) \<subseteq> {''geosite-cn'', ''category-ads-all''}"
  shows "\<exists>dns servers. mergeDecoded E defaultConfig pol obs input =
      Inr (go_put ''outbounds'' (JArr (map withResolver obs))
        (go_put ''route'' (JMap (go_put ''default_domain_resolver'' (JStr ''proxy-dns'') (defaultMerged pol obs)))
          (go_put ''dns'' (JMap dns) defaultConfig)))
    \<and> arr_field dns ''servers'' = Some servers \<and> list_all (refers ''detour'' obs) servers"
proof -
  have u: "undefinedRuleSet E input (definedRuleSets defaultRoute) (ciEgressPolicies input) = None"
    using policies_present [OF assms(1)] assms(3) by (intro undefinedRuleSet_none) (auto simp: default_sets)
  have r: "sliceJson (mergedRules defaultRules pol True (outboundTags obs)) =
      JArr (mergedRules defaultRules pol True (outboundTags obs))"
    by (simp add: sliceJson_def default_rules(2))
  have o: "sliceJson (map withResolver obs) = JArr (map withResolver obs)" using assms(2) by (simp add: sliceJson_def)
  obtain dns servers where "configureClientDNS defaultConfig (defaultMerged pol obs) obs
      (proxySelectorFor (outboundTags obs)) (outboundTags obs) =
      Inr (go_put ''dns'' (JMap dns) defaultConfig,
           go_put ''default_domain_resolver'' (JStr ''proxy-dns'') (defaultMerged pol obs), map withResolver obs)"
    "arr_field dns ''servers'' = Some servers" "list_all (refers ''detour'' obs) servers"
    using default_dns [OF proxySelectorFor_outbound] by blast
  then show ?thesis
    by (intro exI [of _ dns] exI [of _ servers])
       (cases "proxySelectorFor (outboundTags obs) = []",
        simp_all add: mergeDecoded_def default_normal default_route default_rules(1) u r default_server default_clash o
        defaultMerged_def Let_def)
qed


section \<open>Policies for the AI group\<close>

lemma no_group:
  assumes "\<And>i r. i \<in> set (ciInboundNodes input) \<Longrightarrow> r \<in> set (resolveOutboundNodes input (Name i)) \<Longrightarrow>
    g \<notin> set (refClientGroups r)"
  shows "go_get [] (snd (clientPaths input)) g = []"
proof -
  have path: "set (go_get [] (snd (addPath input i a p proto r acc)) g) = set (go_get [] (snd acc) g)"
    if "g \<notin> set (refClientGroups r)" for i a p proto r acc
    using that by (simp add: addPath_def Let_def fold_append_tag joinedGroups_def)
  have "go_get [] (snd (fold (addPath input i a p proto) rs acc)) g = []"
    if "go_get [] (snd acc) g = []" "\<forall>r\<in>set rs. g \<notin> set (refClientGroups r)" for i a p proto rs acc
    using that path by (induction rs arbitrary: acc) (simp_all flip: set_empty)
  then have inbound: "go_get [] (snd (addInbound input i acc)) g = []"
    if "go_get [] (snd acc) g = []" "i \<in> set (ciInboundNodes input)" for i acc
    using that assms by (auto simp: addInbound_entry split: option.splits)
  have "go_get [] (snd (fold (addInbound input) xs acc)) g = []"
    if "go_get [] (snd acc) g = []" "set xs \<subseteq> set (ciInboundNodes input)" for xs acc
    using that inbound by (induction xs arbitrary: acc) simp_all
  then show ?thesis by (simp add: clientPaths_def)
qed

text \<open>The tag of an advertised path contains the separator or is the name of an entry node.\<close>

lemma path_tags:
  assumes "JMap f \<in> set (fst (clientPaths input))" "map_of f ''tag'' = Some (JStr t)"
  shows "CHR ''#'' \<in> set t \<or> t \<in> Name ` set (ciInboundNodes input)"
proof -
  from assms(1) obtain i where i: "i \<in> set (ciInboundNodes input)" "JMap f \<in> set (inboundPaths input i)"
    by (auto simp: fst_clientPaths)
  then obtain ep r where "JMap f = pathOutbound input i ep r"
    by (auto simp: inboundPaths_def split: option.splits)
  then have "t = pathTag i r"
    using assms(2) by (simp add: pathOutbound_def buildProxyOutbound_def proxyFields_base)
  then show ?thesis using i(1) by (auto simp: pathTag_def)
qed

text \<open>C37. A policy whose target is in the \<open>ai\<close> group gives every user a rule for the \<open>ai\<close> selector, also a user whose
  group denies all targets of that group: the selector is then not emitted and the rule names an outbound
  that the configuration does not have.\<close>

theorem ai_rule_dangles:
  assumes "buildClientPolicies E input = Inr (pol, targets)" "JMap f \<in> set pol"
    and "map_of f ''outbound'' = Some (JStr ''ai'')" "BuildClientConfig E input = Inr obs"
    and "\<And>n. n \<in> set (ciInboundNodes input) \<union> snd ` set (ciOutboundsByName input) \<Longrightarrow>
      ''ai'' \<in> set (ClientGroups (nodeSpec n)) \<Longrightarrow> \<not> clientAllowed input (Name n)"
    and "\<And>e. e \<in> snd ` set (ciExternalOutboundsByName input) \<Longrightarrow>
      ''ai'' \<in> set (eobClientGroups (eobSpec e)) \<Longrightarrow> \<not> clientAllowed input (Name e)"
    and "\<And>i. i \<in> set (ciInboundNodes input) \<Longrightarrow> Name i \<noteq> ''ai''"
  shows "\<not> refers ''outbound'' obs (JMap f)"
proof -
  obtain ts where obs: "obs = fst (clientPaths (hidePolicyTargets input ts)) @
      map (selectorOutbound (snd (clientPaths (hidePolicyTargets input ts))))
        (groupTagsOf (snd (clientPaths (hidePolicyTargets input ts)))) @ [directOutbound ''direct'']"
    using assms(4) by (rule BuildClientConfig_parts)
  define hidden where "hidden = hidePolicyTargets input ts"
  have "''ai'' \<notin> set (refClientGroups r)"
    if r: "i \<in> set (ciInboundNodes hidden)" "r \<in> set (resolveOutboundNodes hidden (Name i))" for i r
  proof -
    obtain j where j: "j \<in> set (ciInboundNodes input)" "r \<in> set (candidateRefs hidden j)"
      using resolved_candidate [OF r(2)] by (auto simp: hidden_def)
    have "clientAllowed input (refName r)" using candidate_allowed [OF j(2)] by (simp add: hidden_def)
    then show ?thesis
      using candidateRefs_source [OF j(2)] assms(5) [OF UnI1, of j] assms(5) [OF UnI2] assms(6) j(1)
      by (elim disjE bexE conjE)
         (simp_all add: hidden_def nodeRefOf_def selfRefOf_def externalRefOf_def, blast+)
  qed
  then have "''ai'' \<notin> set (groupTagsOf (snd (clientPaths hidden)))"
    using no_group [of hidden "''ai''"] by (simp add: groupTagsOf_def)
  moreover have "''ai'' \<notin> Name ` set (ciInboundNodes hidden)"
    unfolding hidden_def hidePolicyTargets_fields image_iff using assms(7) by metis
  then have "\<not> (JMap g \<in> set (fst (clientPaths hidden)) \<and> map_of g ''tag'' = Some (JStr ''ai''))" for g
    using path_tags [of g hidden "''ai''"] by auto
  ultimately have "\<not> has_outbound obs ''ai''"
    by (auto simp: has_outbound_def obs hidden_def [symmetric] list_ex_iff selectorOutbound_def directOutbound_def
        split: json.splits)
  then show ?thesis using assms(3) by (simp add: refers_def)
qed

section \<open>Witnesses\<close>


text \<open>An exit in the \<open>ai\<close> group that the user's group denies, and a policy to it.\<close>

definition aiClient :: ClientConfigInput where
  "aiClient = demoClient\<lparr>ciOutboundsByName :=
       [(''exit'', exitNode\<lparr>nodeSpec := (nodeSpec exitNode)\<lparr>ClientGroups := [''ai'']\<rparr>\<rparr>)],
     ciDeniedNodeNames := [(''exit'', True)],
     ciEgressPolicies := [Some (mkPolicy ''p'' [''exit''] EgressPolicyActionRoute 1)]\<rparr>"

abbreviation aiRule :: "(string, json) gomap" where
  "aiRule \<equiv> [(''domain_suffix'', JArr [JStr ''example.com'']), (''outbound'', JStr ''ai'')]"

lemma ai_policies: "buildClientPolicies demoExt aiClient = Inr ([JMap aiRule], [(''exit'', True)])"
  by (simp add: buildClientPolicies_def aiClient_def policyError_def selectorValid_def matchValid_def matchEmpty_def
      resolveClientPolicyEgress_def selectorMatches_def targetHasClientGroup_def policyMatchRule_def strArr_def
      client_fixture_defs Let_def)

lemma ai_refs: "resolveOutboundNodes (hidePolicyTargets aiClient ts) ''entry'' = []"
  by (simp add: resolveOutboundNodes_def candidateRefs_def relayTarget_def selfTarget_def
      clientAllowed_def IsNodeAllowed_def hasRole_def aiClient_def client_fixture_defs)

lemma ai_client: "BuildClientConfig demoExt aiClient = Inr [directOutbound ''direct'']"
proof -
  have "clientPaths (hidePolicyTargets aiClient ts) = addInbound (hidePolicyTargets aiClient ts) readyEntry ([], [])" for ts
    by (simp add: clientPaths_def aiClient_def demoClient_def)
  moreover have "Name readyEntry = ''entry''" by (simp add: client_fixture_defs)
  ultimately have "clientPaths (hidePolicyTargets aiClient ts) = ([], [])" for ts
    by (simp add: addInbound_entry ai_refs split: option.split)
  then show ?thesis by (simp add: BuildClientConfig_def ai_policies groupTagsOf_def)
qed

theorem ai_rule_dangles_witness: "\<not> refers ''outbound'' [directOutbound ''direct''] (JMap aiRule)"
  by (rule ai_rule_dangles [OF ai_policies _ _ ai_client])
     (auto simp: aiClient_def client_fixture_defs clientAllowed_def IsNodeAllowed_def)

text \<open>A cluster with one user.\<close>

definition oneUser :: cluster where
  "oneUser = emptyCluster\<lparr>clUsers := [mkUser ''alice'' []],
     clSecrets := [ObjectMeta.extend (newMeta ''ns'' ''alice'')
       (Secret.fields [(''uuid'', ''6ba7b810-9dad-11d1-80b4-00c04fd430c8'')])]\<rparr>"

abbreviation alicePath :: string where
  "alicePath \<equiv> ''/api/v1/client-config/ns/6BA7b810-9dad-11d1-80b4-00c04fd430c8''"

abbreviation aliceInput :: ClientConfigInput where
  "aliceInput \<equiv> handlerInput demoExt (mkUser ''alice'' []) \<lparr>UUID = ''6ba7b810-9dad-11d1-80b4-00c04fd430c8''\<rparr> [] [] [] None"

lemma alice_parts: "requestParts alicePath = Some (''ns'', ''6BA7b810-9dad-11d1-80b4-00c04fd430c8'')"
  by (simp add: requestParts_def trimPrefix_def hasPrefix_def numeral_2_eq_2)

lemma alice_shape: "uuid_shape ''6BA7b810-9dad-11d1-80b4-00c04fd430c8''"
  by (simp add: uuid_shape_def hex_group_def is_hex_def is_lower_hex_def is_digit_def)

lemma alice_config: "BuildClientConfig E aliceInput = Inr [directOutbound ''direct'']"
  by (simp add: BuildClientConfig_def buildClientPolicies_def handlerInput_def clientPaths_def hidePolicyTargets_def
      groupTagsOf_def)

lemma alice_body: "\<exists>body. MergeClientConfig demoExt DefaultTemplate [directOutbound ''direct''] aliceInput = Inr body"
proof -
  have b: "buildClientPolicies demoExt aliceInput = Inr ([], [])"
    by (simp add: buildClientPolicies_def handlerInput_def)
  obtain m where "mergeDecoded demoExt defaultConfig [] [directOutbound ''direct''] aliceInput = Inr m"
    using default_merge [OF b, of "[directOutbound ''direct'']"] by auto
  then show ?thesis by (simp add: MergeClientConfig_def b DefaultTemplate_decodes)
qed

lemma char_of_unique: "of_char c = n \<Longrightarrow> char_of n = c" for n :: nat
  by auto

lemma alice_response:
  "\<exists>r. handleClientConfig demoExt demoKube \<lparr>BindAddress = [], TemplateRef = []\<rparr> alicePath oneUser = Some r
    \<and> respStatus r = 200"
proof -
  have users: "listUsers demoKube ''ns'' oneUser = Inr [mkUser ''alice'' []]"
    "GetUserCredential demoKube (mkUser ''alice'' []) oneUser = Inr \<lparr>UUID = ''6ba7b810-9dad-11d1-80b4-00c04fd430c8''\<rparr>"
    by (simp_all add: GetUserCredential_def oneUser_def cluster_defs mkUser_def newMeta_def ObjectMeta.defs Secret.defs Let_def)
  have lists: "listNodes demoKube ''ns'' oneUser = Inr []" "listExternalOutbounds demoKube ''ns'' oneUser = Inr []"
    "listPolicies demoKube ''ns'' oneUser = Inr []" "userGroupFor demoKube ''ns'' (mkUser ''alice'' []) oneUser = Inr None"
    by (simp_all add: oneUser_def cluster_defs userGroupFor_def mkUser_def)
  have "equalFold ''6ba7b810-9dad-11d1-80b4-00c04fd430c8'' ''6BA7b810-9dad-11d1-80b4-00c04fd430c8''"
  proof -
    have "char_of (97::nat) = CHR ''a''" "char_of (98::nat) = CHR ''b''"
      by (rule char_of_unique, simp)+
    then show ?thesis by (simp add: equalFold_def ascii_lower_def)
  qed
  then show ?thesis
    using alice_body
    by (auto simp: handleClientConfig_def alice_parts alice_shape users lists respondWith_def templateBytes_def
        alice_config)
qed

theorem config_for_holder_witness:
  "\<exists>r ns u before user after cred nodes externals policies ug.
    requestParts alicePath = Some (ns, u) \<and> uuid_shape u
    \<and> listUsers demoKube ns oneUser = Inr (before @ user # after)
    \<and> GetUserCredential demoKube user oneUser = Inr cred \<and> equalFold (UUID cred) u
    \<and> (\<forall>v\<in>set before. \<forall>c. GetUserCredential demoKube v oneUser = Inr c \<longrightarrow> \<not> equalFold (UUID c) u)
    \<and> listNodes demoKube ns oneUser = Inr nodes \<and> listExternalOutbounds demoKube ns oneUser = Inr externals
    \<and> listPolicies demoKube ns oneUser = Inr policies \<and> userGroupFor demoKube ns user oneUser = Inr ug
    \<and> respondWith demoExt (templateBytes demoKube \<lparr>BindAddress = [], TemplateRef = []\<rparr> oneUser)
        (handlerInput demoExt user cred nodes externals policies ug) = Some r"
proof -
  obtain r where r: "handleClientConfig demoExt demoKube \<lparr>BindAddress = [], TemplateRef = []\<rparr> alicePath oneUser = Some r"
    "respStatus r = 200" using alice_response by (elim exE conjE)
  show ?thesis by (rule exI [of _ r]) (rule config_for_holder [OF r])
qed

end
