(* ===== verification/Client_Served.thy ===== *)
theory Client_Served
  imports Client_Handler Client_Correct
begin

text \<open>
  What the client configuration handler advertises and what the node controller configures, at one state
  of the cluster: the lemmas behind the agreement of the two.
\<close>

section \<open>What is collected\<close>

lemma addPeer_nodes:
  "inOutboundNodes (addPeer K node s n i) = inOutboundNodes i @
     (if Name n \<noteq> Name node \<and> Region (nodeSpec n) = Region (nodeSpec node) \<and> hasRole n ProxyRoleOutbound
         \<and> bindingAllows node n then [n] else [])"
  by (simp add: addPeer_def bindingAllows_def collect_simps)

lemma fold_addPeer_nodes:
  "inOutboundNodes (fold (addPeer K node s) ns i) = inOutboundNodes i @
     filter (\<lambda>n. Name n \<noteq> Name node \<and> Region (nodeSpec n) = Region (nodeSpec node) \<and> hasRole n ProxyRoleOutbound
         \<and> bindingAllows node n) ns"
  by (induction ns arbitrary: i) (simp_all add: addPeer_nodes)

lemma addExternalCandidate_nodes [collect_simps]:
  "inOutboundNodes (addExternalCandidate K node names s e i) = inOutboundNodes i"
  by (simp add: addExternalCandidate_def collect_simps)

lemma addPolicy_nodes [collect_simps]:
  "inOutboundNodes (addPolicy E K node nodes es s p i) = inOutboundNodes i"
  "inUserCreds (addPolicy E K node nodes es s p i) = inUserCreds i"
  by (auto simp: addPolicy_def collect_simps loadNodeCred_def loadExternalCredential_def Let_def
      split: prod.splits option.splits sum.splits)

lemma loadNodeCred_userCreds [collect_simps]: "inUserCreds (loadNodeCred K n ns s i) = inUserCreds i"
  by (simp add: loadNodeCred_def split: sum.split)

lemma loadGroup_userCreds [collect_simps]: "inUserCreds (loadGroup u g i) = inUserCreds i"
  by (simp add: loadGroup_def Let_def)

lemma collectUsers_creds:
  assumes "collectUsers K node s users i = Inr out" "distinct (map Name users)"
  shows "(\<forall>u\<in>set users. \<forall>c. GetUserCredential K u s = Inr c \<longrightarrow> map_of (inUserCreds out) (Name u) = Some c)
    \<and> (\<forall>k. k \<notin> Name ` set users \<longrightarrow> map_of (inUserCreds out) k = map_of (inUserCreds i) k)"
  using assms
proof (induction users arbitrary: i)
  case (Cons u users)
  obtain j where rest: "collectUsers K node s users j = Inr out"
    and j: "map_of (inUserCreds j) = map_of (inUserCreds (loadUser K u s i))"
    using Cons.prems(1) by (auto simp: collect_simps split: if_splits sum.splits)
  have "map_of (inUserCreds j) k = (if k = Name u then
      (case GetUserCredential K u s of Inr c \<Rightarrow> Some c | Inl _ \<Rightarrow> map_of (inUserCreds i) k) else map_of (inUserCreds i) k)" for k
    by (simp add: j loadUser_def Let_def map_of_go_put split: sum.split)
  with Cons.IH [OF rest] Cons.prems(2) show ?case by auto
qed simp

text \<open>The peers, the users and their credentials in a collected input.\<close>

lemma collected_contents:
  assumes "collectInput E K R node s = Inr input" "hasRole node ProxyRoleInbound"
    and "listNodes K (Namespace node) s = Inr nodes"
    and "listUsers K (Namespace node) s = Inr users" "distinct (map Name users)"
  shows "set (inOutboundNodes input) = {n \<in> set nodes. Name n \<noteq> Name node \<and> Region (nodeSpec n) = Region (nodeSpec node)
      \<and> hasRole n ProxyRoleOutbound \<and> bindingAllows node n}"
    and "set (inUsers input) = set users"
    and "\<And>u c. u \<in> set users \<Longrightarrow> GetUserCredential K u s = Inr c \<Longrightarrow> userUUID input u = UUID c"
proof -
  obtain listedExt policies peers withExt withUsers withPolicies where st:
    "peers = fold (addPeer K node s) (sortByName nodes) (emptyInput R node)"
    "withExt = fold (addExternalCandidate K node (name_set (Name node # map Name (sortByName nodes))) s)
       (sortByName listedExt) peers"
    "collectUsers K node s (sortByName users) withExt = Inr withUsers"
    "withPolicies = fold (addPolicy E K node (sortByName nodes) (sortByName listedExt) s) policies withUsers"
    "input = (if hasRole node ProxyRoleOutbound
              then loadNodeCred K (Name node) (Namespace node) s withPolicies else withPolicies)"
    using assms(1-4) by (elim collectInput_stages) auto
  have i: "inOutboundNodes input = inOutboundNodes withUsers" "inUsers input = inUsers withUsers"
    "inUserCreds input = inUserCreds withUsers"
    unfolding st(4,5) by (simp_all add: fold_field collect_simps)
  have e: "inUsers withExt = []" "inUserNodeRestrictions withExt = []" "inUserNodeAllowlist withExt = []"
    "inOutboundNodes withExt = inOutboundNodes peers"
    unfolding st(1,2) by (simp_all add: fold_field collect_simps emptyInput_def)
  have "inOutboundNodes withUsers = inOutboundNodes peers" using collectUsers_frame [OF st(3)] e by simp
  then show "set (inOutboundNodes input) = {n \<in> set nodes. Name n \<noteq> Name node
      \<and> Region (nodeSpec n) = Region (nodeSpec node) \<and> hasRole n ProxyRoleOutbound \<and> bindingAllows node n}"
    by (simp add: i st(1) fold_addPeer_nodes emptyInput_def)
  show "set (inUsers input) = set users"
    using collectUsers_sets [OF st(3)] assms(5) e by (simp add: i distinct_sortByName)
  show "userUUID input u = UUID c" if "u \<in> set users" "GetUserCredential K u s = Inr c" for u c
    using collectUsers_creds [OF st(3)] assms(5) that by (simp add: i distinct_sortByName userUUID_def go_get_Some)
qed

section \<open>What is advertised\<close>

lemma byName_values: "snd ` set (byName xs) \<subseteq> set xs"
proof -
  have "snd ` set (fold (\<lambda>x m. go_put (Name x) x m) xs m) \<subseteq> set xs \<union> snd ` set m" for m
  proof (induction xs arbitrary: m)
    case (Cons x xs)
    have "snd ` set (go_put (Name x) x m) \<subseteq> insert x (snd ` set m)"
      using set_go_put [of "Name x" x m] by force
    then show ?case
      using Cons [of "go_put (Name x) x m"] by (simp only: fold_Cons comp_apply list.set) blast
  qed simp
  from this [of "[]"] show ?thesis by (simp add: byName_def)
qed

lemma byName_has: "x \<in> set xs \<Longrightarrow> map_of (byName xs) (Name x) \<noteq> None"
proof -
  have "map_of (fold (\<lambda>x m. go_put (Name x) x m) xs m) k \<noteq> None"
    if "map_of m k \<noteq> None \<or> k \<in> Name ` set xs" for m k
    using that by (induction xs arbitrary: m) (auto simp: map_of_go_put)
  then show "x \<in> set xs \<Longrightarrow> map_of (byName xs) (Name x) \<noteq> None" by (simp add: byName_def)
qed

lemma handler_allowed:
  assumes "userGroupFor K (Namespace i) user s = Inr ug"
  shows "clientAllowed (handlerInput E user cred nodes externals policies ug) n \<longleftrightarrow> group_allows (groupOf K i s user) n"
proof -
  have g: "groupOf K i s user = ug"
    using assms by (auto simp: userGroupFor_def groupOf_def split: if_splits sum.splits)
  have "allowedOf ug = (case ug of None \<Rightarrow> [] | Some g \<Rightarrow> name_set (AllowedNodes (groupSpec g)))"
    "deniedOf ug = (case ug of None \<Rightarrow> [] | Some g \<Rightarrow> name_set (DeniedNodes (groupSpec g)))"
    by (simp_all add: allowedOf_def deniedOf_def)
  then show ?thesis by (simp add: clientAllowed_def handlerInput_def g flip: IsNodeAllowed_group)
qed

text \<open>A node that is advertised as a target of an entry node is a peer of it or the node itself.\<close>

lemma advertised_target:
  assumes "distinct (map Name nodes)" "i \<in> set nodes" "n \<in> set nodes" "hasRole n ProxyRoleOutbound"
    and "r \<in> set (resolveOutboundNodes (hidePolicyTargets (handlerInput E user cred nodes externals policies ug) ts) (Name i))"
    and "refName r = Name n"
  shows "clientAllowed (handlerInput E user cred nodes externals policies ug) (Name n)
    \<and> admits (AllowedOutbounds (nodeSpec i)) (Name n)
    \<and> (n = i \<or> RelayPort (nodeSpec n) \<noteq> 0 \<and> Region (nodeSpec n) = Region (nodeSpec i) \<and> bindingAllows i n)"
proof -
  let ?in = "handlerInput E user cred nodes externals policies ug"
  have same: "a = b" if "a \<in> set nodes" "b \<in> set nodes" "Name a = Name b" for a b
    using distinct_names_eq [OF assms(1) that] .
  obtain j where j: "j \<in> set (ciInboundNodes ?in)" "Name j = Name i" "r \<in> set (candidateRefs (hidePolicyTargets ?in ts) j)"
    using resolved_candidate [OF assms(5)] by auto
  then have "j = i" using assms(2) by (intro same) (auto simp: handlerInput_def)
  with j have r: "r \<in> set (candidateRefs (hidePolicyTargets ?in ts) i)" by simp
  have a: "clientAllowed ?in (Name n)" "admits (AllowedOutbounds (nodeSpec i)) (Name n)"
    using candidate_allowed [OF r] assms(6) by simp_all
  have out: "snd ` set (ciOutboundsByName ?in) \<subseteq> set nodes" "map_of (ciOutboundsByName ?in) (Name n) \<noteq> None"
    using byName_values [of "filter (\<lambda>n. hasRole n ProxyRoleOutbound) nodes"]
      byName_has [of n "filter (\<lambda>n. hasRole n ProxyRoleOutbound) nodes"] assms(3,4)
    by (auto simp: handlerInput_def)
  from candidateRefs_source [OF r] show ?thesis
  proof (elim disjE bexE conjE)
    fix m assume m: "m \<in> snd ` set (ciOutboundsByName (hidePolicyTargets ?in ts))" "relayTarget (hidePolicyTargets ?in ts) i m"
      "r = nodeRefOf m"
    then have "m = n" using out(1) assms(3,6) by (intro same) (auto simp: nodeRefOf_def)
    then show ?thesis using m(2) a by (simp add: relayTarget_def bindingAllows_def)
  next
    assume "r = selfRefOf i"
    then have "n = i" using assms(2,3,6) by (intro same) (auto simp: selfRefOf_def)
    then show ?thesis using a by simp
  next
    fix e assume "externalTarget (hidePolicyTargets ?in ts) i e" "r = externalRefOf e"
    then show ?thesis using out(2) assms(6) by (simp add: externalTarget_def externalRefOf_def)
  qed
qed

section \<open>What is configured\<close>

lemma inboundSide_served:
  assumes "n \<in> set (routeOutboundNames E input (routesForNode input) self)"
    and "self \<longleftrightarrow> hasRole (inNode input) ProxyRoleInbound \<and> hasRole (inNode input) ProxyRoleOutbound"
    and "u \<in> set (inUsers input)" "userAllowed input u n" "findProtocolPort (inNode input) proto \<noteq> 0"
    and "proto = EffectiveInboundProtocol (inNode input)" "inOutboundNodes input \<noteq> [] \<or> self"
  shows "\<exists>us. buildInboundEntry proto (''inbound-'' @ proto) (findProtocolPort (inNode input) proto) us \<in> set (fst (inboundSide E input))
      \<and> userEntry proto (userUUID input u) n (virtualUserName (Name u) n) \<in> set us"
    and "noRule\<lparr>rrAuthUser := authUsers input n, rrOutbound := outboundTag n\<rparr> \<in> set (snd (inboundSide E input))"
    and "virtualUserName (Name u) n \<in> set (authUsers input n)"
proof -
  define us where "us = virtualUsers input proto (routeOutboundNames E input (routesForNode input) self)"
  have u: "userEntry proto (userUUID input u) n (virtualUserName (Name u) n) \<in> set us"
    using assms(1,3,4) by (auto simp: us_def virtualUsers_def allowedUsers_def)
  then have "us \<noteq> []" by auto
  then have b: "buildRouteInbounds E input (routesForNode input) self =
      ([buildInboundEntry proto (''inbound-'' @ proto) (findProtocolPort (inNode input) proto) us],
       authRules input (routeOutboundNames E input (routesForNode input) self))"
    using assms(5,6) by (simp add: buildRouteInbounds_def Let_def us_def)
  have i: "inboundSide E input = buildRouteInbounds E input (routesForNode input) self"
    using assms(2,7) b by (auto simp: inboundSide_def Let_def split: prod.splits)
  show a: "virtualUserName (Name u) n \<in> set (authUsers input n)"
    using assms(3,4) by (auto simp: authUsers_def allowedUsers_def)
  then show "noRule\<lparr>rrAuthUser := authUsers input n, rrOutbound := outboundTag n\<rparr> \<in> set (snd (inboundSide E input))"
    using assms(1) by (auto simp: i b authRules_def)
  show "\<exists>us. buildInboundEntry proto (''inbound-'' @ proto) (findProtocolPort (inNode input) proto) us \<in> set (fst (inboundSide E input))
      \<and> userEntry proto (userUUID input u) n (virtualUserName (Name u) n) \<in> set us"
    using u by (auto simp: i b)
qed

end
