(* ===== verification/Go_Time.thy ===== *)
theory Go_Time
  imports Go_Strings
begin

text \<open>
  The parts of Go's \<open>time\<close> package that the usage collector uses: the text of a duration (\<open>%v\<close>) and the
  JSON form of a time, RFC 3339 with nanoseconds. A duration is its number of nanoseconds; a time is its
  \<open>UnixNano\<close>, within \<open>int64\<close>, and the offset of its zone in seconds.
\<close>

type_synonym Duration = int

abbreviation Second :: Duration where
  "Second \<equiv> 1000000000"

section \<open>Durations\<close>

text \<open>The fraction of \<open>v\<close> over \<open>10 ^ n\<close> without trailing zeros, with its point; the empty text for none.\<close>

definition padded :: "nat \<Rightarrow> nat \<Rightarrow> string" where
  "padded width n = replicate (width - length (nat_dec n)) (CHR ''0'') @ nat_dec n"

definition fraction :: "nat \<Rightarrow> nat \<Rightarrow> string" where
  "fraction digits n =
     (if n = 0 then []
      else ''.'' @ rev (dropWhile (\<lambda>c. c = CHR ''0'') (rev (padded digits n))))"

definition unsigned_duration :: "nat \<Rightarrow> string" where
  "unsigned_duration u =
     (if u = 0 then ''0s''
      else if u < 1000 then nat_dec u @ ''ns''
      else if u < 1000000 then nat_dec (u div 1000) @ fraction 3 (u mod 1000) @ [CHR 0xC2, CHR 0xB5, CHR ''s'']
      else if u < 1000000000 then nat_dec (u div 1000000) @ fraction 6 (u mod 1000000) @ ''ms''
      else
        (let t = u div 1000000000;
             secs = nat_dec (t mod 60) @ fraction 9 (u mod 1000000000) @ ''s'';
             m = t div 60
         in if m = 0 then secs
            else if m div 60 = 0 then nat_dec (m mod 60) @ ''m'' @ secs
            else nat_dec (m div 60) @ ''h'' @ nat_dec (m mod 60) @ ''m'' @ secs))"

definition duration_text :: "Duration \<Rightarrow> string" where
  "duration_text d = (if d < 0 then ''-'' @ unsigned_duration (nat (- d)) else unsigned_duration (nat d))"

section \<open>Times\<close>

record Time =
  UnixNano :: int
  zoneOffset :: int

text \<open>Year, month and day of a day number, counted from 1970-01-01, in the Gregorian calendar.\<close>

definition civil :: "int \<Rightarrow> int \<times> int \<times> int" where
  "civil days =
     (let z = days + 719468;
          era = z div 146097;
          doe = z mod 146097;
          yoe = (doe - doe div 1460 + doe div 36524 - doe div 146096) div 365;
          doy = doe - (365 * yoe + yoe div 4 - yoe div 100);
          mp = (5 * doy + 2) div 153;
          m = (if mp < 10 then mp + 3 else mp - 9)
      in (yoe + era * 400 + (if m \<le> 2 then 1 else 0), m, doy - (153 * mp + 2) div 5 + 1))"

definition zone_text :: "int \<Rightarrow> string" where
  "zone_text off =
     (if off = 0 then ''Z''
      else
        (let m = nat \<bar>off\<bar> div 60
         in (if off < 0 \<and> m \<noteq> 0 then ''-'' else ''+'') @ padded 2 (m div 60) @ '':'' @ padded 2 (m mod 60)))"

text \<open>\<open>Time.MarshalJSON\<close> without the quotes; None when the hour of the zone is beyond 23.\<close>

definition time_text :: "Time \<Rightarrow> string option" where
  "time_text t =
     (let local = UnixNano t + zoneOffset t * Second;
          secs = local div Second;
          (y, m, d) = civil (secs div 86400);
          s = nat (secs mod 86400)
      in if nat \<bar>zoneOffset t\<bar> div 3600 \<ge> 24 then None
         else Some (padded 4 (nat y) @ ''-'' @ padded 2 (nat m) @ ''-'' @ padded 2 (nat d) @ ''T'' @
           padded 2 (s div 3600) @ '':'' @ padded 2 (s div 60 mod 60) @ '':'' @ padded 2 (s mod 60) @
           fraction 9 (nat (local mod Second)) @ zone_text (zoneOffset t)))"

end
