(* ===== verification/Usage_Collector.thy ===== *)
theory Usage_Collector
  imports Go_Time Go_Crypto "HOL-Library.Word"
begin

text \<open>
  The usage collector, \<open>src/internal/usagecollector/\<close>: usage records (\<open>model.go\<close>), configuration (\<open>config.go\<close>),
  counter names and the statistics client (\<open>v2rayclient.go\<close>, \<open>discovery.go\<close>), and the poll cycle
  (\<open>collector.go\<close>, \<open>runnable.go\<close>).

  Byte counts are \<open>int64\<close> and wrap. The three interfaces a collector is built from, the discoverer, the
  statistics client and the sink, act on an abstract world.
\<close>

section \<open>Records\<close>

type_synonym int64 = "64 word"

record UsageRecord =
  Timestamp :: Time
  recUser :: string
  recInbound :: string
  recNode :: string
  UplinkBytes :: int64
  DownlinkBytes :: int64
  CollectedAt :: Time

type_synonym UsageBatch = "UsageRecord list"

definition ValidateRecord :: "UsageRecord \<Rightarrow> string option" where
  "ValidateRecord r =
     (if recUser r = [] then Some ''usage record: user field is required''
      else if recNode r = [] then Some ''usage record: node field is required''
      else None)"

abbreviation nul :: char where
  "nul \<equiv> CHR 0x00"

definition keyText :: "UsageRecord \<Rightarrow> string" where
  "keyText r = recUser r @ [nul] @ recInbound r @ [nul] @ recNode r @ [nul] @ int_dec (UnixNano (CollectedAt r))"

definition DocumentKey :: "UsageRecord \<Rightarrow> string" where
  "DocumentKey r = hex_bytes (sha256 (keyText r))"

section \<open>Configuration\<close>

record CollectorConfig =
  cfgEnabled :: bool
  PollInterval :: Duration
  NodeTimeout :: Duration
  ESEndpoint :: string
  ESAPIKey :: string
  ESDataStream :: string
  MaxBufferSize :: int
  ShutdownTimeout :: Duration

definition DefaultCollectorConfig :: CollectorConfig where
  "DefaultCollectorConfig =
     \<lparr>cfgEnabled = False, PollInterval = 30 * Second, NodeTimeout = 10 * Second, ESEndpoint = [], ESAPIKey = [],
      ESDataStream = [], MaxBufferSize = 10000, ShutdownTimeout = 30 * Second\<rparr>"

definition ValidateConfig :: "CollectorConfig \<Rightarrow> string option" where
  "ValidateConfig c =
     (if \<not> cfgEnabled c then None
      else if PollInterval c \<le> 0 then Some (''PollInterval must be positive, got '' @ duration_text (PollInterval c))
      else if NodeTimeout c \<le> 0 then Some (''NodeTimeout must be positive, got '' @ duration_text (NodeTimeout c))
      else if MaxBufferSize c \<le> 0 then Some (''MaxBufferSize must be positive, got '' @ int_dec (MaxBufferSize c))
      else if ShutdownTimeout c \<le> 0
        then Some (''ShutdownTimeout must be positive, got '' @ duration_text (ShutdownTimeout c))
      else if ESEndpoint c = [] then Some ''ESEndpoint is required when collector is enabled''
      else if ESDataStream c = [] then Some ''ESDataStream is required when collector is enabled''
      else None)"

section \<open>Counter names\<close>

record RawStatEntry =
  statName :: string
  statValue :: int64

text \<open>User, node and direction; None where the code gives \<open>ok = false\<close>.\<close>

definition ParseUserCounterName :: "string \<Rightarrow> (string \<times> string \<times> string) option" where
  "ParseUserCounterName name =
     (if \<not> hasPrefix name ''user>>>'' then None
      else
        (case strSplit (drop (length ''user>>>'') name) ''>>>'' of
           [virtualUser, traffic, direction] \<Rightarrow>
             if virtualUser = [] then None
             else if traffic \<noteq> ''traffic'' then None
             else if direction \<noteq> ''uplink'' \<and> direction \<noteq> ''downlink'' then None
             else
               (case strCut ''#'' virtualUser of
                  None \<Rightarrow> Some (virtualUser, [], direction)
                | Some (before, after) \<Rightarrow> Some (before, after, direction))
         | _ \<Rightarrow> None))"

definition normalizeCounterName :: "string \<Rightarrow> (string \<times> string \<times> string) option" where
  "normalizeCounterName counter =
     (case strSplit counter ''>>>'' of
        [p0, virtualUser, p2, direction] \<Rightarrow>
          if p0 \<noteq> ''user'' then None
          else if p2 \<noteq> ''traffic'' then None
          else
            (case strLastIndex virtualUser (CHR ''#'') of
               None \<Rightarrow> None
             | Some hashIdx \<Rightarrow>
                 if hashIdx = 0 \<or> hashIdx = length virtualUser - 1 then None
                 else if direction \<noteq> ''uplink'' \<and> direction \<noteq> ''downlink'' then None
                 else Some (take hashIdx virtualUser, drop (hashIdx + 1) virtualUser, direction))
      | _ \<Rightarrow> None)"

definition NormalizeCounterToRecord :: "string \<Rightarrow> int64 \<Rightarrow> Time \<Rightarrow> UsageRecord option" where
  "NormalizeCounterToRecord counterName delta collectedAt =
     (case normalizeCounterName counterName of
        None \<Rightarrow> None
      | Some (user, node, direction) \<Rightarrow>
          Some \<lparr>Timestamp = collectedAt, recUser = user, recInbound = [], recNode = node,
                UplinkBytes = (if direction = ''uplink'' then delta else 0),
                DownlinkBytes = (if direction = ''uplink'' then 0 else delta), CollectedAt = collectedAt\<rparr>)"

section \<open>The statistics client\<close>

record QueryStatsRequest =
  Pattern :: string
  Patterns :: "string list"
  Reset :: bool
  Regexp :: bool

text \<open>A connection answers a request with an error or the names and values of counters.\<close>

type_synonym 'w statsService = "QueryStatsRequest \<Rightarrow> 'w \<Rightarrow> (string + (string \<times> int64) list) \<times> 'w"

record 'w GRPCStatsClient =
  dialContext :: "string \<Rightarrow> 'w \<Rightarrow> (string + 'w statsService) \<times> 'w"
  PooledClient :: "'w statsService option"

definition statsRequest :: QueryStatsRequest where
  "statsRequest = \<lparr>Pattern = [], Patterns = [''user>>>''], Reset = True, Regexp = False\<rparr>"

definition queryWith :: "'w statsService \<Rightarrow> 'w \<Rightarrow> (string + RawStatEntry list) \<times> 'w" where
  "queryWith service w =
     (case service statsRequest w of
        (Inl err, w) \<Rightarrow> (Inl err, w)
      | (Inr stats, w) \<Rightarrow> (Inr (map (\<lambda>(name, value). \<lparr>statName = name, statValue = value\<rparr>) stats), w))"

definition QueryUserStats :: "'w GRPCStatsClient \<Rightarrow> string \<Rightarrow> 'w \<Rightarrow> (string + RawStatEntry list) \<times> 'w" where
  "QueryUserStats c addr w =
     (case PooledClient c of
        Some service \<Rightarrow> queryWith service w
      | None \<Rightarrow>
          (case dialContext c addr w of
             (Inl err, w) \<Rightarrow> (Inl err, w)
           | (Inr service, w) \<Rightarrow> queryWith service w))"

section \<open>The poll cycle\<close>

record CollectTarget =
  targetNode :: string
  V2RayAPIAddr :: string
  VirtualUsers :: "string list"

text \<open>
  The collector's fields. \<open>clock\<close> is \<open>time.Now\<close>. \<open>ranged\<close> is the order in which the runtime iterates over the
  record map: any permutation.
\<close>

record ('w, 'e) Collector =
  discoverer :: "'w \<Rightarrow> (string + CollectTarget list) \<times> 'w"
  statsClient :: "string \<Rightarrow> 'w \<Rightarrow> (string + RawStatEntry list) \<times> 'w"
  sink :: "UsageBatch \<Rightarrow> 'w \<Rightarrow> 'e option \<times> 'w"
  clock :: "'w \<Rightarrow> Time"
  ranged :: "(string, UsageRecord) gomap \<Rightarrow> (string, UsageRecord) gomap"

text \<open>\<open>NewCollector\<close> panics on a nil interface.\<close>

definition NewCollector ::
    "('w \<Rightarrow> (string + CollectTarget list) \<times> 'w) option \<Rightarrow> (string \<Rightarrow> 'w \<Rightarrow> (string + RawStatEntry list) \<times> 'w) option \<Rightarrow>
     (UsageBatch \<Rightarrow> 'w \<Rightarrow> 'e option \<times> 'w) option \<Rightarrow> ('w \<Rightarrow> Time) \<Rightarrow>
     ((string, UsageRecord) gomap \<Rightarrow> (string, UsageRecord) gomap) \<Rightarrow> string + ('w, 'e) Collector" where
  "NewCollector disc stats snk now order =
     (case disc of
        None \<Rightarrow> Inl ''usagecollector: discoverer must not be nil''
      | Some d \<Rightarrow>
     (case stats of
        None \<Rightarrow> Inl ''usagecollector: statsClient must not be nil''
      | Some q \<Rightarrow>
     (case snk of
        None \<Rightarrow> Inl ''usagecollector: sink must not be nil''
      | Some k \<Rightarrow> Inr \<lparr>discoverer = d, statsClient = q, sink = k, clock = now, ranged = order\<rparr>)))"

type_synonym recordIndex = "(string, UsageRecord) gomap"

definition recordKey :: "string \<Rightarrow> string \<Rightarrow> string \<Rightarrow> string" where
  "recordKey inbound user node = inbound @ [nul] @ user @ [nul] @ node"

definition newRecord :: "Time \<Rightarrow> string \<Rightarrow> string \<Rightarrow> string \<Rightarrow> UsageRecord" where
  "newRecord collectedAt inbound user node =
     \<lparr>Timestamp = collectedAt, recUser = user, recInbound = inbound, recNode = node, UplinkBytes = 0,
      DownlinkBytes = 0, CollectedAt = collectedAt\<rparr>"

definition addBytes :: "string \<Rightarrow> int64 \<Rightarrow> UsageRecord \<Rightarrow> UsageRecord" where
  "addBytes direction v r =
     (if direction = ''uplink'' then r\<lparr>UplinkBytes := UplinkBytes r + v\<rparr>
      else r\<lparr>DownlinkBytes := DownlinkBytes r + v\<rparr>)"

definition addEntry :: "Time \<Rightarrow> string \<Rightarrow> RawStatEntry \<Rightarrow> recordIndex \<Rightarrow> recordIndex" where
  "addEntry collectedAt inbound entry index =
     (case ParseUserCounterName (statName entry) of
        None \<Rightarrow> index
      | Some (user, node, direction) \<Rightarrow>
          if statValue entry = 0 then index
          else
            (let key = recordKey inbound user node;
                 r = (case map_of index key of Some r \<Rightarrow> r | None \<Rightarrow> newRecord collectedAt inbound user node)
             in go_put key (addBytes direction (statValue entry) r) index))"

definition pollTarget :: "('w, 'e) Collector \<Rightarrow> Time \<Rightarrow> CollectTarget \<Rightarrow> recordIndex \<times> 'w \<Rightarrow> recordIndex \<times> 'w" where
  "pollTarget c collectedAt tgt acc =
     (case statsClient c (V2RayAPIAddr tgt) (snd acc) of
        (Inl err, w) \<Rightarrow> (fst acc, w)
      | (Inr entries, w) \<Rightarrow> (fold (addEntry collectedAt (targetNode tgt)) entries (fst acc), w))"

text \<open>How a cycle ends.\<close>

datatype 'e cycle =
    Skipped
  | DiscoveryFailed string
  | NoTargets
  | NoRecords
  | WriteFailed 'e
  | Wrote UsageBatch

definition cycleBody :: "('w, 'e) Collector \<Rightarrow> 'w \<Rightarrow> 'e cycle \<times> 'w" where
  "cycleBody c w =
     (case discoverer c w of
        (Inl err, w) \<Rightarrow> (DiscoveryFailed err, w)
      | (Inr targets, w) \<Rightarrow>
          if length targets = 0 then (NoTargets, w)
          else
            (let (index, w) = fold (pollTarget c (clock c w)) targets ([], w);
                 batch = map snd (ranged c index)
             in if length batch = 0 then (NoRecords, w)
                else
                  (case sink c batch w of
                     (Some err, w) \<Rightarrow> (WriteFailed err, w)
                   | (None, w) \<Rightarrow> (Wrote batch, w))))"

text \<open>\<open>inPoll\<close> is the flag as the call finds it; it is false again when the call returns.\<close>

definition pollCycle :: "('w, 'e) Collector \<Rightarrow> bool \<Rightarrow> 'w \<Rightarrow> 'e cycle \<times> 'w" where
  "pollCycle c inPoll w = (if inPoll then (Skipped, w) else cycleBody c w)"

text \<open>The loop of \<open>Run\<close> over what its \<open>select\<close> receives; it returns nil when the context is done.\<close>

datatype event = Tick | CtxDone

fun Run :: "('w, 'e) Collector \<Rightarrow> event list \<Rightarrow> 'w \<Rightarrow> 'e cycle list \<times> 'w" where
  "Run c [] w = ([], w)"
| "Run c (CtxDone # evs) w = ([], w)"
| "Run c (Tick # evs) w =
     (let (r, w) = pollCycle c False w; (rs, w) = Run c evs w in (r # rs, w))"

text \<open>\<open>CollectorRunnable.Start\<close> delegates to \<open>Run\<close> and only runs on the leader.\<close>

definition Start :: "('w, 'e) Collector \<Rightarrow> event list \<Rightarrow> 'w \<Rightarrow> 'e cycle list \<times> 'w" where
  "Start c evs w = Run c evs w"

definition NeedLeaderElection :: bool where
  "NeedLeaderElection = True"

end
