(* ===== verification/Usage_Discovery.thy ===== *)
theory Usage_Discovery
  imports Usage_Collector Node_Controller
begin

text \<open>
  Discovery of the nodes to poll, \<open>src/internal/usagecollector/discovery.go\<close>: one target per inbound node, with
  the address of its statistics service and the names its counters may have.
\<close>

section \<open>Targets of a node\<close>

definition regionOf :: "SingBoxNode \<Rightarrow> string" where
  "regionOf n = (if Region (nodeSpec n) = [] then ''default'' else Region (nodeSpec n))"

text \<open>What one policy adds to \<open>routesByInbound\<close>: every matching egress of every matching ingress.\<close>

definition addRoute :: "string \<Rightarrow> string \<Rightarrow> (string, names) gomap \<Rightarrow> (string, names) gomap" where
  "addRoute inbound egress m = go_put inbound (go_put egress True (go_get [] m inbound)) m"

definition policyRoutes ::
    "ext \<Rightarrow> SingBoxNode list \<Rightarrow> SingBoxNode list \<Rightarrow> EgressPolicy \<Rightarrow> (string, names) gomap \<Rightarrow> (string, names) gomap" where
  "policyRoutes E nodes inbounds policy m =
     (if Action (policySpec policy) \<noteq> EgressPolicyActionRoute then m
      else
        fold (\<lambda>inbound m.
          if \<not> selectorMatches E (IngressSelector (policySpec policy)) inbound then m
          else
            fold (\<lambda>egress m.
              if hasRole egress ProxyRoleOutbound \<and> selectorMatches E (EgressSelector (policySpec policy)) egress
              then addRoute (Name inbound) (Name egress) m else m) nodes m) inbounds m)"

definition outboundByRegion :: "SingBoxNode list \<Rightarrow> (string, string list) gomap" where
  "outboundByRegion nodes =
     fold (\<lambda>n m. if hasRole n ProxyRoleOutbound
                   then go_put (regionOf n) (go_get [] m (regionOf n) @ [Name n]) m else m) nodes []"

definition outboundNames :: "(string, names) gomap \<Rightarrow> (string, string list) gomap \<Rightarrow> SingBoxNode \<Rightarrow> names" where
  "outboundNames routes byRegion n =
     fold (\<lambda>name m. go_put name True m) (go_get [] byRegion (regionOf n))
       (fold (\<lambda>name m. go_put name True m) (map fst (go_get [] routes (Name n))) [])"

definition virtualUserNames :: "User list \<Rightarrow> string list \<Rightarrow> string list" where
  "virtualUserNames users outbounds =
     sort_names (concat (map (\<lambda>u. map (\<lambda>n. virtualUserName (Name u) n) outbounds) users))"

section \<open>The address\<close>

record PodInfo = ObjectMeta +
  podPhase :: string
  PodIP :: string

text \<open>The API reader lists the pods of a namespace that have the labels.\<close>

type_synonym 's podReader = "string \<Rightarrow> (string, string) gomap \<Rightarrow> 's \<Rightarrow> apiError + PodInfo list"

definition resolveV2RayAPIAddr :: "'s podReader \<Rightarrow> SingBoxNode \<Rightarrow> 's \<Rightarrow> string" where
  "resolveV2RayAPIAddr reader node s =
     (let fallback = Address (nodeSpec node) @ '':10085'' in
      case reader (Namespace node) [(''app'', ''singbox''), (''singboxnode'', Name node)] s of
        Inl _ \<Rightarrow> fallback
      | Inr pods \<Rightarrow>
          (case find (\<lambda>pod. podPhase pod = ''Running'' \<and> PodIP pod \<noteq> []) pods of
             Some pod \<Rightarrow> PodIP pod @ '':10085''
           | None \<Rightarrow> fallback))"

section \<open>Discovery\<close>

definition Discover :: "ext \<Rightarrow> 's kube \<Rightarrow> 's podReader \<Rightarrow> string \<Rightarrow> 's \<Rightarrow> apiError + CollectTarget list" where
  "Discover E K reader ns s =
     (case listNodes K ns s of
        Inl e \<Rightarrow> Inl (wrapErr ''listing SingBoxNodes: '' e)
      | Inr listed \<Rightarrow>
        (let nodes = sortByName listed;
             inbounds = filter (\<lambda>n. hasRole n ProxyRoleInbound) nodes
         in if length inbounds = 0 then Inr []
            else
              (case listPolicies K ns s of
                 Inl e \<Rightarrow> Inl (wrapErr ''listing EgressPolicies: '' e)
               | Inr policies \<Rightarrow>
                   (let routes = fold (policyRoutes E nodes inbounds) policies [];
                        byRegion = outboundByRegion nodes
                    in case listUsers K ns s of
                         Inl e \<Rightarrow> Inl (wrapErr ''listing Users: '' e)
                       | Inr users \<Rightarrow>
                           Inr (map (\<lambda>n. \<lparr>targetNode = Name n, V2RayAPIAddr = resolveV2RayAPIAddr reader n s,
                                          VirtualUsers = virtualUserNames (sortByName users)
                                            (sort_names (map fst (outboundNames routes byRegion n)))\<rparr>)
                                  inbounds)))))"

end
