(* ===== verification/Usage_Sink.thy ===== *)
theory Usage_Sink
  imports Usage_Collector Go_Json_Decode
begin

text \<open>
  The sink of usage records, \<open>src/internal/usagecollector/sink.go\<close>, and its implementation on an Elasticsearch
  data stream, \<open>elasticsearch.go\<close>. The exchange with the server is an argument: it takes a request and the
  state of the server and gives what the HTTP client returns and the next state.
\<close>

section \<open>The interface\<close>

text \<open>A sequence of batches given to a sink, with the results.\<close>

fun write_all :: "(UsageBatch \<Rightarrow> 'w \<Rightarrow> 'e option \<times> 'w) \<Rightarrow> UsageBatch list \<Rightarrow> 'w \<Rightarrow> 'e option list \<times> 'w" where
  "write_all wr [] w = ([], w)"
| "write_all wr (b # bs) w = (let (r, w) = wr b w; (rs, w) = write_all wr bs w in (r # rs, w))"

text \<open>
  What a client of a sink may rely on, whatever the storage: a closed sink rejects every batch and stays
  closed, closing twice is the same as closing once, and an open sink accepts an empty batch without
  touching the storage.
\<close>

locale usage_sink =
  fixes wr :: "'k \<Rightarrow> UsageBatch \<Rightarrow> 'w \<Rightarrow> 'e option \<times> 'w"
    and close :: "'k \<Rightarrow> 'e option \<times> 'k"
    and is_closed :: "'k \<Rightarrow> bool"
  assumes close_closes: "is_closed (snd (close k))"
    and close_again: "is_closed k \<Longrightarrow> snd (close k) = k"
    and closed_rejects: "is_closed k \<Longrightarrow> \<exists>e. wr k b w = (Some e, w)"
    and empty_accepted: "\<not> is_closed k \<Longrightarrow> wr k [] w = (None, w)"
begin

lemma close_idempotent: "snd (close (snd (close k))) = snd (close k)"
  by (rule close_again) (rule close_closes)

text \<open>After a close nothing reaches the storage.\<close>

lemma closed_write_all:
  "is_closed k \<Longrightarrow> snd (write_all (wr k) bs w) = w \<and> None \<notin> set (fst (write_all (wr k) bs w))"
proof (induction bs)
  case (Cons b bs)
  obtain e where "wr k b w = (Some e, w)" using closed_rejects [OF Cons.prems] by blast
  then show ?case using Cons by (auto split: prod.splits)
qed simp

lemma after_close:
  "snd (write_all (wr (snd (close k))) bs w) = w \<and> None \<notin> set (fst (write_all (wr (snd (close k))) bs w))"
  using closed_write_all [OF close_closes] by blast

end

section \<open>The bulk format\<close>

record bulkItemCreate =
  itemID :: string
  itemStatus :: int
  itemError :: "(string \<times> string) option"

record bulkItem =
  itemCreate :: bulkItemCreate

text \<open>\<open>Items\<close> with the elements behind the end of the slice.\<close>

record bulkResponse =
  respErrors :: bool
  respItems :: "bulkItem list \<times> bulkItem list"

definition zeroItem :: bulkItem where
  "zeroItem = \<lparr>itemCreate = \<lparr>itemID = [], itemStatus = 0, itemError = None\<rparr>\<rparr>"

definition zeroResponse :: bulkResponse where
  "zeroResponse = \<lparr>respErrors = False, respItems = ([], [])\<rparr>"

definition errorField :: "string \<Rightarrow> json \<Rightarrow> string \<times> string \<Rightarrow> (string \<times> string) option" where
  "errorField k v old =
     (if k = ''TYPE'' then map_option (\<lambda>s. (s, snd old)) (decode_string (fst old) v)
      else if k = ''REASON'' then map_option (\<lambda>s. (fst old, s)) (decode_string (snd old) v)
      else Some old)"

text \<open>A pointer: \<open>null\<close> makes it nil, an object is decoded into what it points to or into a new value.\<close>

definition decodeError :: "(string \<times> string) option \<Rightarrow> json \<Rightarrow> (string \<times> string) option option" where
  "decodeError old v =
     (if v = JNull then Some None
      else map_option Some (decode_object errorField (case old of Some e \<Rightarrow> e | None \<Rightarrow> ([], [])) v))"

definition createField :: "string \<Rightarrow> json \<Rightarrow> bulkItemCreate \<Rightarrow> bulkItemCreate option" where
  "createField k v old =
     (if k = ''_ID'' then map_option (\<lambda>s. old\<lparr>itemID := s\<rparr>) (decode_string (itemID old) v)
      else if k = ''STATUS'' then map_option (\<lambda>i. old\<lparr>itemStatus := i\<rparr>) (decode_int (itemStatus old) v)
      else if k = ''ERROR'' then map_option (\<lambda>e. old\<lparr>itemError := e\<rparr>) (decodeError (itemError old) v)
      else Some old)"

definition itemField :: "string \<Rightarrow> json \<Rightarrow> bulkItem \<Rightarrow> bulkItem option" where
  "itemField k v old =
     (if k = ''CREATE'' then map_option (\<lambda>c. old\<lparr>itemCreate := c\<rparr>) (decode_object createField (itemCreate old) v)
      else Some old)"

definition responseField :: "string \<Rightarrow> json \<Rightarrow> bulkResponse \<Rightarrow> bulkResponse option" where
  "responseField k v old =
     (if k = ''ERRORS'' then map_option (\<lambda>b. old\<lparr>respErrors := b\<rparr>) (decode_bool (respErrors old) v)
      else if k = ''ITEMS''
        then map_option (\<lambda>xs. old\<lparr>respItems := xs\<rparr>) (decode_slice (decode_object itemField) zeroItem (respItems old) v)
      else Some old)"

text \<open>\<open>var bulkResp bulkResponse; err := json.Unmarshal(body, &bulkResp)\<close>\<close>

definition unmarshalBulk :: "string \<Rightarrow> bulkResponse option" where
  "unmarshalBulk body =
     (case json_value True body of None \<Rightarrow> None | Some v \<Rightarrow> decode_object responseField zeroResponse v)"

definition bulkAction :: "UsageRecord \<Rightarrow> json" where
  "bulkAction r = JStruct [(''create'', JStruct [(''_id'', JStr (DocumentKey r))])]"

definition usageJson :: "UsageRecord \<Rightarrow> json option" where
  "usageJson r =
     (case (time_text (Timestamp r), time_text (CollectedAt r)) of
        (Some ts, Some ca) \<Rightarrow>
          Some (JStruct [(''@timestamp'', JStr ts), (''user'', JStr (recUser r)),
            (''inbound_node'', JStr (recInbound r)), (''node'', JStr (recNode r)),
            (''uplink_bytes'', JInt (sint (UplinkBytes r))), (''downlink_bytes'', JInt (sint (DownlinkBytes r))),
            (''collected_at'', JStr ca)])
      | _ \<Rightarrow> None)"

text \<open>\<open>enc.Encode(v)\<close> without HTML escaping.\<close>

definition encodeLine :: "json \<Rightarrow> string" where
  "encodeLine v = json_encode False v @ [CHR 0x0A]"

text \<open>An action line and a document line per record; None when a record cannot be encoded.\<close>

fun bulkBody :: "UsageBatch \<Rightarrow> string option" where
  "bulkBody [] = Some []"
| "bulkBody (r # rs) =
     (case usageJson r of
        None \<Rightarrow> None
      | Some doc \<Rightarrow> map_option (\<lambda>rest. encodeLine (bulkAction r) @ encodeLine doc @ rest) (bulkBody rs))"

section \<open>The sink\<close>

datatype sinkError =
    SinkMsg string
  | ParseFailed
  | BulkPartialFailure nat nat "string list"

fun join_with :: "string \<Rightarrow> string list \<Rightarrow> string" where
  "join_with sep [] = []"
| "join_with sep [x] = x"
| "join_with sep (x # y # xs) = x @ sep @ join_with sep (y # xs)"

definition bulkErrorText :: "nat \<Rightarrow> nat \<Rightarrow> string list \<Rightarrow> string" where
  "bulkErrorText succeeded failed ids =
     ''bulk write partial failure: '' @ nat_dec succeeded @ '' succeeded, '' @ nat_dec failed @
     '' failed (failed ids: '' @ join_with '', '' ids @ '')''"

record ElasticsearchSink =
  bulkURL :: string
  apiKey :: string
  sinkClosed :: bool

record httpRequest =
  reqMethod :: string
  reqURL :: string
  reqHeader :: "(string, string) gomap"
  reqBody :: string

text \<open>What an exchange gives: no request, no response, no complete body, or a status and a body.\<close>

datatype exchange =
    RequestErr string
  | DoErr string
  | ReadErr string
  | Response int string

definition itemOk :: "bulkItem \<Rightarrow> bool" where
  "itemOk i \<longleftrightarrow> itemStatus (itemCreate i) = 201 \<or> itemStatus (itemCreate i) = 409"

definition evaluateBulkResponse :: "bulkResponse \<Rightarrow> sinkError option" where
  "evaluateBulkResponse resp =
     (let items = fst (respItems resp);
          bad = filter (\<lambda>i. \<not> itemOk i) items;
          failedIDs = filter (\<lambda>s. s \<noteq> []) (map (\<lambda>i. itemID (itemCreate i)) bad)
      in if length bad = 0 then None
         else Some (BulkPartialFailure (length (filter itemOk items)) (length bad) failedIDs))"

definition bulkRequest :: "ElasticsearchSink \<Rightarrow> string \<Rightarrow> httpRequest" where
  "bulkRequest k body =
     \<lparr>reqMethod = ''POST'', reqURL = bulkURL k,
      reqHeader = (let h = [(''Content-Type'', ''application/x-ndjson'')] in
                   if apiKey k \<noteq> [] then go_put ''Authorization'' (''ApiKey '' @ apiKey k) h else h),
      reqBody = body\<rparr>"

definition sinkWrite ::
    "(httpRequest \<Rightarrow> 'w \<Rightarrow> exchange \<times> 'w) \<Rightarrow> ElasticsearchSink \<Rightarrow> UsageBatch \<Rightarrow> 'w \<Rightarrow> sinkError option \<times> 'w" where
  "sinkWrite http k batch w =
     (if sinkClosed k then (Some (SinkMsg ''elasticsearch sink is closed''), w)
      else if length batch = 0 then (None, w)
      else
        (case bulkBody batch of
           None \<Rightarrow>
             (Some (SinkMsg (''failed to encode usage record: json: error calling MarshalJSON for type time.Time: '' @
                             ''Time.MarshalJSON: timezone hour outside of range [0,23]'')), w)
         | Some body \<Rightarrow>
             (case http (bulkRequest k body) w of
                (RequestErr e, w) \<Rightarrow> (Some (SinkMsg (''failed to create ES request: '' @ e)), w)
              | (DoErr e, w) \<Rightarrow> (Some (SinkMsg (''ES bulk request failed: '' @ e)), w)
              | (ReadErr e, w) \<Rightarrow> (Some (SinkMsg (''failed to read ES response: '' @ e)), w)
              | (Response code body, w) \<Rightarrow>
                  if code \<ge> 300
                  then (Some (SinkMsg (''ES returned HTTP '' @ int_dec code @ '': '' @ body)), w)
                  else
                    (case unmarshalBulk body of
                       None \<Rightarrow> (Some ParseFailed, w)
                     | Some resp \<Rightarrow> (evaluateBulkResponse resp, w)))))"

definition sinkClose :: "ElasticsearchSink \<Rightarrow> sinkError option \<times> ElasticsearchSink" where
  "sinkClose k = (if sinkClosed k then (None, k) else (None, k\<lparr>sinkClosed := True\<rparr>))"

interpretation es: usage_sink "sinkWrite http" sinkClose sinkClosed
  for http :: "httpRequest \<Rightarrow> 'w \<Rightarrow> exchange \<times> 'w"
  by unfold_locales (simp_all add: sinkClose_def sinkWrite_def)

end
