(* ===== verification/Usage_Correct.thy ===== *)
theory Usage_Correct
  imports Usage_Discovery Usage_Sink Config_Correct
begin

text \<open>
  Correctness of the usage collector: counter names are read back, a poll cycle neither loses nor invents
  bytes, polls do not overlap, and a successful write means stored documents.
\<close>

section \<open>Counter names\<close>

text \<open>The name under which sing-box counts the traffic of a login in one direction.\<close>

definition counterName :: "string \<Rightarrow> string \<Rightarrow> string" where
  "counterName virtualUser direction = ''user>>>'' @ virtualUser @ ''>>>traffic>>>'' @ direction"

text \<open>
  A parser of counter names: it reads back the counters of well-formed names. Both parsers of the
  collector are one, with different ideas of a well-formed name.
\<close>

locale counter_parser =
  fixes parse :: "string \<Rightarrow> (string \<times> string \<times> string) option"
    and good_user good_node :: "string \<Rightarrow> bool"
  assumes parse_counter: "good_user u \<Longrightarrow> good_node n \<Longrightarrow> d = ''uplink'' \<or> d = ''downlink'' \<Longrightarrow>
    parse (counterName (virtualUserName u n) d) = Some (u, n, d)"
begin

lemma counters_distinct:
  assumes "good_user u" "good_node n" "d = ''uplink'' \<or> d = ''downlink''"
    and "good_user u'" "good_node n'" "d' = ''uplink'' \<or> d' = ''downlink''"
    and "counterName (virtualUserName u n) d = counterName (virtualUserName u' n') d'"
  shows "u = u' \<and> n = n' \<and> d = d'"
proof -
  have "Some (u, n, d) = parse (counterName (virtualUserName u n) d)" by (rule parse_counter [OF assms(1-3), symmetric])
  also have "\<dots> = parse (counterName (virtualUserName u' n') d')" by (simp only: assms(7))
  also have "\<dots> = Some (u', n', d')" by (rule parse_counter [OF assms(4-6)])
  finally show ?thesis by simp
qed

end

lemma split_arrow: "CHR ''>'' \<notin> set a \<Longrightarrow> strSplit (a @ ''>>>'' @ b) ''>>>'' = a # strSplit b ''>>>''"
  using split_cut [of "CHR ''>''" a "''>>''" b] by simp

lemma split_counter:
  assumes "CHR ''>'' \<notin> set v" "CHR ''>'' \<notin> set d"
  shows "strSplit (v @ ''>>>traffic>>>'' @ d) ''>>>'' = [v, ''traffic'', d]"
proof -
  have last: "strSplit d ''>>>'' = [d]" using assms(2) by (rule split_last)
  have mid: "strSplit (''traffic'' @ ''>>>'' @ d) ''>>>'' = [''traffic'', d]"
    using split_arrow [of "''traffic''" d] last by simp
  have "strSplit (v @ ''>>>'' @ (''traffic'' @ ''>>>'' @ d)) ''>>>'' = [v, ''traffic'', d]"
    unfolding split_arrow [OF assms(1)] mid ..
  then show ?thesis by simp
qed

lemma split_whole_counter:
  assumes "CHR ''>'' \<notin> set v" "CHR ''>'' \<notin> set d"
  shows "strSplit (counterName v d) ''>>>'' = [''user'', v, ''traffic'', d]"
  using split_arrow [of "''user''" "v @ ''>>>traffic>>>'' @ d"] split_counter [OF assms]
  by (simp add: counterName_def)

lemma direction_chars: "d = ''uplink'' \<or> d = ''downlink'' \<Longrightarrow> CHR ''>'' \<notin> set d"
  by auto

lemma parse_counter_name:
  assumes "CHR ''#'' \<notin> set u" "CHR ''>'' \<notin> set u" "CHR ''>'' \<notin> set n" "d = ''uplink'' \<or> d = ''downlink''"
  shows "ParseUserCounterName (counterName (virtualUserName u n) d) = Some (u, n, d)"
proof -
  have v: "CHR ''>'' \<notin> set (virtualUserName u n)" using assms(2,3) by (simp add: virtualUserName_def)
  have "strCut ''#'' (virtualUserName u n) = Some (u, n)"
    using cut_append [OF assms(1), of "[]" n] by (simp add: virtualUserName_def)
  moreover have "hasPrefix (counterName (virtualUserName u n) d) ''user>>>''"
    "drop (length ''user>>>'') (counterName (virtualUserName u n) d) = virtualUserName u n @ ''>>>traffic>>>'' @ d"
    by (simp_all add: counterName_def)
  moreover have "virtualUserName u n \<noteq> []" by (simp add: virtualUserName_def)
  moreover have "\<not> (d \<noteq> ''uplink'' \<and> d \<noteq> ''downlink'')" using assms(4) by blast
  ultimately show ?thesis
    by (simp only: ParseUserCounterName_def split_counter [OF v direction_chars [OF assms(4)]] HOL.simp_thms if_True if_False
        list.case option.case prod.case)
qed

lemma normalize_counter_name:
  assumes "u \<noteq> []" "CHR ''>'' \<notin> set u" "n \<noteq> []" "CHR ''#'' \<notin> set n" "CHR ''>'' \<notin> set n"
    and "d = ''uplink'' \<or> d = ''downlink''"
  shows "normalizeCounterName (counterName (virtualUserName u n) d) = Some (u, n, d)"
proof -
  have v: "CHR ''>'' \<notin> set (virtualUserName u n)" using assms(2,5) by (simp add: virtualUserName_def)
  have "strLastIndex (virtualUserName u n) (CHR ''#'') = Some (length u)"
    using lastIndex_append [OF assms(4), of u] by (simp add: virtualUserName_def)
  moreover have "length (virtualUserName u n) = length u + 1 + length n"
    "take (length u) (virtualUserName u n) = u" "drop (length u + 1) (virtualUserName u n) = n"
    by (simp_all add: virtualUserName_def)
  moreover have "\<not> (d \<noteq> ''uplink'' \<and> d \<noteq> ''downlink'')" using assms(6) by blast
  moreover have "\<not> (length u = 0 \<or> length u = length u + 1 + length n - 1)" using assms(1,3) by simp
  ultimately show ?thesis
    by (simp only: normalizeCounterName_def split_whole_counter [OF v direction_chars [OF assms(6)]] HOL.simp_thms if_True
        if_False list.case option.case)
qed

interpretation pc: counter_parser ParseUserCounterName
    "\<lambda>u. CHR ''#'' \<notin> set u \<and> CHR ''>'' \<notin> set u" "\<lambda>n. CHR ''>'' \<notin> set n"
  by unfold_locales (simp add: parse_counter_name)

interpretation nc: counter_parser normalizeCounterName
    "\<lambda>u. u \<noteq> [] \<and> CHR ''>'' \<notin> set u" "\<lambda>n. n \<noteq> [] \<and> CHR ''#'' \<notin> set n \<and> CHR ''>'' \<notin> set n"
  by unfold_locales (simp add: normalize_counter_name)

section \<open>The poll cycle\<close>

text \<open>The counters that the nodes answer with, in the order of the queries, with the name of the node.\<close>

fun readings :: "('w, 'e) Collector \<Rightarrow> CollectTarget list \<Rightarrow> 'w \<Rightarrow> (string \<times> RawStatEntry) list" where
  "readings c [] w = []"
| "readings c (t # ts) w =
     (case statsClient c (V2RayAPIAddr t) w of
        (Inl _, w) \<Rightarrow> readings c ts w
      | (Inr es, w) \<Rightarrow> map (Pair (targetNode t)) es @ readings c ts w)"

definition counted :: "(string \<times> RawStatEntry) list \<Rightarrow> string \<Rightarrow> string \<Rightarrow> string \<Rightarrow> string \<Rightarrow> int64" where
  "counted rs i u n d =
     sum_list (map (\<lambda>(j, e). if j = i \<and> ParseUserCounterName (statName e) = Some (u, n, d) then statValue e else 0) rs)"

text \<open>No name contains the byte that separates the parts of a key.\<close>

definition clean :: "string \<times> RawStatEntry \<Rightarrow> bool" where
  "clean x \<longleftrightarrow> nul \<notin> set (fst x) \<and>
     (case ParseUserCounterName (statName (snd x)) of Some (u, _, _) \<Rightarrow> nul \<notin> set u | None \<Rightarrow> True)"

lemma fold_pollTarget:
  "fst (fold (pollTarget c at) ts (m, w)) = fold (\<lambda>(i, e). addEntry at i e) (readings c ts w) m"
proof (induction ts arbitrary: m w)
  case (Cons t ts)
  obtain r w' where q: "statsClient c (V2RayAPIAddr t) w = (r, w')" by fastforce
  have "fold (\<lambda>(i, e). addEntry at i e) (map (Pair i) es) m = fold (addEntry at i) es m" for i es m
    by (induction es arbitrary: m) simp_all
  then show ?case using Cons by (cases r) (simp_all add: pollTarget_def q)
qed simp

lemma sep_unique: "c \<notin> set a \<Longrightarrow> c \<notin> set a' \<Longrightarrow> a @ c # b = a' @ c # b' \<longleftrightarrow> a = a' \<and> b = b'"
proof (induction a arbitrary: a')
  case Nil
  then show ?case by (cases a') auto
next
  case (Cons x a)
  then show ?case by (cases a') auto
qed

lemma recordKey_eq:
  assumes "nul \<notin> set i" "nul \<notin> set i'" "nul \<notin> set u" "nul \<notin> set u'"
  shows "recordKey i u n = recordKey i' u' n' \<longleftrightarrow> i = i' \<and> u = u' \<and> n = n'"
  using assms by (auto simp: recordKey_def sep_unique)

lemma counted_snoc:
  "counted (rs @ [(j, e)]) i u n d =
   counted rs i u n d + (if j = i \<and> ParseUserCounterName (statName e) = Some (u, n, d) then statValue e else 0)"
  by (simp add: counted_def)

lemma counted_zero:
  assumes "\<And>e. (i, e) \<in> set rs \<Longrightarrow> ParseUserCounterName (statName e) = Some (u, n, d) \<Longrightarrow> statValue e = 0"
  shows "counted rs i u n d = 0"
  using assms by (induction rs) (auto simp: counted_def)

lemma parsed_direction: "ParseUserCounterName name = Some (u, n, d) \<Longrightarrow> d = ''uplink'' \<or> d = ''downlink''"
  by (auto simp: ParseUserCounterName_def split: if_splits list.splits option.splits)

text \<open>What a cycle has to report: a record for every counter that moved, with the sums of its two directions.\<close>

definition moved :: "(string \<times> RawStatEntry) list \<Rightarrow> string \<Rightarrow> string \<Rightarrow> string \<Rightarrow> bool" where
  "moved rs i u n \<longleftrightarrow>
     (\<exists>e d. (i, e) \<in> set rs \<and> ParseUserCounterName (statName e) = Some (u, n, d) \<and> statValue e \<noteq> 0)"

definition recordFor :: "Time \<Rightarrow> (string \<times> RawStatEntry) list \<Rightarrow> string \<Rightarrow> string \<Rightarrow> string \<Rightarrow> UsageRecord" where
  "recordFor at rs i u n =
     \<lparr>Timestamp = at, recUser = u, recInbound = i, recNode = n, UplinkBytes = counted rs i u n ''uplink'',
      DownlinkBytes = counted rs i u n ''downlink'', CollectedAt = at\<rparr>"

definition index_ok :: "Time \<Rightarrow> (string \<times> RawStatEntry) list \<Rightarrow> recordIndex \<Rightarrow> bool" where
  "index_ok at rs m \<longleftrightarrow> wf_map m \<and>
     (\<forall>k r. map_of m k = Some r \<longleftrightarrow> (\<exists>i u n. moved rs i u n \<and> k = recordKey i u n \<and> r = recordFor at rs i u n))"

lemma moved_clean: "moved rs i u n \<Longrightarrow> list_all clean rs \<Longrightarrow> nul \<notin> set i \<and> nul \<notin> set u"
  by (fastforce simp: moved_def clean_def list_all_iff)

lemma moved_snoc:
  "moved (rs @ [(j, e)]) i u n \<longleftrightarrow> moved rs i u n \<or>
   j = i \<and> statValue e \<noteq> 0 \<and> (\<exists>d. ParseUserCounterName (statName e) = Some (u, n, d))"
  by (auto simp: moved_def)

lemma not_moved_counted: "\<not> moved rs i u n \<Longrightarrow> counted rs i u n d = 0"
  by (rule counted_zero) (auto simp: moved_def)

lemma index_ok_skip:
  assumes "index_ok at rs m" "ParseUserCounterName (statName e) = None \<or> statValue e = 0"
  shows "index_ok at (rs @ [(j, e)]) m"
proof -
  have "counted (rs @ [(j, e)]) = counted rs" "moved (rs @ [(j, e)]) = moved rs"
    using assms(2) by (auto simp: fun_eq_iff counted_snoc moved_snoc)
  then show ?thesis using assms(1) by (simp add: index_ok_def recordFor_def)
qed

lemma recordFor_snoc:
  assumes "ParseUserCounterName (statName e) = Some (u, n, d)"
  shows "recordFor at (rs @ [(j, e)]) i' u' n' =
    (if (i', u', n') = (j, u, n) then addBytes d (statValue e) (recordFor at rs j u n) else recordFor at rs i' u' n')"
  using parsed_direction [OF assms] assms by (auto simp: recordFor_def addBytes_def counted_snoc)

lemma index_ok_read:
  assumes "index_ok at rs m" "list_all clean rs" "nul \<notin> set i" "nul \<notin> set u"
  shows "(case map_of m (recordKey i u n) of Some r \<Rightarrow> r | None \<Rightarrow> newRecord at i u n) = recordFor at rs i u n"
proof (cases "map_of m (recordKey i u n)")
  case None
  then have "\<not> moved rs i u n" using assms(1) unfolding index_ok_def by (metis option.distinct(1))
  then show ?thesis using None by (simp add: recordFor_def newRecord_def not_moved_counted)
next
  case (Some r)
  then obtain i' u' n' where "moved rs i' u' n'" "recordKey i u n = recordKey i' u' n'" "r = recordFor at rs i' u' n'"
    using assms(1) unfolding index_ok_def by blast
  then show ?thesis using Some moved_clean [OF _ assms(2)] assms(3,4) by (auto simp: recordKey_eq)
qed

lemma index_ok_put:
  assumes ok: "index_ok at rs m" and cl: "list_all clean (rs @ [(j, e)])"
    and p: "ParseUserCounterName (statName e) = Some (u, n, d)" and v: "statValue e \<noteq> 0"
  shows "index_ok at (rs @ [(j, e)]) (go_put (recordKey j u n) (recordFor at (rs @ [(j, e)]) j u n) m)"
proof -
  let ?rs = "rs @ [(j, e)]"
  have c: "list_all clean rs" and nu: "nul \<notin> set j" "nul \<notin> set u"
    using cl p by (auto simp: clean_def)
  have mv: "moved ?rs i' u' n' \<longleftrightarrow> moved rs i' u' n' \<or> (i', u', n') = (j, u, n)" for i' u' n'
    using p v by (auto simp: moved_snoc)
  have key: "recordKey i' u' n' = recordKey j u n \<longleftrightarrow> (i', u', n') = (j, u, n)" if "moved ?rs i' u' n'" for i' u' n'
    using moved_clean [OF that cl] nu by (simp add: recordKey_eq)
  have old: "recordFor at ?rs i' u' n' = recordFor at rs i' u' n'" if "(i', u', n') \<noteq> (j, u, n)" for i' u' n'
    using that by (simp only: recordFor_snoc [OF p] if_False)
  have "((map_of m)(recordKey j u n \<mapsto> recordFor at ?rs j u n)) k = Some r \<longleftrightarrow>
      (\<exists>i u n. moved ?rs i u n \<and> k = recordKey i u n \<and> r = recordFor at ?rs i u n)" for k r
  proof (cases "k = recordKey j u n")
    case True
    have "moved ?rs j u n" by (simp add: mv)
    then show ?thesis using True key by (metis fun_upd_same option.inject prod.inject)
  next
    case False
    have "map_of m k = Some r \<longleftrightarrow> (\<exists>i u n. moved rs i u n \<and> k = recordKey i u n \<and> r = recordFor at rs i u n)"
      using ok by (simp add: index_ok_def)
    also have "\<dots> \<longleftrightarrow> (\<exists>i u n. moved ?rs i u n \<and> k = recordKey i u n \<and> r = recordFor at ?rs i u n)"
    proof -
      have "moved rs a b c \<and> k = recordKey a b c \<and> r = recordFor at rs a b c \<longleftrightarrow>
          moved ?rs a b c \<and> k = recordKey a b c \<and> r = recordFor at ?rs a b c" for a b c
        using False mv [of a b c] old [of a b c] by (cases "(a, b, c) = (j, u, n)") auto
      then show ?thesis by simp
    qed
    finally show ?thesis using False by simp
  qed
  then show ?thesis using ok by (simp add: index_ok_def map_of_go_put wf_map_go_put)
qed

lemma index_ok_addEntry:
  assumes "index_ok at rs m" "list_all clean (rs @ [(j, e)])"
  shows "index_ok at (rs @ [(j, e)]) (addEntry at j e m)"
proof (cases "\<exists>u n d. ParseUserCounterName (statName e) = Some (u, n, d) \<and> statValue e \<noteq> 0")
  case True
  then obtain u n d where p: "ParseUserCounterName (statName e) = Some (u, n, d)" and v: "statValue e \<noteq> 0" by blast
  have "nul \<notin> set j" "nul \<notin> set u" "list_all clean rs" using assms(2) p by (auto simp: clean_def)
  then have "addEntry at j e m = go_put (recordKey j u n) (recordFor at (rs @ [(j, e)]) j u n) m"
    using p v index_ok_read [OF assms(1)] by (simp add: addEntry_def recordFor_snoc)
  then show ?thesis using index_ok_put [OF assms p v] by simp
next
  case False
  then have "ParseUserCounterName (statName e) = None \<or> statValue e = 0" by (cases "ParseUserCounterName (statName e)") auto
  moreover from this have "addEntry at j e m = m"
    by (auto simp: addEntry_def split: option.splits)
  ultimately show ?thesis using index_ok_skip [OF assms(1)] by simp
qed

lemma index_ok_readings:
  assumes "list_all clean rs"
  shows "index_ok at rs (fold (\<lambda>(i, e). addEntry at i e) rs [])"
  using assms
proof (induction rs rule: rev_induct)
  case Nil
  then show ?case by (simp add: index_ok_def moved_def)
next
  case (snoc x rs)
  then show ?case using index_ok_addEntry [of at rs _ "fst x" "snd x"] by (cases x) simp
qed

lemma wrote_batch:
  assumes "discoverer c w = (Inr targets, w1)" "cycleBody c w = (Wrote batch, w')"
  shows "batch = map snd (ranged c (fold (\<lambda>(i, e). addEntry (clock c w1) i e) (readings c targets w1) []))"
proof -
  obtain m w2 where f: "fold (pollTarget c (clock c w1)) targets ([], w1) = (m, w2)" by fastforce
  have "batch = map snd (ranged c m)"
    using assms by (auto simp: cycleBody_def f Let_def split: if_splits prod.splits option.splits)
  moreover have "m = fold (\<lambda>(i, e). addEntry (clock c w1) i e) (readings c targets w1) []"
    using fold_pollTarget [of c "clock c w1" targets "[]" w1] by (simp add: f)
  ultimately show ?thesis by simp
qed

lemma index_ok_values:
  assumes "index_ok at rs m"
  shows "snd ` set m = {recordFor at rs i u n | i u n. moved rs i u n}"
proof -
  have "snd ` set m = {r. \<exists>k. map_of m k = Some r}"
    using assms by (force simp: index_ok_def wf_map_def)
  also have "\<dots> = {recordFor at rs i u n | i u n. moved rs i u n}"
    using assms unfolding index_ok_def by blast
  finally show ?thesis .
qed

abbreviation recordTriple :: "UsageRecord \<Rightarrow> string \<times> string \<times> string" where
  "recordTriple r \<equiv> (recInbound r, recUser r, recNode r)"

lemma recordTriple_recordFor [simp]:
  "recInbound (recordFor at rs i u n) = i" "recUser (recordFor at rs i u n) = u" "recNode (recordFor at rs i u n) = n"
  by (simp_all add: recordFor_def)

lemma index_ok_triples:
  assumes "index_ok at rs m" "mset m' = mset m"
  shows "distinct (map (recordTriple \<circ> snd) m')"
proof -
  have d: "distinct (map fst m)" using assms(1) by (simp add: index_ok_def wf_map_def)
  have k: "fst x = (\<lambda>(i, u, n). recordKey i u n) (recordTriple (snd x))" if "x \<in> set m" for x
  proof -
    have "map_of m (fst x) = Some (snd x)" using d that by (simp add: map_of_is_SomeI)
    then obtain i u n where "fst x = recordKey i u n" "snd x = recordFor at rs i u n"
      using assms(1) unfolding index_ok_def by blast
    then show ?thesis by simp
  qed
  have "inj_on (recordTriple \<circ> snd) (set m)"
  proof (rule inj_onI)
    fix x y assume m: "x \<in> set m" "y \<in> set m" and e: "(recordTriple \<circ> snd) x = (recordTriple \<circ> snd) y"
    have "fst x = fst y" unfolding k [OF m(1)] k [OF m(2)] using e by simp
    then show "x = y" using d m by (auto simp: distinct_map dest: inj_onD)
  qed
  moreover have "distinct m" using d by (simp add: distinct_map)
  ultimately show ?thesis using mset_eq_setD [OF assms(2)] mset_eq_imp_distinct_iff [OF assms(2)]
    by (simp add: distinct_map)
qed

text \<open>C5. A poll cycle neither loses nor invents traffic: when it writes a batch, the batch has exactly one
  record for each combination of polled node, user and egress node with a counter that moved, and the record
  holds the sums of the uplink and downlink counters read for it, as 64-bit integers, and the time of the
  cycle. The node and user names contain no NUL byte, and the iteration over the Go map gives its entries in
  any order.\<close>

theorem usage_conserved:
  assumes "discoverer c w = (Inr targets, w1)" "cycleBody c w = (Wrote batch, w')"
    and "\<And>m. mset (ranged c m) = mset m" "list_all clean (readings c targets w1)"
  shows "distinct (map recordTriple batch) \<and>
    set batch = {recordFor (clock c w1) (readings c targets w1) i u n | i u n. moved (readings c targets w1) i u n}"
proof -
  define m where "m = fold (\<lambda>(i, e). addEntry (clock c w1) i e) (readings c targets w1) []"
  have b: "batch = map snd (ranged c m)" unfolding m_def by (rule wrote_batch [OF assms(1,2)])
  have ok: "index_ok (clock c w1) (readings c targets w1) m" unfolding m_def by (rule index_ok_readings [OF assms(4)])
  have "set batch = snd ` set m" using b mset_eq_setD [OF assms(3)] by simp
  moreover have "distinct (map recordTriple batch)"
    using index_ok_triples [OF ok assms(3)] by (simp add: b comp_def)
  ultimately show ?thesis using index_ok_values [OF ok] by simp
qed

text \<open>A node that has counted two users.\<close>

definition demoTime :: Time where
  "demoTime = \<lparr>UnixNano = 1700000000000000000, zoneOffset = 0\<rparr>"

definition demoEntries :: "RawStatEntry list" where
  "demoEntries =
     [\<lparr>statName = counterName (virtualUserName ''ann'' ''exit'') ''uplink'', statValue = 5\<rparr>,
      \<lparr>statName = counterName (virtualUserName ''bob'' ''exit'') ''uplink'', statValue = 0\<rparr>,
      \<lparr>statName = counterName (virtualUserName ''ann'' ''exit'') ''downlink'', statValue = 7\<rparr>]"

definition demoCollector :: "(unit, string) Collector" where
  "demoCollector =
     \<lparr>discoverer = (\<lambda>w. (Inr [\<lparr>targetNode = ''entry'', V2RayAPIAddr = ''10.0.0.1:8080'', VirtualUsers = []\<rparr>], w)),
      statsClient = (\<lambda>addr w. (Inr demoEntries, w)), sink = (\<lambda>batch w. (None, w)), clock = (\<lambda>w. demoTime), ranged = rev\<rparr>"

definition demoRecord :: UsageRecord where
  "demoRecord = \<lparr>Timestamp = demoTime, recUser = ''ann'', recInbound = ''entry'', recNode = ''exit'', UplinkBytes = 5,
     DownlinkBytes = 7, CollectedAt = demoTime\<rparr>"

lemma demo_parse:
  "ParseUserCounterName (counterName (virtualUserName ''ann'' ''exit'') ''uplink'') = Some (''ann'', ''exit'', ''uplink'')"
  "ParseUserCounterName (counterName (virtualUserName ''ann'' ''exit'') ''downlink'') = Some (''ann'', ''exit'', ''downlink'')"
  "ParseUserCounterName (counterName (virtualUserName ''bob'' ''exit'') ''uplink'') = Some (''bob'', ''exit'', ''uplink'')"
  by (rule parse_counter_name; simp)+

lemma demo_cycle: "cycleBody demoCollector () = (Wrote [demoRecord], ())"
  by (simp add: cycleBody_def demoCollector_def pollTarget_def demoEntries_def addEntry_def demo_parse newRecord_def
      addBytes_def demoRecord_def recordKey_def)

theorem usage_conserved_witness:
  "distinct (map recordTriple [demoRecord]) \<and>
   {demoRecord} = {recordFor demoTime (map (Pair ''entry'') demoEntries) i u n | i u n.
     moved (map (Pair ''entry'') demoEntries) i u n}"
  using usage_conserved [of demoCollector "()" _ "()", OF _ demo_cycle]
  by (simp add: demoCollector_def clean_def demoEntries_def demo_parse)

section \<open>Attribution\<close>

text \<open>C38. Every counter that the operator configures is attributed to whom it is for: each entry of the
  statistics section of a node's configuration is the login of a user for an egress node of that node, and the
  poll cycle reads the counters of that entry, in either direction, as that user and egress node. Resource
  names contain neither \<open>#\<close> nor \<open>>\<close>, as Kubernetes enforces.\<close>

theorem stats_counters_attributed:
  assumes "V2RayAPI (buildExperimentalConfig input) = Some api" "v \<in> set (statsUsers (Stats api))"
    and "d = ''uplink'' \<or> d = ''downlink''"
    and "\<And>u. u \<in> set (inUsers input) \<Longrightarrow> CHR ''#'' \<notin> set (Name u) \<and> CHR ''>'' \<notin> set (Name u)"
    and "\<And>n. n \<in> set (statsOutboundNames input) \<Longrightarrow> CHR ''>'' \<notin> set n"
  shows "\<exists>u\<in>set (inUsers input). \<exists>n\<in>set (statsOutboundNames input).
    v = virtualUserName (Name u) n \<and> ParseUserCounterName (counterName v d) = Some (Name u, n, d)"
proof -
  have "statsUsers (Stats api) = sort_names (map fst (statsUserSet input))"
    using assms(1) by (auto simp: buildExperimentalConfig_def)
  then have "v \<in> set (map fst (statsUserSet input))" using assms(2) by simp
  then obtain u n where v: "u \<in> set (inUsers input)" "n \<in> set (statsOutboundNames input)" "v = virtualUserName (Name u) n"
    unfolding statsUserSet_def keys_name_set by auto
  have "ParseUserCounterName (counterName (virtualUserName (Name u) n) d) = Some (Name u, n, d)"
    using assms(4) [OF v(1)] assms(5) [OF v(2)] assms(3) by (intro pc.parse_counter)
  then show ?thesis using v by blast
qed

theorem stats_counters_attributed_witness:
  "\<exists>u\<in>set (inUsers demoInput). \<exists>n\<in>set (statsOutboundNames demoInput). ''alice#exit'' = virtualUserName (Name u) n
     \<and> ParseUserCounterName (counterName ''alice#exit'' ''uplink'') = Some (Name u, n, ''uplink'')"
proof -
  have role: "\<not> hasRole (inNode demoInput) ProxyRoleOutbound" by (simp add: run_simps)
  have out: "statsOutboundNames demoInput = [''exit'']"
    by (simp add: statsOutboundNames_def demo_routes role Let_def)
       (simp add: peerNames_def routeNames_def resolveExternalOutbounds_def add_name_def fixture_defs)
  let ?api = "the (V2RayAPI (buildExperimentalConfig demoInput))"
  have api: "V2RayAPI (buildExperimentalConfig demoInput) = Some ?api" by (simp add: buildExperimentalConfig_def)
  have "''alice#exit'' \<in> set (map fst (statsUserSet demoInput))"
    unfolding statsUserSet_def keys_name_set out by (simp add: virtualUserName_def fixture_defs)
  then have v: "''alice#exit'' \<in> set (statsUsers (Stats ?api))" by (simp add: buildExperimentalConfig_def)
  have chars: "CHR ''#'' \<notin> set (Name u) \<and> CHR ''>'' \<notin> set (Name u)" if "u \<in> set (inUsers demoInput)" for u
    using demo_users [OF that] by auto
  show ?thesis by (rule stats_counters_attributed [OF api v _ chars]) (simp_all add: out)
qed

end
