(* ===== verification/Go_Json_Inverse.thy ===== *)
theory Go_Json_Inverse
  imports Go_Json_Decode Go_Net
begin

text \<open>
  Decoding what \<open>encoding/json\<close> wrote: string literals of ASCII strings and decimal integers are read back,
  and so is a struct with fields of these types. No string literal contains a line break.
\<close>

section \<open>String literals\<close>

abbreviation ascii :: "string \<Rightarrow> bool" where
  "ascii s \<equiv> list_all (\<lambda>c. (of_char c :: nat) < 0x80) s"

lemma of_char_eqD: "(of_char c :: nat) = of_char d \<Longrightarrow> c = d"
  by (rule injD [OF inj_of_char])

lemma json_ascii_cases:
  obtains (quoted) "json_ascii h c = [backslash, c]" "c = backslash \<or> c = CHR 0x22"
  | (short) d where "json_ascii h c = [backslash, d]" "simple_escape d = Some c" "d \<in> set ''btnfr''"
  | (hex) "json_ascii h c = backslash # ''u00'' @ hex_byte c"
  | (same) "json_ascii h c = [c]" "c \<noteq> backslash" "c \<noteq> CHR 0x22" "\<not> (of_char c :: nat) < 0x20"
proof -
  have e: "c = CHR 0x08" if "(of_char c :: nat) = 8" using that by (intro of_char_eqD) simp
  have t: "c = CHR 0x09" if "(of_char c :: nat) = 9" using that by (intro of_char_eqD) simp
  have n: "c = CHR 0x0A" if "(of_char c :: nat) = 10" using that by (intro of_char_eqD) simp
  have f: "c = CHR 0x0C" if "(of_char c :: nat) = 12" using that by (intro of_char_eqD) simp
  have r: "c = CHR 0x0D" if "(of_char c :: nat) = 13" using that by (intro of_char_eqD) simp
  show thesis
  proof (cases "c = backslash \<or> c = CHR 0x22")
    case True
    then show thesis by (intro quoted) (auto simp: json_ascii_def)
  next
    case ns: False
    consider "c = CHR 0x08" | "c = CHR 0x09" | "c = CHR 0x0A" | "c = CHR 0x0C" | "c = CHR 0x0D"
      | "(of_char c :: nat) \<notin> {8, 9, 10, 12, 13}" using e t n f r by blast
    then show thesis
    proof cases
      case 1
      then show thesis by (intro short [of "CHR ''b''"]) (simp_all add: json_ascii_def simple_escape_def)
    next
      case 2
      then show thesis by (intro short [of "CHR ''t''"]) (simp_all add: json_ascii_def simple_escape_def)
    next
      case 3
      then show thesis by (intro short [of "CHR ''n''"]) (simp_all add: json_ascii_def simple_escape_def)
    next
      case 4
      then show thesis by (intro short [of "CHR ''f''"]) (simp_all add: json_ascii_def simple_escape_def)
    next
      case 5
      then show thesis by (intro short [of "CHR ''r''"]) (simp_all add: json_ascii_def simple_escape_def)
    next
      case 6
      show thesis
      proof (cases "(of_char c :: nat) < 0x20 \<or> h \<and> (c = CHR ''<'' \<or> c = CHR ''>'' \<or> c = CHR ''&'')")
        case True
        then show thesis using ns 6 by (intro hex) (simp add: json_ascii_def)
      next
        case False
        then show thesis using ns 6 by (intro same) (simp_all add: json_ascii_def)
      qed
    qed
  qed
qed

lemma hex_not_quote: "is_lower_hex x \<Longrightarrow> x \<noteq> CHR 0x22 \<and> x \<noteq> backslash \<and> x \<noteq> CHR 0x0A"
  by (auto simp: is_lower_hex_def is_digit_def)

lemma hex_byte_plain: "\<forall>x\<in>set (hex_byte c). x \<noteq> CHR 0x22 \<and> x \<noteq> backslash \<and> x \<noteq> CHR 0x0A"
proof -
  have "list_all is_lower_hex (hex_byte c)" using hex_bytes_lower [of "[c]"] by (simp add: hex_bytes_def)
  then show ?thesis using hex_not_quote by (simp add: list_all_iff)
qed

lemma string_body_plain:
  "\<forall>x\<in>set b. x \<noteq> CHR 0x22 \<and> x \<noteq> backslash \<Longrightarrow> string_body (b @ t) = map_option (\<lambda>(b', r). (b @ b', r)) (string_body t)"
  by (induction b) (auto simp: option.map_comp comp_def case_prod_unfold option.map_ident_strong)

lemma string_body_ascii:
  "string_body (json_ascii h c @ t) = map_option (\<lambda>(b, r). (json_ascii h c @ b, r)) (string_body t)"
proof (cases h c rule: json_ascii_cases)
  case hex
  have "string_body ((''00'' @ hex_byte c) @ t) = map_option (\<lambda>(b, r). ((''00'' @ hex_byte c) @ b, r)) (string_body t)"
    using hex_byte_plain [of c] by (intro string_body_plain) simp
  then show ?thesis by (simp add: hex option.map_comp comp_def case_prod_unfold)
next
  case (short d)
  then show ?thesis by auto
qed auto

lemma getu4_hex_byte: "getu4 (backslash # ''u00'' @ hex_byte c @ t) = Some (of_char c)"
proof -
  have d: "of_char c div 16 < (16 :: nat)" "of_char c mod 16 < (16 :: nat)" using of_char_less_256 [of c]
    by (simp_all add: less_mult_imp_div_less)
  then have "is_hex (hex_digit (of_char c div 16))" "is_hex (hex_digit (of_char c mod 16))" by (simp_all add: is_hex_def)
  moreover have "is_hex (CHR ''0'')" "hex_val (CHR ''0'') = 0" by (simp_all add: is_hex_def is_lower_hex_def is_digit_def hex_val_def)
  ultimately show ?thesis using d by (simp add: getu4_def hex_byte_def)
qed

lemma escape_hex_byte:
  assumes "(of_char c :: nat) < 0x80"
  shows "escape (backslash # ''u00'' @ hex_byte c @ t) = Some ([c], 6)"
proof -
  have "\<not> surrogate (of_char c)" "utf8_encode (of_char c) = [c]" using assms by (simp_all add: surrogate_def utf8_encode_def)
  moreover have "escape (backslash # ''u00'' @ hex_byte c @ t) =
      (case getu4 (backslash # ''u00'' @ hex_byte c @ t) of
         None \<Rightarrow> None
       | Some r \<Rightarrow> if surrogate r
           then (case getu4 (drop 6 (backslash # ''u00'' @ hex_byte c @ t)) of
                   Some r2 \<Rightarrow> if utf16_pair r r2 \<noteq> replacement then Some (utf8_encode (utf16_pair r r2), 12)
                              else Some (utf8_encode replacement, 6)
                 | None \<Rightarrow> Some (utf8_encode replacement, 6))
           else Some (utf8_encode r, 6))"
    by (simp only: escape_def append.simps list.case simp_thms if_True)
  ultimately show ?thesis by (simp only: getu4_hex_byte option.case if_False)
qed

lemma append_single: "(@) [c] = (#) c"
  by (simp add: fun_eq_iff)

lemma unquote_ascii:
  assumes "(of_char c :: nat) < 0x80"
  shows "unquote (json_ascii h c @ t) = map_option ((#) c) (unquote t)"
proof (cases h c rule: json_ascii_cases)
  case quoted
  then have "simple_escape c = Some c" "c \<noteq> CHR ''u''" by (auto simp: simple_escape_def)
  then show ?thesis by (simp add: quoted(1) escape_def append_single)
next
  case (short d)
  then have "d \<noteq> CHR ''u''" by auto
  then show ?thesis using short(1,2) by (simp add: escape_def append_single)
next
  case hex
  have "unquote (backslash # ''u00'' @ hex_byte c @ t) = map_option ((@) [c]) (unquote (drop 5 (''u00'' @ hex_byte c @ t)))"
    by (simp only: unquote.simps simp_thms if_True escape_hex_byte [OF assms] option.case prod.case) simp
  then show ?thesis by (simp add: hex hex_byte_def append_single)
next
  case same
  then show ?thesis using assms by simp
qed

lemma string_body_escape:
  "ascii s \<Longrightarrow> string_body (json_escape h s @ CHR 0x22 # r) = Some (json_escape h s, r)"
  by (induction s) (simp_all add: string_body_ascii)

lemma unquote_escape: "ascii s \<Longrightarrow> unquote (json_escape h s) = Some s"
  by (induction s) (simp_all add: unquote_ascii)

lemma json_ascii_no_newline: "CHR 0x0A \<notin> set (json_ascii h c)"
proof (cases h c rule: json_ascii_cases)
  case quoted
  then show ?thesis by auto
next
  case (short d)
  then show ?thesis by auto
next
  case hex
  then show ?thesis using hex_byte_plain [of c] by auto
next
  case same
  then show ?thesis by auto
qed

lemma utf8_size_bytes:
  assumes "utf8_size bs = Some n" "\<not> hd bs < 0x80"
  shows "\<forall>b\<in>set (take n bs). 0x80 \<le> b"
proof (cases bs)
  case (Cons b0 r)
  then have b0: "0x80 \<le> b0" using assms(2) by simp
  consider "n = 2" "\<exists>b1 r'. r = b1 # r' \<and> 0x80 \<le> b1"
    | "n = 3" "\<exists>b1 b2 r'. r = b1 # b2 # r' \<and> 0x80 \<le> b1 \<and> 0x80 \<le> b2"
    | "n = 4" "\<exists>b1 b2 b3 r'. r = b1 # b2 # b3 # r' \<and> 0x80 \<le> b1 \<and> 0x80 \<le> b2 \<and> 0x80 \<le> b3"
    using assms b0 by (auto simp: Cons utf8_size_def cont_byte_def split: if_splits list.splits)
  then show ?thesis using b0 by cases (auto simp: Cons)
qed (use assms in \<open>simp add: utf8_size_def\<close>)

lemma json_escape_no_newline: "CHR 0x0A \<notin> set (json_escape h s)"
proof (induction h s rule: json_escape.induct)
  case (2 h c s)
  show ?case
  proof (cases "(of_char c :: nat) < 0x80")
    case True
    then show ?thesis using 2(1) json_ascii_no_newline by simp
  next
    case False
    show ?thesis
    proof (cases "utf8_size (map of_char (c # s))")
      case None
      then show ?thesis using False 2(2) by simp
    next
      case (Some n)
      have "\<forall>b\<in>set (map of_char (take n (c # s))). 0x80 \<le> (b :: nat)"
      proof -
        have "\<not> hd (map of_char (c # s)) < (0x80 :: nat)" using False by simp
        from utf8_size_bytes [OF Some this] show ?thesis by (simp only: take_map)
      qed
      then have "CHR 0x0A \<notin> set (take n (c # s))" by force
      then show ?thesis using False Some 2(3) by (simp add: Let_def)
    qed
  qed
qed simp

section \<open>Tokens\<close>

lemma tokens_string:
  "ascii s \<Longrightarrow> tokens (json_quote h s @ r) = map_option ((#) (TString (json_escape h s))) (tokens r)"
  by (simp add: json_quote_def json_space_def punctuation_def string_body_escape)

lemma int_dec_literal: "list_all literal_char (int_dec i) \<and> int_dec i \<noteq> []"
proof -
  have "list_all literal_char (nat_dec n)" for n
    using nat_dec_digits [of n] by (auto simp: list_all_iff literal_char_def)
  then show ?thesis using nat_dec_digits by (simp add: int_dec_def literal_char_def)
qed

lemma literal_char_plain:
  assumes "literal_char c"
  shows "\<not> json_space c" "punctuation c = None" "c \<noteq> CHR 0x22" "c \<noteq> CHR 0x0A"
proof -
  have "list_all (\<lambda>d. \<not> literal_char d) [CHR '' '', CHR 0x09, CHR 0x0A, CHR 0x0D, CHR ''{'', CHR ''}'', CHR ''['', CHR '']'',
      CHR '','', CHR '':'', CHR 0x22]"
    by (simp add: literal_char_def is_digit_def)
  then have "c \<notin> set [CHR '' '', CHR 0x09, CHR 0x0A, CHR 0x0D, CHR ''{'', CHR ''}'', CHR ''['', CHR '']'',
      CHR '','', CHR '':'', CHR 0x22]"
    using assms by (auto simp only: list_all_iff)
  then show "\<not> json_space c" "punctuation c = None" "c \<noteq> CHR 0x22" "c \<noteq> CHR 0x0A"
    by (simp_all add: json_space_def punctuation_def)
qed

lemma tokens_int:
  assumes "r = [] \<or> \<not> literal_char (hd r)"
  shows "tokens (int_dec i @ r) = map_option ((#) (TLiteral (int_dec i))) (tokens r)"
proof -
  obtain c s where d: "int_dec i = c # s" "literal_char c" "\<forall>x\<in>set s. literal_char x"
    using int_dec_literal [of i] by (cases "int_dec i") (auto simp: list_all_iff)
  have "takeWhile literal_char (s @ r) = s" "dropWhile literal_char (s @ r) = r"
    using d(3) assms by (cases r; simp add: takeWhile_append dropWhile_append)+
  then show ?thesis using d(2) literal_char_plain [OF d(2)] by (simp add: d(1))
qed

section \<open>Structs of strings and integers\<close>

fun leaf :: "json \<Rightarrow> bool" where
  "leaf (JStr s) = ascii s"
| "leaf (JInt i) = True"
| "leaf _ = False"

fun leafToken :: "json \<Rightarrow> token" where
  "leafToken (JStr s) = TString (json_escape False s)"
| "leafToken (JInt i) = TLiteral (int_dec i)"
| "leafToken _ = Comma"

text \<open>The value in the tree that decoding into a struct walks: integers keep their digits.\<close>

fun leafTree :: "json \<Rightarrow> json" where
  "leafTree (JInt i) = JNum (int_dec i)"
| "leafTree v = v"

lemma tokens_leaf:
  assumes "leaf v" "r = [] \<or> \<not> literal_char (hd r)"
  shows "tokens (json_encode False v @ r) = map_option ((#) (leafToken v)) (tokens r)"
  using assms by (cases v) (auto simp: tokens_string tokens_int)

lemma valid_nat_dec: "unsigned_parts (nat_dec n) \<noteq> None"
proof -
  have t: "takeWhile is_digit (nat_dec n) = nat_dec n" "dropWhile is_digit (nat_dec n) = []"
    using nat_dec_digits [of n] by (auto simp: list_all_iff)
  have "\<not> (length (nat_dec n) > 1 \<and> hd (nat_dec n) = CHR ''0'')"
    using nat_dec_hd [of n] nat_dec.simps [of 0] by (cases "n = 0") auto
  then show ?thesis using nat_dec_digits [of n] by (simp add: unsigned_parts_def t Let_def)
qed

lemma literal_int_dec: "literal_value True (int_dec i) = Some (JNum (int_dec i))"
proof -
  obtain c s where d: "nat_dec (nat \<bar>i\<bar>) = c # s" "is_digit c"
    using nat_dec_digits [of "nat \<bar>i\<bar>"] by (cases "nat_dec (nat \<bar>i\<bar>)") auto
  have c: "c \<noteq> CHR ''-''" "c \<noteq> CHR ''t''" "c \<noteq> CHR ''f''" "c \<noteq> CHR ''n''" using d(2) by (auto simp: is_digit_def)
  have i: "int_dec i = (if i < 0 then CHR ''-'' # c # s else c # s)" using d(1) by (auto simp: int_dec_def)
  have "valid_number (int_dec i)"
    using valid_nat_dec [of "nat \<bar>i\<bar>"] c(1) by (simp add: i valid_number_def d(1))
  moreover have "int_dec i \<noteq> ''true''" "int_dec i \<noteq> ''false''" "int_dec i \<noteq> ''null''" using c by (auto simp: i)
  ultimately show ?thesis by (simp add: literal_value_def number_value_def)
qed

lemma start_leaf: "leaf v \<Longrightarrow> start_value True (leafToken v) st = Some (put_value True (leafTree v) st)"
  by (cases v) (simp_all add: start_value_def unquote_escape literal_int_dec)

text \<open>The tokens of the members of an object, in the text and through the machine.\<close>

fun memberTokens :: "(string \<times> json) list \<Rightarrow> token list" where
  "memberTokens [] = []"
| "memberTokens ((k, v) # fs) =
     TString (json_escape False k) # Colon # leafToken v # (if fs = [] then [] else Comma # memberTokens fs)"

abbreviation leaves :: "(string \<times> json) list \<Rightarrow> bool" where
  "leaves fs \<equiv> list_all (\<lambda>(k, v). ascii k \<and> leaf v) fs"

lemma tokens_punctuation: "punctuation c = Some t \<Longrightarrow> tokens (c # r) = map_option ((#) t) (tokens r)"
  by (auto simp: json_space_def punctuation_def split: if_splits)

lemma punctuation_chars:
  "punctuation (CHR ''{'') = Some LBrace" "punctuation (CHR ''}'') = Some RBrace"
  "punctuation (CHR '','') = Some Comma" "punctuation (CHR '':'') = Some Colon"
  "\<not> literal_char (CHR '','')" "\<not> literal_char (CHR ''}'')"
  by (simp_all add: punctuation_def literal_char_def is_digit_def)

lemma tokens_members:
  assumes "leaves fs"
  shows "tokens (join_comma (map (json_member False \<circ> map_prod id (json_encode False)) fs) @ CHR ''}'' # r) =
    map_option (\<lambda>ts. memberTokens fs @ RBrace # ts) (tokens r)"
  using assms
proof (induction fs rule: memberTokens.induct)
  case 1
  then show ?case by (simp add: tokens_punctuation punctuation_chars del: tokens.simps)
next
  case (2 k v fs)
  have one: "tokens (json_member False (k, json_encode False v) @ x) =
      map_option (\<lambda>ts. TString (json_escape False k) # Colon # leafToken v # ts) (tokens x)"
    if "x = [] \<or> \<not> literal_char (hd x)" for x
    using 2(2) that
    by (simp add: json_member_def tokens_string tokens_punctuation punctuation_chars tokens_leaf option.map_comp comp_def del: tokens.simps)
  show ?case
  proof (cases fs)
    case Nil
    then show ?thesis by (simp add: one tokens_punctuation punctuation_chars option.map_comp comp_def del: tokens.simps)
  next
    case (Cons f fs')
    then show ?thesis using 2
      by (simp add: one tokens_punctuation punctuation_chars option.map_comp comp_def del: tokens.simps)
  qed
qed

lemma tokens_struct:
  assumes "leaves fs"
  shows "tokens (json_encode False (JStruct fs) @ r) = map_option (\<lambda>ts. LBrace # memberTokens fs @ RBrace # ts) (tokens r)"
  using tokens_members [OF assms, of r]
  by (simp add: json_object_def tokens_punctuation punctuation_chars option.map_comp comp_def del: tokens.simps)

lemma run_members:
  assumes "leaves fs" "fs \<noteq> []" "x = KeyOrEnd \<or> x = KeyOnly"
  shows "json_run True (memberTokens fs @ RBrace # ts) (InObject m k # st, x) =
    json_run True ts (put_value True (JStruct (m @ map (map_prod id leafTree) fs)) st)"
  using assms
proof (induction fs arbitrary: m k x rule: memberTokens.induct)
  case (2 k' v fs)
  have key: "json_step True (TString (json_escape False k')) (InObject m k # st, x) = Some (InObject m k' # st, WantColon)"
    using 2(2,4) by (auto simp: read_key_def unquote_escape)
  have val: "start_value True (leafToken v) (InObject m k' # st) = Some (InObject (m @ [(k', leafTree v)]) k' # st, CommaOrEnd)"
    using 2(2) by (simp add: start_leaf put_value_def)
  show ?case
  proof (cases "fs = []")
    case True
    then show ?thesis by (simp add: key val after_value_def close_frame_def)
  next
    case False
    then show ?thesis using 2(1) [OF False, of KeyOnly] 2(2) by (simp add: key val after_value_def)
  qed
qed simp

lemma run_struct:
  assumes "leaves fs" "fs \<noteq> []" "length st < 10000"
  shows "json_run True (LBrace # memberTokens fs @ RBrace # ts) (st, AnyValue) =
    json_run True ts (put_value True (JStruct (map (map_prod id leafTree) fs)) st)"
  using assms run_members [OF assms(1,2), of KeyOrEnd ts "[]"] by (simp add: start_value_def open_frame_def)

lemma json_value_struct:
  assumes "leaves fs" "fs \<noteq> []"
  shows "json_value True (json_encode False (JStruct fs)) = Some (JStruct (map (map_prod id leafTree) fs))"
  using tokens_struct [OF assms(1), of "[]"] run_struct [OF assms, of "[]" "[]"]
  by (simp add: json_value_def put_value_def del: json_run.simps(2) json_encode.simps)

lemma json_value_nested:
  assumes "ascii k" "leaves fs" "fs \<noteq> []"
  shows "json_value True (json_encode False (JStruct [(k, JStruct fs)])) =
    Some (JStruct [(k, JStruct (map (map_prod id leafTree) fs))])"
proof -
  let ?ts = "[LBrace, TString (json_escape False k), Colon] @ (LBrace # memberTokens fs @ RBrace # [RBrace])"
  have "json_encode False (JStruct [(k, JStruct fs)]) =
      CHR ''{'' # json_quote False k @ CHR '':'' # json_encode False (JStruct fs) @ ''}''"
    by (simp add: json_object_def json_member_def)
  then have "tokens (json_encode False (JStruct [(k, JStruct fs)])) = Some ?ts"
    using assms(1) tokens_struct [OF assms(2), of "''}''"]
    by (simp add: tokens_punctuation punctuation_chars tokens_string option.map_comp comp_def del: tokens.simps(2) json_encode.simps)
  moreover have "json_run True ?ts ([], AnyValue) =
      json_run True (LBrace # memberTokens fs @ RBrace # [RBrace]) ([InObject [] k], AnyValue)"
    using assms(1) by (simp add: start_value_def open_frame_def read_key_def unquote_escape del: json_run.simps(2) add: json_run.simps(2) [of True LBrace "_ # _ # _"] json_run.simps(2) [of True "TString _"] json_run.simps(2) [of True Colon])
  ultimately show ?thesis using run_struct [OF assms(2,3), of "[InObject [] k]" "[RBrace]"]
    by (simp add: json_value_def put_value_def after_value_def close_frame_def del: json_encode.simps)
qed

section \<open>Line breaks\<close>

fun scalar :: "json \<Rightarrow> bool" where
  "scalar (JStr s) = True"
| "scalar (JInt i) = True"
| "scalar _ = False"

lemma quote_no_newline: "CHR 0x0A \<notin> set (json_quote h s)"
  by (simp add: json_quote_def json_escape_no_newline)

lemma scalar_no_newline: "scalar v \<Longrightarrow> CHR 0x0A \<notin> set (json_encode h v)"
  using int_dec_literal literal_char_plain(4)
  by (cases v) (auto simp: quote_no_newline list_all_iff)

lemma set_join_comma: "set (join_comma xs) \<subseteq> insert (CHR '','') (\<Union> (set ` set xs))"
  by (induction xs rule: join_comma.induct) auto

lemma struct_no_newline:
  assumes "\<And>k v. (k, v) \<in> set fs \<Longrightarrow> CHR 0x0A \<notin> set (json_encode h v)"
  shows "CHR 0x0A \<notin> set (json_encode h (JStruct fs))"
proof -
  have "CHR 0x0A \<notin> set (json_member h (map_prod id (json_encode h) f))" if "f \<in> set fs" for f
    using assms [of "fst f" "snd f"] that by (cases f) (simp add: json_member_def quote_no_newline)
  then show ?thesis
    using set_join_comma [of "map (json_member h \<circ> map_prod id (json_encode h)) fs"] by (auto simp: json_object_def)
qed

section \<open>Integers\<close>

lemma atoi_int_dec_signed:
  assumes "- (2 ^ 63) \<le> i" "i < 2 ^ 63"
  shows "atoi (int_dec i) = Some i"
proof (cases "0 \<le> i")
  case True
  then show ?thesis using assms by (intro atoi_int_dec)
next
  case False
  then have "- int (dec_nat (nat_dec (nat (- i)))) = i" by (simp add: dec_nat_nat_dec)
  then show ?thesis using False assms nat_dec_digits [of "nat (- i)"] by (simp add: int_dec_def atoi_def)
qed

end
