(* ===== verification/Usage_Written.thy ===== *)
theory Usage_Written
  imports Usage_Correct Go_Json_Inverse
begin

text \<open>
  What the Elasticsearch sink sends and what its success means: the bulk body is split into the lines the
  batch was encoded to, each record is read back from its lines, and a write that reports success has
  stored every record, given that the bulk endpoint reports on each action as documented.
\<close>

section \<open>Reading a bulk body\<close>

text \<open>The lines of a body come in pairs of an action and a document.\<close>

fun linePairs :: "string list \<Rightarrow> (string \<times> string) list" where
  "linePairs (a # d # rest) = (a, d) # linePairs rest"
| "linePairs _ = []"

definition actionID :: "string \<Rightarrow> string option" where
  "actionID line =
     (case json_value True line of
        Some (JStruct [(act, JStruct [(k, JStr key)])]) \<Rightarrow> if act = ''create'' \<and> k = ''_id'' then Some key else None
      | _ \<Rightarrow> None)"

definition bulkIDs :: "string \<Rightarrow> string option list" where
  "bulkIDs body = map (actionID \<circ> fst) (linePairs (strSplit body [CHR 0x0A]))"

definition fieldStr :: "(string \<times> json) list \<Rightarrow> string \<Rightarrow> string option" where
  "fieldStr ms k = (case map_of ms k of Some (JStr s) \<Rightarrow> Some s | _ \<Rightarrow> None)"

definition fieldInt :: "(string \<times> json) list \<Rightarrow> string \<Rightarrow> int option" where
  "fieldInt ms k = (case map_of ms k of Some (JNum t) \<Rightarrow> atoi t | _ \<Rightarrow> None)"

record usageDocument =
  docTimestamp :: "string option"
  docUser :: "string option"
  docInbound :: "string option"
  docNode :: "string option"
  docUplink :: "int option"
  docDownlink :: "int option"
  docCollected :: "string option"

definition readDocument :: "string \<Rightarrow> usageDocument option" where
  "readDocument line =
     (case json_value True line of
        Some (JStruct ms) \<Rightarrow>
          Some \<lparr>docTimestamp = fieldStr ms ''@timestamp'', docUser = fieldStr ms ''user'',
                docInbound = fieldStr ms ''inbound_node'', docNode = fieldStr ms ''node'',
                docUplink = fieldInt ms ''uplink_bytes'', docDownlink = fieldInt ms ''downlink_bytes'',
                docCollected = fieldStr ms ''collected_at''\<rparr>
      | _ \<Rightarrow> None)"

definition readBulk :: "string \<Rightarrow> (string option \<times> usageDocument option) list" where
  "readBulk body = map (map_prod actionID readDocument) (linePairs (strSplit body [CHR 0x0A]))"

section \<open>The lines of a batch\<close>

lemma action_line: "CHR 0x0A \<notin> set (json_encode False (bulkAction r))"
  unfolding bulkAction_def
  by (rule struct_no_newline)
    (auto intro!: struct_no_newline simp: quote_no_newline simp del: json_encode.simps(8))

lemma document_line:
  assumes "usageJson r = Some doc"
  shows "CHR 0x0A \<notin> set (json_encode False doc)"
proof -
  obtain fs where doc: "doc = JStruct fs" and fs: "\<forall>(k, v)\<in>set fs. scalar v"
    using assms by (auto simp: usageJson_def split: option.splits)
  show ?thesis unfolding doc by (rule struct_no_newline, rule scalar_no_newline) (use fs in auto)
qed

definition docLine :: "UsageRecord \<Rightarrow> string" where
  "docLine r = (case usageJson r of Some doc \<Rightarrow> json_encode False doc | None \<Rightarrow> [])"

lemma split_line: "CHR 0x0A \<notin> set a \<Longrightarrow> strSplit (a @ CHR 0x0A # b) [CHR 0x0A] = a # strSplit b [CHR 0x0A]"
  using split_cut [of "CHR 0x0A" a "[]" b] by simp

lemma bulk_pairs:
  "bulkBody batch = Some body \<Longrightarrow>
   linePairs (strSplit body [CHR 0x0A]) = map (\<lambda>r. (json_encode False (bulkAction r), docLine r)) batch"
proof (induction batch arbitrary: body)
  case Nil
  have "strSplit [] [CHR 0x0A] = [[]]" by (rule split_last) simp
  then show ?case using Nil by simp
next
  case (Cons r batch)
  from Cons.prems obtain doc rest where d: "usageJson r = Some doc" "bulkBody batch = Some rest"
    and body: "body = encodeLine (bulkAction r) @ encodeLine doc @ rest"
    by (auto split: option.splits)
  have "strSplit body [CHR 0x0A] =
      json_encode False (bulkAction r) # json_encode False doc # strSplit rest [CHR 0x0A]"
    using split_line [OF action_line] split_line [OF document_line [OF d(1)]] by (simp add: body encodeLine_def)
  then show ?case using Cons.IH [OF d(2)] d(1) by (simp add: docLine_def)
qed

lemma ascii_hex: "ascii (hex_bytes bs)"
  using hex_bytes_lower [of bs] by (auto simp: list_all_iff is_lower_hex_def is_digit_def)

lemma action_read: "actionID (json_encode False (bulkAction r)) = Some (DocumentKey r)"
proof -
  have "leaves [(''_id'', JStr (DocumentKey r))]" using ascii_hex by (simp add: DocumentKey_def)
  from json_value_nested [OF _ this, of "''create''"] show ?thesis by (simp add: actionID_def bulkAction_def del: json_encode.simps)
qed

lemma ascii_padded: "ascii (padded k n)"
  using nat_dec_digits [of n] by (auto simp: padded_def list_all_iff is_digit_def)

lemma ascii_fraction: "ascii (fraction k n)"
  using ascii_padded [of k n] by (auto simp: fraction_def list_all_iff dest: set_dropWhileD)

lemma ascii_zone: "ascii (zone_text z)"
  by (simp add: zone_text_def Let_def ascii_padded)

lemma ascii_parts:
  "ascii (padded 4 y @ ''-'' @ padded 2 m @ ''-'' @ padded 2 d @ ''T'' @ padded 2 h @ '':'' @ padded 2 n @ '':'' @
     padded 2 s @ fraction 9 f @ zone_text z)"
  by (simp add: ascii_padded ascii_fraction ascii_zone)

lemma ascii_time: "time_text t = Some s \<Longrightarrow> ascii s"
  unfolding time_text_def Let_def split_beta using ascii_parts by (metis option.distinct(1) option.inject)

definition asciiRecord :: "UsageRecord \<Rightarrow> bool" where
  "asciiRecord r \<longleftrightarrow> ascii (recUser r) \<and> ascii (recInbound r) \<and> ascii (recNode r)"

text \<open>The record as a document.\<close>

definition usageDoc :: "UsageRecord \<Rightarrow> usageDocument" where
  "usageDoc r =
     \<lparr>docTimestamp = time_text (Timestamp r), docUser = Some (recUser r), docInbound = Some (recInbound r),
      docNode = Some (recNode r), docUplink = Some (sint (UplinkBytes r)), docDownlink = Some (sint (DownlinkBytes r)),
      docCollected = time_text (CollectedAt r)\<rparr>"

lemma atoi_sint: "atoi (int_dec (sint (v :: int64))) = Some (sint v)"
proof (rule atoi_int_dec_signed)
  show "- (2 ^ 63) \<le> sint v" using sint_ge [of v] by simp
  show "sint v < 2 ^ 63" using sint_lt [of v] by simp
qed

lemma document_read:
  assumes "usageJson r = Some doc" "asciiRecord r"
  shows "readDocument (json_encode False doc) = Some (usageDoc r)"
proof -
  obtain ts ca where t: "time_text (Timestamp r) = Some ts" "time_text (CollectedAt r) = Some ca"
    and doc: "doc = JStruct [(''@timestamp'', JStr ts), (''user'', JStr (recUser r)), (''inbound_node'', JStr (recInbound r)),
      (''node'', JStr (recNode r)), (''uplink_bytes'', JInt (sint (UplinkBytes r))),
      (''downlink_bytes'', JInt (sint (DownlinkBytes r))), (''collected_at'', JStr ca)]" (is "_ = JStruct ?fs")
    using assms(1) by (auto simp: usageJson_def split: option.splits)
  have "leaves ?fs" using assms(2) ascii_time [OF t(1)] ascii_time [OF t(2)] by (simp add: asciiRecord_def)
  from json_value_struct [OF this]
  have v: "json_value True (json_encode False doc) = Some (JStruct (map (map_prod id leafTree) ?fs))" by (simp only: doc) simp
  show ?thesis
    by (simp only: readDocument_def v option.case json.case list.map map_prod_simp id_apply leafTree.simps)
      (simp add: usageDoc_def t fieldStr_def fieldInt_def atoi_sint)
qed

lemma bulkBody_encodes: "bulkBody batch = Some body \<Longrightarrow> r \<in> set batch \<Longrightarrow> \<exists>doc. usageJson r = Some doc"
  by (induction batch arbitrary: body) (auto split: option.splits)

section \<open>The properties\<close>

text \<open>C18. The bulk body reads back as the batch: a reader that splits the body into lines finds one pair of
  lines per record and in the order of the records, the action line creates the document under the
  record's key, and the document line decodes to the record's names, times and signed 64-bit counts. No
  content of a record can add a line. The names are ASCII.\<close>

theorem bulk_body_reads_back:
  assumes "bulkBody batch = Some body" "list_all asciiRecord batch"
  shows "readBulk body = map (\<lambda>r. (Some (DocumentKey r), Some (usageDoc r))) batch"
proof -
  have "readDocument (docLine r) = Some (usageDoc r)" if r: "r \<in> set batch" for r
  proof -
    obtain doc where "usageJson r = Some doc" using bulkBody_encodes [OF assms(1) r] by blast
    then show ?thesis using document_read assms(2) r by (simp add: docLine_def list_all_iff)
  qed
  then show ?thesis by (simp add: readBulk_def bulk_pairs [OF assms(1)] action_read)
qed

text \<open>
  The documented contract of the bulk endpoint: a successful response has one item per action and in the
  order of the actions; 201 reports that the document was created and 409 that one with its id exists.
\<close>

definition bulkEndpoint :: "(httpRequest \<Rightarrow> 'w \<Rightarrow> exchange \<times> 'w) \<Rightarrow> ('w \<Rightarrow> string set) \<Rightarrow> bool" where
  "bulkEndpoint http stored \<longleftrightarrow>
     (\<forall>req w code body w' resp.
        http req w = (Response code body, w') \<and> code < 300 \<and> unmarshalBulk body = Some resp \<longrightarrow>
        list_all2 (\<lambda>item key. itemStatus (itemCreate item) \<in> {201, 409} \<longrightarrow> key \<in> Some ` stored w')
          (fst (respItems resp)) (bulkIDs (reqBody req)))"

lemma evaluated_ok: "evaluateBulkResponse resp = None \<Longrightarrow> item \<in> set (fst (respItems resp)) \<Longrightarrow> itemOk item"
  by (auto simp: evaluateBulkResponse_def Let_def filter_empty_conv split: if_splits)

text \<open>C8. A write that reports success has stored the batch: if the bulk endpoint keeps its contract and
  \<open>Write\<close> returns no error, then a document with the key of each record of the batch is in the data stream.\<close>

theorem written_means_stored:
  assumes "bulkEndpoint http stored" "sinkWrite http k batch w = (None, w')" "r \<in> set batch"
  shows "DocumentKey r \<in> stored w'"
proof -
  have "batch \<noteq> []" using assms(3) by auto
  with assms(2) obtain body code answer resp where body: "bulkBody batch = Some body"
    and http: "http (bulkRequest k body) w = (Response code answer, w')" "code < 300" "unmarshalBulk answer = Some resp"
    and ok: "evaluateBulkResponse resp = None"
    by (auto simp: sinkWrite_def split: if_splits option.splits prod.splits exchange.splits)
  have "list_all2 (\<lambda>item key. itemStatus (itemCreate item) \<in> {201, 409} \<longrightarrow> key \<in> Some ` stored w')
      (fst (respItems resp)) (bulkIDs (reqBody (bulkRequest k body)))"
    using assms(1) http unfolding bulkEndpoint_def by blast
  moreover have "bulkIDs (reqBody (bulkRequest k body)) = map (\<lambda>r. Some (DocumentKey r)) batch"
    by (simp add: bulkIDs_def bulkRequest_def bulk_pairs [OF body] action_read)
  moreover obtain i where "i < length batch" "batch ! i = r" using assms(3) by (auto simp: in_set_conv_nth)
  ultimately have "itemOk (fst (respItems resp) ! i) \<longrightarrow> DocumentKey r \<in> stored w'"
    and "i < length (fst (respItems resp))"
    by (auto simp: list_all2_conv_all_nth itemOk_def)
  then show ?thesis using evaluated_ok [OF ok nth_mem] by blast
qed

section \<open>Witnesses\<close>

text \<open>An endpoint that stores a document at a time and is unavailable for anything else.\<close>

definition demoAnswer :: string where
  "demoAnswer = ''{'' @ CHR 0x22 # ''items'' @ CHR 0x22 # '':[{'' @ CHR 0x22 # ''create'' @ CHR 0x22 # '':{'' @
     CHR 0x22 # ''status'' @ CHR 0x22 # '':201}}]}''"

definition demoEndpoint :: "httpRequest \<Rightarrow> string set \<Rightarrow> exchange \<times> string set" where
  "demoEndpoint req w =
     (case bulkIDs (reqBody req) of
        [Some key] \<Rightarrow> (Response 200 demoAnswer, insert key w)
      | _ \<Rightarrow> (Response 503 [], w))"

definition demoSink :: ElasticsearchSink where
  "demoSink = \<lparr>bulkURL = ''http://es:9200/usage/_bulk'', apiKey = [], sinkClosed = False\<rparr>"

lemma demo_answer:
  "unmarshalBulk demoAnswer =
   Some \<lparr>respErrors = False, respItems = ([\<lparr>itemCreate = \<lparr>itemID = [], itemStatus = 201, itemError = None\<rparr>\<rparr>], [])\<rparr>"
  by code_simp

lemma demo_body: "bulkBody [demoRecord] = Some (the (bulkBody [demoRecord]))"
proof -
  have "time_text demoTime \<noteq> None" by (simp add: time_text_def demoTime_def Let_def split_beta)
  then show ?thesis by (auto simp: usageJson_def demoRecord_def)
qed

theorem bulk_body_reads_back_witness:
  "readBulk (the (bulkBody [demoRecord])) = [(Some (DocumentKey demoRecord), Some (usageDoc demoRecord))]"
  using bulk_body_reads_back [OF demo_body] by (simp add: asciiRecord_def demoRecord_def)

lemma demo_contract: "bulkEndpoint demoEndpoint id"
  by (auto simp: bulkEndpoint_def demoEndpoint_def demo_answer split: list.splits option.splits)

lemma demo_write:
  "sinkWrite demoEndpoint demoSink [demoRecord] {} = (None, {DocumentKey demoRecord})"
proof -
  have "bulkIDs (the (bulkBody [demoRecord])) = [Some (DocumentKey demoRecord)]"
    unfolding bulkIDs_def bulk_pairs [OF demo_body] by (simp add: action_read)
  then have "demoEndpoint (bulkRequest demoSink (the (bulkBody [demoRecord]))) {} =
      (Response 200 demoAnswer, {DocumentKey demoRecord})"
    by (simp add: demoEndpoint_def bulkRequest_def)
  moreover have "evaluateBulkResponse
      \<lparr>respErrors = False, respItems = ([\<lparr>itemCreate = \<lparr>itemID = [], itemStatus = 201, itemError = None\<rparr>\<rparr>], [])\<rparr> = None"
    by (simp add: evaluateBulkResponse_def itemOk_def)
  moreover have "\<not> sinkClosed demoSink" by (simp add: demoSink_def)
  ultimately show ?thesis by (subst sinkWrite_def, subst demo_body) (simp add: demo_answer)
qed

theorem written_means_stored_witness: "DocumentKey demoRecord \<in> snd (sinkWrite demoEndpoint demoSink [demoRecord] {})"
  using written_means_stored [OF demo_contract demo_write] by (simp add: demo_write)

end
