(* ===== verification/Usage_Poll.thy ===== *)
theory Usage_Poll
  imports Usage_Collector
begin

text \<open>
  Concurrent calls of \<open>pollCycle\<close>, \<open>src/internal/usagecollector/collector.go\<close>, as interleaved steps: the check of
  \<open>inPoll\<close>, the mutex, and the reads and writes of a cycle one by one. The main fact is that the mutex makes
  every interleaving equal to the sequential loop.
\<close>

section \<open>Steps\<close>

text \<open>Where a goroutine stands in \<open>pollCycle\<close>.\<close>

datatype phase =
    Outside
  | Checked
  | Locked
  | Discovering
  | Querying Time "CollectTarget list" recordIndex
  | Writing UsageBatch
  | Leaving
  | Unlocking

record ('w, 'e) pollState =
  phases :: "nat \<Rightarrow> phase"
  inPoll :: bool
  pollMu :: "nat option"
  world :: 'w
  outcomes :: "'e cycle list"

definition goto :: "nat \<Rightarrow> phase \<Rightarrow> ('w, 'e) pollState \<Rightarrow> ('w, 'e) pollState" where
  "goto t p s = s\<lparr>phases := (phases s)(t := p)\<rparr>"

definition leave :: "nat \<Rightarrow> 'e cycle \<Rightarrow> ('w, 'e) pollState \<Rightarrow> ('w, 'e) pollState" where
  "leave t r s = (goto t Leaving s)\<lparr>outcomes := outcomes s @ [r]\<rparr>"

text \<open>
  Goroutine \<open>t\<close> takes a step. A call that finds the flag set returns at once; the deferred calls clear the
  flag and then release the mutex, whatever the outcome.
\<close>

inductive pollStep :: "('w, 'e) Collector \<Rightarrow> ('w, 'e) pollState \<Rightarrow> ('w, 'e) pollState \<Rightarrow> bool" for c where
  skip: "phases s t = Outside \<Longrightarrow> inPoll s \<Longrightarrow> pollStep c s s"
| pass: "phases s t = Outside \<Longrightarrow> \<not> inPoll s \<Longrightarrow> pollStep c s (goto t Checked s)"
| lock: "phases s t = Checked \<Longrightarrow> pollMu s = None \<Longrightarrow> pollStep c s (goto t Locked s\<lparr>pollMu := Some t\<rparr>)"
| enter: "phases s t = Locked \<Longrightarrow> pollStep c s (goto t Discovering s\<lparr>inPoll := True\<rparr>)"
| discover_failed: "phases s t = Discovering \<Longrightarrow> discoverer c (world s) = (Inl err, w) \<Longrightarrow>
    pollStep c s (leave t (DiscoveryFailed err) s\<lparr>world := w\<rparr>)"
| discover_none: "phases s t = Discovering \<Longrightarrow> discoverer c (world s) = (Inr [], w) \<Longrightarrow>
    pollStep c s (leave t NoTargets s\<lparr>world := w\<rparr>)"
| discover_some: "phases s t = Discovering \<Longrightarrow> discoverer c (world s) = (Inr (x # xs), w) \<Longrightarrow>
    pollStep c s (goto t (Querying (clock c w) (x # xs) []) s\<lparr>world := w\<rparr>)"
| query: "phases s t = Querying at (x # xs) m \<Longrightarrow> pollTarget c at x (m, world s) = (m', w) \<Longrightarrow>
    pollStep c s (goto t (Querying at xs m') s\<lparr>world := w\<rparr>)"
| no_records: "phases s t = Querying at [] m \<Longrightarrow> map snd (ranged c m) = [] \<Longrightarrow> pollStep c s (leave t NoRecords s)"
| records: "phases s t = Querying at [] m \<Longrightarrow> map snd (ranged c m) \<noteq> [] \<Longrightarrow>
    pollStep c s (goto t (Writing (map snd (ranged c m))) s)"
| write_failed: "phases s t = Writing batch \<Longrightarrow> sink c batch (world s) = (Some err, w) \<Longrightarrow>
    pollStep c s (leave t (WriteFailed err) s\<lparr>world := w\<rparr>)"
| wrote: "phases s t = Writing batch \<Longrightarrow> sink c batch (world s) = (None, w) \<Longrightarrow>
    pollStep c s (leave t (Wrote batch) s\<lparr>world := w\<rparr>)"
| clear: "phases s t = Leaving \<Longrightarrow> pollStep c s (goto t Unlocking s\<lparr>inPoll := False\<rparr>)"
| unlock: "phases s t = Unlocking \<Longrightarrow> pollStep c s (goto t Outside s\<lparr>pollMu := None\<rparr>)"

definition pollStart :: "'w \<Rightarrow> ('w, 'e) pollState" where
  "pollStart w = \<lparr>phases = (\<lambda>_. Outside), inPoll = False, pollMu = None, world = w, outcomes = []\<rparr>"

inductive reachable :: "('w, 'e) Collector \<Rightarrow> 'w \<Rightarrow> ('w, 'e) pollState \<Rightarrow> bool" for c w where
  start: "reachable c w (pollStart w)"
| step: "reachable c w s \<Longrightarrow> pollStep c s s' \<Longrightarrow> reachable c w s'"

section \<open>The rest of a cycle\<close>

definition writeBatch :: "('w, 'e) Collector \<Rightarrow> UsageBatch \<Rightarrow> 'w \<Rightarrow> 'e cycle \<times> 'w" where
  "writeBatch c batch w = (case sink c batch w of (Some err, w) \<Rightarrow> (WriteFailed err, w) | (None, w) \<Rightarrow> (Wrote batch, w))"

definition collectBatch :: "('w, 'e) Collector \<Rightarrow> recordIndex \<times> 'w \<Rightarrow> 'e cycle \<times> 'w" where
  "collectBatch c acc =
     (let batch = map snd (ranged c (fst acc)) in if batch = [] then (NoRecords, snd acc) else writeBatch c batch (snd acc))"

text \<open>What a goroutine in a phase still has to do, if no other one interferes; None outside the cycle.\<close>

fun remaining :: "('w, 'e) Collector \<Rightarrow> phase \<Rightarrow> 'w \<Rightarrow> ('e cycle \<times> 'w) option" where
  "remaining c Discovering w = Some (cycleBody c w)"
| "remaining c (Querying at xs m) w = Some (collectBatch c (fold (pollTarget c at) xs (m, w)))"
| "remaining c (Writing batch) w = Some (writeBatch c batch w)"
| "remaining c _ w = None"

lemma cycleBody_steps:
  "discoverer c w = (Inl err, w') \<Longrightarrow> cycleBody c w = (DiscoveryFailed err, w')"
  "discoverer c w = (Inr [], w') \<Longrightarrow> cycleBody c w = (NoTargets, w')"
  "discoverer c w = (Inr (x # xs), w') \<Longrightarrow>
   cycleBody c w = collectBatch c (fold (pollTarget c (clock c w')) (x # xs) ([], w'))"
  by (simp_all add: cycleBody_def collectBatch_def writeBatch_def Let_def split_beta)

lemma Run_Tick: "Run c (Tick # evs) w = (let (r, w') = cycleBody c w; (rs, w'') = Run c evs w' in (r # rs, w''))"
  by (simp add: pollCycle_def)

lemma Run_snoc:
  assumes "Run c (replicate n Tick) w = (rs, w1)" "cycleBody c w1 = (r, w2)"
  shows "Run c (replicate (Suc n) Tick) w = (rs @ [r], w2)"
  using assms(1)
proof (induction n arbitrary: w rs)
  case 0
  then show ?case using assms(2) by (simp add: pollCycle_def)
next
  case (Suc n)
  obtain r0 w0 where b: "cycleBody c w = (r0, w0)" by fastforce
  obtain rs0 w' where run: "Run c (replicate n Tick) w0 = (rs0, w')" by fastforce
  have e: "rs = r0 # rs0" "w' = w1" using Suc.prems by (simp_all add: pollCycle_def b run)
  have ih: "Run c (replicate (Suc n) Tick) w0 = (rs0 @ [r], w2)" using run e(2) by (intro Suc.IH) simp
  have "Run c (Tick # replicate (Suc n) Tick) w = (rs @ [r], w2)"
    by (simp only: Run_Tick b ih Let_def prod.case e(1) append_Cons)
  then show ?case by simp
qed

section \<open>The invariant\<close>

definition holds_lock :: "phase \<Rightarrow> bool" where
  "holds_lock p \<longleftrightarrow> p \<noteq> Outside \<and> p \<noteq> Checked"

definition flagged :: "phase \<Rightarrow> bool" where
  "flagged p \<longleftrightarrow> holds_lock p \<and> p \<noteq> Locked \<and> p \<noteq> Unlocking"

text \<open>The phase of the goroutine with the mutex.\<close>

definition current :: "('w, 'e) pollState \<Rightarrow> phase" where
  "current s = (case pollMu s of None \<Rightarrow> Outside | Some t \<Rightarrow> phases s t)"

text \<open>The cycles that ended, with what is left of the one in phase \<open>p\<close>, are those of the sequential loop.\<close>

definition serial :: "('w, 'e) Collector \<Rightarrow> 'w \<Rightarrow> phase \<Rightarrow> ('w, 'e) pollState \<Rightarrow> bool" where
  "serial c w p s \<longleftrightarrow>
     (case remaining c p (world s) of
        None \<Rightarrow> Run c (replicate (length (outcomes s)) Tick) w = (outcomes s, world s)
      | Some (r, w') \<Rightarrow> Run c (replicate (Suc (length (outcomes s))) Tick) w = (outcomes s @ [r], w'))"

text \<open>The mutex belongs to the one goroutine past it, and the flag is set while that one is in its cycle.\<close>

definition poll_inv :: "('w, 'e) Collector \<Rightarrow> 'w \<Rightarrow> ('w, 'e) pollState \<Rightarrow> bool" where
  "poll_inv c w s \<longleftrightarrow>
     (\<forall>t. holds_lock (phases s t) \<longleftrightarrow> pollMu s = Some t) \<and> (inPoll s \<longleftrightarrow> flagged (current s)) \<and> serial c w (current s) s"

lemma serial_frame: "world s' = world s \<Longrightarrow> outcomes s' = outcomes s \<Longrightarrow> serial c w p s' = serial c w p s"
  by (simp add: serial_def cong: option.case_cong)

lemma serial_None: "remaining c p = remaining c p' \<Longrightarrow> serial c w p s = serial c w p' s"
  by (simp add: serial_def)

lemma goto_simps [simp]:
  "phases (goto t p s) = (phases s)(t := p)" "pollMu (goto t p s) = pollMu s" "inPoll (goto t p s) = inPoll s"
  "world (goto t p s) = world s" "outcomes (goto t p s) = outcomes s"
  by (simp_all add: goto_def)

lemma leave_simps [simp]:
  "phases (leave t r s) = (phases s)(t := Leaving)" "pollMu (leave t r s) = pollMu s" "inPoll (leave t r s) = inPoll s"
  "world (leave t r s) = world s" "outcomes (leave t r s) = outcomes s @ [r]"
  by (simp_all add: leave_def)

lemma inv_owner:
  assumes "poll_inv c w s" "phases s t = p" "holds_lock p"
  shows "pollMu s = Some t" "inPoll s = flagged p" "serial c w p s"
  using assms by (auto simp: poll_inv_def current_def)

lemma inv_keep:
  assumes "poll_inv c w s" "phases s t = p" "holds_lock p" "holds_lock p'" "phases s' = (phases s)(t := p')"
    and "pollMu s' = pollMu s" "inPoll s' = flagged p'" "serial c w p' s'"
  shows "poll_inv c w s'"
  using assms(1,4-8) inv_owner(1) [OF assms(1-3)] by (auto simp: poll_inv_def current_def)

lemma inv_pass:
  assumes "poll_inv c w s" "phases s t = Outside"
  shows "poll_inv c w (goto t Checked s)"
proof -
  have l: "holds_lock (phases s t') \<longleftrightarrow> pollMu s = Some t'" for t' using assms(1) by (simp add: poll_inv_def)
  have "pollMu s \<noteq> Some t" using l [of t] assms(2) by (simp add: holds_lock_def)
  then have "current (goto t Checked s) = current s" by (auto simp: current_def split: option.splits)
  moreover have "holds_lock (((phases s)(t := Checked)) t') \<longleftrightarrow> pollMu s = Some t'" for t'
    using l [of t'] \<open>pollMu s \<noteq> Some t\<close> by (simp add: holds_lock_def)
  ultimately show ?thesis using assms(1) by (simp add: poll_inv_def serial_frame [of "goto t Checked s" s])
qed

lemma inv_lock:
  assumes "poll_inv c w s" "phases s t = Checked" "pollMu s = None"
  shows "poll_inv c w (goto t Locked s\<lparr>pollMu := Some t\<rparr>)"
proof -
  have "\<not> holds_lock (phases s t')" for t' using assms(1,3) by (simp add: poll_inv_def)
  then have "holds_lock (((phases s)(t := Locked)) t') \<longleftrightarrow> t = t'" for t' by (simp add: holds_lock_def)
  moreover have "serial c w Locked s \<longleftrightarrow> serial c w Outside s" by (rule serial_None) (simp add: fun_eq_iff)
  ultimately show ?thesis
    using assms(1,3) serial_frame [of "goto t Locked s\<lparr>pollMu := Some t\<rparr>" s c w Locked]
    by (simp add: poll_inv_def current_def flagged_def holds_lock_def)
qed

lemma inv_unlock:
  assumes "poll_inv c w s" "phases s t = Unlocking"
  shows "poll_inv c w (goto t Outside s\<lparr>pollMu := None\<rparr>)"
proof -
  have o: "pollMu s = Some t" "\<not> inPoll s" "serial c w Unlocking s"
    using inv_owner [OF assms] by (simp_all add: holds_lock_def flagged_def)
  then have "\<not> holds_lock (((phases s)(t := Outside)) t')" for t' using assms(1) by (auto simp: poll_inv_def holds_lock_def)
  moreover have "serial c w Unlocking s \<longleftrightarrow> serial c w Outside s" by (rule serial_None) (simp add: fun_eq_iff)
  ultimately show ?thesis
    using o serial_frame [of "goto t Outside s\<lparr>pollMu := None\<rparr>" s c w Outside]
    by (simp add: poll_inv_def current_def flagged_def holds_lock_def)
qed

text \<open>A step within the cycle: what was left to do is what is left now, or it has ended.\<close>

lemma serial_goto:
  assumes "serial c w p s" "remaining c p (world s) = remaining c p' w'" "remaining c p' w' \<noteq> None"
  shows "serial c w p' (goto t p' s\<lparr>world := w'\<rparr>)"
  using assms by (cases "remaining c p' w'") (auto simp: serial_def simp del: replicate_Suc)

lemma serial_leave:
  assumes "serial c w p s" "remaining c p (world s) = Some (r, w')"
  shows "serial c w Leaving (leave t r s\<lparr>world := w'\<rparr>)"
  using assms by (simp add: serial_def)

lemma inv_goto:
  assumes "poll_inv c w s" "phases s t = p" "flagged p" "flagged p'"
    and "remaining c p (world s) = remaining c p' w'" "remaining c p' w' \<noteq> None"
  shows "poll_inv c w (goto t p' s\<lparr>world := w'\<rparr>)"
proof -
  have h: "holds_lock p" "holds_lock p'" using assms(3,4) by (simp_all add: flagged_def)
  show ?thesis
    by (rule inv_keep [OF assms(1,2) h])
      (use inv_owner(2) [OF assms(1,2) h(1)] assms(3,4) serial_goto [OF inv_owner(3) [OF assms(1,2) h(1)] assms(5,6)]
       in simp_all)
qed

lemma inv_leave:
  assumes "poll_inv c w s" "phases s t = p" "flagged p" "remaining c p (world s) = Some (r, w')"
  shows "poll_inv c w (leave t r s\<lparr>world := w'\<rparr>)"
proof -
  have h: "holds_lock p" "holds_lock Leaving" "flagged Leaving" using assms(3) by (simp_all add: flagged_def holds_lock_def)
  show ?thesis
    by (rule inv_keep [OF assms(1,2) h(1,2)])
      (use inv_owner(2) [OF assms(1,2) h(1)] assms(3) h(3) serial_leave [OF inv_owner(3) [OF assms(1,2) h(1)] assms(4)]
       in simp_all)
qed

lemma inv_enter:
  assumes "poll_inv c w s" "phases s t = Locked"
  shows "poll_inv c w (goto t Discovering s\<lparr>inPoll := True\<rparr>)"
proof -
  have h: "holds_lock Locked" by (simp add: holds_lock_def)
  have "Run c (replicate (length (outcomes s)) Tick) w = (outcomes s, world s)"
    using inv_owner(3) [OF assms h] by (simp add: serial_def)
  from Run_snoc [OF this] have "serial c w Discovering s"
    by (cases "cycleBody c (world s)") (simp add: serial_def del: replicate_Suc)
  then have "serial c w Discovering (goto t Discovering s\<lparr>inPoll := True\<rparr>)" by (subst serial_frame [of _ s]) simp_all
  then show ?thesis by (intro inv_keep [OF assms h]) (simp_all add: holds_lock_def flagged_def)
qed

lemma inv_clear:
  assumes "poll_inv c w s" "phases s t = Leaving"
  shows "poll_inv c w (goto t Unlocking s\<lparr>inPoll := False\<rparr>)"
proof -
  have h: "holds_lock Leaving" by (simp add: holds_lock_def)
  have "serial c w Unlocking s" using inv_owner(3) [OF assms h] by (simp add: serial_def)
  then have "serial c w Unlocking (goto t Unlocking s\<lparr>inPoll := False\<rparr>)" by (subst serial_frame [of _ s]) simp_all
  then show ?thesis by (intro inv_keep [OF assms h]) (simp_all add: holds_lock_def flagged_def)
qed

lemma remaining_steps:
  "discoverer c w = (Inl err, w') \<Longrightarrow> remaining c Discovering w = Some (DiscoveryFailed err, w')"
  "discoverer c w = (Inr [], w') \<Longrightarrow> remaining c Discovering w = Some (NoTargets, w')"
  "discoverer c w = (Inr (x # xs), w') \<Longrightarrow> remaining c Discovering w = remaining c (Querying (clock c w') (x # xs) []) w'"
  "pollTarget c at x (m, w) = (m', w') \<Longrightarrow> remaining c (Querying at (x # xs) m) w = remaining c (Querying at xs m') w'"
  "map snd (ranged c m) = [] \<Longrightarrow> remaining c (Querying at [] m) w = Some (NoRecords, w)"
  "map snd (ranged c m) \<noteq> [] \<Longrightarrow> remaining c (Querying at [] m) w = remaining c (Writing (map snd (ranged c m))) w"
  "sink c batch w = (Some e, w') \<Longrightarrow> remaining c (Writing batch) w = Some (WriteFailed e, w')"
  "sink c batch w = (None, w') \<Longrightarrow> remaining c (Writing batch) w = Some (Wrote batch, w')"
  by (simp_all add: cycleBody_steps collectBatch_def writeBatch_def Let_def)

lemma flagged_phases: "flagged Discovering" "flagged (Querying at xs m)" "flagged (Writing batch)"
  by (simp_all add: flagged_def holds_lock_def)

lemma same_world: "leave t r s\<lparr>world := world s\<rparr> = leave t r s" "goto t p s\<lparr>world := world s\<rparr> = goto t p s"
  by (simp_all add: leave_def goto_def)

lemma inv_step:
  assumes "pollStep c s s'" "poll_inv c w s"
  shows "poll_inv c w s'"
  using assms
proof cases
  case (no_records t at m)
  then show ?thesis using inv_leave [OF assms(2) no_records(2) flagged_phases(2) remaining_steps(5) [OF no_records(3)]]
    by (simp add: same_world)
next
  case (records t at m)
  then show ?thesis
    using inv_goto [OF assms(2) records(2) flagged_phases(2,3) remaining_steps(6) [OF records(3)]] by (simp add: same_world)
next
  case (query t at x xs m m' v)
  then show ?thesis
    using inv_goto [OF assms(2) query(2) flagged_phases(2,2) remaining_steps(4) [OF query(3)]] by simp
next
  case (discover_some t x xs v)
  then show ?thesis
    using inv_goto [OF assms(2) discover_some(2) flagged_phases(1,2) remaining_steps(3) [OF discover_some(3)]] by simp
next
  case (discover_failed t err v)
  then show ?thesis
    using inv_leave [OF assms(2) discover_failed(2) flagged_phases(1) remaining_steps(1) [OF discover_failed(3)]] by simp
next
  case (discover_none t v)
  then show ?thesis
    using inv_leave [OF assms(2) discover_none(2) flagged_phases(1) remaining_steps(2) [OF discover_none(3)]] by simp
next
  case (write_failed t batch err v)
  then show ?thesis
    using inv_leave [OF assms(2) write_failed(2) flagged_phases(3) remaining_steps(7) [OF write_failed(3)]] by simp
next
  case (wrote t batch v)
  then show ?thesis
    using inv_leave [OF assms(2) wrote(2) flagged_phases(3) remaining_steps(8) [OF wrote(3)]] by simp
qed (simp_all add: inv_pass inv_lock inv_enter inv_clear inv_unlock)

lemma reachable_inv: "reachable c w s \<Longrightarrow> poll_inv c w s"
proof (induction rule: reachable.induct)
  case start
  then show ?case by (simp add: poll_inv_def pollStart_def current_def serial_def holds_lock_def flagged_def)
next
  case (step s s')
  then show ?case by (blast intro: inv_step)
qed

text \<open>C7. Concurrent polls serialise: however the steps of concurrent \<open>pollCycle\<close> calls interleave, at
  most one call is past the mutex; while none is, the mutex and the flag are free, so no early return keeps them;
  and whenever no call is inside a cycle, the cycles that ended and the world are those of the sequential
  loop of \<open>Run\<close> over as many ticks.\<close>

theorem polls_serialize:
  assumes "reachable c w s"
  shows "(\<forall>t t'. holds_lock (phases s t) \<longrightarrow> holds_lock (phases s t') \<longrightarrow> t = t')
    \<and> ((\<forall>t. \<not> holds_lock (phases s t)) \<longrightarrow> pollMu s = None \<and> \<not> inPoll s)
    \<and> ((\<forall>t. \<not> flagged (phases s t)) \<longrightarrow> Run c (replicate (length (outcomes s)) Tick) w = (outcomes s, world s))"
proof -
  have inv: "poll_inv c w s" by (rule reachable_inv [OF assms])
  have l: "holds_lock (phases s t) \<longleftrightarrow> pollMu s = Some t" for t using inv by (simp add: poll_inv_def)
  have "pollMu s = None \<and> \<not> inPoll s" if "\<forall>t. \<not> holds_lock (phases s t)"
    using that l inv by (cases "pollMu s") (auto simp: poll_inv_def current_def flagged_def holds_lock_def)
  moreover have "Run c (replicate (length (outcomes s)) Tick) w = (outcomes s, world s)"
    if "\<forall>t. \<not> flagged (phases s t)"
  proof -
    have "\<not> flagged (current s)" using that by (simp add: current_def flagged_def holds_lock_def split: option.splits)
    then have "remaining c (current s) (world s) = None" by (cases "current s") (simp_all add: flagged_phases)
    then show ?thesis using inv by (simp add: poll_inv_def serial_def)
  qed
  moreover have "t = t'" if "holds_lock (phases s t)" "holds_lock (phases s t')" for t t' using that l by simp
  ultimately show ?thesis by blast
qed

section \<open>Witness\<close>

text \<open>Two calls that both pass the check before either takes the mutex; discovery counts its calls.\<close>

definition idleCollector :: "(nat, string) Collector" where
  "idleCollector =
     \<lparr>discoverer = (\<lambda>w. (Inr [], Suc w)), statsClient = (\<lambda>addr w. (Inr [], w)), sink = (\<lambda>batch w. (None, w)),
      clock = (\<lambda>w. \<lparr>UnixNano = 0, zoneOffset = 0\<rparr>), ranged = id\<rparr>"

definition idled :: "nat \<Rightarrow> (nat, string) pollState \<Rightarrow> (nat, string) pollState" where
  "idled t s = s\<lparr>phases := (phases s)(t := Outside), inPoll := False, pollMu := None, world := Suc (world s),
     outcomes := outcomes s @ [NoTargets]\<rparr>"

lemma idle_cycle:
  assumes "reachable idleCollector w s" "phases s t = Checked" "pollMu s = None"
  shows "reachable idleCollector w (idled t s)"
proof -
  let ?s1 = "goto t Locked s\<lparr>pollMu := Some t\<rparr>"
  let ?s2 = "goto t Discovering ?s1\<lparr>inPoll := True\<rparr>"
  let ?s3 = "leave t NoTargets ?s2\<lparr>world := Suc (world s)\<rparr>"
  let ?s4 = "goto t Unlocking ?s3\<lparr>inPoll := False\<rparr>"
  have "reachable idleCollector w ?s1" using assms by (intro reachable.step [OF assms(1)] pollStep.lock)
  then have "reachable idleCollector w ?s2" by (rule reachable.step) (rule pollStep.enter, simp)
  then have "reachable idleCollector w ?s3"
    by (rule reachable.step) (rule pollStep.discover_none, simp, simp add: idleCollector_def)
  then have "reachable idleCollector w ?s4" by (rule reachable.step) (rule pollStep.clear, simp)
  then have "reachable idleCollector w (goto t Outside ?s4\<lparr>pollMu := None\<rparr>)"
    by (rule reachable.step) (rule pollStep.unlock, simp)
  moreover have "goto t Outside ?s4\<lparr>pollMu := None\<rparr> = idled t s" by (simp add: goto_def leave_def idled_def)
  ultimately show ?thesis by simp
qed

theorem polls_serialize_witness:
  "Run idleCollector [Tick, Tick] 5 = ([NoTargets, NoTargets], 7)"
proof -
  let ?s = "goto 1 Checked (goto 0 Checked (pollStart (5 :: nat)))"
  let ?e = "idled 1 (idled 0 ?s)"
  have "pollStep idleCollector (pollStart 5) (goto 0 Checked (pollStart 5))"
    by (rule pollStep.pass) (simp_all add: pollStart_def)
  from reachable.step [OF reachable.start this] have one: "reachable idleCollector 5 (goto 0 Checked (pollStart 5))" .
  have "pollStep idleCollector (goto 0 Checked (pollStart 5)) ?s"
    by (rule pollStep.pass) (simp_all add: pollStart_def)
  from reachable.step [OF one this] have two: "reachable idleCollector 5 ?s" .
  have "reachable idleCollector 5 (idled 0 ?s)" by (rule idle_cycle [OF two]) (simp_all add: pollStart_def)
  then have run: "reachable idleCollector 5 ?e" by (rule idle_cycle) (simp_all add: idled_def)
  have "phases ?e t = Outside" for t by (simp add: idled_def pollStart_def)
  then have "\<forall>t. \<not> flagged (phases ?e t)" by (simp add: flagged_def holds_lock_def)
  then have "Run idleCollector (replicate (length (outcomes ?e)) Tick) 5 = (outcomes ?e, world ?e)"
    using polls_serialize [OF run] by blast
  moreover have "outcomes ?e = [NoTargets, NoTargets]" "world ?e = 7" by (simp_all add: idled_def pollStart_def)
  ultimately show ?thesis by (simp only: list.size) (simp only: add_0 add_Suc replicate.simps)
qed

end
