(* ===== verification/Config_Typed.thy ===== *)
theory Config_Typed
  imports Config_Correct
begin

text \<open>
  The shape of the entries of a node's configuration: the fields sing-box reads have the JSON types it expects,
  and no entry repeats a key.
\<close>

section \<open>The shapes\<close>

fun is_str :: "json \<Rightarrow> bool" where
  "is_str (JStr s) = True"
| "is_str _ = False"

fun is_int :: "json \<Rightarrow> bool" where
  "is_int (JInt i) = True"
| "is_int _ = False"

definition field_ok :: "(json \<Rightarrow> bool) \<Rightarrow> (string \<times> json) list \<Rightarrow> string \<Rightarrow> bool" where
  "field_ok P m k \<longleftrightarrow> (case map_of m k of Some v \<Rightarrow> P v | None \<Rightarrow> False)"

abbreviation proxyTypes :: "string list" where
  "proxyTypes \<equiv> [''socks'', ''http'', ''shadowsocks'', ''trojan'', ''hysteria2'', ''tuic'', ''anytls'']"

definition outbound_typed :: "json \<Rightarrow> bool" where
  "outbound_typed ob \<longleftrightarrow>
     (case as_map ob of
        None \<Rightarrow> False
      | Some m \<Rightarrow>
          wf_map m \<and> field_ok is_str m ''tag'' \<and>
          (str_field m ''type'' = ''direct'' \<or>
           str_field m ''type'' \<in> set proxyTypes \<and> field_ok is_str m ''server'' \<and> field_ok is_int m ''server_port'' \<and>
           list_all (\<lambda>(k, v). k \<in> {''username'', ''password'', ''uuid'', ''method''} \<longrightarrow> is_str v) m))"

definition user_typed :: "json \<Rightarrow> bool" where
  "user_typed u \<longleftrightarrow> (case as_map u of None \<Rightarrow> False | Some f \<Rightarrow> wf_map f \<and> f \<noteq> [] \<and> list_all (\<lambda>(k, v). is_str v) f)"

definition users_typed :: "json \<Rightarrow> bool" where
  "users_typed v \<longleftrightarrow> (case v of JArr us \<Rightarrow> us \<noteq> [] \<and> list_all user_typed us | _ \<Rightarrow> False)"

definition inbound_typed :: "json \<Rightarrow> bool" where
  "inbound_typed ib \<longleftrightarrow>
     (case as_map ib of
        None \<Rightarrow> False
      | Some m \<Rightarrow>
          wf_map m \<and> field_ok is_str m ''type'' \<and> field_ok is_str m ''tag'' \<and> field_ok is_str m ''listen'' \<and>
          field_ok is_int m ''listen_port'' \<and> field_ok users_typed m ''users'')"

text \<open>The protocols the resource definition allows.\<close>

definition knownProtocol :: "ExternalOutbound \<Rightarrow> bool" where
  "knownProtocol eob \<longleftrightarrow> eobProtocol (eobSpec eob) \<in>
     {ExternalProtocolSocks5, ExternalProtocolHTTP, ExternalProtocolShadowsocks, ExternalProtocolTrojan,
      ExternalProtocolHysteria2, ExternalProtocolTUIC, ExternalProtocolAnyTLS}"

section \<open>Outbounds\<close>

lemma typed_relay: "outbound_typed (relayOutbound input name node)"
  by (simp add: outbound_typed_def relayOutbound_def Let_def wf_map_def field_ok_def str_field_def)

lemma typed_direct: "outbound_typed (directOutbound t)" "outbound_typed buildDirectOutbound"
  by (simp_all add: outbound_typed_def directOutbound_def buildDirectOutbound_def wf_map_def field_ok_def str_field_def)

abbreviation credKeys :: "string list" where
  "credKeys \<equiv> [''username'', ''password'', ''uuid'', ''method'']"

definition cred_fields :: "(string \<times> json) list \<Rightarrow> bool" where
  "cred_fields fs \<longleftrightarrow> distinct (map fst fs) \<and>
     list_all (\<lambda>(k, v). k \<notin> {''tag'', ''server'', ''server_port'', ''type''} \<and> (k \<in> set credKeys \<longrightarrow> is_str v)) fs"

lemma typed_entry:
  assumes "t \<in> set proxyTypes" "cred_fields fs"
  shows "outbound_typed (JMap ([(''tag'', JStr a), (''server'', JStr b), (''server_port'', JInt c)] @ (''type'', JStr t) # fs))"
proof -
  have "''tag'' \<notin> fst ` set fs" "''server'' \<notin> fst ` set fs" "''server_port'' \<notin> fst ` set fs" "''type'' \<notin> fst ` set fs"
    using assms(2) by (auto simp: cred_fields_def list_all_iff)
  moreover have "list_all (\<lambda>(k, v). k \<in> set credKeys \<longrightarrow> is_str v) fs" "distinct (map fst fs)"
    using assms(2) by (auto simp: cred_fields_def list_all_iff)
  ultimately show ?thesis using assms(1)
    by (simp add: outbound_typed_def wf_map_def field_ok_def str_field_def)
qed

lemma cred_fields_cases:
  "cred_fields ((''version'', JStr ''5'') # optCred creds CredKeyUsername @ optCred creds CredKeyPassword)"
  "cred_fields (optCred creds CredKeyUsername @ optCred creds CredKeyPassword @ (if b then [(''tls'', tls)] else []))"
  "cred_fields [credField creds CredKeyMethod, credField creds CredKeyPassword]"
  "cred_fields [credField creds CredKeyPassword, (''tls'', tls)]"
  "cred_fields [credField creds CredKeyUUID, credField creds CredKeyPassword, (''tls'', tls)]"
  by (simp_all add: cred_fields_def optCred_def)

lemma cred_fields_hysteria2: "cred_fields (credField creds CredKeyPassword # hysteria2Fields h creds @ [(''tls'', tls)])"
  by (cases h) (simp_all add: cred_fields_def hysteria2Fields_def)

lemma typed_external:
  assumes "knownProtocol eob"
  shows "outbound_typed (buildExternalOutboundEntry eob creds)"
proof -
  let ?fs = "externalFields (eobSpec eob) creds"
  obtain t fs where f: "?fs = (''type'', JStr t) # fs" "t \<in> set proxyTypes" "cred_fields fs"
  proof -
    consider "eobProtocol (eobSpec eob) = ExternalProtocolSocks5" | "eobProtocol (eobSpec eob) = ExternalProtocolHTTP"
      | "eobProtocol (eobSpec eob) = ExternalProtocolShadowsocks" | "eobProtocol (eobSpec eob) = ExternalProtocolTrojan"
      | "eobProtocol (eobSpec eob) = ExternalProtocolHysteria2" | "eobProtocol (eobSpec eob) = ExternalProtocolTUIC"
      | "eobProtocol (eobSpec eob) = ExternalProtocolAnyTLS"
      using assms unfolding knownProtocol_def by blast
    then show thesis
      by cases (rule that, simp add: externalFields_def, simp, simp add: cred_fields_cases cred_fields_hysteria2)+
  qed
  show ?thesis unfolding buildExternalOutboundEntry_def f(1) by (rule typed_entry [OF f(2,3)])
qed

lemma addExternal_source:
  "set (snd (fold (addExternal input) xs acc)) \<subseteq> set (snd acc) \<union> {e. Some e \<in> set xs}"
proof (induction xs arbitrary: acc)
  case (Cons x xs)
  have "set (snd (addExternal input x acc)) \<subseteq> set (snd acc) \<union> {e. x = Some e}"
    by (auto simp: addExternal_def split: option.splits)
  then show ?case using Cons [of "addExternal input x acc"] by auto
qed simp

lemma resolved_source:
  assumes "e \<in> set (resolveExternalOutbounds input routes)"
  shows "Some e \<in> set (inExternalOutbounds input) \<or> e \<in> snd ` set (inExternalOutboundsByName input)"
proof -
  let ?acc = "fold (addExternal input) (inExternalOutbounds input) ([], [])"
  let ?rs = "map (\<lambda>r. map_of (inExternalOutboundsByName input) (OutboundNode (routeSpec r)))
    (filter (\<lambda>r. EffectiveOutboundKind r = OutboundKindExternalOutbound) routes)"
  have "e \<in> set (snd ?acc) \<or> Some e \<in> set ?rs"
    using assms addExternal_source [of input ?rs ?acc] by (auto simp: resolveExternalOutbounds_def Let_def)
  then show ?thesis
  proof
    assume "e \<in> set (snd ?acc)"
    then show ?thesis using addExternal_source [of input "inExternalOutbounds input" "([], [])"] by auto
  next
    assume "Some e \<in> set ?rs"
    then obtain k where "map_of (inExternalOutboundsByName input) k = Some e" by (auto simp: eq_commute)
    then show ?thesis by (auto dest!: map_of_SomeD intro: rev_image_eqI)
  qed
qed

definition knownExternals :: "Input \<Rightarrow> bool" where
  "knownExternals input \<longleftrightarrow>
     list_all (\<lambda>e. case e of None \<Rightarrow> True | Some eob \<Rightarrow> knownProtocol eob) (inExternalOutbounds input)
     \<and> list_all (\<lambda>(_, eob). knownProtocol eob) (inExternalOutboundsByName input)"

lemma known_resolved: "knownExternals input \<Longrightarrow> e \<in> set (resolveExternalOutbounds input routes) \<Longrightarrow> knownProtocol e"
  using resolved_source [of e input routes] by (fastforce simp: knownExternals_def list_all_iff)

lemma known_byName: "knownExternals input \<Longrightarrow> map_of (inExternalOutboundsByName input) k = Some e \<Longrightarrow> knownProtocol e"
  by (auto simp: knownExternals_def list_all_iff dest!: map_of_SomeD)

lemma typed_policyOutbound: "knownExternals input \<Longrightarrow> ob \<in> set (policyOutbound input name) \<Longrightarrow> outbound_typed ob"
  by (auto simp: policyOutbound_def typed_relay typed_external known_byName split: option.splits if_splits)

lemma typed_policyOutbounds:
  assumes "knownExternals input" "ob \<in> set (policyOutboundsLoop E input seen ps)"
  shows "outbound_typed ob"
  using assms(2)
  by (induction ps arbitrary: seen) (auto simp: Let_def typed_policyOutbound [OF assms(1)] split: if_splits)

lemma typed_outboundSide:
  assumes "knownExternals input" "ob \<in> set (outboundSide E input)"
  shows "outbound_typed ob"
  using assms(2) typed_policyOutbounds [OF assms(1)]
  by (auto simp: outboundSide_def Let_def buildOutboundNodeOutbounds_def buildRouteOutbounds_def routeOutbound_def
      buildExternalOutbounds_def buildPolicyOutbounds_def typed_relay typed_direct typed_external known_resolved [OF assms(1)]
      split: if_splits option.splits)

section \<open>Inbounds\<close>

lemma derived_strings: "list_all (\<lambda>(k, v). is_str v) (DeriveAuth p u t)"
  by (simp add: DeriveAuth_def)

lemma typed_userEntry: "user_typed (JMap (userEntry proto uuid n name))"
proof -
  have "list_all (\<lambda>(k, v). is_str v) (go_put key (JStr name) (DeriveAuth proto uuid n))" for key proto
    using derived_strings [of proto uuid n] set_go_put [of key "JStr name" "DeriveAuth proto uuid n"]
    by (fastforce simp: list_all_iff)
  then show ?thesis by (simp add: user_typed_def userEntry_def Let_def wf_map_go_put lg.one_per_key)
qed

lemma typed_inbound:
  assumes "users \<noteq> []" "\<And>u. u \<in> set users \<Longrightarrow> user_typed (JMap u)"
  shows "inbound_typed (buildInboundEntry proto tag port users)"
proof -
  have "users_typed (JArr (map JMap users))" using assms by (auto simp: users_typed_def list_all_iff)
  then show ?thesis by (simp add: inbound_typed_def buildInboundEntry_def wf_map_def field_ok_def)
qed

lemma typed_relay_inbound: "inbound_typed (buildRelayInbound input)"
  by (simp add: inbound_typed_def buildRelayInbound_def Let_def wf_map_def field_ok_def users_typed_def user_typed_def)

lemma typed_routeInbounds: "ib \<in> set (fst (buildRouteInbounds E input routes self)) \<Longrightarrow> inbound_typed ib"
  by (auto simp: buildRouteInbounds_def Let_def virtualUsers_def intro!: typed_inbound typed_userEntry split: if_splits)

lemma typed_userInbounds: "ib \<in> set (buildUserInbounds input) \<Longrightarrow> inbound_typed ib"
  by (auto simp: buildUserInbounds_def Let_def buildUsersBlock_def intro!: typed_inbound typed_userEntry split: if_splits)

lemma typed_inboundSide: "ib \<in> set (fst (inboundSide E input)) \<Longrightarrow> inbound_typed ib"
  by (auto simp: inboundSide_def Let_def split_beta typed_userInbounds typed_routeInbounds split: if_splits)

section \<open>The property\<close>



end
