(* ===== verification/Stats_Service.thy ===== *)
theory Stats_Service
  imports Usage_Collector
begin

text \<open>
  The statistics service of sing-box, \<open>src/internal/usagecollector/v2rayapi/stats_grpc.go\<close>: the client methods over a
  connection, the service description with its handlers, and the server that implements nothing. A
  connection is an argument: what \<open>Invoke\<close> does at the three message types.
\<close>

section \<open>Messages\<close>

record GetStatsRequest =
  getName :: string
  getReset :: bool

type_synonym Stat = "string \<times> int64"

record SysStatsResponse =
  NumGoroutine :: "32 word"
  NumGC :: "32 word"
  Alloc :: "64 word"
  TotalAlloc :: "64 word"
  Sys :: "64 word"
  Mallocs :: "64 word"
  Frees :: "64 word"
  LiveObjects :: "64 word"
  PauseTotalNs :: "64 word"
  Uptime :: "32 word"

text \<open>The methods of the service, as the client interface and the server interface list them.\<close>

record 'w StatsService =
  GetStats :: "GetStatsRequest \<Rightarrow> 'w \<Rightarrow> (string + Stat option) \<times> 'w"
  QueryStats :: "QueryStatsRequest \<Rightarrow> 'w \<Rightarrow> (string + Stat list) \<times> 'w"
  GetSysStats :: "unit \<Rightarrow> 'w \<Rightarrow> (string + SysStatsResponse) \<times> 'w"

section \<open>The client\<close>

record 'w clientConn =
  invokeGet :: "string \<Rightarrow> GetStatsRequest \<Rightarrow> 'w \<Rightarrow> (string + Stat option) \<times> 'w"
  invokeQuery :: "string \<Rightarrow> QueryStatsRequest \<Rightarrow> 'w \<Rightarrow> (string + Stat list) \<times> 'w"
  invokeSys :: "string \<Rightarrow> unit \<Rightarrow> 'w \<Rightarrow> (string + SysStatsResponse) \<times> 'w"

definition statsServiceGetStatsFullMethod :: string where
  "statsServiceGetStatsFullMethod = ''/v2ray.core.app.stats.command.StatsService/GetStats''"

definition statsServiceQueryStatsFullMethod :: string where
  "statsServiceQueryStatsFullMethod = ''/v2ray.core.app.stats.command.StatsService/QueryStats''"

definition statsServiceGetSysStatsFullMethod :: string where
  "statsServiceGetSysStatsFullMethod = ''/v2ray.core.app.stats.command.StatsService/GetSysStats''"

definition NewStatsServiceClient :: "'w clientConn \<Rightarrow> 'w StatsService" where
  "NewStatsServiceClient cc =
     \<lparr>GetStats = invokeGet cc statsServiceGetStatsFullMethod,
      QueryStats = invokeQuery cc statsServiceQueryStatsFullMethod,
      GetSysStats = invokeSys cc statsServiceGetSysStatsFullMethod\<rparr>"

section \<open>The server\<close>

definition UnimplementedStatsServiceServer :: "'w StatsService" where
  "UnimplementedStatsServiceServer =
     \<lparr>GetStats = (\<lambda>_ w. (Inl ''rpc error: code = Unimplemented desc = method GetStats not implemented'', w)),
      QueryStats = (\<lambda>_ w. (Inl ''rpc error: code = Unimplemented desc = method QueryStats not implemented'', w)),
      GetSysStats = (\<lambda>_ w. (Inl ''rpc error: code = Unimplemented desc = method GetSysStats not implemented'', w))\<rparr>"

text \<open>A handler decodes the request and calls the server; \<open>dec\<close> is the decoded request or the error.\<close>

definition handleWith :: "('q \<Rightarrow> 'w \<Rightarrow> (string + 'r) \<times> 'w) \<Rightarrow> string + 'q \<Rightarrow> 'w \<Rightarrow> (string + 'r) \<times> 'w" where
  "handleWith f dec w = (case dec of Inl e \<Rightarrow> (Inl e, w) | Inr q \<Rightarrow> f q w)"

definition handlerGetStats where
  "handlerGetStats srv = handleWith (GetStats srv)"

definition handlerQueryStats where
  "handlerQueryStats srv = handleWith (QueryStats srv)"

definition handlerGetSysStats where
  "handlerGetSysStats srv = handleWith (GetSysStats srv)"

datatype handler = HandlerGetStats | HandlerQueryStats | HandlerGetSysStats

record ServiceDesc =
  ServiceName :: string
  Methods :: "(string \<times> handler) list"

definition StatsService_ServiceDesc :: ServiceDesc where
  "StatsService_ServiceDesc =
     \<lparr>ServiceName = ''v2ray.core.app.stats.command.StatsService'',
      Methods = [(''GetStats'', HandlerGetStats), (''QueryStats'', HandlerQueryStats), (''GetSysStats'', HandlerGetSysStats)]\<rparr>"

section \<open>Client and server agree\<close>

text \<open>gRPC calls the handler of the method whose name follows the service name in the path.\<close>

definition dispatch :: "ServiceDesc \<Rightarrow> string \<Rightarrow> handler option" where
  "dispatch d path = map_of (map (\<lambda>(n, h). (''/'' @ ServiceName d @ ''/'' @ n, h)) (Methods d)) path"

lemma methods_agree:
  "dispatch StatsService_ServiceDesc statsServiceGetStatsFullMethod = Some HandlerGetStats"
  "dispatch StatsService_ServiceDesc statsServiceQueryStatsFullMethod = Some HandlerQueryStats"
  "dispatch StatsService_ServiceDesc statsServiceGetSysStatsFullMethod = Some HandlerGetSysStats"
  by (simp_all add: dispatch_def StatsService_ServiceDesc_def statsServiceGetStatsFullMethod_def
      statsServiceQueryStatsFullMethod_def statsServiceGetSysStatsFullMethod_def)

text \<open>A connection to a server behind the description: the request arrives as it was sent.\<close>

definition loopback :: "'w StatsService \<Rightarrow> 'w clientConn" where
  "loopback srv =
     \<lparr>invokeGet = (\<lambda>path q w. if dispatch StatsService_ServiceDesc path = Some HandlerGetStats
                                then handlerGetStats srv (Inr q) w else (Inl ''unknown method'', w)),
      invokeQuery = (\<lambda>path q w. if dispatch StatsService_ServiceDesc path = Some HandlerQueryStats
                                  then handlerQueryStats srv (Inr q) w else (Inl ''unknown method'', w)),
      invokeSys = (\<lambda>path q w. if dispatch StatsService_ServiceDesc path = Some HandlerGetSysStats
                                then handlerGetSysStats srv (Inr q) w else (Inl ''unknown method'', w))\<rparr>"

lemma client_reaches_server: "NewStatsServiceClient (loopback srv) = srv"
  by (simp add: NewStatsServiceClient_def loopback_def methods_agree handlerGetStats_def handlerQueryStats_def
      handlerGetSysStats_def handleWith_def)

end
