(* ===== verification/Manager.thy ===== *)
theory Manager
  imports Webhooks Client_Handler Node_Controller Usage_Collector
begin

text \<open>
  The entry point, \<open>src/cmd/main.go\<close>: the flags with their defaults, the options of the webhook and metrics
  servers, the field indexes, and the registrations with the manager in their order. The manager is
  code outside the repository: an argument that takes a registration and may refuse it.
\<close>

section \<open>Flags\<close>

record flags =
  metricsAddr :: string
  probeAddr :: string
  enableLeaderElection :: bool
  secureMetrics :: bool
  webhookCertPath :: string
  webhookCertName :: string
  webhookCertKey :: string
  metricsCertPath :: string
  metricsCertName :: string
  metricsCertKey :: string
  enableHTTP2 :: bool
  apiBindAddress :: string
  clientConfigTemplate :: string
  defaultTLSSecret :: string
  singboxImage :: string
  nodePortRangeMin :: int
  nodePortRangeMax :: int
  usageCollectEnabled :: bool
  usageV2RayAPIListenAddr :: string
  usagePollInterval :: Duration
  usageNodeTimeout :: Duration
  usageESEndpoint :: string
  usageESAPIKey :: string
  usageESDataStream :: string
  usageMaxBufferSize :: int
  usageShutdownTimeout :: Duration

definition defaultFlags :: flags where
  "defaultFlags =
     \<lparr>metricsAddr = ''0'', probeAddr = '':8081'', enableLeaderElection = False, secureMetrics = True,
      webhookCertPath = [], webhookCertName = ''tls.crt'', webhookCertKey = ''tls.key'',
      metricsCertPath = [], metricsCertName = ''tls.crt'', metricsCertKey = ''tls.key'', enableHTTP2 = False,
      apiBindAddress = '':8082'', clientConfigTemplate = [], defaultTLSSecret = ''sing-box-tls'',
      singboxImage = ''ghcr.io/sagernet/sing-box:latest'', nodePortRangeMin = 30000, nodePortRangeMax = 32767,
      usageCollectEnabled = False, usageV2RayAPIListenAddr = ''0.0.0.0:10085'', usagePollInterval = 30 * Second,
      usageNodeTimeout = 10 * Second, usageESEndpoint = [], usageESAPIKey = [], usageESDataStream = ''usage-traffic'',
      usageMaxBufferSize = 10000, usageShutdownTimeout = 30 * Second\<rparr>"

section \<open>Servers\<close>

datatype tlsOption = DisableHTTP2

definition tlsOpts :: "flags \<Rightarrow> tlsOption list" where
  "tlsOpts f = (if enableHTTP2 f then [] else [DisableHTTP2])"

text \<open>\<open>c.NextProtos\<close> of a TLS configuration after the options.\<close>

fun nextProtos :: "tlsOption list \<Rightarrow> string list \<Rightarrow> string list" where
  "nextProtos [] ps = ps"
| "nextProtos (DisableHTTP2 # os) ps = nextProtos os [''http/1.1'']"

record webhookOptions =
  hookTLSOpts :: "tlsOption list"
  hookCertDir :: string
  hookCertName :: string
  hookKeyName :: string

definition webhookServerOptions :: "flags \<Rightarrow> webhookOptions" where
  "webhookServerOptions f =
     (let opts = \<lparr>hookTLSOpts = tlsOpts f, hookCertDir = [], hookCertName = [], hookKeyName = []\<rparr>
      in if length (webhookCertPath f) > 0
         then opts\<lparr>hookCertDir := webhookCertPath f, hookCertName := webhookCertName f, hookKeyName := webhookCertKey f\<rparr>
         else opts)"

text \<open>\<open>FilterProvider\<close> is set or nil.\<close>

record metricsOptions =
  metricsBindAddress :: string
  SecureServing :: bool
  metricsTLSOpts :: "tlsOption list"
  FilterProvider :: bool
  metricsCertDir :: string
  metricsCertFile :: string
  metricsKeyFile :: string

definition metricsServerOptions :: "flags \<Rightarrow> metricsOptions" where
  "metricsServerOptions f =
     (let opts = \<lparr>metricsBindAddress = metricsAddr f, SecureServing = secureMetrics f, metricsTLSOpts = tlsOpts f,
                  FilterProvider = secureMetrics f, metricsCertDir = [], metricsCertFile = [], metricsKeyFile = []\<rparr>
      in if length (metricsCertPath f) > 0
         then opts\<lparr>metricsCertDir := metricsCertPath f, metricsCertFile := metricsCertName f, metricsKeyFile := metricsCertKey f\<rparr>
         else opts)"

record managerOptions =
  mgrMetrics :: metricsOptions
  mgrWebhook :: webhookOptions
  mgrProbe :: string
  mgrLeaderElection :: bool
  mgrElectionID :: string

definition managerOptionsFor :: "flags \<Rightarrow> managerOptions" where
  "managerOptionsFor f =
     \<lparr>mgrMetrics = metricsServerOptions f, mgrWebhook = webhookServerOptions f, mgrProbe = probeAddr f,
      mgrLeaderElection = enableLeaderElection f, mgrElectionID = ''7d42b374.singboxoperator.shlande.top''\<rparr>"

section \<open>Field indexes\<close>

definition nodeRefIndex :: "SingBoxNode \<Rightarrow> string list" where
  "nodeRefIndex sbn = (if NodeRef (nodeSpec sbn) = [] then [] else [NodeRef (nodeSpec sbn)])"

definition userGroupRefIndex :: "User \<Rightarrow> string list" where
  "userGroupRefIndex user = (if UserGroupRef (userSpec user) = [] then [] else [UserGroupRef (userSpec user)])"

section \<open>Registrations\<close>

text \<open>\<open>int32(x)\<close> wraps.\<close>

definition int32 :: "int \<Rightarrow> int" where
  "int32 x = (x + 2 ^ 31) mod 2 ^ 32 - 2 ^ 31"

datatype registration =
    NodeRefIndexed
  | UserGroupRefIndexed
  | NodeController SingBoxNodeReconciler
  | UserController
  | EgressPolicyController
  | NodeWebhook SingBoxNodeWebhook
  | UserWebhook
  | EgressPolicyWebhook
  | UserGroupWebhook
  | APIServer Server
  | UserGroupController
  | ExternalOutboundController
  | ExternalOutboundWebhook
  | UsageCollector CollectorConfig string
  | HealthzCheck
  | ReadyzCheck

definition usageCfg :: "flags \<Rightarrow> CollectorConfig" where
  "usageCfg f =
     \<lparr>cfgEnabled = True, PollInterval = usagePollInterval f, NodeTimeout = usageNodeTimeout f,
      ESEndpoint = usageESEndpoint f, ESAPIKey = usageESAPIKey f, ESDataStream = usageESDataStream f,
      MaxBufferSize = usageMaxBufferSize f, ShutdownTimeout = usageShutdownTimeout f\<rparr>"

definition nodeReconciler :: "flags \<Rightarrow> SingBoxNodeReconciler" where
  "nodeReconciler f =
     \<lparr>DefaultTLSSecret = defaultTLSSecret f, SingBoxImage = singboxImage f, UsageCollectionEnabled = usageCollectEnabled f,
      V2RayAPIListenAddr = usageV2RayAPIListenAddr f\<rparr>"

text \<open>What is registered before and after the usage collector.\<close>

definition firstRegistrations :: "flags \<Rightarrow> registration list" where
  "firstRegistrations f =
     [NodeRefIndexed, UserGroupRefIndexed, NodeController (nodeReconciler f), UserController, EgressPolicyController,
      NodeWebhook \<lparr>NodePortRangeMin = int32 (nodePortRangeMin f), NodePortRangeMax = int32 (nodePortRangeMax f)\<rparr>,
      UserWebhook, EgressPolicyWebhook, UserGroupWebhook,
      APIServer \<lparr>BindAddress = apiBindAddress f, TemplateRef = clientConfigTemplate f\<rparr>,
      UserGroupController, ExternalOutboundController, ExternalOutboundWebhook]"

abbreviation lastRegistrations :: "registration list" where
  "lastRegistrations \<equiv> [HealthzCheck, ReadyzCheck]"

text \<open>
  The manager over its state \<open>'m\<close>: construction, a registration and the run may fail. \<open>newSink\<close> tells
  whether \<open>NewElasticsearchSink\<close> gives an error.
\<close>

record 'm manager =
  NewManager :: "managerOptions \<Rightarrow> string + 'm"
  register :: "registration \<Rightarrow> 'm \<Rightarrow> string + 'm"
  startManager :: "'m \<Rightarrow> string option"

fun registerAll :: "'m manager \<Rightarrow> registration list \<Rightarrow> 'm \<Rightarrow> string + 'm" where
  "registerAll M [] m = Inr m"
| "registerAll M (r # rs) m = (case register M r m of Inl e \<Rightarrow> Inl e | Inr m' \<Rightarrow> registerAll M rs m')"

definition setupUsage :: "'m manager \<Rightarrow> (CollectorConfig \<Rightarrow> string option) \<Rightarrow> flags \<Rightarrow> string \<Rightarrow> 'm \<Rightarrow> string + 'm" where
  "setupUsage M newSink f watchNamespace m =
     (if usageCollectEnabled f then
        (case ValidateConfig (usageCfg f) of
           Some e \<Rightarrow> Inl e
         | None \<Rightarrow>
             (case newSink (usageCfg f) of
                Some e \<Rightarrow> Inl e
              | None \<Rightarrow> register M (UsageCollector (usageCfg f) watchNamespace) m))
      else Inr m)"

text \<open>The exit status: 1 after an error, 0 when the manager stops without one.\<close>

definition main :: "'m manager \<Rightarrow> (CollectorConfig \<Rightarrow> string option) \<Rightarrow> flags \<Rightarrow> string \<Rightarrow> nat" where
  "main M newSink f watchNamespace =
     (case NewManager M (managerOptionsFor f) of
        Inl _ \<Rightarrow> 1
      | Inr m \<Rightarrow>
          (case registerAll M (firstRegistrations f) m of
             Inl _ \<Rightarrow> 1
           | Inr m \<Rightarrow>
               (case setupUsage M newSink f watchNamespace m of
                  Inl _ \<Rightarrow> 1
                | Inr m \<Rightarrow>
                    (case registerAll M lastRegistrations m of
                       Inl _ \<Rightarrow> 1
                     | Inr m \<Rightarrow> (case startManager M m of Some _ \<Rightarrow> 1 | None \<Rightarrow> 0)))))"

section \<open>Facts\<close>

lemma int32_id: "- (2 ^ 31) \<le> x \<Longrightarrow> x < 2 ^ 31 \<Longrightarrow> int32 x = x"
  by (simp add: int32_def)

lemma tls_without_http2: "\<not> enableHTTP2 f \<Longrightarrow> nextProtos (tlsOpts f) ps = [''http/1.1'']"
  by (simp add: tlsOpts_def)

text \<open>With the collector on, a start means that the configuration was valid.\<close>

lemma started_config_valid:
  "main M newSink f ns = 0 \<Longrightarrow> usageCollectEnabled f \<Longrightarrow> ValidateConfig (usageCfg f) = None"
  by (auto simp: main_def setupUsage_def split: sum.splits option.splits if_splits)

end
