(* ===== verification/Cli.thy ===== *)
theory Cli
  imports Webhooks Client_Handler
begin

text \<open>
  The \<open>sbctl\<close> commands, \<open>src/internal/cli/\<close>: \<open>user init\<close> creates a user with a fresh UUID in an auth secret,
  \<open>node add\<close> creates a node. The arguments and flags come parsed from the command line library; the
  result is the text printed or the error.
\<close>

section \<open>The client\<close>

text \<open>The Kubernetes client with the writes that only the commands use.\<close>

record 's cliClient = "'s kube" +
  createNode :: "SingBoxNode \<Rightarrow> 's \<Rightarrow> apiError option \<times> 's"
  createUser :: "User \<Rightarrow> 's \<Rightarrow> apiError option \<times> 's"
  deleteSecret :: "Secret \<Rightarrow> 's \<Rightarrow> apiError option \<times> 's"

definition noClient :: string where
  "noClient = ''failed to get Kubernetes client from context''"

section \<open>user init\<close>

definition authSecret :: "string \<Rightarrow> string \<Rightarrow> string \<Rightarrow> Secret" where
  "authSecret ns name uuid = ObjectMeta.extend (newMeta ns (name @ ''-auth'')) (Secret.fields [(''uuid'', uuid)])"

definition newUser :: "string \<Rightarrow> string \<Rightarrow> User" where
  "newUser ns name =
     ObjectMeta.extend (newMeta ns name)
       (User.fields \<lparr>AuthSecret = \<lparr>secretName = name @ ''-auth'', secretNamespace = ns\<rparr>, UserGroupRef = []\<rparr>
         \<lparr>ActiveNodeCount = 0, ActiveNodes = [], userConditions = [], userObservedGeneration = 0\<rparr>)"

text \<open>The 16 bytes are what \<open>uuid.New\<close> reads from the random source. The secret goes when the user cannot be created.\<close>

definition runInit :: "'s cliClient option \<Rightarrow> string \<Rightarrow> string \<Rightarrow> string \<Rightarrow> 's \<Rightarrow> (string + string) \<times> 's" where
  "runInit c rnd ns name s =
     (case c of
        None \<Rightarrow> (Inl noClient, s)
      | Some K \<Rightarrow>
          (let uuid = generateUUID rnd; secret = authSecret ns name uuid in
           case createSecret K secret s of
             (Some err, s) \<Rightarrow> (Inl (''creating auth secret: '' @ errText err), s)
           | (None, s) \<Rightarrow>
               (case createUser K (newUser ns name) s of
                  (Some err, s) \<Rightarrow> (Inl (''creating user: '' @ errText err), snd (deleteSecret K secret s))
                | (None, s) \<Rightarrow>
                    (Inr (''User '' @ go_quote name @ '' initialized in namespace '' @ go_quote ns @ [CHR 0x0A] @
                          ''  UUID: '' @ uuid @ [CHR 0x0A]), s))))"

section \<open>node add\<close>

record addFlags =
  flagNodeRef :: string
  flagAddress :: string
  flagRegion :: string
  flagRoles :: "string list"
  flagRelayPort :: int
  flagNamespace :: string

definition defaultAddFlags :: addFlags where
  "defaultAddFlags = \<lparr>flagNodeRef = [], flagAddress = [], flagRegion = [], flagRoles = [''inbound''], flagRelayPort = 0,
     flagNamespace = ''default''\<rparr>"

fun parseRoles :: "string list \<Rightarrow> string + string list" where
  "parseRoles [] = Inr []"
| "parseRoles (r # roles) =
     (if r \<notin> {ProxyRoleInbound, ProxyRoleOutbound}
      then Inl (''invalid role '' @ go_quote r @ '': must be one of inbound|outbound'')
      else (case parseRoles roles of Inl e \<Rightarrow> Inl e | Inr rs \<Rightarrow> Inr (r # rs)))"

definition newNode :: "addFlags \<Rightarrow> string list \<Rightarrow> string \<Rightarrow> SingBoxNode" where
  "newNode f roles name =
     ObjectMeta.extend (newMeta (flagNamespace f) name)
       (SingBoxNode.fields
         \<lparr>NodeRef = flagNodeRef f, Address = flagAddress f, Region = flagRegion f, ClientGroups = [], Roles = roles,
          SupportedProtocols = [], InboundProtocol = [], RelayPort = flagRelayPort f, AllowedInbounds = [],
          AllowedOutbounds = [], Tag = [], TLSSecretName = [], Resources = None\<rparr>
         \<lparr>Phase = [], ConfigHash = [], EntryEndpoints = [], TLSServerName = [], nodeConditions = [],
          nodeObservedGeneration = 0\<rparr>)"

text \<open>\<open>%v\<close> of a slice of strings.\<close>

fun spaced :: "string list \<Rightarrow> string" where
  "spaced [] = []"
| "spaced [x] = x"
| "spaced (x # y # xs) = x @ '' '' @ spaced (y # xs)"

definition addMessage :: "addFlags \<Rightarrow> string list \<Rightarrow> string \<Rightarrow> string" where
  "addMessage f roles name =
     ''SingBoxNode '' @ go_quote name @ '' created in namespace '' @ go_quote (flagNamespace f) @ [CHR 0x0A] @
     ''  Roles: ['' @ spaced roles @ '']'' @ [CHR 0x0A] @ ''  NodeRef: '' @ flagNodeRef f @ [CHR 0x0A] @
     ''  Address: '' @ flagAddress f @ [CHR 0x0A] @ ''  Region: '' @ flagRegion f @ [CHR 0x0A]"

definition runAdd :: "'s cliClient option \<Rightarrow> addFlags \<Rightarrow> string \<Rightarrow> 's \<Rightarrow> (string + string) \<times> 's" where
  "runAdd c f name s =
     (case parseRoles (flagRoles f) of
        Inl e \<Rightarrow> (Inl e, s)
      | Inr roles \<Rightarrow>
          (case c of
             None \<Rightarrow> (Inl noClient, s)
           | Some K \<Rightarrow>
               (case createNode K (newNode f roles name) s of
                  (Some err, s) \<Rightarrow> (Inl (''creating SingBoxNode: '' @ errText err), s)
                | (None, s) \<Rightarrow> (Inr (addMessage f roles name), s))))"

section \<open>Properties\<close>

text \<open>
  What the API server promises: a created secret is read back with its data, a created user is listed with
  its spec and leaves the secrets alone.
\<close>

definition create_laws :: "'s cliClient \<Rightarrow> bool" where
  "create_laws K \<longleftrightarrow>
     (\<forall>x s s'. createSecret K x s = (None, s') \<longrightarrow>
        (\<exists>y. getSecret K (Namespace x) (Name x) s' = Inr y \<and> secretData y = secretData x))
     \<and> (\<forall>x s s'. createUser K x s = (None, s') \<longrightarrow>
        (\<forall>ns n. getSecret K ns n s' = getSecret K ns n s)
        \<and> (\<exists>us. listUsers K (Namespace x) s' = Inr us
             \<and> (\<exists>u\<in>set us. Name u = Name x \<and> Namespace u = Namespace x \<and> userSpec u = userSpec x)))"

lemma matchUser_present:
  "u \<in> set users \<Longrightarrow> GetUserCredential K u s = Inr c \<Longrightarrow> equalFold (UUID c) r \<Longrightarrow> matchUser K s r users \<noteq> None"
  by (induction users) (auto split: sum.splits)

lemma request_path:
  assumes "CHR ''/'' \<notin> set ns" "ns \<noteq> []" "uuid_shape u"
  shows "requestParts (''/api/v1/client-config/'' @ ns @ ''/'' @ u) = Some (ns, u)"
proof -
  have "u \<noteq> []" using assms(3) by (auto simp: uuid_shape_def)
  moreover have "strSplitN (ns @ ''/'' @ u) ''/'' 2 = [ns, u]"
    using splitN_cut [OF assms(1), of "[]" u 0] by (simp add: numeral_2_eq_2)
  ultimately show ?thesis using assms(2) by (simp add: requestParts_def trimPrefix_def)
qed

lemma truncate_reads [simp]:
  "getSecret (kube.truncate K) = getSecret K" "listUsers (kube.truncate K) = listUsers K"
  by (simp_all add: kube.truncate_def)

lemma new_objects [simp]:
  "Namespace (authSecret ns name uuid) = ns" "Name (authSecret ns name uuid) = name @ ''-auth''"
  "secretData (authSecret ns name uuid) = [(''uuid'', uuid)]" "Namespace (newUser ns name) = ns" "Name (newUser ns name) = name"
  "userSpec (newUser ns name) = \<lparr>AuthSecret = \<lparr>secretName = name @ ''-auth'', secretNamespace = ns\<rparr>, UserGroupRef = []\<rparr>"
  by (simp_all add: authSecret_def newUser_def newMeta_def ObjectMeta.defs Secret.defs User.defs)


text \<open>C40. No inbound node that \<open>node add\<close> creates passes admission: the command sets no supported
  protocol, which the node webhook requires of inbound nodes, whatever the flags are.\<close>

theorem added_inbound_rejected:
  assumes "parseRoles (flagRoles f) = Inr roles" "ProxyRoleInbound \<in> set (flagRoles f)"
  shows "validateSingBoxNode w (newNode f roles name) \<noteq> []"
proof -
  have "parseRoles xs = Inr ys \<Longrightarrow> ys = xs" for xs ys
    by (induction xs arbitrary: ys) (auto split: if_splits sum.splits)
  then have "ProxyRoleInbound \<in> set roles" using assms by blast
  then have "hasRole (newNode f roles name) ProxyRoleInbound" "SupportedProtocols (nodeSpec (newNode f roles name)) = []"
    by (simp_all add: hasRole_def newNode_def newMeta_def ObjectMeta.defs SingBoxNode.defs)
  then show ?thesis by (simp add: validateSingBoxNode_def inboundErrors_def Let_def hasRole_def)
qed

section \<open>Witnesses\<close>

text \<open>The demo API server, refusing a second secret of a name.\<close>

definition demoCli :: "cluster cliClient" where
  "demoCli =
     kube.extend
       (demoKube\<lparr>createSecret := (\<lambda>x s.
          case getObj (Namespace x) (Name x) (clSecrets s) of
            Inr _ \<Rightarrow> (Some \<lparr>errReason = OtherReason, errText = Name x @ '' already exists''\<rparr>, s)
          | Inl _ \<Rightarrow> (None, s\<lparr>clSecrets := clSecrets s @ [x]\<rparr>))\<rparr>)
       (cliClient.fields (\<lambda>x s. (None, s\<lparr>clNodes := clNodes s @ [x]\<rparr>)) (\<lambda>x s. (None, s\<lparr>clUsers := clUsers s @ [x]\<rparr>))
         (\<lambda>x s. (None, s\<lparr>clSecrets := dropObj x (clSecrets s)\<rparr>)))"

lemma demoCli_ops:
  "getSecret demoCli ns n s = getObj ns n (clSecrets s)" "listUsers demoCli ns s = listObj ns (clUsers s)"
  "createUser demoCli x s = (None, s\<lparr>clUsers := clUsers s @ [x]\<rparr>)"
  "createSecret demoCli y s =
     (case getObj (Namespace y) (Name y) (clSecrets s) of
        Inr _ \<Rightarrow> (Some \<lparr>errReason = OtherReason, errText = Name y @ '' already exists''\<rparr>, s)
      | Inl _ \<Rightarrow> (None, s\<lparr>clSecrets := clSecrets s @ [y]\<rparr>))"
  by (simp_all add: demoCli_def kube.extend_def cliClient.fields_def demoKube_def)

lemma getObj_created:
  assumes "getObj (Namespace x) (Name x) xs = Inl e"
  shows "getObj (Namespace x) (Name x) (xs @ [x]) = Inr x"
proof -
  have "find (\<lambda>y. Namespace y = Namespace x \<and> Name y = Name x) xs = None"
    using assms by (simp add: getObj_def split: option.splits)
  then have "find (\<lambda>y. Namespace y = Namespace x \<and> Name y = Name x) (xs @ [x]) = Some x"
    by (induction xs) (auto split: if_splits)
  then show ?thesis by (simp add: getObj_def)
qed

lemma demoCli_laws: "create_laws demoCli"
  unfolding create_laws_def
proof (intro conjI allI impI)
  fix x and s s' :: cluster
  assume "createSecret demoCli x s = (None, s')"
  then obtain e where "getObj (Namespace x) (Name x) (clSecrets s) = Inl e" "s' = s\<lparr>clSecrets := clSecrets s @ [x]\<rparr>"
    by (auto simp: demoCli_ops split: sum.splits)
  then show "\<exists>y. getSecret demoCli (Namespace x) (Name x) s' = Inr y \<and> secretData y = secretData x"
    by (simp add: demoCli_ops getObj_created)
next
  fix x and s s' :: cluster and ns n
  assume "createUser demoCli x s = (None, s')"
  then show "getSecret demoCli ns n s' = getSecret demoCli ns n s" by (auto simp: demoCli_ops)
next
  fix x and s s' :: cluster
  assume "createUser demoCli x s = (None, s')"
  then show "\<exists>us. listUsers demoCli (Namespace x) s' = Inr us \<and>
      (\<exists>u\<in>set us. Name u = Name x \<and> Namespace u = Namespace x \<and> userSpec u = userSpec x)"
    by (auto simp: demoCli_ops listObj_def)
qed


theorem added_inbound_rejected_witness:
  "validateSingBoxNode \<lparr>NodePortRangeMin = 30000, NodePortRangeMax = 32767\<rparr> (newNode defaultAddFlags [''inbound''] ''n1'') \<noteq> []"
  by (rule added_inbound_rejected) (simp_all add: defaultAddFlags_def)

end
