(* ===== verification/Spec2Isabelle.thy ===== *)
theory Spec2Isabelle
  imports Deep_Copy External_Outbound User_Controller Handler_Correct Client_Served Usage_Written Usage_Poll Config_Typed
    Stats_Service Manager Cli
begin

text \<open>
  \<^bold>\<open>sing-box operator.\<close> A Kubernetes operator that runs sing-box proxies on the nodes of a cluster, gives each user
  a client configuration over HTTP and accounts their traffic. This development models its Go sources under
  \<open>src/\<close> and proves what makes them correct.

  \<^bold>\<open>The parts and how they interact.\<close> Custom resources (\<open>src/api/v1alpha1\<close>) describe nodes, users, groups, external
  outbounds, routes and egress policies. Admission webhooks check them. The node controller collects what one
  node needs from the cluster, lets the config engine compute the sing-box configuration, writes it to a config map
  and rolls the pod. The policy, external outbound and user controllers keep status conditions. The API server
  answers \<open>/api/v1/client-config/<namespace>/<uuid>\<close> with the configuration of the user with that UUID: paths
  to entry nodes merged into a template. An entry node tells users apart by virtual logins \<open>user#egress\<close>; both
  sides derive the same credentials from the user's UUID. The usage collector polls the traffic counters of
  those logins and writes usage records to Elasticsearch. \<open>sbctl\<close> creates users and nodes.

  \<^bold>\<open>Conventions.\<close> A struct is a record, an enumeration of strings stays strings, a Go map is an association list with
  one entry per key (\<open>gomap\<close>; \<open>go_get\<close>, \<open>go_put\<close>), a nil pointer is None. Fallible code returns a sum with the
  error on the left, a panic is None or a named error. State is passed explicitly. Strings are byte strings. Code outside the
  repository is an argument: the Kubernetes client is the record \<open>kube\<close> over an abstract cluster state, label
  selectors, regular expressions and condition helpers are the record \<open>ext\<close>, HTTP exchanges, gRPC
  connections, PEM decoding, the clock and map iteration order are functions. What a property needs of them is a
  hypothesis of the property, and its witness instantiates them (\<open>Fixtures\<close>, \<open>Demo_Cluster\<close>). Every definition a witness uses is
  executable.

  \<^bold>\<open>Theories.\<close>
  \<^item> \<open>Prelude\<close>: Go maps, name sets, sorting by key, the collections of simplification rules. \<open>Go_Strings\<close>, \<open>Go_Net\<close>, \<open>Go_Crypto\<close>
    (SHA-1, SHA-256, UUIDs), \<open>Go_Float\<close>, \<open>Go_Time\<close>, \<open>Go_Json\<close> (encoding), \<open>Go_Json_Decode\<close> (decoding into \<open>any\<close> and into
    structs) and \<open>Go_Json_Inverse\<close> (what was encoded is read back): the parts of Go's standard library that the
    sources use, with their round trips.
  \<^item> \<open>Api_Types\<close>: the resources and the methods of selectors, matches and routes. \<open>Kube\<close>: the client and core objects.
  \<^item> \<open>Deep_Copy\<close> (\<open>zz_generated.deepcopy.go\<close>): the generated copies of all resources over an explicit heap, each as its list of
    statements run by one interpreter. It shows that a copy has the content of its original and shares no memory with it. The
    other theories pass resources by value.
  \<^item> \<open>Config_Engine\<close> (\<open>configengine/engine.go\<close>): \<open>Compute\<close> with inbounds, outbounds, rules and statistics. \<open>Config_Correct\<close>
    shows that every rule names an emitted outbound, that only allowed users are routed, that the logins of an inbound are
    those of the rules and unambiguous, the order of the policy rules, the shapes of derived credentials, and that
    statistics cover the logins; \<open>Config_Order\<close> that the bytes do not depend on map order; \<open>Config_Typed\<close> that
    every entry has the JSON shape sing-box reads.
  \<^item> \<open>Cred_Manager\<close> (\<open>credmanager.go\<close>), \<open>Egress_Policy\<close> (policy resolution and reconciler), \<open>Webhooks\<close>, \<open>External_Outbound\<close>,
    \<open>Node_Controller\<close> (with \<open>node_health.go\<close>), \<open>User_Controller\<close> (with groups): the controllers. Their lemmas show that the two
    resolutions of a policy agree, that conditions tell the truth and settle, what exactly the node webhook accepts, that
    webhook and controller agree on external outbounds and accepted ones are usable. \<open>Node_Correct\<close> carries the engine's
    properties to the input collected from the cluster, shows that the relay credentials of both ends agree, and that the pod
    converges.
  \<^item> \<open>Client_Config\<close> (\<open>client_config.go\<close>, \<open>client_policy.go\<close>), \<open>Client_Template\<close> (\<open>template.go\<close>), \<open>Client_Handler\<close> (\<open>handler.go\<close>): the API
    server. \<open>Client_Correct\<close> shows that selectors list exactly the paths, that paths are allowed and tags distinct,
    and that endpoints are read back; \<open>Template_Default\<close> decodes the built-in template; \<open>Handler_Correct\<close> shows who gets a configuration,
    that every request is answered and that the default configuration is closed; \<open>Client_Served\<close> and this theory that
    the engine serves every advertised path.
  \<^item> \<open>Usage_Collector\<close> (\<open>collector.go\<close>, \<open>model.go\<close>, \<open>config.go\<close>, \<open>v2rayclient.go\<close>, \<open>runnable.go\<close>), \<open>Usage_Discovery\<close> (\<open>discovery.go\<close>),
    \<open>Usage_Sink\<close> (\<open>elasticsearch.go\<close>, \<open>sink.go\<close>), \<open>Stats_Service\<close> (\<open>v2rayapi\<close>): the collector. \<open>Usage_Correct\<close> shows that a poll cycle
    conserves the counters and attributes them, \<open>Usage_Poll\<close> that concurrent polls serialise, \<open>Usage_Written\<close> that the bulk body reads
    back and that success means stored.
  \<^item> \<open>Manager\<close> (\<open>cmd/main.go\<close>): flags, options and registrations. \<open>Cli\<close> (\<open>internal/cli\<close>): \<open>user init\<close> and \<open>node add\<close>.

  \<^bold>\<open>Interfaces.\<close> Locales state what a client relies on, each interpreted on the model's definitions: \<open>seen_collector\<close> (first
  occurrences of names and references), \<open>access_list\<close> (allow and deny lists), \<open>login_scheme\<close> (derived login fields), \<open>counter_parser\<close> (both
  parsers of counter names), \<open>usage_sink\<close> (the contract of \<open>UsageSink\<close>).

  \<^bold>\<open>Bounds.\<close> No model uses fuel that can run out: loops are structural or come with a measure; splitting a string takes as
  many parts as the string has bytes, which is never too few; JSON nesting stops at 10000 as in \<open>encoding/json\<close>. Byte counts are
  64-bit words and wrap; ports and priorities are integers, converted where the code converts them.

  \<^bold>\<open>Not modelled.\<close> Logging, metrics, deadlines and leader election. The wiring of watches in \<open>SetupWithManager\<close> (the mapper functions
  are modelled) and the entry points of the webhooks: creation and update return the validator's result, deletion is always admitted. \<open>Server.Start\<close> and the kubeconfig loading of \<open>sbctl\<close>: I/O. \<open>NewElasticsearchSink\<close>: it joins the bulk URL with
  \<open>net/url\<close>. The plumbing of \<open>stats.pb.go\<close>: generated code that calls the protobuf
  runtime. Scheme registration and the helpers of the test suites.
\<close>

section \<open>Across components\<close>

text \<open>C1. The handler advertises what the node controller configures. Take a state of the cluster, an inbound node that
  offers its protocol, and a user. Whenever the user's client configuration has a path from the node to a
  target node, the node's sing-box configuration computed at the same state has an inbound of the node's
  protocol with a user entry whose credentials are those in the client's outbound, and a rule that sends
  this login to an emitted outbound, the one of the target.\<close>

theorem advertised_paths_served:
  assumes "listNodes K (Namespace i) s = Inr nodes" "distinct (map Name nodes)" "i \<in> set nodes" "n \<in> set nodes"
    and "hasRole i ProxyRoleInbound" "hasRole n ProxyRoleOutbound"
    and "proto = EffectiveInboundProtocol i" "findProtocolPort i proto \<noteq> 0"
    and "listUsers K (Namespace i) s = Inr users" "distinct (map Name users)" "user \<in> set users"
    and "GetUserCredential K user s = Inr cred" "userGroupFor K (Namespace i) user s = Inr ug"
    and "listExternalOutbounds K (Namespace i) s = Inr externals" "listPolicies K (Namespace i) s = Inr policies"
    and "input = handlerInput E user cred nodes externals policies ug"
    and "r \<in> set (resolveOutboundNodes (hidePolicyTargets input targets) (Name i))" "refName r = Name n"
    and "collectInput E K R i s = Inr collected" "errors_have_text E"
  shows "\<exists>us entry rule.
    buildInboundEntry proto (''inbound-'' @ proto) (findProtocolPort i proto) us \<in> set (Inbounds (computeConfig E collected))
    \<and> entry \<in> set us
    \<and> map (map_of entry) [''username'', ''password'', ''uuid''] =
      map (map_of (proxyFields (pathTag i r) addr port proto (Name user) (Name n) sn cred)) [''username'', ''password'', ''uuid'']
    \<and> rule \<in> set (Rules (Route (computeConfig E collected)))
    \<and> virtualUserName (Name user) (Name n) \<in> set (rrAuthUser rule) \<and> rrOutbound rule = outboundTag (Name n)
    \<and> Some (outboundTag (Name n)) \<in> obTag ` set (Outbounds (computeConfig E collected))"
proof -
  let ?name = "Name n" and ?self = "hasRole i ProxyRoleInbound \<and> hasRole i ProxyRoleOutbound"
  have inv: "collect_inv i (sortByName nodes) collected" by (rule collectInput_inv [OF assms(19,20,1,2)])
  then have node: "inNode collected = i" by (simp add: collect_inv_def)
  have gated: "gated_input collected" by (rule collect_inv_gated [OF inv assms(5)])
  note contents = collected_contents [OF assms(19,5,1,9,10)]
  have t: "clientAllowed input ?name" "admits (AllowedOutbounds (nodeSpec i)) ?name"
    "n = i \<or> RelayPort (nodeSpec n) \<noteq> 0 \<and> Region (nodeSpec n) = Region (nodeSpec i) \<and> bindingAllows i n"
    using advertised_target [OF assms(2,3,4,6) _ assms(18)] assms(16,17) by blast+
  have u: "user \<in> set (inUsers collected)" "userUUID collected user = UUID cred"
    using contents(2,3) assms(11,12) by simp_all
  have allowed: "userAllowed collected user ?name"
    using collected_users [OF assms(19,5,9,10) u(1)] t(1) handler_allowed [OF assms(13)] by (simp add: assms(16))
  have peer: "n \<in> set (inOutboundNodes collected)" if "n \<noteq> i"
    using contents(1) t(3) that assms(3,4,6) distinct_names_eq [OF assms(2,4,3)] by auto
  have name: "?name \<in> set (routeOutboundNames E collected (routesForNode collected) ?self)"
    using peer t(3) assms(5,6) by (cases "n = i") (auto simp: set_routeOutboundNames node peerNames_def)
  have peers: "inOutboundNodes collected \<noteq> [] \<or> ?self" using peer assms(5,6) by (cases "n = i") auto
  note served = inboundSide_served [OF name _ u(1) allowed, unfolded node, OF refl assms(8,7) peers]
  have "Some (outboundTag ?name) \<in> tags (outboundSide E collected)"
  proof (cases "n = i")
    case True
    then show ?thesis using t(2) assms(5,6) by (auto simp: outboundSide_def Let_def node selfAllowed_def admits_def)
  next
    case False
    then show ?thesis
      using peer t(3) served(3) by (intro peer_target_emitted [OF gated]) (auto simp: peerNames_def)
  qed
  then have out: "Some (outboundTag ?name) \<in> obTag ` set (Outbounds (computeConfig E collected))"
    using tags_computeConfig [of "outboundTag ?name" E collected] assms(5) by (simp add: node tags_def)
  from served(1) obtain us where us: "buildInboundEntry proto (''inbound-'' @ proto) (findProtocolPort i proto) us
      \<in> set (fst (inboundSide E collected))"
    "userEntry proto (UUID cred) ?name (virtualUserName (Name user) ?name) \<in> set us" by (auto simp: u(2))
  show ?thesis
    using us served(2,3) out assms(5)
    by (intro exI [of _ us] exI [of _ "userEntry proto (UUID cred) ?name (virtualUserName (Name user) ?name)"]
        exI [of _ "noRule\<lparr>rrAuthUser := authUsers collected ?name, rrOutbound := outboundTag ?name\<rparr>"])
       (simp add: Inbounds_computeConfig Rules_computeConfig node client_login_eq)
qed

text \<open>The demonstration cluster without its policy: the user \<open>alice\<close> is offered the exit through the entry node.\<close>

definition servedCluster :: cluster where
  "servedCluster = demoCluster\<lparr>clPolicies := []\<rparr>"

lemma served_lists:
  "listNodes demoKube ''ns'' servedCluster = Inr [exitNode, entryNode]"
  "listExternalOutbounds demoKube ''ns'' servedCluster = Inr []"
  "listUsers demoKube ''ns'' servedCluster = Inr [mkUser ''bob'' ''g'', mkUser ''alice'' []]"
  "listPolicies demoKube ''ns'' servedCluster = Inr []"
  "GetUserCredential demoKube (mkUser ''alice'' []) servedCluster = Inr \<lparr>UUID = ''u1''\<rparr>"
  "userGroupFor demoKube ''ns'' (mkUser ''alice'' []) servedCluster = Inr None"
  using demo_lists demo_secrets
  by (simp_all add: servedCluster_def demoKube_def GetUserCredential_def userGroupFor_def Let_def)
     (simp_all add: listObj_def mkUser_def)

lemma served_collect: "\<exists>c. collectInput demoExt demoKube demoReconciler entryNode servedCluster = Inr c"
proof -
  have "getUserGroup demoKube ''ns'' ''g'' servedCluster = Inr (mkGroup ''g'' [] [''exit''])"
    using demo_secrets(4) by (simp add: servedCluster_def demoKube_def)
  then show ?thesis
    by (simp add: collectInput_def demo_meta served_lists Let_def demo_sorted) (simp add: mkUser_def)
qed

definition servedInput :: ClientConfigInput where
  "servedInput = handlerInput demoExt (mkUser ''alice'' []) \<lparr>UUID = ''u1''\<rparr> [exitNode, entryNode] [] [] None"

lemma served_refs: "resolveOutboundNodes (hidePolicyTargets servedInput []) ''entry'' = [nodeRefOf exitNode]"
  by (simp add: hidePolicyTargets_def servedInput_def handlerInput_def byName_def offlineNames_def policyOnlyEgresses_def
      isSingBoxNodeReady_def resolveOutboundNodes_def candidateRefs_def relayTarget_def selfTarget_def notPolicyOnly_def
      clientAllowed_def IsNodeAllowed_def addRef_def hasRole_def nodeRefOf_def fixture_defs)

theorem advertised_paths_served_witness:
  "\<exists>collected us entry rule.
    collectInput demoExt demoKube demoReconciler entryNode servedCluster = Inr collected
    \<and> buildInboundEntry ''hysteria2'' ''inbound-hysteria2'' 30443 us \<in> set (Inbounds (computeConfig demoExt collected))
    \<and> entry \<in> set us
    \<and> map (map_of entry) [''username'', ''password'', ''uuid''] =
      map (map_of (proxyFields ''exit#entry'' ''10.0.0.1'' 30443 ''hysteria2'' ''alice'' ''exit'' [] \<lparr>UUID = ''u1''\<rparr>))
        [''username'', ''password'', ''uuid'']
    \<and> rule \<in> set (Rules (Route (computeConfig demoExt collected)))
    \<and> ''alice#exit'' \<in> set (rrAuthUser rule) \<and> rrOutbound rule = ''outbound-exit''
    \<and> Some ''outbound-exit'' \<in> obTag ` set (Outbounds (computeConfig demoExt collected))"
proof -
  obtain c where c: "collectInput demoExt demoKube demoReconciler entryNode servedCluster = Inr c"
    using served_collect by blast
  have proto: "EffectiveInboundProtocol entryNode = ''hysteria2''" "findProtocolPort entryNode ''hysteria2'' = 30443"
    by (simp_all add: EffectiveInboundProtocol_def findProtocolPort_def fixture_defs)
  have r: "nodeRefOf exitNode \<in> set (resolveOutboundNodes (hidePolicyTargets servedInput []) (Name entryNode))"
    by (simp add: demo_meta served_refs)
  have names: "pathTag entryNode (nodeRefOf exitNode) = ''exit#entry''" "refName (nodeRefOf exitNode) = ''exit''"
    "Name (mkUser ''alice'' []) = ''alice''" "Name (mkUser ''bob'' ''g'') = ''bob''"
    "virtualUserName ''alice'' ''exit'' = ''alice#exit''" "outboundTag ''exit'' = ''outbound-exit''"
    by (simp_all add: pathTag_def nodeRefOf_def virtualUserName_def outboundTag_def fixture_defs)
  note served = advertised_paths_served [where i = entryNode and n = exitNode and user = "mkUser ''alice'' []"
      and addr = "''10.0.0.1''" and port = "30443" and sn = "[]", OF _ _ _ _ demo_meta(5,7) refl _ _ _ _ _ _ _ _ _ r _ c demo_errors]
  show ?thesis
    using served [of "[exitNode, entryNode]" "[mkUser ''bob'' ''g'', mkUser ''alice'' []]" "\<lparr>UUID = ''u1''\<rparr>" None "[]" "[]"]
    by (intro exI [of _ c]) (simp add: c demo_meta served_lists proto names servedInput_def)
qed

end
